(* ===== verification/Prelude.thy ===== *)
theory Prelude imports Main "HOL-Library.AList" "HOL-Library.Multiset" "HOL-Library.Char_ord" "HOL-Library.List_Lexorder"
  "HOL-Library.Code_Target_Nat" begin

text \<open>
  What every component of the TupleNet model shares: Python values, the decimal and hexadecimal
  conversions of \<open>str\<close>, \<open>int\<close> and \<open>format\<close>, \<open>str.split\<close> and \<open>str.join\<close>, and
  dictionaries with string keys as association lists. The lemmas here are declared so that
  \<open>simp\<close> and \<open>auto\<close> carry the proofs of the components.

  An operation of the source that may raise returns an \<open>option\<close>: \<open>None\<close> is the exception.
\<close>

named_theorems py_simps "evaluation of Python string and integer primitives"
named_theorems flow_defs "definitions of match and action constructors"
named_theorems rule_defs "definitions of the flow rules"

section \<open>Python values\<close>

datatype pyval = PNone | PInt int | PStr string

definition opt_val :: "string option \<Rightarrow> pyval" where
  "opt_val x = (case x of None \<Rightarrow> PNone | Some s \<Rightarrow> PStr s)"

section \<open>Digits and numerals\<close>

definition digit_char :: "nat \<Rightarrow> char" where
  "digit_char n = ''0123456789abcdef'' ! n"

definition digit_val :: "char \<Rightarrow> nat option" where
  "digit_val c =
     (let k = of_char c :: nat in
      if 48 \<le> k \<and> k \<le> 57 then Some (k - 48)
      else if 97 \<le> k \<and> k \<le> 102 then Some (k - 87)
      else if 65 \<le> k \<and> k \<le> 70 then Some (k - 55)
      else None)"

text \<open>\<open>num_str b n\<close>: the digits of \<open>n\<close> in base \<open>b\<close>, most significant first.\<close>

function num_str :: "nat \<Rightarrow> nat \<Rightarrow> string" where
  "num_str b n =
     (if b < 2 \<or> n < b then [digit_char n] else num_str b (n div b) @ [digit_char (n mod b)])"
  by pat_completeness auto
termination
  by (relation "measure (\<lambda>(b, n). n)") (auto simp: div_less_dividend)

declare num_str.simps [simp del]

definition nat_str :: "nat \<Rightarrow> string" where
  "nat_str n = num_str 10 n"

definition hex_str :: "nat \<Rightarrow> string" where
  "hex_str n = num_str 16 n"

definition int_str :: "int \<Rightarrow> string" where
  "int_str i = (if i < 0 then ''-'' @ nat_str (nat (- i)) else nat_str (nat i))"

text \<open>\<open>'{:02x}'.format(i)\<close>: lower-case hexadecimal, zero-padded after the sign to two columns.\<close>

definition hex02 :: "int \<Rightarrow> string" where
  "hex02 i =
     (if i < 0 then ''-'' @ hex_str (nat (- i))
      else if i < 16 then ''0'' @ hex_str (nat i) else hex_str (nat i))"

definition pystr :: "pyval \<Rightarrow> string" where
  "pystr v = (case v of PNone \<Rightarrow> ''None'' | PInt i \<Rightarrow> int_str i | PStr s \<Rightarrow> s)"

text \<open>A run of digits of base \<open>b\<close> read left to right; \<open>None\<close> at the first character that is none.\<close>

fun digits_val :: "nat \<Rightarrow> nat \<Rightarrow> string \<Rightarrow> nat option" where
  "digits_val b acc [] = Some acc"
| "digits_val b acc (c # cs) =
     (case digit_val c of
        None \<Rightarrow> None
      | Some d \<Rightarrow> if d < b then digits_val b (acc * b + d) cs else None)"

definition num_val :: "nat \<Rightarrow> string \<Rightarrow> nat option" where
  "num_val b s = (if s = [] then None else digits_val b 0 s)"

definition is_space :: "char \<Rightarrow> bool" where
  "is_space c = (of_char c \<in> {9, 10, 11, 12, 13, 32 :: nat})"

definition py_strip :: "string \<Rightarrow> string" where
  "py_strip s = rev (dropWhile is_space (rev (dropWhile is_space s)))"

text \<open>\<open>int(s)\<close> and \<open>int(s, 16)\<close> of a string: blanks around, an optional sign and, for base 16,
  an optional \<open>0x\<close>.\<close>

definition signed_val :: "(string \<Rightarrow> nat option) \<Rightarrow> string \<Rightarrow> int option" where
  "signed_val p s =
     (case s of
        [] \<Rightarrow> None
      | c # cs \<Rightarrow>
          if c = CHR ''-'' then map_option (\<lambda>n. - int n) (p cs)
          else if c = CHR ''+'' then map_option int (p cs)
          else map_option int (p s))"

definition py_int :: "string \<Rightarrow> int option" where
  "py_int s = signed_val (num_val 10) (py_strip s)"

definition hex_body :: "string \<Rightarrow> nat option" where
  "hex_body s =
     (if take 2 s = ''0x'' \<or> take 2 s = ''0X'' then num_val 16 (drop 2 s) else num_val 16 s)"

definition py_int16 :: "string \<Rightarrow> int option" where
  "py_int16 s = signed_val hex_body (py_strip s)"

subsection \<open>Round trips\<close>

lemma digit_val_char:
  assumes "n < 16"
  shows "digit_val (digit_char n) = Some n"
proof -
  have "\<forall>n \<in> set [0..<16]. digit_val (digit_char n) = Some n"
    by (simp add: upt_conv_Cons digit_val_def digit_char_def)
  with assms show ?thesis by simp
qed

lemma digits_val_append:
  "digits_val b acc (s @ t) = (case digits_val b acc s of None \<Rightarrow> None | Some a \<Rightarrow> digits_val b a t)"
  by (induction s arbitrary: acc) (auto split: option.splits)

lemma digits_val_num_str:
  assumes "2 \<le> b" and "b \<le> 16"
  shows "digits_val b 0 (num_str b n) = Some n"
  using assms
proof (induction b n rule: num_str.induct)
  case (1 b n)
  show ?case
  proof (cases "n < b")
    case True
    with "1.prems" show ?thesis
      by (subst num_str.simps) (simp add: digit_val_char)
  next
    case False
    with "1.prems" have "digits_val b 0 (num_str b (n div b)) = Some (n div b)"
      by (intro "1.IH") auto
    moreover have "n mod b < b" and "n mod b < 16"
      using "1.prems" by (simp_all add: less_le_trans [of _ b])
    ultimately show ?thesis
      using False "1.prems"
      by (subst num_str.simps) (simp add: digits_val_append digit_val_char)
  qed
qed

lemma num_str_nonempty [simp]: "num_str b n \<noteq> []"
  by (subst num_str.simps) simp

lemma num_val_num_str [simp]:
  "2 \<le> b \<Longrightarrow> b \<le> 16 \<Longrightarrow> num_val b (num_str b n) = Some n"
  by (simp add: num_val_def digits_val_num_str)

lemma num_val_nat_str [simp]: "num_val 10 (nat_str n) = Some n"
  by (simp add: nat_str_def)

lemma num_val_hex_str [simp]: "num_val 16 (hex_str n) = Some n"
  by (simp add: hex_str_def)

text \<open>
  What is written is read back, as what it means. The components exchange numbers, addresses and records
  as texts in this way.
\<close>

locale reader =
  fixes encode :: "'a \<Rightarrow> 'w" and decode :: "'w \<Rightarrow> 'b option" and means :: "'a \<Rightarrow> 'b" and ok :: "'a \<Rightarrow> bool"
  assumes decode_encode: "ok x \<Longrightarrow> decode (encode x) = Some (means x)"
begin

lemma decode_all: "list_all ok xs \<Longrightarrow> those (map decode (map encode xs)) = Some (map means xs)"
  by (induction xs) (simp_all add: decode_encode)

lemma same_meaning: "ok x \<Longrightarrow> ok y \<Longrightarrow> encode x = encode y \<Longrightarrow> means x = means y"
  by (metis decode_encode option.inject)

end

locale codec = reader encode decode "\<lambda>x. x" ok for encode :: "'a \<Rightarrow> 'w" and decode and ok
begin

lemma encode_inject: "ok x \<Longrightarrow> ok y \<Longrightarrow> encode x = encode y \<longleftrightarrow> x = y"
  using same_meaning by blast

end

interpretation nat_text: codec nat_str "num_val 10" "\<lambda>_. True"
  by unfold_locales simp

interpretation hex_text: codec hex_str "num_val 16" "\<lambda>_. True"
  by unfold_locales simp

lemma nat_str_inject [simp]: "nat_str m = nat_str n \<longleftrightarrow> m = n"
  by (rule nat_text.encode_inject) simp_all

lemma num_str_chars:
  "2 \<le> b \<Longrightarrow> b \<le> 16 \<Longrightarrow> c \<in> set (num_str b n) \<Longrightarrow> \<exists>d < b. c = digit_char d"
proof (induction b n rule: num_str.induct)
  case (1 b n)
  show ?case
  proof (cases "n < b")
    case True
    with "1.prems" show ?thesis by (subst (asm) num_str.simps) auto
  next
    case False
    with "1.prems" have "c \<in> set (num_str b (n div b)) \<or> c = digit_char (n mod b)"
      by (subst (asm) num_str.simps) auto
    moreover have "n mod b < b" using "1.prems" by simp
    moreover have "\<not> (b < 2 \<or> n < b)" using "1.prems" False by simp
    ultimately show ?thesis using "1.IH" "1.prems" by blast
  qed
qed

lemma digit_char_ge:
  assumes "d < 16"
  shows "48 \<le> (of_char (digit_char d) :: nat)"
proof -
  have "\<forall>n \<in> set [0..<16]. 48 \<le> (of_char (digit_char n) :: nat)"
    by (simp add: upt_conv_Cons digit_char_def)
  with assms show ?thesis by simp
qed

text \<open>No punctuation below \<open>'0'\<close> (such as \<open>.\<close>, \<open>,\<close>, \<open>-\<close> and \<open>/\<close>) occurs in a numeral.\<close>

lemma nat_str_no_sep:
  assumes "(of_char c :: nat) < 48"
  shows "c \<notin> set (nat_str n)"
proof
  assume "c \<in> set (nat_str n)"
  then obtain d where "d < 10" and "c = digit_char d"
    using num_str_chars [of 10 c n] by (auto simp: nat_str_def)
  then have "48 \<le> (of_char c :: nat)" using digit_char_ge [of d] by simp
  with assms show False by simp
qed

lemma nat_str_no_dot [simp]: "CHR ''.'' \<notin> set (nat_str n)"
  by (rule nat_str_no_sep) simp

lemma nat_str_no_comma [simp]: "CHR '','' \<notin> set (nat_str n)"
  by (rule nat_str_no_sep) simp

lemma nat_str_no_minus [simp]: "CHR ''-'' \<notin> set (nat_str n)"
  by (rule nat_str_no_sep) simp

lemma nat_str_no_slash [simp]: "CHR ''/'' \<notin> set (nat_str n)"
  by (rule nat_str_no_sep) simp

subsection \<open>Numerals as texts\<close>

lemma digit_char_plain:
  assumes "n < 16"
  shows "digit_char n \<notin> set '':.- ''" and "\<not> is_space (digit_char n)" and "digit_char n \<notin> set '',=/+''"
proof -
  have "\<forall>n \<in> set [0..<16]. digit_char n \<notin> set '':.- '' \<and> \<not> is_space (digit_char n) \<and> digit_char n \<notin> set '',=/+''"
    by (simp add: upt_conv_Cons digit_char_def is_space_def)
  then show "digit_char n \<notin> set '':.- ''" "\<not> is_space (digit_char n)" "digit_char n \<notin> set '',=/+''" using assms by simp_all
qed

lemma nat_str_digit:
  assumes "c \<in> set (nat_str n)"
  obtains d where "d < 16" and "c = digit_char d"
proof -
  obtain d where "d < 10" and "c = digit_char d" using num_str_chars [of 10 c n] assms by (auto simp: nat_str_def)
  then show thesis using that [of d] by simp
qed

lemma nat_str_plain:
  assumes "c \<in> set (nat_str n)"
  shows "c \<notin> set '':.- ''" and "\<not> is_space c" and "c \<notin> set '',=/+''"
  using assms digit_char_plain by (metis nat_str_digit)+

lemma nat_str_nonempty [simp]: "nat_str n \<noteq> []"
  by (simp add: nat_str_def)

lemma int_str_plain:
  assumes "c \<in> set (int_str i)"
  shows "c \<notin> set '',=/+''" and "\<not> is_space c"
proof -
  have "c = CHR ''-'' \<or> (\<exists>n. c \<in> set (nat_str n))" using assms by (auto simp: int_str_def split: if_splits)
  moreover have "CHR ''-'' \<notin> set '',=/+''" "\<not> is_space (CHR ''-'')" by (simp_all add: is_space_def)
  ultimately show "c \<notin> set '',=/+''" "\<not> is_space c" using nat_str_plain by metis+
qed

lemma int_str_no_sep [simp]:
  "CHR '','' \<notin> set (int_str i)" "CHR ''='' \<notin> set (int_str i)" "CHR ''/'' \<notin> set (int_str i)"
  using int_str_plain(1) by auto

lemma py_strip_plain:
  assumes "s \<noteq> []" and "\<not> is_space (hd s)" and "\<not> is_space (last s)"
  shows "py_strip s = s"
proof -
  have "dropWhile is_space s = s" using assms(1,2) by (cases s) auto
  moreover have "dropWhile is_space (rev s) = rev s" using assms(1,3) by (cases s rule: rev_cases) auto
  ultimately show ?thesis by (simp add: py_strip_def)
qed

lemma py_int_int_str [simp]: "py_int (int_str i) = Some i"
proof -
  have ne: "int_str i \<noteq> []" by (simp add: int_str_def)
  then have "py_strip (int_str i) = int_str i"
    using int_str_plain(2) [OF hd_in_set [OF ne]] int_str_plain(2) [OF last_in_set [OF ne]] by (intro py_strip_plain) simp_all
  moreover have "signed_val (num_val 10) (int_str i) = Some i"
  proof (cases "i < 0")
    case True
    then show ?thesis by (simp add: int_str_def signed_val_def)
  next
    case False
    obtain c cs where c: "nat_str (nat i) = c # cs" by (cases "nat_str (nat i)") auto
    then have "c \<noteq> CHR ''-''" "c \<noteq> CHR ''+''" using nat_str_plain(1,3) [of c "nat i"] by auto
    then show ?thesis using False num_val_nat_str [of "nat i"] c by (simp add: int_str_def signed_val_def)
  qed
  ultimately show ?thesis by (simp add: py_int_def)
qed

interpretation int_text: codec int_str py_int "\<lambda>_. True"
  by unfold_locales simp

lemma py_int_nat_str [simp]: "py_int (nat_str n) = Some (int n)"
  using py_int_int_str [of "int n"] by (simp add: int_str_def)

section \<open>Splitting and joining\<close>

text \<open>\<open>s.split(c)\<close>: the parts between the occurrences of \<open>c\<close>, never the empty list.\<close>

fun split_on :: "char \<Rightarrow> string \<Rightarrow> string list" where
  "split_on c [] = [[]]"
| "split_on c (x # xs) =
     (if x = c then [] # split_on c xs
      else (case split_on c xs of [] \<Rightarrow> [[x]] | p # ps \<Rightarrow> (x # p) # ps))"

text \<open>\<open>s.split(c, 1)\<close>: at the first occurrence only.\<close>

definition split_once :: "char \<Rightarrow> string \<Rightarrow> string list" where
  "split_once c s =
     (if c \<in> set s then [takeWhile (\<lambda>x. x \<noteq> c) s, drop 1 (dropWhile (\<lambda>x. x \<noteq> c) s)] else [s])"

fun join_with :: "string \<Rightarrow> string list \<Rightarrow> string" where
  "join_with sep [] = []"
| "join_with sep [x] = x"
| "join_with sep (x # y # zs) = x @ sep @ join_with sep (y # zs)"

lemma split_on_nonempty [simp]: "split_on c s \<noteq> []"
  by (induction s) (auto split: list.splits)

lemma split_on_no_sep [simp]: "c \<notin> set s \<Longrightarrow> split_on c s = [s]"
  by (induction s) auto

lemma split_on_append [simp]:
  "c \<notin> set s \<Longrightarrow> split_on c (s @ c # t) = s # split_on c t"
  by (induction s) auto

lemma split_on_sep: "split_on c (s @ c # t) = split_on c s @ split_on c t"
proof (induction s)
  case (Cons x s)
  then show ?case by (cases "split_on c s") auto
qed simp

text \<open>The first of several properties, \<open>name=value\<close>.\<close>

lemma split_on_kv:
  "c \<notin> set k \<Longrightarrow> c \<notin> set v \<Longrightarrow> split_on c (k @ v @ c # t) = (k @ v) # split_on c t"
  using split_on_append [of c "k @ v" t] by simp

lemma split_on_join:
  "ps \<noteq> [] \<Longrightarrow> \<forall>p \<in> set ps. c \<notin> set p \<Longrightarrow> split_on c (join_with [c] ps) = ps"
  by (induction "[c]" ps rule: join_with.induct) auto

lemma split_once_append [simp]:
  "c \<notin> set s \<Longrightarrow> split_once c (s @ c # t) = [s, t]"
proof -
  assume a: "c \<notin> set s"
  then have "takeWhile (\<lambda>x. x \<noteq> c) (s @ c # t) = s"
    and "dropWhile (\<lambda>x. x \<noteq> c) (s @ c # t) = c # t"
    by (induction s) auto
  with a show ?thesis by (simp add: split_once_def)
qed

lemma join_with_append:
  "xs \<noteq> [] \<Longrightarrow> ys \<noteq> [] \<Longrightarrow> join_with s (xs @ ys) = join_with s xs @ s @ join_with s ys"
proof (induction s xs rule: join_with.induct)
  case (2 sep x)
  then show ?case by (cases ys) auto
qed auto

section \<open>Dictionaries\<close>

text \<open>
  What the components rely on of a Python dictionary: the items are a multiset of pairs, \<open>put\<close>
  adds a pair or replaces the one with that key, \<open>pop\<close> removes it.
\<close>

locale dict =
  fixes ok :: "'d \<Rightarrow> bool"
    and get :: "'d \<Rightarrow> 'k \<Rightarrow> 'v option"
    and put :: "'k \<Rightarrow> 'v \<Rightarrow> 'd \<Rightarrow> 'd"
    and pop :: "'k \<Rightarrow> 'd \<Rightarrow> 'd"
    and items :: "'d \<Rightarrow> ('k \<times> 'v) multiset"
  assumes get_items: "ok d \<Longrightarrow> get d k = Some v \<longleftrightarrow> (k, v) \<in># items d"
    and put_new: "get d k = None \<Longrightarrow> items (put k v d) = add_mset (k, v) (items d)"
    and put_old: "get d k = Some u \<Longrightarrow> add_mset (k, u) (items (put k v d)) = add_mset (k, v) (items d)"
    and pop_items: "ok d \<Longrightarrow> get d k = Some v \<Longrightarrow> add_mset (k, v) (items (pop k d)) = items d"
    and get_put: "get (put k v d) k' = (if k' = k then Some v else get d k')"
    and get_pop: "ok d \<Longrightarrow> get (pop k d) k' = (if k' = k then None else get d k')"
    and ok_put: "ok d \<Longrightarrow> ok (put k v d)"
    and ok_pop: "ok d \<Longrightarrow> ok (pop k d)"
begin

definition values_of :: "'d \<Rightarrow> 'v multiset" where
  "values_of d = image_mset snd (items d)"

lemma values_put_new: "get d k = None \<Longrightarrow> values_of (put k v d) = add_mset v (values_of d)"
  by (simp add: values_of_def put_new)

lemma values_put_old:
  assumes "get d k = Some u"
  shows "add_mset u (values_of (put k v d)) = add_mset v (values_of d)"
proof -
  have "image_mset snd (add_mset (k, u) (items (put k v d))) = image_mset snd (add_mset (k, v) (items d))"
    using put_old [OF assms] by simp
  then show ?thesis by (simp add: values_of_def)
qed

lemma values_pop:
  assumes "ok d" and "get d k = Some v"
  shows "add_mset v (values_of (pop k d)) = values_of d"
proof -
  have "image_mset snd (add_mset (k, v) (items (pop k d))) = image_mset snd (items d)"
    using pop_items [OF assms] by simp
  then show ?thesis by (simp add: values_of_def)
qed

lemma in_values: "ok d \<Longrightarrow> v \<in># values_of d \<longleftrightarrow> (\<exists>k. get d k = Some v)"
  by (force simp: values_of_def get_items)

end

lemma alist_update_new:
  "map_of d k = None \<Longrightarrow> mset (AList.update k v d) = add_mset (k, v) (mset d)"
  by (induction d) (auto split: if_splits)

lemma alist_update_old:
  "map_of d k = Some u \<Longrightarrow> add_mset (k, u) (mset (AList.update k v d)) = add_mset (k, v) (mset d)"
  by (induction d) (auto split: if_splits)

lemma alist_delete_items:
  "distinct (map fst d) \<Longrightarrow> map_of d k = Some v \<Longrightarrow>
     add_mset (k, v) (mset (AList.delete k d)) = mset d"
proof (induction d)
  case (Cons p d)
  show ?case
  proof (cases "fst p = k")
    case True
    then have "AList.delete k d = d" using Cons.prems by (auto simp: delete_idem)
    then show ?thesis using True Cons.prems by (cases p) (auto simp: AList.delete_eq)
  next
    case False
    then show ?thesis using Cons by (cases p) (auto simp: AList.delete_eq)
  qed
qed simp

interpretation al: dict "\<lambda>d. distinct (map fst d)" map_of AList.update AList.delete mset
proof
  show "map_of d k = Some v \<longleftrightarrow> (k, v) \<in># mset d" if "distinct (map fst d)" for d :: "('a \<times> 'b) list" and k v
    using that by (simp add: map_of_eq_Some_iff)
  show "map_of (AList.update k v d) k' = (if k' = k then Some v else map_of d k')"
    for d :: "('a \<times> 'b) list" and k k' v
    by (simp add: update_conv')
  show "map_of (AList.delete k d) k' = (if k' = k then None else map_of d k')"
    for d :: "('a \<times> 'b) list" and k k'
    by (simp add: delete_conv')
qed (simp_all add: alist_update_new alist_update_old alist_delete_items distinct_update distinct_delete)

lemma al_values: "al.values_of d = mset (map snd d)"
  by (simp add: al.values_of_def)

section \<open>Multisets with one member per key\<close>

definition uniq_in :: "('b \<Rightarrow> bool) \<Rightarrow> ('a \<Rightarrow> 'b) \<Rightarrow> 'a multiset \<Rightarrow> bool" where
  "uniq_in P f M \<longleftrightarrow> (\<forall>x. P x \<longrightarrow> count (image_mset f M) x \<le> 1)"

lemma uniq_in_empty [simp]: "uniq_in P f {#}"
  by (simp add: uniq_in_def)

lemma uniq_in_add [simp]:
  "uniq_in P f (add_mset e M) \<longleftrightarrow> uniq_in P f M \<and> (P (f e) \<longrightarrow> f e \<notin> f ` set_mset M)"
proof -
  let ?c = "\<lambda>x. count (image_mset f M) x"
  have zero: "?c (f e) = 0 \<longleftrightarrow> f e \<notin> f ` set_mset M"
    by (simp only: count_eq_zero_iff set_image_mset)
  have step: "count (image_mset f (add_mset e M)) x \<le> 1 \<longleftrightarrow> ?c x \<le> 1 \<and> (x = f e \<longrightarrow> ?c x = 0)" for x
    by (auto simp: le_Suc_eq)
  have "uniq_in P f (add_mset e M) \<longleftrightarrow> uniq_in P f M \<and> (P (f e) \<longrightarrow> ?c (f e) = 0)"
    unfolding uniq_in_def step by (intro iffI conjI allI impI) (simp_all del: One_nat_def)
  then show ?thesis by (simp only: zero)
qed

lemma mset_concat_upd:
  assumes "distinct ts" and "t \<in> set ts"
  shows "mset (concat (map (F(t := xs)) ts)) + mset (F t) = mset (concat (map F ts)) + mset xs"
  using assms
proof (induction ts)
  case (Cons s ts)
  show ?case
  proof (cases "s = t")
    case True
    then have rest: "map (F(t := xs)) ts = map F ts" using Cons.prems by (intro map_cong) auto
    show ?thesis using True by (simp only: list.map concat.simps rest mset_append) (simp add: union_ac)
  next
    case False
    then show ?thesis using Cons by (simp add: union_ac)
  qed
qed simp

end
