(* ===== verification/Entities.thy ===== *)
theory Entities imports Prelude begin

text \<open>
  The entity classes of \<open>lcp/logicalview.py\<close>: logical switches, routers and their ports, static
  routes, NAT entries, chassis and OVS ports. The Python object keeps its attributes and a list
  (\<open>self.lsp\<close>, \<open>self.lrp\<close>, ...) that \<open>_update_dup_data\<close> copies from them; the list is what
  the Datalog facts hold, indexed by the constants \<open>LSP_UUID\<close>, \<open>LSP_IP\<close>, ... All attributes
  but \<open>state\<close> are fixed by the constructor, so one record per class stands for both, with a
  field per index constant; its state column is the state last copied, and the object's own
  \<open>state\<close> is a field of \<open>entity\<close>.

  A constructor that raises (a malformed address, prefix or MAC, no free index) returns \<open>None\<close>.
\<close>

section \<open>States and entity types\<close>

abbreviation (input) State_NO :: int where "State_NO \<equiv> 0"
abbreviation (input) State_ADD :: int where "State_ADD \<equiv> 1"
abbreviation (input) State_DEL :: int where "State_DEL \<equiv> -100"

datatype etype = LSP | LRP | LSR | LNAT | CHASSIS | LS | LR | OVSPORT | OVSPORT_CHASSIS

definition etype_name :: "etype \<Rightarrow> string" where
  "etype_name t = (case t of
     LSP \<Rightarrow> ''lsp'' | LRP \<Rightarrow> ''lrp'' | LSR \<Rightarrow> ''lsr'' | LNAT \<Rightarrow> ''lnat'' | CHASSIS \<Rightarrow> ''chassis''
   | LS \<Rightarrow> ''LS'' | LR \<Rightarrow> ''LR'' | OVSPORT \<Rightarrow> ''ovsport'' | OVSPORT_CHASSIS \<Rightarrow> ''ovsport_chassis'')"

text \<open>\<open>LogicalEntityZoo.logical_entity_types\<close>: a dictionary, whose iteration order is not fixed.\<close>

definition logical_entity_types :: "etype list" where
  "logical_entity_types = [LSP, LRP, LSR, LNAT, CHASSIS, LS, LR, OVSPORT, OVSPORT_CHASSIS]"

lemma logical_entity_types_all [simp]: "t \<in> set logical_entity_types"
  by (cases t) (simp_all add: logical_entity_types_def)

section \<open>Addresses\<close>

definition inet_ntoa :: "nat \<Rightarrow> string" where
  "inet_ntoa n =
     join_with ''.'' (map nat_str [n div 2 ^ 24 mod 256, n div 2 ^ 16 mod 256, n div 2 ^ 8 mod 256,
                                   n mod 256])"

text \<open>
  \<open>socket.inet_aton\<close>, the function of the C library: one to four numbers, decimal, octal or hexadecimal, of
  which the last fills the bytes that are left; what follows a blank is ignored.
\<close>

definition c_number :: "string \<Rightarrow> nat option" where
  "c_number s =
     (if take 2 s = ''0x'' \<or> take 2 s = ''0X'' then num_val 16 (drop 2 s)
      else if take 1 s = ''0'' then num_val 8 s
      else num_val 10 s)"

definition quad_val :: "nat list \<Rightarrow> nat option" where
  "quad_val xs =
     (case xs of
        [a] \<Rightarrow> if a < 2 ^ 32 then Some a else None
      | [a, b] \<Rightarrow> if a < 256 \<and> b < 2 ^ 24 then Some (a * 2 ^ 24 + b) else None
      | [a, b, c] \<Rightarrow> if a < 256 \<and> b < 256 \<and> c < 2 ^ 16 then Some (a * 2 ^ 24 + b * 2 ^ 16 + c) else None
      | [a, b, c, d] \<Rightarrow>
          if a < 256 \<and> b < 256 \<and> c < 256 \<and> d < 256
          then Some (a * 2 ^ 24 + b * 2 ^ 16 + c * 2 ^ 8 + d) else None
      | _ \<Rightarrow> None)"

definition inet_aton :: "string \<Rightarrow> nat option" where
  "inet_aton s =
     Option.bind (those (map c_number (split_on CHR ''.'' (takeWhile (\<lambda>c. \<not> is_space c) s)))) quad_val"

definition ip2int :: "string \<Rightarrow> nat option" where
  "ip2int ip =
     (case inet_aton ip of
        None \<Rightarrow> None
      | Some ip_int \<Rightarrow> if ip \<noteq> inet_ntoa ip_int then None else Some ip_int)"

definition gen_mac_by_ip :: "nat \<Rightarrow> string" where
  "gen_mac_by_ip ip_int =
     ''f2:01:'' @ hex02 (int (ip_int div 2 ^ 24 mod 256)) @ '':'' @
     hex02 (int (ip_int div 2 ^ 16 mod 256)) @ '':'' @ hex02 (int (ip_int div 2 ^ 8 mod 256)) @ '':'' @
     hex02 (int (ip_int mod 256))"

text \<open>\<open>int(mac.translate(None, ":.- "), 16)\<close>; without \<open>-\<close> left, the result is not negative.\<close>

definition mac2int :: "string \<Rightarrow> nat option" where
  "mac2int mac = map_option nat (py_int16 (filter (\<lambda>c. c \<notin> set '':.- '') mac))"

section \<open>Rows\<close>

record lsp_row =
  LSP_UUID :: string
  LSP_IP :: string
  LSP_IP_INT :: nat
  LSP_MAC :: string
  LSP_MAC_INT :: nat
  LSP_CHASSIS_UUID :: "string option"
  LSP_LS_UUID :: string
  LSP_PEER :: "string option"
  LSP_PORTID :: nat
  LSP_State :: int

record lrp_row =
  LRP_UUID :: string
  LRP_PREFIX :: nat
  LRP_IP :: string
  LRP_IP_INT :: nat
  LRP_MAC :: string
  LRP_MAC_INT :: nat
  LRP_LR_UUID :: string
  LRP_PEER :: "string option"
  LRP_PORTID :: nat
  LRP_ILK_IDX :: nat
  LRP_State :: int

record lr_row =
  LR_UUID :: string
  LR_CHASSIS_UUID :: "string option"
  LR_ID :: int
  LR_State :: int

record lsr_row =
  LSR_UUID :: string
  LSR_LR_UUID :: string
  LSR_IP :: string
  LSR_IP_INT :: nat
  LSR_PREFIX :: nat
  LSR_NEXT_HOP :: string
  LSR_NEXT_HOP_INT :: nat
  LSR_OUTPORT :: "string option"
  LSR_ILK_IDX :: nat
  LSR_State :: int

record lnat_row =
  LNAT_UUID :: string
  LNAT_LR_UUID :: string
  LNAT_IP :: string
  LNAT_IP_INT :: nat
  LNAT_PREFIX :: int
  LNAT_XLATE_IP :: string
  LNAT_XLATE_IP_INT :: nat
  LNAT_XLATE_MAC :: string
  LNAT_XLATE_MAC_INT :: nat
  LNAT_TYPE :: "string option"
  LNAT_State :: int

record ls_row =
  LS_UUID :: string
  LS_ID :: pyval
  LS_State :: int

record pch_row =
  PCH_UUID :: string
  PCH_IP :: string
  PCH_TICK :: int
  PCH_State :: int

record ovsport_row =
  OVSPORT_NAME :: string
  OVSPORT_IFACE_ID :: string
  OVSPORT_OFPORT :: int
  OVSPORT_State :: int

datatype body =
    BLsp lsp_row
  | BLrp lrp_row
  | BLr lr_row
  | BLsr lsr_row
  | BLnat lnat_row
  | BLs ls_row
  | BChassis pch_row
  | BOvsport bool ovsport_row  \<comment> \<open>\<open>is_remote\<close> and the port\<close>

record entity =
  body :: body
  state :: int
  populated :: bool
  touched :: bool

fun body_uuid :: "body \<Rightarrow> string" where
  "body_uuid (BLsp r) = LSP_UUID r"
| "body_uuid (BLrp r) = LRP_UUID r"
| "body_uuid (BLr r) = LR_UUID r"
| "body_uuid (BLsr r) = LSR_UUID r"
| "body_uuid (BLnat r) = LNAT_UUID r"
| "body_uuid (BLs r) = LS_UUID r"
| "body_uuid (BChassis r) = PCH_UUID r"
| "body_uuid (BOvsport _ r) = OVSPORT_NAME r"

fun body_state :: "body \<Rightarrow> int" where
  "body_state (BLsp r) = LSP_State r"
| "body_state (BLrp r) = LRP_State r"
| "body_state (BLr r) = LR_State r"
| "body_state (BLsr r) = LSR_State r"
| "body_state (BLnat r) = LNAT_State r"
| "body_state (BLs r) = LS_State r"
| "body_state (BChassis r) = PCH_State r"
| "body_state (BOvsport _ r) = OVSPORT_State r"

text \<open>\<open>_update_dup_data\<close>: the list is rebuilt from the attributes, with the state given.\<close>

fun set_state :: "int \<Rightarrow> body \<Rightarrow> body" where
  "set_state s (BLsp r) = BLsp (r\<lparr>LSP_State := s\<rparr>)"
| "set_state s (BLrp r) = BLrp (r\<lparr>LRP_State := s\<rparr>)"
| "set_state s (BLr r) = BLr (r\<lparr>LR_State := s\<rparr>)"
| "set_state s (BLsr r) = BLsr (r\<lparr>LSR_State := s\<rparr>)"
| "set_state s (BLnat r) = BLnat (r\<lparr>LNAT_State := s\<rparr>)"
| "set_state s (BLs r) = BLs (r\<lparr>LS_State := s\<rparr>)"
| "set_state s (BChassis r) = BChassis (r\<lparr>PCH_State := s\<rparr>)"
| "set_state s (BOvsport b r) = BOvsport b (r\<lparr>OVSPORT_State := s\<rparr>)"

text \<open>The group an entity of this class is kept in.\<close>

fun body_etype :: "body \<Rightarrow> etype" where
  "body_etype (BLsp _) = LSP"
| "body_etype (BLrp _) = LRP"
| "body_etype (BLr _) = LR"
| "body_etype (BLsr _) = LSR"
| "body_etype (BLnat _) = LNAT"
| "body_etype (BLs _) = LS"
| "body_etype (BChassis _) = CHASSIS"
| "body_etype (BOvsport remote _) = (if remote then OVSPORT_CHASSIS else OVSPORT)"

lemma set_state_simps [simp]:
  "body_state (set_state s b) = s"
  "body_uuid (set_state s b) = body_uuid b"
  "body_etype (set_state s b) = body_etype b"
  "set_state s (set_state s' b) = set_state s b"
  "set_state (body_state b) b = b"
  by (cases b; simp)+

section \<open>Uniqueness keys\<close>

text \<open>
  \<open>uniq_check_keys\<close>: the names under which an entity is registered in \<open>entity_idxmap\<close>, each with
  the value of that attribute. A switch and a router share \<open>global_view_id\<close>, since their ids
  number the datapaths of one bridge.
\<close>

datatype idx_key = Ls_view_ip | Ls_view_mac | Lr_view_ip | Lr_view_mac | Global_view_id
  | Lr_view_lsr | Lr_view_lnat | Global_view_chassis | Host_view_ovsport

fun uniq_keys :: "body \<Rightarrow> (idx_key \<times> string) list" where
  "uniq_keys (BLsp r) =
     [(Ls_view_ip, LSP_LS_UUID r @ LSP_IP r), (Ls_view_mac, LSP_LS_UUID r @ LSP_MAC r)]"
| "uniq_keys (BLrp r) =
     [(Lr_view_ip, LRP_LR_UUID r @ LRP_IP r), (Lr_view_mac, LRP_LR_UUID r @ LRP_MAC r)]"
| "uniq_keys (BLr r) = [(Global_view_id, int_str (LR_ID r))]"
| "uniq_keys (BLsr r) =
     [(Lr_view_lsr, ''lsr'' @ LSR_LR_UUID r @ LSR_IP r @ nat_str (LSR_PREFIX r) @ LSR_NEXT_HOP r @
       pystr (opt_val (LSR_OUTPORT r)))]"
| "uniq_keys (BLnat r) =
     [(Lr_view_lnat, ''lnat'' @ LNAT_LR_UUID r @ LNAT_IP r @ int_str (LNAT_PREFIX r) @
       pystr (opt_val (LNAT_TYPE r)))]"
| "uniq_keys (BLs r) = [(Global_view_id, pystr (LS_ID r))]"
| "uniq_keys (BChassis r) =
     [(Global_view_chassis, ''chassis'' @ PCH_IP r @ int_str (PCH_TICK r))]"
| "uniq_keys (BOvsport _ r) =
     [(Host_view_ovsport, ''ovsport'' @ OVSPORT_NAME r @ OVSPORT_IFACE_ID r @
       int_str (OVSPORT_OFPORT r))]"

lemma uniq_keys_set_state [simp]: "uniq_keys (set_state s b) = uniq_keys b"
  by (cases b) simp_all

lemma uniq_keys_distinct [simp]: "distinct (map fst (uniq_keys b))"
  by (cases b) simp_all

section \<open>Options and environment\<close>

text \<open>
  \<open>extra['options']\<close> as the rules and the entities use it, and \<open>extra['system_id']\<close>. \<open>set_pop\<close>
  stands for \<open>set.pop\<close> of Python, which removes an element it does not specify; the set is given as
  the list of its elements.
\<close>

record options =
  ONDEMAND :: bool
  ENABLE_REDIRECT :: bool
  GATEWAY :: bool
  ENABLE_UNTUNNEL :: bool
  dsrport :: "(string \<times> string) option"  \<comment> \<open>\<open>mac\<close> and \<open>ofport\<close>\<close>
  HASH_FN :: string

record env =
  opts :: options
  system_id :: string
  set_pop :: "nat list \<Rightarrow> nat"

definition set_pop_ok :: "env \<Rightarrow> bool" where
  "set_pop_ok env \<longleftrightarrow> (\<forall>xs. xs \<noteq> [] \<longrightarrow> set_pop env xs \<in> set xs)"

section \<open>ILK indices\<close>

text \<open>
  \<open>ILKEntity\<close>: router ports and static routes of one router with the same network and prefix get
  distinct indices below 64. The groups are keyed by entity type and the string made of
  router, network and prefix.
\<close>

abbreviation (input) max_ilk_n :: nat where "max_ilk_n \<equiv> 64"

type_synonym ilk_group = "etype \<times> string \<Rightarrow> nat list option"

definition ip_network :: "nat \<Rightarrow> nat \<Rightarrow> nat" where
  "ip_network ip_int prefix = ip_int div 2 ^ (32 - prefix) * 2 ^ (32 - prefix)"

definition ilk_key :: "string \<Rightarrow> nat \<Rightarrow> nat \<Rightarrow> string" where
  "ilk_key lr_uuid ip_int prefix = lr_uuid @ nat_str (ip_network ip_int prefix) @ nat_str prefix"

definition get_free_idx :: "env \<Rightarrow> nat list \<Rightarrow> nat option" where
  "get_free_idx env occupy =
     (let free = filter (\<lambda>i. i \<notin> set occupy) [0..<max_ilk_n]
      in if free = [] then None else Some (set_pop env free))"

definition get_ilk_idx :: "env \<Rightarrow> ilk_group \<Rightarrow> etype \<times> string \<Rightarrow> (nat \<times> ilk_group) option" where
  "get_ilk_idx env g key =
     (case g key of
        Some occupy \<Rightarrow>
          (case get_free_idx env occupy of
             None \<Rightarrow> None  \<comment> \<open>too many ilk\<close>
           | Some idx \<Rightarrow> Some (idx, g(key := Some (List.insert idx occupy))))
      | None \<Rightarrow> Some (0, g(key := Some [0])))"

text \<open>\<open>set.remove\<close> raises when the index is not in the set.\<close>

definition free_ilk_idx :: "ilk_group \<Rightarrow> etype \<times> string \<Rightarrow> nat \<Rightarrow> ilk_group option" where
  "free_ilk_idx g key idx =
     (case g key of
        None \<Rightarrow> None
      | Some occupy \<Rightarrow>
          if idx \<in> set occupy then Some (g(key := Some (removeAll idx occupy))) else None)"

text \<open>The key and index of an entity that is an \<open>ILKEntity\<close>.\<close>

fun body_ilk :: "body \<Rightarrow> ((etype \<times> string) \<times> nat) option" where
  "body_ilk (BLrp r) =
     Some ((LRP, ilk_key (LRP_LR_UUID r) (LRP_IP_INT r) (LRP_PREFIX r)), LRP_ILK_IDX r)"
| "body_ilk (BLsr r) =
     Some ((LSR, ilk_key (LSR_LR_UUID r) (LSR_IP_INT r) (LSR_PREFIX r)), LSR_ILK_IDX r)"
| "body_ilk _ = None"

lemma body_ilk_set_state [simp]: "body_ilk (set_state s b) = body_ilk b"
  by (cases b) simp_all

section \<open>Constructors\<close>

text \<open>
  The positional arguments of \<open>add_entity\<close>, one constructor per class. A property that is not in
  the key-value store is \<open>None\<close> (\<open>properties.get\<close>).
\<close>

datatype props =
    P_lsp string "string option" "string option" string "string option" "string option"
      \<comment> \<open>uuid, ip, mac, ls\_uuid, chassis, peer\<close>
  | P_lrp string "string option" "string option" "string option" string "string option"
      \<comment> \<open>uuid, ip, prefix, mac, lr\_uuid, peer\<close>
  | P_lsr string "string option" "string option" "string option" "string option" string
      \<comment> \<open>uuid, ip, prefix, next\_hop, outport, lr\_uuid\<close>
  | P_lnat string "string option" "string option" "string option" "string option" string
      \<comment> \<open>uuid, ip, prefix, xlate\_ip, xlate\_type, lr\_uuid\<close>
  | P_chassis string "string option" "string option"  \<comment> \<open>uuid, ip, tick\<close>
  | P_LS string "string option"  \<comment> \<open>uuid, id\<close>
  | P_LR string "string option" "string option"  \<comment> \<open>uuid, id, chassis\<close>
  | P_ovsport string string int bool  \<comment> \<open>name, iface\_id, ofport, is\_remote\<close>

fun props_uuid :: "props \<Rightarrow> string" where
  "props_uuid (P_lsp u _ _ _ _ _) = u"
| "props_uuid (P_lrp u _ _ _ _ _) = u"
| "props_uuid (P_lsr u _ _ _ _ _) = u"
| "props_uuid (P_lnat u _ _ _ _ _) = u"
| "props_uuid (P_chassis u _ _) = u"
| "props_uuid (P_LS u _) = u"
| "props_uuid (P_LR u _ _) = u"
| "props_uuid (P_ovsport n _ _ _) = n"

fun props_etype :: "props \<Rightarrow> etype" where
  "props_etype (P_lsp _ _ _ _ _ _) = LSP"
| "props_etype (P_lrp _ _ _ _ _ _) = LRP"
| "props_etype (P_lsr _ _ _ _ _ _) = LSR"
| "props_etype (P_lnat _ _ _ _ _ _) = LNAT"
| "props_etype (P_chassis _ _ _) = CHASSIS"
| "props_etype (P_LS _ _) = LS"
| "props_etype (P_LR _ _ _) = LR"
| "props_etype (P_ovsport _ _ _ remote) = (if remote then OVSPORT_CHASSIS else OVSPORT)"

text \<open>\<open>max(min(int(prefix), 32), 0)\<close>.\<close>

definition clamp_prefix :: "int \<Rightarrow> nat" where
  "clamp_prefix p = nat (max (min p 32) 0)"

text \<open>\<open>_should_touch\<close> of the two classes that have it.\<close>

definition lsp_should_touch :: "env \<Rightarrow> string option \<Rightarrow> string option \<Rightarrow> bool" where
  "lsp_should_touch env chassis peer =
     (if \<not> ONDEMAND (opts env) then True
      else if chassis = Some (system_id env) then True
      else if peer \<noteq> None then True
      else False)"

definition chassis_should_touch :: "env \<Rightarrow> string \<Rightarrow> bool" where
  "chassis_should_touch env uuid =
     (if \<not> ONDEMAND (opts env) then True
      else if uuid = system_id env then True
      else False)"

definition new_entity :: "body \<Rightarrow> bool \<Rightarrow> entity" where
  "new_entity b t = \<lparr>body = b, state = State_ADD, populated = False, touched = t\<rparr>"

definition new_lsp :: "env \<Rightarrow> string \<Rightarrow> string option \<Rightarrow> string option \<Rightarrow> string \<Rightarrow>
    string option \<Rightarrow> string option \<Rightarrow> entity option" where
  "new_lsp env uuid ip mac ls_uuid chassis peer =
     Option.bind ip (\<lambda>ip. Option.bind (ip2int ip) (\<lambda>ip_int.
     Option.bind mac (\<lambda>mac. Option.bind (mac2int mac) (\<lambda>mac_int.
       Some (new_entity
         (BLsp \<lparr>LSP_UUID = uuid, LSP_IP = ip, LSP_IP_INT = ip_int, LSP_MAC = mac,
            LSP_MAC_INT = mac_int, LSP_CHASSIS_UUID = chassis, LSP_LS_UUID = ls_uuid,
            LSP_PEER = peer, LSP_PORTID = ip_int mod 2 ^ 16, LSP_State = State_ADD\<rparr>)
         (lsp_should_touch env chassis peer))))))"

definition new_lrp :: "env \<Rightarrow> ilk_group \<Rightarrow> string \<Rightarrow> string option \<Rightarrow> string option \<Rightarrow>
    string option \<Rightarrow> string \<Rightarrow> string option \<Rightarrow> (entity \<times> ilk_group) option" where
  "new_lrp env g uuid ip prefix mac lr_uuid peer =
     Option.bind prefix (\<lambda>prefix. Option.bind (py_int prefix) (\<lambda>prefix.
     Option.bind ip (\<lambda>ip. Option.bind (ip2int ip) (\<lambda>ip_int.
     Option.bind mac (\<lambda>mac. Option.bind (mac2int mac) (\<lambda>mac_int.
     Option.bind (get_ilk_idx env g (LRP, ilk_key lr_uuid ip_int (clamp_prefix prefix)))
       (\<lambda>(ilk_idx, g').
         Some (new_entity
           (BLrp \<lparr>LRP_UUID = uuid, LRP_PREFIX = clamp_prefix prefix, LRP_IP = ip,
              LRP_IP_INT = ip_int, LRP_MAC = mac, LRP_MAC_INT = mac_int, LRP_LR_UUID = lr_uuid,
              LRP_PEER = peer, LRP_PORTID = ip_int mod 2 ^ 16, LRP_ILK_IDX = ilk_idx,
              LRP_State = State_ADD\<rparr>)
           True, g'))))))))"

definition new_lr :: "string \<Rightarrow> string option \<Rightarrow> string option \<Rightarrow> entity option" where
  "new_lr uuid lrID chassis =
     Option.bind lrID (\<lambda>i. Option.bind (py_int i) (\<lambda>lrID.
       Some (new_entity
         (BLr \<lparr>LR_UUID = uuid, LR_CHASSIS_UUID = chassis, LR_ID = lrID, LR_State = State_ADD\<rparr>)
         True)))"

definition new_lsr :: "env \<Rightarrow> ilk_group \<Rightarrow> string \<Rightarrow> string option \<Rightarrow> string option \<Rightarrow>
    string option \<Rightarrow> string option \<Rightarrow> string \<Rightarrow> (entity \<times> ilk_group) option" where
  "new_lsr env g uuid ip prefix next_hop outport lr_uuid =
     Option.bind prefix (\<lambda>prefix. Option.bind (py_int prefix) (\<lambda>prefix.
     Option.bind ip (\<lambda>ip. Option.bind (ip2int ip) (\<lambda>ip_int.
     Option.bind next_hop (\<lambda>next_hop. Option.bind (ip2int next_hop) (\<lambda>next_hop_int.
     (let prefix = clamp_prefix prefix; ip_int = ip_network ip_int prefix in
      Option.bind (get_ilk_idx env g (LSR, ilk_key lr_uuid ip_int prefix))
        (\<lambda>(ilk_idx, g').
          Some (new_entity
            (BLsr \<lparr>LSR_UUID = uuid, LSR_LR_UUID = lr_uuid, LSR_IP = ip, LSR_IP_INT = ip_int,
               LSR_PREFIX = prefix, LSR_NEXT_HOP = next_hop, LSR_NEXT_HOP_INT = next_hop_int,
               LSR_OUTPORT = outport, LSR_ILK_IDX = ilk_idx, LSR_State = State_ADD\<rparr>)
            True, g')))))))))"

definition new_lnat :: "string \<Rightarrow> string option \<Rightarrow> string option \<Rightarrow> string option \<Rightarrow>
    string option \<Rightarrow> string \<Rightarrow> entity option" where
  "new_lnat uuid ip prefix xlate_ip xlate_type lr_uuid =
     Option.bind ip (\<lambda>ip. Option.bind (ip2int ip) (\<lambda>ip_int.
     Option.bind prefix (\<lambda>prefix. Option.bind (py_int prefix) (\<lambda>prefix.
     Option.bind xlate_ip (\<lambda>xlate_ip. Option.bind (ip2int xlate_ip) (\<lambda>xlate_ip_int.
     Option.bind (mac2int (gen_mac_by_ip xlate_ip_int)) (\<lambda>xlate_mac_int.
       Some (new_entity
         (BLnat \<lparr>LNAT_UUID = uuid, LNAT_LR_UUID = lr_uuid, LNAT_IP = ip, LNAT_IP_INT = ip_int,
            LNAT_PREFIX = prefix, LNAT_XLATE_IP = xlate_ip, LNAT_XLATE_IP_INT = xlate_ip_int,
            LNAT_XLATE_MAC = gen_mac_by_ip xlate_ip_int, LNAT_XLATE_MAC_INT = xlate_mac_int,
            LNAT_TYPE = xlate_type, LNAT_State = State_ADD\<rparr>)
         True))))))))"

definition new_ls :: "string \<Rightarrow> string option \<Rightarrow> entity option" where
  "new_ls uuid lsID =
     Some (new_entity (BLs \<lparr>LS_UUID = uuid, LS_ID = opt_val lsID, LS_State = State_ADD\<rparr>) True)"

definition new_chassis :: "env \<Rightarrow> string \<Rightarrow> string option \<Rightarrow> string option \<Rightarrow> entity option" where
  "new_chassis env uuid ip tick =
     Option.bind ip (\<lambda>ip. Option.bind (ip2int ip) (\<lambda>ip_int.
     Option.bind tick (\<lambda>tick. Option.bind (py_int tick) (\<lambda>tick.
       Some (new_entity
         (BChassis \<lparr>PCH_UUID = uuid, PCH_IP = ip, PCH_TICK = tick, PCH_State = State_ADD\<rparr>)
         (chassis_should_touch env uuid))))))"

definition new_ovsport :: "string \<Rightarrow> string \<Rightarrow> int \<Rightarrow> bool \<Rightarrow> entity option" where
  "new_ovsport name iface_id ofport is_remote =
     Some (new_entity
       (BOvsport is_remote \<lparr>OVSPORT_NAME = name, OVSPORT_IFACE_ID = iface_id,
          OVSPORT_OFPORT = ofport, OVSPORT_State = State_ADD\<rparr>)
       True)"

text \<open>\<open>entity_class(*properties)\<close>.\<close>

definition make_entity :: "env \<Rightarrow> ilk_group \<Rightarrow> props \<Rightarrow> (entity \<times> ilk_group) option" where
  "make_entity env g p =
     (case p of
        P_lsp uuid ip mac ls_uuid chassis peer \<Rightarrow>
          map_option (\<lambda>e. (e, g)) (new_lsp env uuid ip mac ls_uuid chassis peer)
      | P_lrp uuid ip prefix mac lr_uuid peer \<Rightarrow> new_lrp env g uuid ip prefix mac lr_uuid peer
      | P_lsr uuid ip prefix next_hop outport lr_uuid \<Rightarrow>
          new_lsr env g uuid ip prefix next_hop outport lr_uuid
      | P_lnat uuid ip prefix xlate_ip xlate_type lr_uuid \<Rightarrow>
          map_option (\<lambda>e. (e, g)) (new_lnat uuid ip prefix xlate_ip xlate_type lr_uuid)
      | P_chassis uuid ip tick \<Rightarrow> map_option (\<lambda>e. (e, g)) (new_chassis env uuid ip tick)
      | P_LS uuid lsID \<Rightarrow> map_option (\<lambda>e. (e, g)) (new_ls uuid lsID)
      | P_LR uuid lrID chassis \<Rightarrow> map_option (\<lambda>e. (e, g)) (new_lr uuid lrID chassis)
      | P_ovsport name iface_id ofport is_remote \<Rightarrow>
          map_option (\<lambda>e. (e, g)) (new_ovsport name iface_id ofport is_remote))"

section \<open>is\_same\<close>

text \<open>
  \<open>is_same(*properties)\<close>: the properties describe the entity that is there already. A comparison
  with a property that is absent is false, and \<open>int\<close> of a malformed prefix raises (\<open>None\<close>);
  \<open>and\<close> evaluates its operands from the left and stops at the first that is false.
\<close>

definition py_and :: "bool \<Rightarrow> bool option \<Rightarrow> bool option" where
  "py_and a b = (if a then b else Some False)"

definition int_is :: "int \<Rightarrow> string option \<Rightarrow> bool option" where
  "int_is i s = (case s of None \<Rightarrow> None | Some s \<Rightarrow> map_option (\<lambda>j. i = j) (py_int s))"

definition and_then :: "bool option \<Rightarrow> bool option \<Rightarrow> bool option" where
  "and_then a b = (case a of None \<Rightarrow> None | Some True \<Rightarrow> b | Some False \<Rightarrow> Some False)"

definition lsp_is_same :: "lsp_row \<Rightarrow> string \<Rightarrow> string option \<Rightarrow> string option \<Rightarrow> string \<Rightarrow> string option \<Rightarrow> string option \<Rightarrow>
    bool option" where
  "lsp_is_same r uuid ip mac ls_uuid chassis peer =
     Some (LSP_UUID r = uuid \<and> Some (LSP_IP r) = ip \<and> Some (LSP_MAC r) = mac \<and>
           LSP_LS_UUID r = ls_uuid \<and> LSP_CHASSIS_UUID r = chassis \<and> LSP_PEER r = peer)"

definition lrp_is_same :: "lrp_row \<Rightarrow> string \<Rightarrow> string option \<Rightarrow> string option \<Rightarrow> string option \<Rightarrow> string \<Rightarrow> string option \<Rightarrow>
    bool option" where
  "lrp_is_same r uuid ip prefix mac lr_uuid peer =
     py_and (LRP_UUID r = uuid \<and> Some (LRP_IP r) = ip)
       (and_then (int_is (int (LRP_PREFIX r)) prefix)
         (Some (Some (LRP_MAC r) = mac \<and> LRP_LR_UUID r = lr_uuid \<and> LRP_PEER r = peer)))"

definition lr_is_same :: "lr_row \<Rightarrow> string \<Rightarrow> string option \<Rightarrow> string option \<Rightarrow> bool option" where
  "lr_is_same r uuid lrID chassis =
     py_and (LR_UUID r = uuid)
       (and_then (int_is (LR_ID r) lrID) (Some (LR_CHASSIS_UUID r = chassis)))"

definition lsr_is_same :: "lsr_row \<Rightarrow> string \<Rightarrow> string option \<Rightarrow> string option \<Rightarrow> string option \<Rightarrow> string option \<Rightarrow> string \<Rightarrow>
    bool option" where
  "lsr_is_same r uuid ip prefix next_hop outport lr_uuid =
     py_and (LSR_UUID r = uuid \<and> Some (LSR_IP r) = ip)
       (and_then (int_is (int (LSR_PREFIX r)) prefix)
         (Some (Some (LSR_NEXT_HOP r) = next_hop \<and> LSR_OUTPORT r = outport \<and>
                LSR_LR_UUID r = lr_uuid)))"

definition lnat_is_same :: "lnat_row \<Rightarrow> string \<Rightarrow> string option \<Rightarrow> string option \<Rightarrow> string option \<Rightarrow> string option \<Rightarrow> string \<Rightarrow>
    bool option" where
  "lnat_is_same r uuid ip prefix xlate_ip xlate_type lr_uuid =
     py_and (LNAT_UUID r = uuid \<and> Some (LNAT_IP r) = ip)
       (and_then (int_is (LNAT_PREFIX r) prefix)
         (Some (Some (LNAT_XLATE_IP r) = xlate_ip \<and> LNAT_TYPE r = xlate_type \<and>
                LNAT_LR_UUID r = lr_uuid)))"

definition ls_is_same :: "ls_row \<Rightarrow> string \<Rightarrow> string option \<Rightarrow> bool option" where
  "ls_is_same r uuid lsID = Some (LS_UUID r = uuid \<and> LS_ID r = opt_val lsID)"

definition chassis_is_same :: "pch_row \<Rightarrow> string \<Rightarrow> string option \<Rightarrow> string option \<Rightarrow> bool option" where
  "chassis_is_same r uuid ip tick =
     py_and (PCH_UUID r = uuid \<and> Some (PCH_IP r) = ip) (int_is (PCH_TICK r) tick)"

definition ovsport_is_same :: "bool \<Rightarrow> ovsport_row \<Rightarrow> string \<Rightarrow> string \<Rightarrow> int \<Rightarrow> bool \<Rightarrow> bool option" where
  "ovsport_is_same remote r name iface_id ofport is_remote =
     Some (OVSPORT_NAME r = name \<and> OVSPORT_IFACE_ID r = iface_id \<and> OVSPORT_OFPORT r = ofport \<and>
           remote = is_remote)"

lemmas is_same_defs [simp] =
  lsp_is_same_def lrp_is_same_def lr_is_same_def lsr_is_same_def lnat_is_same_def ls_is_same_def
  chassis_is_same_def ovsport_is_same_def

fun is_same :: "body \<Rightarrow> props \<Rightarrow> bool option" where
  "is_same (BLsp r) (P_lsp uuid ip mac ls_uuid chassis peer) = lsp_is_same r uuid ip mac ls_uuid chassis peer"
| "is_same (BLrp r) (P_lrp uuid ip prefix mac lr_uuid peer) = lrp_is_same r uuid ip prefix mac lr_uuid peer"
| "is_same (BLr r) (P_LR uuid lrID chassis) = lr_is_same r uuid lrID chassis"
| "is_same (BLsr r) (P_lsr uuid ip prefix next_hop outport lr_uuid) = lsr_is_same r uuid ip prefix next_hop outport lr_uuid"
| "is_same (BLnat r) (P_lnat uuid ip prefix xlate_ip xlate_type lr_uuid) =
     lnat_is_same r uuid ip prefix xlate_ip xlate_type lr_uuid"
| "is_same (BLs r) (P_LS uuid lsID) = ls_is_same r uuid lsID"
| "is_same (BChassis r) (P_chassis uuid ip tick) = chassis_is_same r uuid ip tick"
| "is_same (BOvsport remote r) (P_ovsport name iface_id ofport is_remote) =
     ovsport_is_same remote r name iface_id ofport is_remote"
| "is_same _ _ = None"

end
