(* ===== verification/Zoo.thy ===== *)
theory Zoo imports Entities "HOL-Library.Multiset" begin

text \<open>
  \<open>LogicalEntityZoo\<close> of \<open>lcp/logicalview.py\<close> with the Datalog facts its entities assert and
  retract, and the methods of \<open>LogicalEntity\<close> that do so. The zoo keeps the live entities
  (\<open>entity_set\<close>), the deleted ones whose flows are still to be removed (\<open>entity_sink_set\<close>) and the
  uniqueness index (\<open>entity_idxmap\<close>). The main result is \<open>zoo_inv\<close>: every operation keeps the
  facts equal to the rows of the touched entities, the keys of the live entities unique, and
  the ILK indices distinct, registered and below 64, which is why \<open>sweep_zoo\<close> never raises.
\<close>

section \<open>The fact base\<close>

text \<open>
  One list per Datalog predicate, read as a set: asserting a fact twice is asserting it once, and
  retracting one that is not there does nothing. A logical switch port is a fact of
  \<open>lsp_array\<close> or, when it has a peer, of \<open>exchange_lsp_array\<close>. \<open>chassis_array\<close> starts with the row of
  the flow-based tunnel, which no entity owns.
\<close>

record facts =
  lsp_array :: "lsp_row list"
  exchange_lsp_array :: "lsp_row list"
  lrp_array :: "lrp_row list"
  u_lr_array :: "lr_row list"  \<comment> \<open>\<open>_lr_array\<close>\<close>
  lroute_array :: "lsr_row list"
  lnat_array :: "lnat_row list"
  ls_array :: "ls_row list"
  chassis_array :: "pch_row list"
  ovsport :: "ovsport_row list"
  ovsport_chassis :: "ovsport_row list"
  local_system_id :: "string list"

abbreviation (input) TP_FLOW_TUNNEL_NAME :: string where
  "TP_FLOW_TUNNEL_NAME \<equiv> ''flow_base_tunnel''"

definition flow_tunnel_row :: pch_row where
  "flow_tunnel_row =
     \<lparr>PCH_UUID = TP_FLOW_TUNNEL_NAME, PCH_IP = [], PCH_TICK = 0, PCH_State = 0\<rparr>"

definition init_facts :: "string list \<Rightarrow> facts" where
  "init_facts ids =
     \<lparr>lsp_array = [], exchange_lsp_array = [], lrp_array = [], u_lr_array = [], lroute_array = [],
      lnat_array = [], ls_array = [], chassis_array = [flow_tunnel_row], ovsport = [],
      ovsport_chassis = [], local_system_id = ids\<rparr>"

text \<open>What \<open>add_clause\<close> and \<open>del_clause\<close> of each class assert and retract of an entity that is touched.\<close>

definition lsp_add_clause :: "lsp_row \<Rightarrow> facts \<Rightarrow> facts" where
  "lsp_add_clause r f =
     (if LSP_PEER r = None then f\<lparr>lsp_array := List.insert r (lsp_array f)\<rparr>
      else f\<lparr>exchange_lsp_array := List.insert r (exchange_lsp_array f)\<rparr>)"

definition lrp_add_clause :: "lrp_row \<Rightarrow> facts \<Rightarrow> facts" where
  "lrp_add_clause r f = f\<lparr>lrp_array := List.insert r (lrp_array f)\<rparr>"

definition lr_add_clause :: "lr_row \<Rightarrow> facts \<Rightarrow> facts" where
  "lr_add_clause r f = f\<lparr>u_lr_array := List.insert r (u_lr_array f)\<rparr>"

definition lsr_add_clause :: "lsr_row \<Rightarrow> facts \<Rightarrow> facts" where
  "lsr_add_clause r f = f\<lparr>lroute_array := List.insert r (lroute_array f)\<rparr>"

definition lnat_add_clause :: "lnat_row \<Rightarrow> facts \<Rightarrow> facts" where
  "lnat_add_clause r f = f\<lparr>lnat_array := List.insert r (lnat_array f)\<rparr>"

definition ls_add_clause :: "ls_row \<Rightarrow> facts \<Rightarrow> facts" where
  "ls_add_clause r f = f\<lparr>ls_array := List.insert r (ls_array f)\<rparr>"

definition chassis_add_clause :: "pch_row \<Rightarrow> facts \<Rightarrow> facts" where
  "chassis_add_clause r f = f\<lparr>chassis_array := List.insert r (chassis_array f)\<rparr>"

definition ovsport_add_clause :: "bool \<Rightarrow> ovsport_row \<Rightarrow> facts \<Rightarrow> facts" where
  "ovsport_add_clause is_remote r f =
     (if is_remote then f\<lparr>ovsport_chassis := List.insert r (ovsport_chassis f)\<rparr>
      else f\<lparr>ovsport := List.insert r (ovsport f)\<rparr>)"

definition lsp_del_clause :: "lsp_row \<Rightarrow> facts \<Rightarrow> facts" where
  "lsp_del_clause r f =
     (if LSP_PEER r = None then f\<lparr>lsp_array := removeAll r (lsp_array f)\<rparr>
      else f\<lparr>exchange_lsp_array := removeAll r (exchange_lsp_array f)\<rparr>)"

definition lrp_del_clause :: "lrp_row \<Rightarrow> facts \<Rightarrow> facts" where
  "lrp_del_clause r f = f\<lparr>lrp_array := removeAll r (lrp_array f)\<rparr>"

definition lr_del_clause :: "lr_row \<Rightarrow> facts \<Rightarrow> facts" where
  "lr_del_clause r f = f\<lparr>u_lr_array := removeAll r (u_lr_array f)\<rparr>"

definition lsr_del_clause :: "lsr_row \<Rightarrow> facts \<Rightarrow> facts" where
  "lsr_del_clause r f = f\<lparr>lroute_array := removeAll r (lroute_array f)\<rparr>"

definition lnat_del_clause :: "lnat_row \<Rightarrow> facts \<Rightarrow> facts" where
  "lnat_del_clause r f = f\<lparr>lnat_array := removeAll r (lnat_array f)\<rparr>"

definition ls_del_clause :: "ls_row \<Rightarrow> facts \<Rightarrow> facts" where
  "ls_del_clause r f = f\<lparr>ls_array := removeAll r (ls_array f)\<rparr>"

definition chassis_del_clause :: "pch_row \<Rightarrow> facts \<Rightarrow> facts" where
  "chassis_del_clause r f = f\<lparr>chassis_array := removeAll r (chassis_array f)\<rparr>"

definition ovsport_del_clause :: "bool \<Rightarrow> ovsport_row \<Rightarrow> facts \<Rightarrow> facts" where
  "ovsport_del_clause is_remote r f =
     (if is_remote then f\<lparr>ovsport_chassis := removeAll r (ovsport_chassis f)\<rparr>
      else f\<lparr>ovsport := removeAll r (ovsport f)\<rparr>)"

lemmas clause_defs [simp] =
  lsp_add_clause_def lrp_add_clause_def lr_add_clause_def lsr_add_clause_def
  lnat_add_clause_def ls_add_clause_def chassis_add_clause_def ovsport_add_clause_def
  lsp_del_clause_def lrp_del_clause_def lr_del_clause_def lsr_del_clause_def
  lnat_del_clause_def ls_del_clause_def chassis_del_clause_def ovsport_del_clause_def

fun fact_add :: "body \<Rightarrow> facts \<Rightarrow> facts" where
  "fact_add (BLsp r) = lsp_add_clause r"
| "fact_add (BLrp r) = lrp_add_clause r"
| "fact_add (BLr r) = lr_add_clause r"
| "fact_add (BLsr r) = lsr_add_clause r"
| "fact_add (BLnat r) = lnat_add_clause r"
| "fact_add (BLs r) = ls_add_clause r"
| "fact_add (BChassis r) = chassis_add_clause r"
| "fact_add (BOvsport is_remote r) = ovsport_add_clause is_remote r"

fun fact_del :: "body \<Rightarrow> facts \<Rightarrow> facts" where
  "fact_del (BLsp r) = lsp_del_clause r"
| "fact_del (BLrp r) = lrp_del_clause r"
| "fact_del (BLr r) = lr_del_clause r"
| "fact_del (BLsr r) = lsr_del_clause r"
| "fact_del (BLnat r) = lnat_del_clause r"
| "fact_del (BLs r) = ls_del_clause r"
| "fact_del (BChassis r) = chassis_del_clause r"
| "fact_del (BOvsport is_remote r) = ovsport_del_clause is_remote r"

fun facts_has :: "facts \<Rightarrow> body \<Rightarrow> bool" where
  "facts_has f (BLsp r) =
     (if LSP_PEER r = None then r \<in> set (lsp_array f) else r \<in> set (exchange_lsp_array f))"
| "facts_has f (BLrp r) = (r \<in> set (lrp_array f))"
| "facts_has f (BLr r) = (r \<in> set (u_lr_array f))"
| "facts_has f (BLsr r) = (r \<in> set (lroute_array f))"
| "facts_has f (BLnat r) = (r \<in> set (lnat_array f))"
| "facts_has f (BLs r) = (r \<in> set (ls_array f))"
| "facts_has f (BChassis r) = (r \<in> set (chassis_array f))"
| "facts_has f (BOvsport remote r) =
     (if remote then r \<in> set (ovsport_chassis f) else r \<in> set (ovsport f))"

definition fact_set :: "facts \<Rightarrow> body set" where
  "fact_set f = {b. facts_has f b}"

text \<open>
  The interface: a store of rows with assertion and retraction, seen as a set. What marking an
  entity, touching it or eliminating it does to the set is proved here once.
\<close>

locale fact_store =
  fixes assert_row :: "'r \<Rightarrow> 'f \<Rightarrow> 'f" and retract :: "'r \<Rightarrow> 'f \<Rightarrow> 'f" and view :: "'f \<Rightarrow> 'r set"
  assumes view_assert: "view (assert_row r f) = insert r (view f)"
    and view_retract: "view (retract r f) = view f - {r}"
begin

lemma replace_view:
  assumes "view f = insert old R" and "old \<notin> R"
  shows "view (assert_row new (retract old f)) = insert new R"
  using assms by (auto simp: view_assert view_retract)

lemma retract_all_view:
  "view (fold retract rs f) = view f - set rs"
  by (induction rs arbitrary: f) (auto simp: view_retract)

lemma assert_all_view:
  "view (fold assert_row rs f) = set rs \<union> view f"
  by (induction rs arbitrary: f) (auto simp: view_assert)

end

lemma fact_set_add: "fact_set (fact_add b f) = insert b (fact_set f)"
proof -
  have "facts_has (fact_add b f) c \<longleftrightarrow> c = b \<or> facts_has f c" for c
    by (cases b; cases c; auto)
  then show ?thesis by (auto simp: fact_set_def)
qed

lemma fact_set_del: "fact_set (fact_del b f) = fact_set f - {b}"
proof -
  have "facts_has (fact_del b f) c \<longleftrightarrow> c \<noteq> b \<and> facts_has f c" for c
    by (cases b; cases c; auto)
  then show ?thesis by (auto simp: fact_set_def)
qed

interpretation db: fact_store fact_add fact_del fact_set
  by unfold_locales (simp_all add: fact_set_add fact_set_del)

lemma local_system_id_fact [simp]:
  "local_system_id (fact_add b f) = local_system_id f"
  "local_system_id (fact_del b f) = local_system_id f"
  by (cases b; simp)+

lemma fact_set_init: "fact_set (init_facts ids) = {BChassis flow_tunnel_row}"
proof -
  have "facts_has (init_facts ids) c \<longleftrightarrow> c = BChassis flow_tunnel_row" for c
    by (cases c) (auto simp: init_facts_def)
  then show ?thesis by (auto simp: fact_set_def)
qed

section \<open>Methods of the entities\<close>

text \<open>
  The classes that have \<open>touched\<close> test it in both clauses; in the others it is always true and
  \<open>touch\<close> does not exist (calling it raises an exception that \<open>touch_entity\<close> swallows).
\<close>

definition add_clause :: "entity \<Rightarrow> facts \<Rightarrow> facts" where
  "add_clause e f = (if touched e then fact_add (body e) f else f)"

definition del_clause :: "entity \<Rightarrow> facts \<Rightarrow> facts" where
  "del_clause e f = (if touched e then fact_del (body e) f else f)"

definition update_dup_data :: "entity \<Rightarrow> entity" where
  "update_dup_data e = e\<lparr>body := set_state (state e) (body e)\<rparr>"

definition populate :: "entity \<Rightarrow> facts \<Rightarrow> entity \<times> facts" where
  "populate e f =
     (if populated e then (e, f)
      else let e' = update_dup_data e in (e'\<lparr>populated := True\<rparr>, add_clause e' f))"

definition mark :: "int \<Rightarrow> entity \<Rightarrow> facts \<Rightarrow> entity \<times> facts" where
  "mark event e f =
     (let e1 = e\<lparr>state := event\<rparr>; f1 = del_clause e1 f; e2 = update_dup_data e1
      in (e2, add_clause e2 f1))"

definition touch :: "entity \<Rightarrow> facts \<Rightarrow> entity \<times> facts" where
  "touch e f =
     (if touched e then (e, f)
      else let e' = update_dup_data (e\<lparr>touched := True, state := State_ADD\<rparr>)
           in (e', add_clause e' f))"

definition eliminate :: "entity \<Rightarrow> facts \<times> ilk_group \<Rightarrow> (facts \<times> ilk_group) option" where
  "eliminate e s =
     (case s of (f, g) \<Rightarrow>
        (case body_ilk (body e) of
           None \<Rightarrow> Some (del_clause e f, g)
         | Some (key, idx) \<Rightarrow> map_option (\<lambda>g'. (del_clause e f, g')) (free_ilk_idx g key idx)))"

section \<open>The zoo\<close>

record zoo =
  entity_set :: "etype \<Rightarrow> (string \<times> entity) list"
  entity_sink_set :: "etype \<Rightarrow> (string \<times> entity list) list"
  entity_idxmap :: "idx_key \<times> string \<Rightarrow> (etype \<times> string) option"
  zoo_ver :: nat
  db :: facts
  ilk :: ilk_group

definition init_zoo :: "string list \<Rightarrow> zoo" where
  "init_zoo ids =
     \<lparr>entity_set = (\<lambda>_. []), entity_sink_set = (\<lambda>_. []), entity_idxmap = (\<lambda>_. None), zoo_ver = 0,
      db = init_facts ids, ilk = (\<lambda>_. None)\<rparr>"

text \<open>
  \<open>_insert_entity_idxmap\<close> registers the keys one after the other and stops at the first that is
  taken: the keys before it stay registered. The entity that holds a key is named by its type and
  uuid; it is only ever logged.
\<close>

fun insert_keys :: "(idx_key \<times> string) list \<Rightarrow> etype \<times> string \<Rightarrow>
    (idx_key \<times> string \<Rightarrow> (etype \<times> string) option) \<Rightarrow>
    bool \<times> (idx_key \<times> string \<Rightarrow> (etype \<times> string) option)" where
  "insert_keys [] e m = (True, m)"
| "insert_keys (kv # kvs) e m = (if m kv \<noteq> None then (False, m) else insert_keys kvs e (m(kv \<mapsto> e)))"

definition insert_entity_idxmap :: "entity \<Rightarrow> zoo \<Rightarrow> bool \<times> zoo" where
  "insert_entity_idxmap e z =
     (case insert_keys (uniq_keys (body e)) (body_etype (body e), body_uuid (body e))
             (entity_idxmap z) of
        (ok, m) \<Rightarrow> (ok, z\<lparr>entity_idxmap := m\<rparr>))"

text \<open>\<open>_del_entity_idxmap\<close> stops at the first key that is not registered.\<close>

fun del_keys :: "(idx_key \<times> string) list \<Rightarrow> (idx_key \<times> string \<Rightarrow> (etype \<times> string) option) \<Rightarrow>
    (idx_key \<times> string \<Rightarrow> (etype \<times> string) option)" where
  "del_keys [] m = m"
| "del_keys (kv # kvs) m = (if m kv = None then m else del_keys kvs (m(kv := None)))"

definition del_entity_idxmap :: "entity \<Rightarrow> zoo \<Rightarrow> zoo" where
  "del_entity_idxmap e z = z\<lparr>entity_idxmap := del_keys (uniq_keys (body e)) (entity_idxmap z)\<rparr>"

definition sink_append :: "string \<Rightarrow> entity \<Rightarrow> (string \<times> entity list) list \<Rightarrow>
    (string \<times> entity list) list" where
  "sink_append key e g =
     (case map_of g key of
        Some es \<Rightarrow> AList.update key (es @ [e]) g
      | None \<Rightarrow> AList.update key [e] g)"

definition move_entity2sink :: "etype \<Rightarrow> string \<Rightarrow> zoo \<Rightarrow> zoo" where
  "move_entity2sink t key z =
     (case map_of (entity_set z t) key of
        None \<Rightarrow> z
      | Some e \<Rightarrow>
          (case mark State_DEL e (db z) of (e', f) \<Rightarrow>
             (let z1 = z\<lparr>entity_set := (entity_set z)(t := AList.delete key (entity_set z t)),
                         entity_sink_set :=
                           (entity_sink_set z)(t := sink_append key e' (entity_sink_set z t)),
                         db := f\<rparr>;
                  z2 = del_entity_idxmap e' z1
              in z2\<lparr>zoo_ver := zoo_ver z2 + 1\<rparr>)))"

text \<open>\<open>_add_entity_in_zoo\<close>: true when the entity is in the zoo afterwards.\<close>

definition add_entity_in_zoo :: "etype \<Rightarrow> entity \<Rightarrow> zoo \<Rightarrow> bool \<times> zoo" where
  "add_entity_in_zoo t e z =
     (let uuid = body_uuid (body e);
          z1 = (if map_of (entity_set z t) uuid \<noteq> None then move_entity2sink t uuid z else z)
      in case insert_entity_idxmap e z1 of
           (False, z2) \<Rightarrow> (False, z2)
         | (True, z2) \<Rightarrow>
             (True, z2\<lparr>entity_set := (entity_set z2)(t := AList.update uuid e (entity_set z2 t)),
                       zoo_ver := zoo_ver z2 + 1\<rparr>))"

text \<open>Replacing the object stored at a key by its new state, and the facts with it.\<close>

definition put_entity :: "etype \<Rightarrow> string \<Rightarrow> entity \<times> facts \<Rightarrow> zoo \<Rightarrow> zoo" where
  "put_entity t key ef z =
     z\<lparr>entity_set := (entity_set z)(t := AList.update key (fst ef) (entity_set z t)),
       db := snd ef\<rparr>"

definition touch_key :: "etype \<Rightarrow> string \<Rightarrow> zoo \<Rightarrow> zoo" where
  "touch_key t key z =
     (case map_of (entity_set z t) key of
        None \<Rightarrow> z
      | Some e \<Rightarrow> put_entity t key (touch e (db z)) z)"

fun body_chassis :: "body \<Rightarrow> string option" where
  "body_chassis (BLr r) = LR_CHASSIS_UUID r"
| "body_chassis (BLsp r) = LSP_CHASSIS_UUID r"
| "body_chassis _ = None"

definition touch_gateway_by_LR :: "body \<Rightarrow> zoo \<Rightarrow> zoo" where
  "touch_gateway_by_LR lr z =
     (case body_chassis lr of None \<Rightarrow> z | Some ch \<Rightarrow> touch_key CHASSIS ch z)"

definition touch_gateway_by_chassis :: "string \<Rightarrow> zoo \<Rightarrow> zoo" where
  "touch_gateway_by_chassis uuid z =
     fold (\<lambda>(_, lr) z. if body_chassis (body lr) = Some uuid then touch_key CHASSIS uuid z else z)
       (entity_set z LR) z"

text \<open>
  \<open>add_entity\<close>. The result is \<open>None\<close> when \<open>is_same\<close> raises, which leaves the zoo as it is; an
  exception of the constructor is caught.
\<close>

definition existing_is_same :: "props \<Rightarrow> zoo \<Rightarrow> bool option" where
  "existing_is_same p z =
     (case map_of (entity_set z (props_etype p)) (props_uuid p) of
        None \<Rightarrow> Some False
      | Some e \<Rightarrow> is_same (body e) p)"

definition after_add :: "env \<Rightarrow> entity \<Rightarrow> zoo \<Rightarrow> zoo" where
  "after_add env e z =
     (if \<not> ONDEMAND (opts env) then z
      else (case body e of
              BLr r \<Rightarrow> touch_gateway_by_LR (body e) z
            | BChassis r \<Rightarrow> touch_gateway_by_chassis (PCH_UUID r) z
            | _ \<Rightarrow> z))"

definition add_new_entity :: "env \<Rightarrow> etype \<Rightarrow> entity \<Rightarrow> zoo \<Rightarrow> zoo" where
  "add_new_entity env t e z =
     (case add_entity_in_zoo t e z of
        (False, z1) \<Rightarrow> z1
      | (True, z1) \<Rightarrow> after_add env e (put_entity t (body_uuid (body e)) (populate e (db z1)) z1))"

definition add_entity :: "env \<Rightarrow> props \<Rightarrow> zoo \<Rightarrow> zoo option" where
  "add_entity env p z =
     (case existing_is_same p z of
        None \<Rightarrow> None
      | Some True \<Rightarrow> Some z
      | Some False \<Rightarrow>
          (case make_entity env (ilk z) p of
             None \<Rightarrow> Some z
           | Some (e, g) \<Rightarrow> Some (add_new_entity env (props_etype p) e (z\<lparr>ilk := g\<rparr>))))"

text \<open>
  \<open>_convert_kv2entity\<close>: the path ends in \<open>parent/type/id\<close>, and the arguments are picked in the
  order of \<open>property_keys\<close>. \<open>path[-3]\<close> raises when the path is too short; an OVS port has no
  \<open>property_keys\<close>. Every exception is caught.
\<close>

type_synonym value_set = "(string \<times> string) list"

definition parent_id :: "string list \<Rightarrow> string option" where
  "parent_id path = (if length path < 3 then None else Some (path ! (length path - 3)))"

definition kv_props :: "etype \<Rightarrow> string list \<Rightarrow> value_set \<Rightarrow> props option" where
  "kv_props t path properties =
     (let entity_id = last path; get = map_of properties in
      case t of
        LSP \<Rightarrow> map_option (\<lambda>parent.
          P_lsp entity_id (get ''ip'') (get ''mac'') parent (get ''chassis'') (get ''peer''))
          (parent_id path)
      | LRP \<Rightarrow> map_option (\<lambda>parent.
          P_lrp entity_id (get ''ip'') (get ''prefix'') (get ''mac'') parent (get ''peer''))
          (parent_id path)
      | LSR \<Rightarrow> map_option (\<lambda>parent.
          P_lsr entity_id (get ''ip'') (get ''prefix'') (get ''next_hop'') (get ''outport'') parent)
          (parent_id path)
      | LNAT \<Rightarrow> map_option (\<lambda>parent.
          P_lnat entity_id (get ''ip'') (get ''prefix'') (get ''xlate_ip'') (get ''xlate_type'')
            parent) (parent_id path)
      | CHASSIS \<Rightarrow> Some (P_chassis entity_id (get ''ip'') (get ''tick''))
      | LS \<Rightarrow> Some (P_LS entity_id (get ''id''))
      | LR \<Rightarrow> Some (P_LR entity_id (get ''id'') (get ''chassis''))
      | OVSPORT \<Rightarrow> None
      | OVSPORT_CHASSIS \<Rightarrow> None)"

definition convert_kv2entity :: "env \<Rightarrow> etype \<Rightarrow> string list \<Rightarrow> value_set \<Rightarrow> zoo \<Rightarrow> zoo" where
  "convert_kv2entity env t path properties z =
     (case kv_props t path properties of
        None \<Rightarrow> z
      | Some p \<Rightarrow> (case add_entity env p z of None \<Rightarrow> z | Some z' \<Rightarrow> z'))"

definition convert_pool2entity :: "env \<Rightarrow> etype \<Rightarrow> (string \<times> value_set) list \<Rightarrow> zoo \<Rightarrow> zoo" where
  "convert_pool2entity env t add_pool z =
     fold (\<lambda>(path, vs). convert_kv2entity env t (split_on CHR ''/'' path) vs) add_pool z"

definition has_entity :: "etype \<Rightarrow> string \<Rightarrow> zoo \<Rightarrow> bool option" where
  "has_entity t key z = None"  \<comment> \<open>the global \<open>entity_set\<close> it reads does not exist\<close>

definition move_entity2sink_by_pool :: "etype \<Rightarrow> (string \<times> value_set) list \<Rightarrow> zoo \<Rightarrow> zoo" where
  "move_entity2sink_by_pool t del_pool z =
     fold (\<lambda>(path, _). move_entity2sink t (last (split_on CHR ''/'' path))) del_pool z"

definition move_all_entity2sink :: "etype list \<Rightarrow> zoo \<Rightarrow> zoo" where
  "move_all_entity2sink exclude z =
     fold (\<lambda>t z. if t \<in> set exclude then z
                 else fold (move_entity2sink t) (map fst (entity_set z t)) z)
       logical_entity_types z"

text \<open>
  \<open>touch_entity\<close>: \<open>fn\<close> picks the objects from the group, named here by their keys; its exceptions
  are caught in \<open>get_entity_by_fn\<close> and give the empty array.
\<close>

definition get_entity_by_fn :: "etype \<Rightarrow> ((string \<times> entity) list \<Rightarrow> string list option) \<Rightarrow> zoo \<Rightarrow>
    string list" where
  "get_entity_by_fn t fn z = (case fn (entity_set z t) of None \<Rightarrow> [] | Some ks \<Rightarrow> ks)"

definition touch_entity :: "etype \<Rightarrow> ((string \<times> entity) list \<Rightarrow> string list option) \<Rightarrow> zoo \<Rightarrow>
    string list \<times> zoo" where
  "touch_entity t fn z =
     (let array = get_entity_by_fn t fn z in (array, fold (touch_key t) array z))"

text \<open>\<open>sweep_zoo\<close>.\<close>

fun eliminate_all :: "entity list \<Rightarrow> facts \<times> ilk_group \<Rightarrow> (facts \<times> ilk_group) option" where
  "eliminate_all [] s = Some s"
| "eliminate_all (e # es) s = Option.bind (eliminate e s) (eliminate_all es)"

definition sink_entities :: "zoo \<Rightarrow> etype \<Rightarrow> entity list" where
  "sink_entities z t = concat (map snd (entity_sink_set z t))"

definition clean_sink :: "zoo \<Rightarrow> zoo option" where
  "clean_sink z =
     map_option (\<lambda>(f, g). z\<lparr>entity_sink_set := (\<lambda>_. []), db := f, ilk := g\<rparr>)
       (eliminate_all (concat (map (sink_entities z) logical_entity_types)) (db z, ilk z))"

definition sweep_key :: "etype \<Rightarrow> string \<Rightarrow> zoo \<Rightarrow> zoo" where
  "sweep_key t key z =
     (case map_of (entity_set z t) key of
        None \<Rightarrow> z
      | Some e \<Rightarrow>
          if state e = State_ADD then put_entity t key (mark State_NO e (db z)) z else z)"

definition sweep_entity_set :: "zoo \<Rightarrow> zoo" where
  "sweep_entity_set z =
     fold (\<lambda>t z. fold (sweep_key t) (map fst (entity_set z t)) z) logical_entity_types z"

definition sweep_zoo :: "zoo \<Rightarrow> zoo option" where
  "sweep_zoo z = map_option sweep_entity_set (clean_sink z)"

definition update_version_force :: "zoo \<Rightarrow> zoo" where
  "update_version_force z = z\<lparr>zoo_ver := zoo_ver z + 1\<rparr>"

end
