(* ===== verification/View_Rules.thy ===== *)
theory View_Rules imports Zoo begin

text \<open>
  The Datalog rules of \<open>init_entity_clause\<close> in \<open>lcp/logicalview.py\<close>. The answer of a predicate is
  the set of tuples its clauses derive; here it is a list, read as a set, with one list
  comprehension per clause, whose generators are the facts of the body and whose guards are the
  variables they share. A tuple is a pair of its data and its \<open>State\<close>. Columns that repeat a field
  of a row (\<open>UUID_LS\<close>, \<open>UUID_LR\<close>, \<open>UUID_LR_CHASSIS\<close>) are read off the row. \<open>LSP + [OFPORT]\<close>, a
  row extended by a port number, is a pair.
\<close>

type_synonym 'a rel = "('a \<times> int) list"

section \<open>Ports of this host\<close>

text \<open>\<open>local_patchport\<close>: the port of a patch to another bridge, which has a special address.\<close>

definition local_patchport :: "facts \<Rightarrow> ((lsp_row \<times> int) \<times> ls_row) rel" where
  "local_patchport f =
     [(((lsp, OVSPORT_OFPORT p), ls), OVSPORT_State p + LS_State ls + LSP_State lsp).
        p \<leftarrow> ovsport f, OVSPORT_OFPORT p > 0,
        ls \<leftarrow> ls_array f,
        uuid_chassis \<leftarrow> local_system_id f,
        lsp \<leftarrow> exchange_lsp_array f,
        LSP_UUID lsp = OVSPORT_IFACE_ID p \<and> LSP_LS_UUID lsp = LS_UUID ls \<and>
        LSP_CHASSIS_UUID lsp = Some uuid_chassis \<and> LSP_IP lsp = ''255.255.255.255'']"

definition local_bond_lsp :: "facts \<Rightarrow> ((lsp_row \<times> int) \<times> ls_row) rel" where
  "local_bond_lsp f =
     [(((lsp, OVSPORT_OFPORT p), ls), OVSPORT_State p + LS_State ls + LSP_State lsp).
        p \<leftarrow> ovsport f, OVSPORT_OFPORT p > 0,
        ls \<leftarrow> ls_array f,
        uuid_chassis \<leftarrow> local_system_id f,
        lsp \<leftarrow> lsp_array f,
        LSP_UUID lsp = OVSPORT_IFACE_ID p \<and> LSP_LS_UUID lsp = LS_UUID ls \<and>
        LSP_CHASSIS_UUID lsp = Some uuid_chassis] @
     local_patchport f"

section \<open>Routers and chassis\<close>

text \<open>
  \<open>lr_array\<close>: a router that is pinned on no chassis, one pinned on another chassis that exists,
  and one pinned on this host.
\<close>

definition lr_array :: "facts \<Rightarrow> lr_row rel" where
  "lr_array f =
     [(lr, LR_State lr). lr \<leftarrow> u_lr_array f, LR_CHASSIS_UUID lr = None] @
     [(lr, LR_State lr + PCH_State ch).
        lr \<leftarrow> u_lr_array f, LR_CHASSIS_UUID lr \<noteq> None,
        uuid_chassis \<leftarrow> local_system_id f, LR_CHASSIS_UUID lr \<noteq> Some uuid_chassis,
        ch \<leftarrow> chassis_array f, LR_CHASSIS_UUID lr = Some (PCH_UUID ch)] @
     [(lr, LR_State lr).
        uuid_chassis \<leftarrow> local_system_id f,
        lr \<leftarrow> u_lr_array f, LR_CHASSIS_UUID lr = Some uuid_chassis]"

definition remote_chassis :: "facts \<Rightarrow> (pch_row \<times> int) rel" where
  "remote_chassis f =
     [((ch, OVSPORT_OFPORT p), OVSPORT_State p + PCH_State ch).
        p \<leftarrow> ovsport_chassis f, OVSPORT_OFPORT p > 0,
        ch \<leftarrow> chassis_array f, PCH_UUID ch = OVSPORT_IFACE_ID p]"

section \<open>Links between switches and routers\<close>

definition lsp_link_lrp :: "facts \<Rightarrow> (lsp_row \<times> ls_row \<times> lrp_row \<times> lr_row) rel" where
  "lsp_link_lrp f =
     [((lsp, ls, lrp, lr), LRP_State lrp + LSP_State lsp + LS_State ls + state4).
        lrp \<leftarrow> lrp_array f,
        lsp \<leftarrow> exchange_lsp_array f,
        LRP_PEER lrp = Some (LSP_UUID lsp) \<and> LSP_PEER lsp = Some (LRP_UUID lrp),
        ls \<leftarrow> ls_array f, LS_UUID ls = LSP_LS_UUID lsp,
        (lr, state4) \<leftarrow> lr_array f, LR_UUID lr = LRP_LR_UUID lrp]"

text \<open>
  \<open>local_lsp\<close>: the third clause derives a row extended by its port, which no user of the
  predicate reads.
\<close>

definition local_lsp :: "facts \<Rightarrow> (lsp_row \<times> ls_row) rel" where
  "local_lsp f =
     [((lsp, ls), s). ((lsp, ls, lrp, lr), s) \<leftarrow> lsp_link_lrp f, LR_CHASSIS_UUID lr = None] @
     [((lsp, ls), s).
        uuid_lr_chassis \<leftarrow> local_system_id f,
        ((lsp, ls, lrp, lr), s) \<leftarrow> lsp_link_lrp f,
        LR_CHASSIS_UUID lr = Some uuid_lr_chassis] @
     [((lsp, ls), s). (((lsp, ofport), ls), s) \<leftarrow> local_bond_lsp f]"

definition active_lsp :: "facts \<Rightarrow> (lsp_row \<times> ls_row) rel" where
  "active_lsp f =
     [((lsp, ls), LS_State ls + LSP_State lsp + PCH_State ch).
        ls \<leftarrow> ls_array f,
        lsp \<leftarrow> lsp_array f, LSP_LS_UUID lsp = LS_UUID ls,
        ch \<leftarrow> chassis_array f, LSP_CHASSIS_UUID lsp = Some (PCH_UUID ch)] @
     [((lsp, ls), s). ((lsp, ls, lrp, lr), s) \<leftarrow> lsp_link_lrp f]"

definition remote_lsp :: "facts \<Rightarrow> (lsp_row \<times> ls_row \<times> pch_row \<times> int) rel" where
  "remote_lsp f =
     [((lsp, ls, ch, ofport), state1 + LSP_State lsp + LS_State ls).
        ((ch, ofport), state1) \<leftarrow> remote_chassis f,
        lsp \<leftarrow> lsp_array f, LSP_CHASSIS_UUID lsp = Some (PCH_UUID ch),
        ls \<leftarrow> ls_array f, LS_UUID ls = LSP_LS_UUID lsp] @
     [((lsp, ls, ch, ofport), state1 + state2).
        ((lsp, ls, lrp, lr), state1) \<leftarrow> lsp_link_lrp f,
        ((ch, ofport), state2) \<leftarrow> remote_chassis f, LR_CHASSIS_UUID lr = Some (PCH_UUID ch)]"

section \<open>Next hops\<close>

text \<open>
  \<open>next_hop_lr\<close>: two routers with ports on one switch. The first two are the row of the port and of
  its router, the third the router at the other end.
\<close>

definition next_hop_lr :: "facts \<Rightarrow> (lrp_row \<times> lr_row \<times> lr_row) rel" where
  "next_hop_lr f =
     [((lrp, lr, lr_next), LRP_State lrp + LSP_State lsp1 + LSP_State lsp2 + LRP_State lrp2 +
         state5 + state6).
        lrp \<leftarrow> lrp_array f,
        lsp1 \<leftarrow> exchange_lsp_array f,
        LRP_PEER lrp = Some (LSP_UUID lsp1) \<and> LSP_PEER lsp1 = Some (LRP_UUID lrp),
        lsp2 \<leftarrow> exchange_lsp_array f, LSP_LS_UUID lsp2 = LSP_LS_UUID lsp1,
        lrp2 \<leftarrow> lrp_array f,
        LRP_PEER lrp2 = Some (LSP_UUID lsp2) \<and> LSP_PEER lsp2 = Some (LRP_UUID lrp2) \<and>
        LRP_LR_UUID lrp \<noteq> LRP_LR_UUID lrp2,
        (lr_next, state5) \<leftarrow> lr_array f, LR_UUID lr_next = LRP_LR_UUID lrp2,
        (lr, state6) \<leftarrow> lr_array f, LR_UUID lr = LRP_LR_UUID lrp]"

text \<open>\<open>next_hop_ovsport\<close>: the uuid of the router port, and the tunnel port to the next router.\<close>

definition next_hop_ovsport :: "facts \<Rightarrow> (string \<times> int) rel" where
  "next_hop_ovsport f =
     [((LRP_UUID lrp, OVSPORT_OFPORT p), state1 + OVSPORT_State p).
        ((lrp, lr, lr_next), state1) \<leftarrow> next_hop_lr f,
        p \<leftarrow> ovsport_chassis f,
        LR_CHASSIS_UUID lr_next = Some (OVSPORT_IFACE_ID p) \<and> OVSPORT_OFPORT p > 0]"

section \<open>NAT\<close>

definition lnat_data :: "facts \<Rightarrow> (lnat_row \<times> lr_row) rel" where
  "lnat_data f =
     [((lnat, lr), state1 + LNAT_State lnat).
        (lr, state1) \<leftarrow> lr_array f,
        lnat \<leftarrow> lnat_array f, LNAT_LR_UUID lnat = LR_UUID lr]"

end
