(* ===== verification/Port_Rules.thy ===== *)
theory Port_Rules imports View_Rules begin

text \<open>
  Which tunnel ports and patch ports to make and remove: \<open>lcp/tunnel.py\<close> and
  \<open>lcp/patchport.py\<close>. A negated literal \<open>~p(X, ...)\<close> says that no fact of \<open>p\<close> has that \<open>X\<close>.
\<close>

section \<open>Tunnels (tunnel.py)\<close>

text \<open>
  \<open>latest_chassis[X] == max_(Y, order_by=Z)\<close>: among the chassis with that IP the one with the greatest
  tick; which one on equal ticks is not specified, here the last.
\<close>

definition latest_chassis :: "facts \<Rightarrow> string \<Rightarrow> pch_row option" where
  "latest_chassis f ip =
     (case filter (\<lambda>ch. PCH_IP ch = ip) (chassis_array f) of
        [] \<Rightarrow> None
      | chs \<Rightarrow> Some (last (sort_key PCH_TICK chs)))"

definition tunnel_port :: "facts \<Rightarrow> pch_row rel" where
  "tunnel_port f =
     [(ch, PCH_State ch).
        ch \<leftarrow> chassis_array f, PCH_State ch \<ge> 0,
        \<not> list_ex (\<lambda>p. OVSPORT_IFACE_ID p = PCH_UUID ch) (ovsport_chassis f),
        PCH_UUID ch \<notin> set (local_system_id f)] @
     [(ch, PCH_State ch).
        ch \<leftarrow> chassis_array f, PCH_State ch \<ge> 0,
        p \<leftarrow> ovsport_chassis f, OVSPORT_IFACE_ID p = PCH_UUID ch \<and> OVSPORT_State p = State_DEL,
        PCH_UUID ch \<notin> set (local_system_id f)] @
     [(ch, State_DEL).
        ch \<leftarrow> chassis_array f, PCH_State ch = State_DEL,
        p \<leftarrow> ovsport_chassis f, OVSPORT_IFACE_ID p = PCH_UUID ch \<and> OVSPORT_State p \<ge> 0,
        PCH_UUID ch \<notin> set (local_system_id f)]"

definition tunnel_port_oper :: "facts \<Rightarrow> (string \<times> string \<times> int) list" where
  "tunnel_port_oper f =
     [(PCH_IP ch, PCH_UUID ch, s).
        (ch, s) \<leftarrow> tunnel_port f, latest_chassis f (PCH_IP ch) = Some ch]"

definition cur_chassis_list :: "facts \<Rightarrow> string list option" where
  "cur_chassis_list f =
     (case [PCH_UUID ch. ch \<leftarrow> chassis_array f, PCH_State ch \<ge> 0] of
        [] \<Rightarrow> None
      | xs \<Rightarrow> Some (sort (remdups xs)))"

definition tunnel_port_delete_exist :: "facts \<Rightarrow> string list" where
  "tunnel_port_delete_exist f =
     [OVSPORT_NAME p.
        p \<leftarrow> ovsport_chassis f, OVSPORT_State p \<ge> 0,
        y \<leftarrow> (case cur_chassis_list f of None \<Rightarrow> [] | Some y \<Rightarrow> [y]),
        OVSPORT_IFACE_ID p \<notin> set y,
        OVSPORT_IFACE_ID p \<notin> set (local_system_id f)]"

section \<open>Patch ports (patchport.py)\<close>

definition patchport_single :: "facts \<Rightarrow> (string \<times> string) rel" where
  "patchport_single f =
     [((LSP_UUID lsp, peer_br), LS_State ls + LSP_State lsp).
        ls \<leftarrow> ls_array f,
        uuid_chassis \<leftarrow> local_system_id f,
        lsp \<leftarrow> exchange_lsp_array f,
        LSP_LS_UUID lsp = LS_UUID ls \<and> LSP_CHASSIS_UUID lsp = Some uuid_chassis \<and>
        LSP_IP lsp = ''255.255.255.255'',
        peer_br \<leftarrow> (case LSP_PEER lsp of None \<Rightarrow> [] | Some b \<Rightarrow> [b])]"

text \<open>Is there an OVS port for this interface, or one that was deleted, or one that still exists?\<close>

definition has_ovsport :: "facts \<Rightarrow> string \<Rightarrow> (int \<Rightarrow> bool) \<Rightarrow> bool" where
  "has_ovsport f iface P \<longleftrightarrow>
     list_ex (\<lambda>p. OVSPORT_IFACE_ID p = iface \<and> P (OVSPORT_State p)) (ovsport f)"

definition patchport_oper :: "facts \<Rightarrow> (string \<times> string \<times> int) list" where
  "patchport_oper f =
     [(lsp, peer_br, s). ((lsp, peer_br), s) \<leftarrow> patchport_single f, s \<ge> 0,
        \<not> has_ovsport f lsp (\<lambda>_. True)] @
     [(lsp, peer_br, s). ((lsp, peer_br), s) \<leftarrow> patchport_single f, s \<ge> 0,
        has_ovsport f lsp (\<lambda>s1. s1 = State_DEL)] @
     [(lsp, peer_br, s). ((lsp, peer_br), s) \<leftarrow> patchport_single f, s \<ge> 0,
        \<not> has_ovsport f (lsp @ ''-peer'') (\<lambda>_. True)] @
     [(lsp, peer_br, s). ((lsp, peer_br), s) \<leftarrow> patchport_single f, s \<ge> 0,
        has_ovsport f (lsp @ ''-peer'') (\<lambda>s1. s1 = State_DEL)] @
     [(lsp, peer_br, s). ((lsp, peer_br), s) \<leftarrow> patchport_single f, s < 0,
        has_ovsport f lsp (\<lambda>s1. s1 \<ge> 0)] @
     [(lsp, peer_br, s). ((lsp, peer_br), s) \<leftarrow> patchport_single f, s < 0,
        has_ovsport f (lsp @ ''-peer'') (\<lambda>s1. s1 \<ge> 0)]"

end
