(* ===== verification/Host.thy ===== *)
theory Host imports Prelude "HOL-Library.State_Monad" begin

text \<open>
  The machine the controller runs on. Processes, files and etcd are outside the repository: they
  are the fields of a \<open>host\<close>, each a computation on a state \<open>'s\<close> of which the model knows nothing. A
  step that may raise returns an \<open>option\<close>.
\<close>

section \<open>The host\<close>

type_synonym ('s, 'a) prog = "('s, 'a option) state"

text \<open>
  \<open>popen\<close>: run a command with this standard input; the raw output, or \<open>None\<close> when the process cannot
  be started or ends with an error. \<open>write_file\<close> and \<open>append_file\<close> tell whether they succeeded,
  \<open>read_file\<close> gives the lines of a file, \<open>None\<close> when there is none, \<open>temp_path\<close> draws a fresh file name.
\<close>

record 's host =
  popen :: "string list \<Rightarrow> string option \<Rightarrow> ('s, string) prog"
  write_file :: "string \<Rightarrow> string \<Rightarrow> ('s, bool) state"
  append_file :: "string \<Rightarrow> string \<Rightarrow> ('s, bool) state"
  remove_file :: "string \<Rightarrow> ('s, bool) state"
  read_file :: "string \<Rightarrow> ('s, string list) prog"
  truncate_file :: "string \<Rightarrow> ('s, bool) state"
  temp_path :: "('s, string) state"

section \<open>Loops\<close>

abbreviation ret :: "'a \<Rightarrow> ('s, 'a) state" where
  "ret \<equiv> State_Monad.return"

primrec retry :: "nat \<Rightarrow> ('s, 'a) prog \<Rightarrow> ('s, 'a) prog" where
  "retry 0 m = ret None"
| "retry (Suc n) m = do { r \<leftarrow> m; (case r of Some x \<Rightarrow> ret (Some x) | None \<Rightarrow> retry n m) }"

text \<open>A loop whose body does not raise, and one that an exception of its body leaves.\<close>

primrec for_each :: "('a \<Rightarrow> ('s, unit) state) \<Rightarrow> 'a list \<Rightarrow> ('s, unit) state" where
  "for_each f [] = ret ()"
| "for_each f (x # xs) = do { f x; for_each f xs }"

primrec each_ok :: "('a \<Rightarrow> ('s, 'b) prog) \<Rightarrow> 'a list \<Rightarrow> ('s, unit) prog" where
  "each_ok f [] = ret (Some ())"
| "each_ok f (x # xs) = do { r \<leftarrow> f x; (case r of None \<Rightarrow> ret None | Some _ \<Rightarrow> each_ok f xs) }"

text \<open>A loop that catches the exceptions of its body and counts the turns without one.\<close>

primrec count_ok :: "('a \<Rightarrow> ('s, 'b) prog) \<Rightarrow> 'a list \<Rightarrow> ('s, nat) state" where
  "count_ok f [] = ret 0"
| "count_ok f (x # xs) =
     do { r \<leftarrow> f x; n \<leftarrow> count_ok f xs; ret (if r = None then n else n + 1) }"

section \<open>What a computation keeps\<close>

text \<open>\<open>keeps P m\<close>: the computation \<open>m\<close> leaves every state with \<open>P\<close> in one with \<open>P\<close>.\<close>

definition keeps :: "('s \<Rightarrow> bool) \<Rightarrow> ('s, 'a) state \<Rightarrow> bool" where
  "keeps P m \<longleftrightarrow> (\<forall>s. P s \<longrightarrow> P (snd (run_state m s)))"

named_theorems keeps_intro "rules for computations that keep a predicate of the state"

lemma keepsD: "keeps P m \<Longrightarrow> P s \<Longrightarrow> run_state m s = (x, s') \<Longrightarrow> P s'"
  by (metis keeps_def snd_conv)

lemma keeps_return [keeps_intro]: "keeps P (ret x)"
  by (simp add: keeps_def)

lemma keeps_bind [keeps_intro]: "keeps P m \<Longrightarrow> (\<And>x. keeps P (f x)) \<Longrightarrow> keeps P (State_Monad.bind m f)"
  by (auto simp: keeps_def split: prod.splits)

lemma keeps_option [keeps_intro]:
  "(r = None \<Longrightarrow> keeps P m) \<Longrightarrow> (\<And>x. r = Some x \<Longrightarrow> keeps P (f x)) \<Longrightarrow>
     keeps P (case r of None \<Rightarrow> m | Some x \<Rightarrow> f x)"
  by (cases r) simp_all

lemma keeps_if [keeps_intro]: "(b \<Longrightarrow> keeps P m) \<Longrightarrow> (\<not> b \<Longrightarrow> keeps P m') \<Longrightarrow> keeps P (if b then m else m')"
  by simp

lemma keeps_retry [keeps_intro]: "keeps P m \<Longrightarrow> keeps P (retry n m)"
  by (induction n) (simp_all add: keeps_intro)

lemma keeps_for_each [keeps_intro]: "(\<And>x. x \<in> set xs \<Longrightarrow> keeps P (f x)) \<Longrightarrow> keeps P (for_each f xs)"
  by (induction xs) (simp_all add: keeps_intro)

lemma keeps_get [keeps_intro]: "keeps Q State_Monad.get"
  by (simp add: keeps_def)

lemma keeps_update [keeps_intro]: "(\<And>c. Q c \<Longrightarrow> Q (f c)) \<Longrightarrow> keeps Q (State_Monad.update f)"
  by (simp add: keeps_def State_Monad.update_def)

lemma keeps_each_ok [keeps_intro]: "(\<And>x. x \<in> set xs \<Longrightarrow> keeps P (f x)) \<Longrightarrow> keeps P (each_ok f xs)"
  by (induction xs) (auto intro!: keeps_intro)

lemma keeps_count_ok [keeps_intro]: "(\<And>x. x \<in> set xs \<Longrightarrow> keeps P (f x)) \<Longrightarrow> keeps P (count_ok f xs)"
  by (induction xs) (auto intro!: keeps_intro)

text \<open>A successful loop established, for each of its elements, what a successful turn establishes.\<close>

lemma each_ok_all:
  assumes "\<And>x s s' r. x \<in> set xs \<Longrightarrow> run_state (f x) s = (Some r, s') \<Longrightarrow> Q x s'"
    and "\<And>x y. x \<in> set xs \<Longrightarrow> y \<in> set xs \<Longrightarrow> keeps (Q x) (f y)"
    and "run_state (each_ok f xs) s = (Some (), s')"
  shows "\<forall>x \<in> set xs. Q x s'"
  using assms
proof (induction xs arbitrary: s)
  case (Cons x xs)
  obtain r s1 where one: "run_state (f x) s = (Some r, s1)" and rest: "run_state (each_ok f xs) s1 = (Some (), s')"
    using Cons.prems(3) by (auto split: prod.splits option.splits)
  have "Q x s1" by (rule Cons.prems(1) [OF _ one]) simp
  moreover have "keeps (Q x) (each_ok f xs)" using Cons.prems(2) by (auto intro!: keeps_intro)
  ultimately have "Q x s'" using rest keepsD by fastforce
  moreover have "\<forall>y \<in> set xs. Q y s'"
  proof (rule Cons.IH [OF _ _ rest])
    show "Q y s2" if "y \<in> set xs" "run_state (f y) s0 = (Some r, s2)" for y s0 s2 r
      using Cons.prems(1) [OF _ that(2)] that(1) by simp
    show "keeps (Q y) (f z)" if "y \<in> set xs" "z \<in> set xs" for y z
      using Cons.prems(2) that by simp
  qed
  ultimately show ?case by simp
qed simp

lemma count_ok_all:
  assumes "\<And>x s s' r. x \<in> set xs \<Longrightarrow> run_state (f x) s = (Some r, s') \<Longrightarrow> Q x s'"
    and "\<And>x y. x \<in> set xs \<Longrightarrow> y \<in> set xs \<Longrightarrow> keeps (Q x) (f y)"
    and "\<And>x s. x \<in> set xs \<Longrightarrow> fst (run_state (f x) s) \<noteq> None"
  shows "\<forall>x \<in> set xs. Q x (snd (run_state (count_ok f xs) s))"
  using assms
proof (induction xs arbitrary: s)
  case (Cons x xs)
  obtain r s1 where one: "run_state (f x) s = (Some r, s1)"
    using Cons.prems(3) [of x s] by (cases "run_state (f x) s") auto
  have last: "snd (run_state (count_ok f (x # xs)) s) = snd (run_state (count_ok f xs) s1)"
    by (simp add: one split: prod.splits)
  have "Q x s1" by (rule Cons.prems(1) [OF _ one]) simp
  moreover have "keeps (Q x) (count_ok f xs)" using Cons.prems(2) by (auto intro!: keeps_intro)
  ultimately have "Q x (snd (run_state (count_ok f xs) s1))" by (simp add: keeps_def)
  moreover have "\<forall>y \<in> set xs. Q y (snd (run_state (count_ok f xs) s1))"
    by (rule Cons.IH) (use Cons.prems in auto)
  ultimately show ?case by (simp only: last) simp
qed simp

lemma retry_some:
  "run_state (retry n m) s = (Some x, s') \<Longrightarrow> \<exists>s0. run_state m s0 = (Some x, s')"
  by (induction n arbitrary: s) (auto split: prod.splits option.splits)

end
