(* ===== verification/Commit_Ovs.thy ===== *)
theory Commit_Ovs imports Entities Host begin

text \<open>
  \<open>lcp/commit_ovs.py\<close>: the commands the controller runs against Open vSwitch. Every operation takes
  the host as its first argument; logging is left out, and the keywords of a dictionary that
  becomes an argument list come in the order they are written.
\<close>

section \<open>Commands\<close>

definition call_popen :: "'s host \<Rightarrow> string list \<Rightarrow> string option \<Rightarrow> ('s, string) prog" where
  "call_popen H cmd commu = do { output \<leftarrow> popen H cmd commu; ret (map_option py_strip output) }"

text \<open>\<open>call_ovsprog\<close>: three attempts, the exception of the last one is raised.\<close>

definition call_ovsprog :: "'s host \<Rightarrow> string \<Rightarrow> string list \<Rightarrow> string option \<Rightarrow> ('s, string) prog" where
  "call_ovsprog H prog args_list commu =
     retry 3 (call_popen H ([prog, ''--timeout=5''] @ args_list) commu)"

definition ovs_ofctl :: "'s host \<Rightarrow> string list \<Rightarrow> ('s, string) prog" where
  "ovs_ofctl H args = call_ovsprog H ''ovs-ofctl'' args None"

definition ovs_vsctl :: "'s host \<Rightarrow> string list \<Rightarrow> ('s, string) prog" where
  "ovs_vsctl H args = call_ovsprog H ''ovs-vsctl'' args None"

abbreviation newline :: char where
  "newline \<equiv> CHR 0x0A"

abbreviation OPENFLOW_VER :: string where
  "OPENFLOW_VER \<equiv> ''OpenFlow12''"

section \<open>Flows\<close>

text \<open>The slices of 500 flows of a batch.\<close>

definition flow_segs :: "string list \<Rightarrow> string list list" where
  "flow_segs flows = map (\<lambda>k. take 500 (drop (500 * k) flows)) [0..<(length flows + 499) div 500]"

definition aggregate_flows :: "string list \<Rightarrow> string list" where
  "aggregate_flows flows = map (join_with [newline]) (flow_segs flows)"

definition ovs_ofctl_delflows_batch :: "'s host \<Rightarrow> string \<Rightarrow> string list \<Rightarrow> ('s, unit) prog" where
  "ovs_ofctl_delflows_batch H br flows =
     each_ok (\<lambda>flow_combind. call_ovsprog H ''ovs-ofctl''
         [''del-flows'', ''-O'', OPENFLOW_VER, br, ''--strict'', ''-''] (Some flow_combind))
       (aggregate_flows flows)"

definition ovs_ofctl_addflows_batch :: "'s host \<Rightarrow> string \<Rightarrow> string list \<Rightarrow> ('s, unit) prog" where
  "ovs_ofctl_addflows_batch H br flows =
     each_ok (\<lambda>flow_combind. call_ovsprog H ''ovs-ofctl''
         [''add-flow'', ''-O'', OPENFLOW_VER, br, ''-''] (Some flow_combind))
       (aggregate_flows flows)"

text \<open>
  \<open>commit_flows\<close>: first in batches, deletions before additions; the batch that fails is repeated flow
  by flow, and so are the additions after a failed deletion. The result counts the flows of a
  successful pair of batches, or those that were modified one by one.
\<close>

definition del_flow :: "'s host \<Rightarrow> string \<Rightarrow> ('s, string) prog" where
  "del_flow H flow = ovs_ofctl H [''del-flows'', ''br-int'', flow, ''--strict'']"

definition add_flow :: "'s host \<Rightarrow> string \<Rightarrow> ('s, string) prog" where
  "add_flow H flow = ovs_ofctl H [''add-flow'', ''br-int'', flow]"

definition commit_one_by_one :: "'s host \<Rightarrow> string list \<Rightarrow> string list \<Rightarrow> ('s, nat) state" where
  "commit_one_by_one H add_flows del_flows = do {
     n \<leftarrow> count_ok (del_flow H) del_flows;
     m \<leftarrow> count_ok (add_flow H) add_flows;
     ret (n + m) }"

definition commit_flows :: "'s host \<Rightarrow> string list \<Rightarrow> string list \<Rightarrow> ('s, nat) state" where
  "commit_flows H add_flows del_flows = do {
     r \<leftarrow> (if del_flows = [] then ret (Some ()) else ovs_ofctl_delflows_batch H ''br-int'' del_flows);
     (case r of
        None \<Rightarrow> commit_one_by_one H add_flows del_flows
      | Some _ \<Rightarrow> do {
          r' \<leftarrow> (if add_flows = [] then ret (Some ()) else ovs_ofctl_addflows_batch H ''br-int'' add_flows);
          (case r' of
             None \<Rightarrow> commit_one_by_one H add_flows []
           | Some _ \<Rightarrow> ret (length del_flows + length add_flows)) }) }"

text \<open>\<open>commit_replaceflows\<close>: the flows go through a file; every failure is raised.\<close>

definition commit_replaceflows :: "'s host \<Rightarrow> string list \<Rightarrow> string \<Rightarrow> ('s, unit) prog" where
  "commit_replaceflows H replace_flows br = do {
     filepath \<leftarrow> temp_path H;
     written \<leftarrow> write_file H filepath (join_with [newline] replace_flows);
     (if \<not> written then ret None
      else do {
        r \<leftarrow> ovs_ofctl H [''replace-flows'', ''-O'', OPENFLOW_VER, br, filepath];
        (case r of
           None \<Rightarrow> ret None
         | Some _ \<Rightarrow> do { removed \<leftarrow> remove_file H filepath;
                          ret (if removed then Some () else None) }) }) }"

definition clean_ovs_flows :: "'s host \<Rightarrow> string \<Rightarrow> ('s, unit) prog" where
  "clean_ovs_flows H br = do { r \<leftarrow> ovs_ofctl H [''del-flows'', br]; ret (map_option (\<lambda>_. ()) r) }"

section \<open>Ports\<close>

definition strip_quotes :: "string \<Rightarrow> string" where
  "strip_quotes s =
     rev (dropWhile (\<lambda>c. c = CHR 0x22) (rev (dropWhile (\<lambda>c. c = CHR 0x22) s)))"

definition ovs_get_iface_property :: "'s host \<Rightarrow> string \<Rightarrow> string \<Rightarrow> ('s, string) prog" where
  "ovs_get_iface_property H iface col_name = do {
     p \<leftarrow> ovs_vsctl H [''get'', ''interface'', iface, col_name];
     ret (map_option strip_quotes p) }"

definition create_ovsport :: "'s host \<Rightarrow> string \<Rightarrow> string \<Rightarrow> string \<Rightarrow> (string \<times> string) list \<Rightarrow> ('s, bool) state" where
  "create_ovsport H br portname port_type properties = do {
     r \<leftarrow> ovs_vsctl H ([''add-port'', br, portname, ''--'', ''set'', ''interface'', portname,
                       ''type='' @ port_type] @ map (\<lambda>(k, v). k @ ''='' @ v) properties);
     ret (r \<noteq> None) }"

definition delete_ovsport :: "'s host \<Rightarrow> string \<Rightarrow> ('s, bool) state" where
  "delete_ovsport H portname = do { r \<leftarrow> ovs_vsctl H [''del-port'', portname]; ret (r \<noteq> None) }"

definition is_br_exist :: "'s host \<Rightarrow> string \<Rightarrow> ('s, bool) state" where
  "is_br_exist H br = do { r \<leftarrow> ovs_vsctl H [''br-exists'', br]; ret (r \<noteq> None) }"

definition is_ovsport_exist :: "'s host \<Rightarrow> string \<Rightarrow> ('s, bool) state" where
  "is_ovsport_exist H portname = do {
     name \<leftarrow> ovs_get_iface_property H portname ''name''; ret (name \<noteq> None) }"

definition ovs_system_id :: "'s host \<Rightarrow> ('s, string) prog" where
  "ovs_system_id H = do {
     sysid \<leftarrow> ovs_vsctl H [''get'', ''Open_vSwitch'', ''.'', ''external_ids:system-id''];
     ret (map_option strip_quotes sysid) }"

definition remove_tunnel_by_name :: "'s host \<Rightarrow> string \<Rightarrow> ('s, unit) state" where
  "remove_tunnel_by_name H portname = do {
     exists \<leftarrow> is_ovsport_exist H portname;
     (if \<not> exists then ret () else do { delete_ovsport H portname; ret () }) }"

definition get_tunnel_chassis_id :: "'s host \<Rightarrow> string \<Rightarrow> ('s, string) state" where
  "get_tunnel_chassis_id H portname = do {
     chassis \<leftarrow> ovs_get_iface_property H portname ''external_ids:chassis-id'';
     ret (case chassis of None \<Rightarrow> '''' | Some c \<Rightarrow> c) }"

definition chassis_ip_to_portname :: "string \<Rightarrow> string option" where
  "chassis_ip_to_portname ip = map_option (\<lambda>n. ''tupleNet-'' @ nat_str n) (inet_aton ip)"

definition remove_tunnel_by_ip :: "'s host \<Rightarrow> string \<Rightarrow> ('s, unit) prog" where
  "remove_tunnel_by_ip H ip =
     (case chassis_ip_to_portname ip of
        None \<Rightarrow> ret None
      | Some portname \<Rightarrow> do { remove_tunnel_by_name H portname; ret (Some ()) })"

text \<open>The result of the two is the name of the new port, if there is one; nobody reads it.\<close>

definition create_tunnel :: "'s host \<Rightarrow> string \<Rightarrow> string \<Rightarrow> string \<Rightarrow> ('s, string option) prog" where
  "create_tunnel H ip uuid br =
     (case chassis_ip_to_portname ip of
        None \<Rightarrow> ret None
      | Some portname \<Rightarrow> do {
          cur \<leftarrow> get_tunnel_chassis_id H portname;
          (if cur = uuid then ret (Some None)
           else do {
             remove_tunnel_by_name H portname;
             ok \<leftarrow> create_ovsport H br portname ''geneve''
               [(''options:remote_ip'', ip), (''options:key'', ''flow''), (''options:csum'', ''true''),
                (''external_ids:chassis-id'', uuid)];
             ret (Some (if ok then Some portname else None)) }) })"

definition create_flowbased_tunnel :: "'s host \<Rightarrow> string \<Rightarrow> string \<Rightarrow> ('s, string option) state" where
  "create_flowbased_tunnel H chassis_id br = do {
     let portname = ''tupleNet-flowbased'';
     remove_tunnel_by_name H portname;
     ok \<leftarrow> create_ovsport H br portname ''geneve''
       [(''options:key'', ''flow''), (''options:remote_ip'', ''flow''), (''options:csum'', ''true''),
        (''external_ids:chassis-id'', chassis_id)];
     ret (if ok then Some portname else None) }"

definition patch_cmd :: "string \<Rightarrow> string \<Rightarrow> string \<Rightarrow> string list" where
  "patch_cmd br portname peer_portname =
     [''--'', ''add-port'', br, portname, ''--'', ''set'', ''interface'', portname, ''type=patch'',
      ''options:peer='' @ peer_portname, ''external_ids:iface-id='' @ portname]"

definition create_patchport :: "'s host \<Rightarrow> string \<Rightarrow> string \<Rightarrow> string \<Rightarrow> ('s, unit) state" where
  "create_patchport H portname peer_br br = do {
     bridge \<leftarrow> is_br_exist H peer_br;
     (if \<not> bridge then ret ()
      else do {
        let peer_portname = portname @ ''-peer'';
        here \<leftarrow> is_ovsport_exist H portname;
        there \<leftarrow> is_ovsport_exist H peer_portname;
        let cmd = (if here then [] else patch_cmd br portname peer_portname) @
                  (if there then [] else patch_cmd peer_br peer_portname portname);
        (if cmd = [] then ret () else do { ovs_vsctl H cmd; ret () }) }) }"

definition delete_patchport :: "'s host \<Rightarrow> string \<Rightarrow> ('s, unit) state" where
  "delete_patchport H portname = do {
     peer \<leftarrow> ovs_get_iface_property H portname ''options:peer'';
     (case peer of
        None \<Rightarrow> ret ()
      | Some peer_portname \<Rightarrow> do {
          delete_ovsport H portname;
          there \<leftarrow> is_ovsport_exist H peer_portname;
          (if \<not> there then ret () else do { delete_ovsport H peer_portname; ret () }) }) }"

definition config_ovsport_bfd :: "'s host \<Rightarrow> string \<Rightarrow> string \<Rightarrow> ('s, unit) state" where
  "config_ovsport_bfd H portname config = do {
     ovs_vsctl H [''set'', ''Interface'', portname, ''bfd:'' @ config]; ret () }"

definition inject_pkt_to_ovsport :: "'s host \<Rightarrow> int \<Rightarrow> string \<Rightarrow> int \<Rightarrow> ('s, unit) state" where
  "inject_pkt_to_ovsport H cmd_id packet_data ofport = do {
     ovs_ofctl H [''packet-out'', ''br-int'', ''NONE'',
       ''load:'' @ int_str ofport @ ''->NXM_OF_IN_PORT[],load:'' @ int_str cmd_id @
       ''->NXM_NX_REG10[16..31],load:1->NXM_NX_REG10[1],resubmit(,0)'', packet_data];
     ret () }"

section \<open>The bridge\<close>

definition set_br_failmode :: "'s host \<Rightarrow> string \<Rightarrow> string \<Rightarrow> ('s, unit) prog" where
  "set_br_failmode H br mode = do {
     cur_mode \<leftarrow> ovs_vsctl H [''get-fail-mode'', br];
     (case cur_mode of
        None \<Rightarrow> ret None
      | Some cur \<Rightarrow>
          if cur \<noteq> mode
          then do { r \<leftarrow> ovs_vsctl H [''set-fail-mode'', br, mode]; ret (map_option (\<lambda>_. ()) r) }
          else ret (Some ())) }"

definition create_br_int_dsrport :: "'s host \<Rightarrow> string \<Rightarrow> ('s, (string \<times> string \<times> string) option) state" where
  "create_br_int_dsrport H br = do {
     let dsr_port = br @ ''-dsrgw'';
     exists \<leftarrow> is_ovsport_exist H dsr_port;
     ready \<leftarrow> (if exists then ret True else create_ovsport H br dsr_port ''internal'' []);
     (if \<not> ready then ret None
      else do {
        mac \<leftarrow> ovs_get_iface_property H dsr_port ''mac_in_use'';
        ofport \<leftarrow> ovs_get_iface_property H dsr_port ''ofport'';
        ret (case (mac, ofport) of (Some m, Some p) \<Rightarrow> Some (dsr_port, m, p) | _ \<Rightarrow> None) }) }"

definition build_br_integration :: "'s host \<Rightarrow> string \<Rightarrow> ('s, string) prog" where
  "build_br_integration H br = do {
     exists \<leftarrow> is_br_exist H br;
     (if exists then do { r \<leftarrow> set_br_failmode H br ''secure''; ret (map_option (\<lambda>_. br) r) }
      else do {
        r \<leftarrow> ovs_vsctl H [''add-br'', br, ''--'', ''set'', ''Bridge'', br, ''fail-mode=secure''];
        ret (map_option (\<lambda>_. br) r) }) }"

fun has_infix :: "string \<Rightarrow> string \<Rightarrow> bool" where
  "has_infix p [] \<longleftrightarrow> p = []"
| "has_infix p (c # s) \<longleftrightarrow> take (length p) (c # s) = p \<or> has_infix p s"

text \<open>
  \<open>set_tunnel_tlv\<close> loops until the switch shows the option: it need not end, so the result is the
  \<open>option\<close> of the run, and inside of it the exception.
\<close>

definition tlv_map :: "int \<Rightarrow> string" where
  "tlv_map vipclass = ''{class='' @ int_str vipclass @ '',type=0,len=8}->tun_metadata0''"

partial_function (option) set_tunnel_tlv :: "'s host \<Rightarrow> int \<Rightarrow> string \<Rightarrow> 's \<Rightarrow> (unit option \<times> 's) option" where
  "set_tunnel_tlv H vipclass br s =
     (case run_state (ovs_ofctl H [''dump-tlv-map'', br]) s of
        (None, s1) \<Rightarrow> Some (None, s1)
      | (Some output, s1) \<Rightarrow>
          if has_infix ''tun_metadata0'' output then Some (Some (), s1)
          else (case run_state (ovs_ofctl H [''del-tlv-map'', br]) s1 of
                  (None, s2) \<Rightarrow> Some (None, s2)
                | (Some _, s2) \<Rightarrow>
                    (case run_state (ovs_ofctl H [''add-tlv-map'', br, tlv_map vipclass]) s2 of
                       (None, s3) \<Rightarrow> Some (None, s3)
                     | (Some _, s3) \<Rightarrow> set_tunnel_tlv H vipclass br s3)))"

record ipfix_cfg =
  collector :: string
  domain_id :: nat
  point_id :: nat
  sampling_rate :: int

definition insert_ovs_ipfix :: "'s host \<Rightarrow> ipfix_cfg option \<Rightarrow> string \<Rightarrow> ('s, unit) prog" where
  "insert_ovs_ipfix H ipfix br = do {
     r \<leftarrow> ovs_vsctl H [''clear'', ''bridge'', br, ''ipfix''];
     (case r of
        None \<Rightarrow> ret None
      | Some _ \<Rightarrow>
          (case ipfix of
             None \<Rightarrow> ret (Some ())
           | Some cfg \<Rightarrow> do {
               r' \<leftarrow> ovs_vsctl H [''--'', ''set'', ''Bridge'', br, ''ipfix=@i'', ''--'', ''--id=@i'', ''create'',
                 ''IPFIX'', ''targets='' @ CHR 0x22 # collector cfg @ [CHR 0x22],
                 ''obs_domain_id='' @ nat_str (domain_id cfg),
                 ''obs_point_id='' @ nat_str (point_id cfg),
                 ''sampling='' @ int_str (sampling_rate cfg),
                 ''other_config:enable-tunnel-sampling=flase''];
               ret (map_option (\<lambda>_. ()) r') })) }"

end
