(* ===== verification/Run_Env.thy ===== *)
theory Run_Env imports Commit_Ovs begin

text \<open>
  \<open>tp_utils/run_env.py\<close>: the options of the controller, read from the environment variables. An option
  counts when its key is there, so the record has a truth value for it.
\<close>

type_synonym environ = "string \<Rightarrow> string option"

definition env_set :: "environ \<Rightarrow> string \<Rightarrow> bool" where
  "env_set environ key \<longleftrightarrow> environ key = Some ''1''"

text \<open>On unless it is set to something else than 1.\<close>

definition env_default_on :: "environ \<Rightarrow> string \<Rightarrow> bool" where
  "env_default_on environ key \<longleftrightarrow> environ key = None \<or> environ key = Some ''1''"

definition hash_fn_option :: "environ \<Rightarrow> string" where
  "hash_fn_option environ =
     (case environ ''HASH_FN'' of
        Some h \<Rightarrow> if h \<in> set [''eth_src'', ''symmetric_l4'', ''symmetric_l3l4'', ''symmetric_l3l4+udp'',
                              ''nw_src'', ''nw_dst''] then h else ''nw_dst''
      | None \<Rightarrow> ''nw_dst'')"

definition dir_option :: "environ \<Rightarrow> string \<Rightarrow> string \<Rightarrow> string" where
  "dir_option environ key dflt = (case environ key of None \<Rightarrow> dflt | Some p \<Rightarrow> p)"

definition TUPLENET_RUNDIR :: "environ \<Rightarrow> string" where
  "TUPLENET_RUNDIR environ = dir_option environ ''TUPLENET_RUNDIR'' ''/var/run/tuplenet/''"

definition TUPLENET_OVSDB_PATH :: "environ \<Rightarrow> string" where
  "TUPLENET_OVSDB_PATH environ = dir_option environ ''TUPLENET_OVSDB_PATH'' ''/var/run/openvswitch/db.sock''"

text \<open>
  The options but \<open>dsrport\<close>, which \<open>tuplerun\<close> adds when the bridge is there. \<open>host_addr\<close> is what the
  resolver says of the host's own name. \<open>None\<close>: a bad IPFIX setting is raised.
\<close>

definition ipfix_option :: "environ \<Rightarrow> string option \<Rightarrow> ipfix_cfg option option" where
  "ipfix_option environ host_addr =
     (case environ ''IPFIX_COLLECTOR'' of
        None \<Rightarrow> Some None
      | Some c \<Rightarrow>
          (case split_once CHR '':'' c of
             [ip, port] \<Rightarrow>
               (case (inet_aton ip, py_int port,
                      case environ ''IPFIX_SAMPLING_RATE'' of None \<Rightarrow> Some 64 | Some r \<Rightarrow> py_int r,
                      Option.bind host_addr inet_aton) of
                  (Some _, Some p, Some rate, Some domain) \<Rightarrow>
                    if p \<le> 0 \<or> p > 65535 \<or> rate \<le> 0 then None
                    else Some (Some \<lparr>collector = c, domain_id = domain, point_id = 0, sampling_rate = rate\<rparr>)
                | _ \<Rightarrow> None)
           | _ \<Rightarrow> None))"

definition acquire_outside_env :: "environ \<Rightarrow> string option \<Rightarrow> (options \<times> ipfix_cfg option) option" where
  "acquire_outside_env environ host_addr =
     map_option (\<lambda>ipfix.
       (\<lparr>ONDEMAND = env_default_on environ ''ONDEMAND'',
         ENABLE_REDIRECT = env_default_on environ ''ENABLE_REDIRECT'',
         GATEWAY = env_set environ ''GATEWAY'',
         ENABLE_UNTUNNEL = env_set environ ''ENABLE_UNTUNNEL'',
         dsrport = None,
         HASH_FN = hash_fn_option environ\<rparr>, ipfix))
       (ipfix_option environ host_addr)"

lemma hash_fn_option_ok: "hash_fn_option environ \<in> set [''eth_src'', ''symmetric_l4'', ''symmetric_l3l4'',
    ''symmetric_l3l4+udp'', ''nw_src'', ''nw_dst'']"
  by (simp add: hash_fn_option_def split: option.splits)

end
