(* ===== verification/Zoo_Inv.thy ===== *)
theory Zoo_Inv imports Zoo begin

text \<open>
  The invariant of the zoo and its preservation by every operation. The live and the deleted
  entities are seen as multisets; the dictionary laws of \<open>Prelude\<close> say how an operation changes
  them, and the laws of the fact store say what that does to the Datalog facts.
\<close>

section \<open>Live and deleted entities\<close>

definition ident :: "entity \<Rightarrow> etype \<times> string" where
  "ident e = (body_etype (body e), body_uuid (body e))"

abbreviation live :: "zoo \<Rightarrow> etype \<Rightarrow> string \<Rightarrow> entity option" where
  "live z t k \<equiv> map_of (entity_set z t) k"

definition group_values :: "(etype \<Rightarrow> (string \<times> entity) list) \<Rightarrow> entity multiset" where
  "group_values es = mset (concat (map (\<lambda>t. map snd (es t)) logical_entity_types))"

abbreviation live_mset :: "zoo \<Rightarrow> entity multiset" where
  "live_mset z \<equiv> group_values (entity_set z)"

definition sink_values :: "(etype \<Rightarrow> (string \<times> entity list) list) \<Rightarrow> entity multiset" where
  "sink_values es = mset (concat (map (\<lambda>t. concat (map snd (es t))) logical_entity_types))"

abbreviation sink_mset :: "zoo \<Rightarrow> entity multiset" where
  "sink_mset z \<equiv> sink_values (entity_sink_set z)"

abbreviation all_mset :: "zoo \<Rightarrow> entity multiset" where
  "all_mset z \<equiv> live_mset z + sink_mset z"

lemma distinct_types [simp]: "distinct logical_entity_types"
  by (simp add: logical_entity_types_def)

lemma group_values_upd:
  "group_values (es(t := xs)) + mset (map snd (es t)) = group_values es + mset (map snd xs)"
proof -
  have "(\<lambda>s. map snd ((es(t := xs)) s)) = (\<lambda>s. map snd (es s))(t := map snd xs)"
    by (auto simp: fun_eq_iff)
  then show ?thesis
    using mset_concat_upd [OF distinct_types, of t "\<lambda>s. map snd (es s)" "map snd xs"]
    by (simp only: group_values_def logical_entity_types_all simp_thms True_implies_equals)
qed

lemma sink_values_upd:
  "sink_values (es(t := xs)) + mset (concat (map snd (es t))) =
     sink_values es + mset (concat (map snd xs))"
proof -
  have "(\<lambda>s. concat (map snd ((es(t := xs)) s))) =
      (\<lambda>s. concat (map snd (es s)))(t := concat (map snd xs))"
    by (auto simp: fun_eq_iff)
  then show ?thesis
    using mset_concat_upd [OF distinct_types, of t "\<lambda>s. concat (map snd (es s))"
        "concat (map snd xs)"]
    by (simp only: sink_values_def logical_entity_types_all simp_thms True_implies_equals)
qed

lemma group_values_put_new:
  assumes "map_of (es t) k = None"
  shows "group_values (es(t := AList.update k e (es t))) = add_mset e (group_values es)"
  using group_values_upd [of es t "AList.update k e (es t)"] al.values_put_new [OF assms, of e]
  by (simp add: al_values)

lemma group_values_put_old:
  assumes "map_of (es t) k = Some e"
  shows "add_mset e (group_values (es(t := AList.update k e' (es t)))) =
    add_mset e' (group_values es)"
proof -
  let ?new = "AList.update k e' (es t)"
  have "add_mset e (group_values (es(t := ?new)) + mset (map snd (es t))) =
      group_values es + add_mset e (mset (map snd ?new))"
    using group_values_upd [of es t ?new] by simp
  also have "add_mset e (mset (map snd ?new)) = add_mset e' (mset (map snd (es t)))"
    using al.values_put_old [OF assms, of e'] by (simp add: al_values)
  finally show ?thesis
    by (metis add_right_cancel union_mset_add_mset_left union_mset_add_mset_right)
qed

lemma group_values_pop:
  assumes "distinct (map fst (es t))" and "map_of (es t) k = Some e"
  shows "add_mset e (group_values (es(t := AList.delete k (es t)))) = group_values es"
proof -
  have "add_mset e (mset (map snd (AList.delete k (es t)))) = mset (map snd (es t))"
    using al.values_pop [OF assms] by (simp add: al_values)
  then have "add_mset e (group_values (es(t := AList.delete k (es t)))) + mset (map snd (es t)) =
      group_values es + mset (map snd (es t))"
    using group_values_upd [of es t "AList.delete k (es t)"]
    by (metis union_mset_add_mset_left union_mset_add_mset_right)
  then show ?thesis by (rule add_right_imp_eq)
qed

lemma in_group_values:
  "e \<in># group_values es \<longleftrightarrow> (\<exists>t. e \<in> set (map snd (es t)))"
  by (auto simp: group_values_def)

lemma in_live_mset:
  assumes "\<And>t. distinct (map fst (entity_set z t))"
  shows "e \<in># live_mset z \<longleftrightarrow> (\<exists>t k. live z t k = Some e)"
  using al.in_values [OF assms] by (simp add: in_group_values al_values flip: set_mset_mset)

lemma sink_append_values:
  "mset (concat (map snd (sink_append k e g))) = add_mset e (mset (concat (map snd g)))"
proof -
  have *: "mset (concat (map snd d)) = sum_mset (image_mset mset (al.values_of d))"
    for d :: "(string \<times> entity list) list"
    by (induction d) (simp_all add: al.values_of_def)
  show ?thesis
  proof (cases "map_of g k")
    case None
    then show ?thesis by (simp add: sink_append_def * al.values_put_new)
  next
    case (Some es)
    let ?new = "AList.update k (es @ [e]) g"
    have "mset es + sum_mset (image_mset mset (al.values_of ?new)) =
        mset es + add_mset e (sum_mset (image_mset mset (al.values_of g)))"
      using arg_cong [OF al.values_put_old [OF Some, of "es @ [e]"],
          of "\<lambda>M. sum_mset (image_mset mset M)"] by simp
    then show ?thesis using Some by (simp add: sink_append_def *)
  qed
qed

lemma sink_values_append:
  "sink_values (es(t := sink_append k e (es t))) = add_mset e (sink_values es)"
  using sink_values_upd [of es t "sink_append k e (es t)"] by (simp add: sink_append_values)

section \<open>The uniqueness index\<close>

lemma insert_keys_Cons_cases:
  assumes "insert_keys (kv # kvs) i m = (b, m')"
  obtains "\<not> b" "m' = m" | "m kv = None" "insert_keys kvs i (m(kv \<mapsto> i)) = (b, m')"
  using assms by (cases "m kv") auto

lemma insert_keys_le: "insert_keys kvs i m = (b, m') \<Longrightarrow> m kv = Some x \<Longrightarrow> m' kv = Some x"
proof (induction kvs arbitrary: m)
  case (Cons p kvs)
  from Cons.prems(1) show ?case
  proof (rule insert_keys_Cons_cases)
    assume "m p = None" "insert_keys kvs i (m(p \<mapsto> i)) = (b, m')"
    then show ?thesis using Cons.IH [of "m(p \<mapsto> i)"] Cons.prems(2)
      by (cases "kv = p") (simp_all del: fun_upd_apply add: fun_upd_other)
  qed (use Cons in simp)
qed simp

lemma insert_keys_fresh:
  "insert_keys kvs i m = (True, m') \<Longrightarrow> distinct kvs \<Longrightarrow> kv \<in> set kvs \<Longrightarrow> m kv = None"
proof (induction kvs arbitrary: m)
  case (Cons p kvs)
  from Cons.prems(1) show ?case
  proof (rule insert_keys_Cons_cases)
    assume "m p = None" "insert_keys kvs i (m(p \<mapsto> i)) = (True, m')"
    then show ?thesis using Cons.IH [of "m(p \<mapsto> i)"] Cons.prems(2,3)
      by (cases "kv = p") (simp_all del: fun_upd_apply add: fun_upd_other)
  qed simp
qed simp

lemma insert_keys_ok:
  "insert_keys kvs i m = (True, m') \<Longrightarrow> m' kv = (if kv \<in> set kvs then Some i else m kv)"
proof (induction kvs arbitrary: m)
  case (Cons p kvs)
  from Cons.prems show ?case
    by (rule insert_keys_Cons_cases) (use Cons.IH in auto)
qed simp

lemma del_keys_other: "kv \<notin> set kvs \<Longrightarrow> del_keys kvs m kv = m kv"
  by (induction kvs arbitrary: m) auto

lemma del_keys_some: "del_keys kvs m kv = Some x \<Longrightarrow> m kv = Some x"
proof (induction kvs arbitrary: m)
  case (Cons p kvs)
  then show ?case
    by (cases "m p"; cases "kv = p") (fastforce simp del: split_paired_All split: if_splits)+
qed simp

lemma uniq_keys_distinct_pairs [simp]: "distinct (uniq_keys b)"
  using uniq_keys_distinct [of b] by (simp add: distinct_map)

section \<open>The invariant\<close>

text \<open>
  What the constructors guarantee of a row: numbers are those of the addresses, prefixes are clamped, and a
  chassis has an address, so no entity owns the row of the flow based tunnel.
\<close>

definition row_ok :: "body \<Rightarrow> bool" where
  "row_ok b =
     (case b of
        BChassis r \<Rightarrow> PCH_IP r \<noteq> []
      | BLsp r \<Rightarrow> ip2int (LSP_IP r) = Some (LSP_IP_INT r) \<and> LSP_PORTID r = LSP_IP_INT r mod 2 ^ 16
      | BLrp r \<Rightarrow> LRP_PREFIX r \<le> 32 \<and> ip2int (LRP_IP r) = Some (LRP_IP_INT r) \<and> LRP_PORTID r = LRP_IP_INT r mod 2 ^ 16
      | BLsr r \<Rightarrow> LSR_PREFIX r \<le> 32 \<and> ip2int (LSR_NEXT_HOP r) = Some (LSR_NEXT_HOP_INT r)
      | _ \<Rightarrow> True)"

lemma row_ok_set_state [simp]: "row_ok (set_state s b) = row_ok b"
  by (cases b) (simp_all add: row_ok_def)

lemma row_ok_not_tunnel: "row_ok b \<Longrightarrow> b \<noteq> BChassis flow_tunnel_row"
  by (auto simp: row_ok_def flow_tunnel_row_def)

definition live_entity :: "etype \<Rightarrow> string \<Rightarrow> entity \<Rightarrow> bool" where
  "live_entity t k e \<longleftrightarrow>
     ident e = (t, k) \<and> (state e = State_NO \<or> state e = State_ADD) \<and>
     body_state (body e) = state e \<and> populated e \<and> row_ok (body e)"

definition live_ok :: "zoo \<Rightarrow> bool" where
  "live_ok z \<longleftrightarrow>
     (\<forall>t. distinct (map fst (entity_set z t))) \<and>
     (\<forall>t k e. live z t k = Some e \<longrightarrow> live_entity t k e)"

definition sink_ok :: "zoo \<Rightarrow> bool" where
  "sink_ok z \<longleftrightarrow>
     (\<forall>e \<in># sink_mset z.
        state e = State_DEL \<and> body_state (body e) = State_DEL \<and> row_ok (body e))"

definition rows :: "entity multiset \<Rightarrow> body set" where
  "rows M = body ` {e. e \<in># M \<and> touched e}"

definition facts_ok :: "zoo \<Rightarrow> bool" where
  "facts_ok z \<longleftrightarrow> fact_set (db z) = insert (BChassis flow_tunnel_row) (rows (all_mset z))"

definition idx_ok :: "zoo \<Rightarrow> bool" where
  "idx_ok z \<longleftrightarrow>
     (\<forall>t k e. live z t k = Some e \<longrightarrow>
        (\<forall>kv \<in> set (uniq_keys (body e)). entity_idxmap z kv = Some (t, k)))"

definition entity_ilk :: "entity \<Rightarrow> ((etype \<times> string) \<times> nat) option" where
  "entity_ilk e = body_ilk (body e)"

definition registered :: "ilk_group \<Rightarrow> (etype \<times> string) \<times> nat \<Rightarrow> bool" where
  "registered g ki \<longleftrightarrow> (\<exists>occupy. g (fst ki) = Some occupy \<and> snd ki \<in> set occupy)"

definition ilk_bound :: "ilk_group \<Rightarrow> bool" where
  "ilk_bound g \<longleftrightarrow> (\<forall>key occupy. g key = Some occupy \<longrightarrow> set occupy \<subseteq> {..<max_ilk_n})"

definition ilk_ok :: "zoo \<Rightarrow> bool" where
  "ilk_ok z \<longleftrightarrow>
     uniq_in (\<lambda>x. x \<noteq> None) entity_ilk (all_mset z) \<and> ilk_bound (ilk z) \<and>
     (\<forall>e \<in># all_mset z. \<forall>ki. entity_ilk e = Some ki \<longrightarrow> registered (ilk z) ki)"

definition zoo_inv :: "zoo \<Rightarrow> bool" where
  "zoo_inv z \<longleftrightarrow> live_ok z \<and> sink_ok z \<and> facts_ok z \<and> idx_ok z \<and> ilk_ok z"

lemma rows_simps [simp]:
  "rows {#} = {}"
  "rows (add_mset e M) = (if touched e then insert (body e) (rows M) else rows M)"
  "rows (M + N) = rows M \<union> rows N"
  by (auto simp: rows_def)

lemma values_empty [simp]: "group_values (\<lambda>_. []) = {#}" "sink_values (\<lambda>_. []) = {#}"
  by (simp_all add: group_values_def sink_values_def logical_entity_types_def)

lemma init_zoo_inv: "zoo_inv (init_zoo ids)"
  by (auto simp: zoo_inv_def live_ok_def sink_ok_def facts_ok_def idx_ok_def ilk_ok_def init_zoo_def
      fact_set_init ilk_bound_def)


section \<open>Replacing a live entity\<close>

text \<open>
  \<open>mark\<close> and \<open>touch\<close> change the state of an entity and the facts, and nothing by which it is
  known.
\<close>

definition same_entity :: "entity \<Rightarrow> entity \<Rightarrow> bool" where
  "same_entity e e' \<longleftrightarrow>
     ident e' = ident e \<and> uniq_keys (body e') = uniq_keys (body e) \<and>
     entity_ilk e' = entity_ilk e \<and> row_ok (body e') = row_ok (body e) \<and> populated e' = populated e"

lemma same_entity_update [simp]:
  "same_entity e (update_dup_data (e\<lparr>state := s\<rparr>))"
  "same_entity e (update_dup_data (e\<lparr>touched := b, state := s\<rparr>))"
  by (simp_all add: same_entity_def update_dup_data_def ident_def entity_ilk_def)

lemma mark_fst: "fst (mark s e f) = update_dup_data (e\<lparr>state := s\<rparr>)"
  by (simp add: mark_def Let_def)

lemma update_dup_data_sel [simp]:
  "state (update_dup_data e) = state e" "touched (update_dup_data e) = touched e"
  "populated (update_dup_data e) = populated e"
  "body (update_dup_data e) = set_state (state e) (body e)"
  by (simp_all add: update_dup_data_def)

lemma mark_facts:
  "fact_set (snd (mark s e f)) =
     (if touched e then insert (set_state s (body e)) (fact_set f - {body e}) else fact_set f)"
  by (simp add: mark_def Let_def del_clause_def add_clause_def update_dup_data_def
      db.view_assert db.view_retract)

lemma live_ident_unique:
  assumes "live_ok z" and "live z t k = Some e" and "e' \<in># live_mset z - {#e#}"
  shows "ident e' \<noteq> ident e"
proof -
  let ?pop = "(entity_set z)(t := AList.delete k (entity_set z t))"
  have dist: "distinct (map fst (entity_set z s))" for s
    using assms(1) by (simp add: live_ok_def)
  have "add_mset e (group_values ?pop) = live_mset z"
    using dist assms(2) by (rule group_values_pop)
  then have "live_mset z - {#e#} = group_values ?pop"
    by (metis add_mset_remove_trivial)
  then obtain s where "e' \<in> set (map snd (?pop s))"
    using assms(3) by (auto simp: in_group_values)
  moreover have "distinct (map fst (?pop s))" using dist by (simp add: distinct_delete)
  ultimately obtain k' where k': "map_of (?pop s) k' = Some e'"
    by (auto simp: map_of_eq_Some_iff)
  then have "live z s k' = Some e'" and "(s, k') \<noteq> (t, k)"
    by (auto simp: delete_conv' split: if_splits)
  then have "ident e' = (s, k')" and "ident e = (t, k)"
    using assms(1,2) by (auto simp: live_ok_def live_entity_def)
  then show ?thesis using \<open>(s, k') \<noteq> (t, k)\<close> by simp
qed

lemma live_in: "live z t k = Some e \<Longrightarrow> e \<in># live_mset z"
  by (force simp: in_group_values dest: map_of_SomeD)

lemma body_other:
  assumes "live_ok z" and "sink_ok z" and "live z t k = Some e"
  shows "body e \<notin> rows (all_mset z - {#e#})"
proof
  assume "body e \<in> rows (all_mset z - {#e#})"
  then obtain e' where e': "e' \<in># all_mset z - {#e#}" and b: "body e' = body e"
    by (auto simp: rows_def)
  have "all_mset z - {#e#} = (live_mset z - {#e#}) + sink_mset z"
    using live_in [OF assms(3)] by simp
  then consider "e' \<in># live_mset z - {#e#}" | "e' \<in># sink_mset z" using e' by auto
  then show False
  proof cases
    case 1
    then have "ident e' \<noteq> ident e" by (rule live_ident_unique [OF assms(1,3)])
    then show ?thesis using b by (simp add: ident_def)
  next
    case 2
    then have "body_state (body e) = State_DEL" using assms(2) b by (metis sink_ok_def)
    moreover have "live_entity t k e" using assms(1,3) by (simp add: live_ok_def)
    ultimately show ?thesis by (auto simp: live_entity_def)
  qed
qed

text \<open>
  \<open>e\<close> becomes \<open>e'\<close>: the all-entities multiset loses one and gains the other, and its row in the
  facts is replaced, or added when \<open>e\<close> was not touched yet.
\<close>

definition facts_step :: "entity \<Rightarrow> entity \<Rightarrow> facts \<Rightarrow> facts \<Rightarrow> bool" where
  "facts_step e e' f f' \<longleftrightarrow>
     fact_set f' = (fact_set f - (if touched e then {body e} else {})) \<union>
                   (if touched e' then {body e'} else {})"

lemma facts_step_ok:
  assumes "facts_ok z" and "live_ok z" and "sink_ok z" and "live z t k = Some e"
    and "facts_step e e' (db z) f'" and "add_mset e M = add_mset e' (all_mset z)"
  shows "fact_set f' = insert (BChassis flow_tunnel_row) (rows M)"
proof -
  let ?R = "all_mset z - {#e#}"
  have all: "all_mset z = add_mset e ?R" using live_in [OF assms(4)] by simp
  have M: "M = add_mset e' ?R"
    using assms(6) all by (metis add_mset_commute add_mset_remove_trivial)
  have "body e \<noteq> BChassis flow_tunnel_row"
    using assms(2,4) by (intro row_ok_not_tunnel) (simp add: live_ok_def live_entity_def)
  moreover have "body e \<notin> rows ?R" using assms(2-4) by (rule body_other)
  moreover have "fact_set (db z) =
      insert (BChassis flow_tunnel_row) ((if touched e then {body e} else {}) \<union> rows ?R)"
    using assms(1) unfolding facts_ok_def by (subst (asm) all) simp
  ultimately show ?thesis
    using assms(5) unfolding facts_step_def M by auto
qed

lemma mark_facts_step: "facts_step e (fst (mark s e f)) f (snd (mark s e f))"
  by (simp add: facts_step_def mark_facts mark_fst)

lemma touch_facts_step:
  "\<not> touched e \<Longrightarrow> facts_step e (fst (touch e f)) f (snd (touch e f))"
  by (simp add: facts_step_def touch_def Let_def add_clause_def db.view_assert)

lemma ilk_mset_swap:
  assumes "entity_ilk e' = entity_ilk e" and "add_mset e M = add_mset e' N"
  shows "image_mset entity_ilk M = image_mset entity_ilk N"
  using arg_cong [OF assms(2), of "image_mset entity_ilk"] assms(1) by simp

lemma ilk_ok_cong:
  assumes "ilk_ok z" and "ilk z' = ilk z"
    and "image_mset entity_ilk (all_mset z') = image_mset entity_ilk (all_mset z)"
  shows "ilk_ok z'"
proof -
  have "entity_ilk ` set_mset (all_mset z') = entity_ilk ` set_mset (all_mset z)"
    using arg_cong [OF assms(3), of set_mset] by (simp only: set_image_mset)
  then have "\<forall>e \<in># all_mset z'. \<exists>e' \<in># all_mset z. entity_ilk e = entity_ilk e'"
    by (metis imageE imageI)
  then show ?thesis using assms unfolding ilk_ok_def uniq_in_def by metis
qed

lemma put_entity_inv:
  assumes inv: "zoo_inv z" and l: "live z t k = Some e" and same: "same_entity e (fst ef)"
    and st: "state (fst ef) = State_NO \<or> state (fst ef) = State_ADD"
      "body_state (body (fst ef)) = state (fst ef)"
    and facts: "facts_step e (fst ef) (db z) (snd ef)"
  shows "zoo_inv (put_entity t k ef z)"
proof -
  let ?z = "put_entity t k ef z" and ?e = "fst ef"
  have live: "live ?z s k' = (if (s, k') = (t, k) then Some ?e else live z s k')" for s k'
    by (simp add: put_entity_def update_conv')
  have inv': "live_ok z" "sink_ok z" "facts_ok z" "idx_ok z" "ilk_ok z"
    using inv by (simp_all add: zoo_inv_def)
  have e: "live_entity t k e" using inv'(1) l by (simp add: live_ok_def)
  then have e': "live_entity t k ?e" using same st by (auto simp: live_entity_def same_entity_def)
  have "add_mset e (live_mset ?z) = add_mset ?e (live_mset z)"
    using l by (simp add: put_entity_def group_values_put_old)
  then have all: "add_mset e (all_mset ?z) = add_mset ?e (all_mset z)"
    by (simp add: put_entity_def flip: union_mset_add_mset_left)
  have "live_ok ?z"
    using inv'(1) e' by (auto simp: live_ok_def live) (simp add: put_entity_def distinct_update)
  moreover have "sink_ok ?z" using inv'(2) by (simp add: sink_ok_def put_entity_def)
  moreover have "facts_ok ?z"
    using facts_step_ok [OF inv'(3,1,2) l facts all] by (simp add: facts_ok_def put_entity_def)
  moreover have "idx_ok ?z"
    using inv'(4) same l unfolding idx_ok_def live
    by (simp add: put_entity_def same_entity_def split: if_splits)
  moreover have "ilk_ok ?z"
  proof (rule ilk_ok_cong [OF inv'(5)])
    show "image_mset entity_ilk (all_mset ?z) = image_mset entity_ilk (all_mset z)"
      using same all by (intro ilk_mset_swap) (auto simp: same_entity_def)
  qed (simp add: put_entity_def)
  ultimately show ?thesis by (simp add: zoo_inv_def)
qed

lemma touch_key_inv:
  assumes "zoo_inv z"
  shows "zoo_inv (touch_key t k z)"
proof (cases "live z t k")
  case (Some e)
  show ?thesis
  proof (cases "touched e")
    case True
    have e: "live_entity t k e" using assms Some by (simp add: zoo_inv_def live_ok_def)
    have "zoo_inv (put_entity t k (e, db z) z)"
    proof (rule put_entity_inv [OF assms Some])
      show "facts_step e (fst (e, db z)) (db z) (snd (e, db z))"
      proof -
        have "body e \<in> fact_set (db z)"
          using assms True live_in [OF Some] by (auto simp: zoo_inv_def facts_ok_def rows_def)
        then show ?thesis using True by (auto simp: facts_step_def)
      qed
    qed (use e in \<open>auto simp: same_entity_def live_entity_def\<close>)
    then show ?thesis using Some True by (simp add: touch_key_def touch_def)
  next
    case False
    have "zoo_inv (put_entity t k (touch e (db z)) z)"
      by (rule put_entity_inv [OF assms Some])
        (use False touch_facts_step [OF False] in \<open>simp_all add: touch_def Let_def\<close>)
    then show ?thesis using Some by (simp add: touch_key_def)
  qed
qed (use assms in \<open>simp add: touch_key_def\<close>)

lemma sweep_key_inv:
  assumes "zoo_inv z"
  shows "zoo_inv (sweep_key t k z)"
proof (cases "live z t k")
  case (Some e)
  have "zoo_inv (put_entity t k (mark State_NO e (db z)) z)"
    by (rule put_entity_inv [OF assms Some _ _ _ mark_facts_step]) (simp_all add: mark_fst)
  then show ?thesis using Some assms by (simp add: sweep_key_def)
qed (use assms in \<open>simp add: sweep_key_def\<close>)


section \<open>Deletion\<close>

lemma move_entity2sink_eq:
  assumes "live z t k = Some e"
  shows "move_entity2sink t k z =
    z\<lparr>entity_set := (entity_set z)(t := AList.delete k (entity_set z t)),
      entity_sink_set :=
        (entity_sink_set z)(t := sink_append k (fst (mark State_DEL e (db z))) (entity_sink_set z t)),
      entity_idxmap := del_keys (uniq_keys (body e)) (entity_idxmap z),
      zoo_ver := zoo_ver z + 1, db := snd (mark State_DEL e (db z))\<rparr>"
  using assms mark_fst [of State_DEL e "db z"]
  by (cases "mark State_DEL e (db z)")
    (simp add: move_entity2sink_def del_entity_idxmap_def Let_def)

lemma move_entity2sink_none: "live z t k = None \<Longrightarrow> move_entity2sink t k z = z"
  by (simp add: move_entity2sink_def)

lemma move_entity2sink_live:
  assumes "live_ok z"
  shows "live (move_entity2sink t k z) s k' = (if (s, k') = (t, k) then None else live z s k')"
proof (cases "live z t k")
  case (Some e)
  then show ?thesis by (simp add: move_entity2sink_eq delete_conv')
qed (auto simp: move_entity2sink_none)

lemma move_entity2sink_idx:
  assumes idx: "idx_ok z" and live: "live z t k = Some e" "live z s k' = Some e'" "(s, k') \<noteq> (t, k)"
    and kv: "kv \<in> set (uniq_keys (body e'))"
  shows "del_keys (uniq_keys (body e)) (entity_idxmap z) kv = Some (s, k')"
proof -
  have other: "entity_idxmap z kv = Some (s, k')"
    using idx live(2) kv unfolding idx_ok_def by blast
  have "kv \<notin> set (uniq_keys (body e))"
  proof
    assume "kv \<in> set (uniq_keys (body e))"
    then have "entity_idxmap z kv = Some (t, k)" using idx live(1) unfolding idx_ok_def by blast
    then show False using other live(3) by simp
  qed
  then show ?thesis using other by (simp add: del_keys_other)
qed

lemma move_entity2sink_inv:
  assumes "zoo_inv z"
  shows "zoo_inv (move_entity2sink t k z)"
proof (cases "live z t k")
  case None
  then show ?thesis using assms by (simp add: move_entity2sink_none)
next
  case (Some e)
  let ?z = "move_entity2sink t k z" and ?e = "fst (mark State_DEL e (db z))"
  have inv: "live_ok z" "sink_ok z" "facts_ok z" "idx_ok z" "ilk_ok z"
    using assms by (simp_all add: zoo_inv_def)
  have e: "live_entity t k e" using inv(1) Some by (simp add: live_ok_def)
  have "add_mset e (live_mset ?z) = live_mset z"
    using inv(1) Some by (simp add: move_entity2sink_eq [OF Some] live_ok_def group_values_pop)
  moreover have sink: "sink_mset ?z = add_mset ?e (sink_mset z)"
    by (simp add: move_entity2sink_eq [OF Some] sink_values_append)
  ultimately have all: "add_mset e (all_mset ?z) = add_mset ?e (all_mset z)"
    by (metis union_mset_add_mset_left union_mset_add_mset_right)
  have "live_ok ?z"
    unfolding live_ok_def
  proof (intro conjI allI impI)
    show "distinct (map fst (entity_set ?z s))" for s
      using inv(1) by (simp add: move_entity2sink_eq [OF Some] live_ok_def distinct_delete)
    show "live_entity s k' e'" if "live ?z s k' = Some e'" for s k' e'
      using inv(1) that unfolding move_entity2sink_live [OF inv(1)] live_ok_def
      by (metis option.distinct(1))
  qed
  moreover have "sink_ok ?z"
    using inv(2) e unfolding sink_ok_def sink by (simp add: mark_fst live_entity_def)
  moreover have "facts_ok ?z"
    using facts_step_ok [OF inv(3,1,2) Some mark_facts_step all]
    by (simp add: facts_ok_def move_entity2sink_eq [OF Some])
  moreover have "idx_ok ?z"
    unfolding idx_ok_def move_entity2sink_live [OF inv(1)]
    using move_entity2sink_idx [OF inv(4) Some]
    by (auto simp: move_entity2sink_eq [OF Some] split: if_splits)
  moreover have "ilk_ok ?z"
  proof (rule ilk_ok_cong [OF inv(5)])
    show "image_mset entity_ilk (all_mset ?z) = image_mset entity_ilk (all_mset z)"
      by (rule ilk_mset_swap [OF _ all]) (simp add: mark_fst entity_ilk_def)
  qed (simp add: move_entity2sink_eq [OF Some])
  ultimately show ?thesis by (simp add: zoo_inv_def)
qed

section \<open>ILK indices\<close>

lemma get_free_idx_ok:
  assumes "set_pop_ok env" and "get_free_idx env occupy = Some i"
  shows "i < max_ilk_n" and "i \<notin> set occupy"
proof -
  have "i \<in> set (filter (\<lambda>i. i \<notin> set occupy) [0..<max_ilk_n])"
    using assms unfolding get_free_idx_def set_pop_ok_def Let_def by (metis option.sel option.simps(3))
  then show "i < max_ilk_n" and "i \<notin> set occupy" by auto
qed

lemma get_ilk_idx_ok:
  assumes "set_pop_ok env" and "ilk_bound g" and "get_ilk_idx env g key = Some (i, g')"
  shows "\<not> registered g (key, i)" and "registered g' (key, i)" and "ilk_bound g'"
    and "registered g ki \<Longrightarrow> registered g' ki"
proof -
  show "\<not> registered g (key, i)" "registered g' (key, i)"
    using assms(3) get_free_idx_ok [OF assms(1)]
    by (auto simp: get_ilk_idx_def registered_def split: option.splits)
  show "ilk_bound g'"
    using assms(2,3) get_free_idx_ok [OF assms(1)]
    by (fastforce simp: get_ilk_idx_def ilk_bound_def split: option.splits if_splits)
  show "registered g' ki" if "registered g ki"
    using assms(3) that by (auto simp: get_ilk_idx_def registered_def split: option.splits)
qed

section \<open>Constructors\<close>

lemma ip2int_nonempty: "ip2int [] = None"
  by (simp add: ip2int_def inet_aton_def c_number_def num_val_def split: option.splits)

lemma clamp_prefix_le [simp]: "clamp_prefix p \<le> 32"
  by (simp add: clamp_prefix_def)

text \<open>What every constructor guarantees of the object it returns and of the ILK groups.\<close>

definition fresh_entity :: "ilk_group \<Rightarrow> props \<Rightarrow> entity \<times> ilk_group \<Rightarrow> bool" where
  "fresh_entity g p eg =
     (case eg of (e, g') \<Rightarrow>
        ident e = (props_etype p, props_uuid p) \<and> state e = State_ADD \<and>
        body_state (body e) = State_ADD \<and> \<not> populated e \<and> row_ok (body e) \<and> ilk_bound g' \<and>
        (\<forall>ki. entity_ilk e = Some ki \<longrightarrow> \<not> registered g ki \<and> registered g' ki) \<and>
        (\<forall>ki. registered g ki \<longrightarrow> registered g' ki))"

lemma new_lrp_fresh:
  assumes "set_pop_ok env" and "ilk_bound g"
    and "new_lrp env g uuid ip prefix mac lr_uuid peer = Some eg"
  shows "fresh_entity g (P_lrp uuid ip prefix mac lr_uuid peer) eg"
  using assms(3) get_ilk_idx_ok [OF assms(1,2)]
  by (auto simp: new_lrp_def fresh_entity_def new_entity_def ident_def row_ok_def entity_ilk_def
      bind_eq_Some_conv)

lemma new_lsr_fresh:
  assumes "set_pop_ok env" and "ilk_bound g"
    and "new_lsr env g uuid ip prefix next_hop outport lr_uuid = Some eg"
  shows "fresh_entity g (P_lsr uuid ip prefix next_hop outport lr_uuid) eg"
  using assms(3) get_ilk_idx_ok [OF assms(1,2)]
  by (auto simp: new_lsr_def fresh_entity_def new_entity_def ident_def row_ok_def entity_ilk_def
      bind_eq_Some_conv Let_def)

lemma make_entity_fresh:
  assumes "set_pop_ok env" and "ilk_bound g" and "make_entity env g p = Some eg"
  shows "fresh_entity g p eg"
proof (cases p)
  case P_lrp
  then show ?thesis using assms new_lrp_fresh by (simp add: make_entity_def)
next
  case P_lsr
  then show ?thesis using assms new_lsr_fresh by (simp add: make_entity_def)
qed (use assms(2,3) ip2int_nonempty in
    \<open>auto simp: make_entity_def fresh_entity_def new_entity_def ident_def row_ok_def entity_ilk_def
       new_lsp_def new_lr_def new_lnat_def new_ls_def new_chassis_def new_ovsport_def
       bind_eq_Some_conv\<close>)


section \<open>Insertion\<close>

lemma idxmap_partial_inv:
  assumes "zoo_inv z" and "insert_entity_idxmap e z = (b, z')"
  shows "zoo_inv z'"
proof -
  obtain m where m: "insert_keys (uniq_keys (body e)) (ident e) (entity_idxmap z) = (b, m)"
    and z': "z' = z\<lparr>entity_idxmap := m\<rparr>"
    using assms(2) by (auto simp: insert_entity_idxmap_def ident_def split: prod.splits)
  have "idx_ok z'"
    using assms(1) insert_keys_le [OF m] unfolding zoo_inv_def idx_ok_def z' by simp
  then show ?thesis
    using assms(1) by (simp add: zoo_inv_def z' live_ok_def sink_ok_def facts_ok_def ilk_ok_def)
qed

lemma insert_entity_idxmap_frame:
  assumes "insert_entity_idxmap e z = (b, z')"
  shows "entity_set z' = entity_set z" "entity_sink_set z' = entity_sink_set z" "db z' = db z"
    "ilk z' = ilk z" "zoo_ver z' = zoo_ver z"
  using assms by (auto simp: insert_entity_idxmap_def split: prod.splits)

lemma insert_entity_idxmap_new:
  assumes "insert_entity_idxmap e z = (True, z')" and "kv \<in> set (uniq_keys (body e))"
  shows "entity_idxmap z' kv = Some (ident e)"
proof -
  obtain m where m: "insert_keys (uniq_keys (body e)) (ident e) (entity_idxmap z) = (True, m)"
    and z': "z' = z\<lparr>entity_idxmap := m\<rparr>"
    using assms(1) by (auto simp: insert_entity_idxmap_def ident_def split: prod.splits)
  show ?thesis using insert_keys_ok [OF m, of kv] assms(2) by (simp add: z')
qed

text \<open>The entity is stored, then populated: both at once.\<close>

definition stored :: "etype \<Rightarrow> entity \<Rightarrow> zoo \<Rightarrow> zoo" where
  "stored t e z =
     z\<lparr>entity_set := (entity_set z)(t := AList.update (body_uuid (body e)) (e\<lparr>populated := True\<rparr>)
                                          (entity_set z t)),
       zoo_ver := zoo_ver z + 1,
       db := add_clause e (db z)\<rparr>"

lemma update_twice: "AList.update k v (AList.update k u xs) = AList.update k v xs"
  by (induction xs) auto

lemma stored_eq:
  assumes "\<not> populated e" and "state e = body_state (body e)"
  shows "put_entity t (body_uuid (body e)) (populate e (db z))
      (z\<lparr>entity_set := (entity_set z)(t := AList.update (body_uuid (body e)) e (entity_set z t)),
         zoo_ver := zoo_ver z + 1\<rparr>) = stored t e z"
proof -
  have "update_dup_data e = e" by (simp add: update_dup_data_def assms(2))
  then show ?thesis
    using assms(1) by (simp add: put_entity_def stored_def populate_def Let_def update_twice)
qed

lemma stored_inv:
  assumes inv: "zoo_inv z" and free: "live z t k = None" and id: "ident e = (t, k)"
    and st: "state e = State_ADD" "body_state (body e) = State_ADD" "row_ok (body e)"
    and idx: "\<And>kv. kv \<in> set (uniq_keys (body e)) \<Longrightarrow> entity_idxmap z kv = Some (t, k)"
    and ilk: "\<And>ki. entity_ilk e = Some ki \<Longrightarrow>
      registered (ilk z) ki \<and> (\<forall>e' \<in># all_mset z. entity_ilk e' \<noteq> Some ki)"
  shows "zoo_inv (stored t e z)"
proof -
  let ?z = "stored t e z" and ?e = "e\<lparr>populated := True\<rparr>"
  have k: "body_uuid (body e) = k" using id by (simp add: ident_def)
  have inv': "live_ok z" "sink_ok z" "facts_ok z" "idx_ok z" "ilk_ok z"
    using inv by (simp_all add: zoo_inv_def)
  have live: "live ?z s k' = (if (s, k') = (t, k) then Some ?e else live z s k')" for s k'
    by (simp add: stored_def k update_conv')
  have "live_mset ?z = add_mset ?e (live_mset z)"
    using free by (simp add: stored_def k group_values_put_new)
  then have all: "all_mset ?z = add_mset ?e (all_mset z)" by (simp add: stored_def)
  have "live_ok ?z"
    unfolding live_ok_def
  proof (intro conjI allI impI)
    show "distinct (map fst (entity_set ?z s))" for s
      using inv'(1) by (simp add: stored_def live_ok_def distinct_update)
    show "live_entity s k' e'" if "live ?z s k' = Some e'" for s k' e'
    proof (cases "(s, k') = (t, k)")
      case True
      then show ?thesis using that id st unfolding live by (auto simp: live_entity_def ident_def)
    next
      case False
      then have "live z s k' = Some e'" using that by (simp only: live if_False)
      then show ?thesis using inv'(1) by (metis live_ok_def)
    qed
  qed
  moreover have "sink_ok ?z" using inv'(2) by (simp add: sink_ok_def stored_def)
  moreover have "facts_ok ?z"
    using inv'(3) unfolding facts_ok_def all
    by (auto simp: stored_def add_clause_def db.view_assert)
  moreover have "idx_ok ?z"
    using inv'(4) idx unfolding idx_ok_def live by (auto simp: stored_def split: if_splits)
  moreover have "ilk_ok ?z"
  proof -
    have eilk: "entity_ilk ?e = entity_ilk e" by (simp add: entity_ilk_def)
    have g: "ilk ?z = ilk z" by (simp add: stored_def)
    have "entity_ilk e \<noteq> None \<longrightarrow> entity_ilk e \<notin> entity_ilk ` set_mset (all_mset z)"
      using ilk by (cases "entity_ilk e") (auto dest: sym)
    then show ?thesis
      using inv'(5) ilk unfolding ilk_ok_def all g uniq_in_add eilk set_mset_add_mset_insert
      by (simp add: eilk)
  qed
  ultimately show ?thesis by (simp add: zoo_inv_def)
qed

lemma move_entity2sink_ilk:
  assumes "live_ok z"
  shows "ilk (move_entity2sink t k z) = ilk z"
    and "image_mset entity_ilk (all_mset (move_entity2sink t k z)) = image_mset entity_ilk (all_mset z)"
proof -
  show "ilk (move_entity2sink t k z) = ilk z"
    by (cases "live z t k") (simp_all add: move_entity2sink_none move_entity2sink_eq)
  show "image_mset entity_ilk (all_mset (move_entity2sink t k z)) = image_mset entity_ilk (all_mset z)"
  proof (cases "live z t k")
    case (Some e)
    have "add_mset e (live_mset (move_entity2sink t k z)) = live_mset z"
      using assms Some by (simp add: move_entity2sink_eq [OF Some] live_ok_def group_values_pop)
    then have "add_mset (entity_ilk e) (image_mset entity_ilk (live_mset (move_entity2sink t k z))) =
        image_mset entity_ilk (live_mset z)"
      by (metis image_mset_add_mset)
    then show ?thesis
      by (simp add: move_entity2sink_eq [OF Some] sink_values_append mark_fst entity_ilk_def
          flip: union_mset_add_mset_left)
  qed (simp add: move_entity2sink_none)
qed

lemma after_add_inv:
  assumes "zoo_inv z"
  shows "zoo_inv (after_add env e z)"
proof -
  have "zoo_inv (fold (\<lambda>(k, lr) z. if P lr then touch_key CHASSIS u z else z) xs z)" for P u xs
    using assms by (induction xs arbitrary: z) (auto simp: touch_key_inv)
  then show ?thesis
    using assms
    by (auto simp: after_add_def touch_gateway_by_LR_def touch_gateway_by_chassis_def touch_key_inv
        split: body.splits option.splits)
qed

text \<open>A wider ILK registry does no harm.\<close>

lemma wider_ilk_inv:
  assumes "zoo_inv z" and "ilk_bound g" and "\<And>ki. registered (ilk z) ki \<Longrightarrow> registered g ki"
  shows "zoo_inv (z\<lparr>ilk := g\<rparr>)"
  using assms unfolding zoo_inv_def live_ok_def sink_ok_def facts_ok_def idx_ok_def ilk_ok_def
  by simp

text \<open>\<open>add_new_entity\<close> in one piece: the old entity moves out, then the new one is stored and populated.\<close>

lemma add_new_entity_eq:
  assumes "body_uuid (body e) = k" and "\<not> populated e" and "state e = body_state (body e)"
    and ins: "insert_entity_idxmap e (move_entity2sink t k z) = (b, z2)"
  shows "add_new_entity env t e z = (if b then after_add env e (stored t e z2) else z2)"
proof -
  have z1: "(if live z t k \<noteq> None then move_entity2sink t k z else z) = move_entity2sink t k z"
    by (simp add: move_entity2sink_none)
  show ?thesis
    using stored_eq [OF assms(2,3), of t z2]
    unfolding add_new_entity_def add_entity_in_zoo_def Let_def assms(1) z1 ins
    by (cases b) (simp_all add: put_entity_def)
qed

lemma add_new_entity_stored_inv:
  assumes inv: "zoo_inv z" and fresh: "fresh_entity g p (e, ilk z)"
    and used: "\<forall>e' \<in># all_mset z. \<forall>ki. entity_ilk e' = Some ki \<longrightarrow> registered g ki"
    and ins: "insert_entity_idxmap e (move_entity2sink (props_etype p) (props_uuid p) z) = (True, z2)"
  shows "zoo_inv (stored (props_etype p) e z2)"
proof -
  let ?t = "props_etype p" and ?k = "props_uuid p"
  have id: "ident e = (?t, ?k)" and st: "state e = State_ADD" "body_state (body e) = State_ADD"
    and own: "row_ok (body e)"
    and eilk: "\<And>ki. entity_ilk e = Some ki \<Longrightarrow> \<not> registered g ki \<and> registered (ilk z) ki"
    using fresh by (auto simp: fresh_entity_def)
  have live_ok: "live_ok z" using inv by (simp add: zoo_inv_def)
  note frame = insert_entity_idxmap_frame [OF ins]
  show ?thesis
  proof (rule stored_inv [OF idxmap_partial_inv [OF move_entity2sink_inv [OF inv] ins]])
    show "live z2 ?t ?k = None"
      using move_entity2sink_live [OF live_ok] by (simp add: frame)
    show "entity_idxmap z2 kv = Some (?t, ?k)" if "kv \<in> set (uniq_keys (body e))" for kv
      using insert_entity_idxmap_new [OF ins that] id by simp
    show "registered (ilk z2) ki \<and> (\<forall>e' \<in># all_mset z2. entity_ilk e' \<noteq> Some ki)"
      if ki: "entity_ilk e = Some ki" for ki
    proof -
      have "entity_ilk ` set_mset (all_mset z2) = entity_ilk ` set_mset (all_mset z)"
        using arg_cong [OF move_entity2sink_ilk(2) [OF live_ok, of ?t ?k], of set_mset]
        by (simp only: frame set_image_mset)
      moreover have "Some ki \<notin> entity_ilk ` set_mset (all_mset z)"
        using used eilk [OF ki] by (metis imageE)
      ultimately have "Some ki \<notin> entity_ilk ` set_mset (all_mset z2)" by (simp only: not_False_eq_True)
      then have "\<forall>e' \<in># all_mset z2. entity_ilk e' \<noteq> Some ki" by (metis imageI)
      then show ?thesis
        using eilk [OF ki] by (simp add: frame move_entity2sink_ilk(1) [OF live_ok])
    qed
  qed (use id st own in simp_all)
qed

lemma add_new_entity_inv:
  assumes inv: "zoo_inv z" and fresh: "fresh_entity g p (e, ilk z)"
    and used: "\<forall>e' \<in># all_mset z. \<forall>ki. entity_ilk e' = Some ki \<longrightarrow> registered g ki"
  shows "zoo_inv (add_new_entity env (props_etype p) e z)"
proof -
  let ?t = "props_etype p" and ?k = "props_uuid p"
  have k: "body_uuid (body e) = ?k" and st: "\<not> populated e" "state e = body_state (body e)"
    using fresh by (auto simp: fresh_entity_def ident_def)
  obtain b z2 where ins: "insert_entity_idxmap e (move_entity2sink ?t ?k z) = (b, z2)" by fastforce
  have "zoo_inv z2" using move_entity2sink_inv [OF inv] ins by (rule idxmap_partial_inv)
  then show ?thesis
    using add_new_entity_stored_inv [OF inv fresh used] ins
    by (simp add: add_new_entity_eq [OF k st ins] after_add_inv)
qed

lemma add_entity_inv:
  assumes "set_pop_ok env" and "zoo_inv z" and "add_entity env p z = Some z'"
  shows "zoo_inv z'"
proof (cases "existing_is_same p z = Some False \<and> make_entity env (ilk z) p \<noteq> None")
  case False
  then show ?thesis using assms(2,3) by (auto simp: add_entity_def split: option.splits bool.splits)
next
  case True
  then obtain e g where mk: "make_entity env (ilk z) p = Some (e, g)" by auto
  have bound: "ilk_bound (ilk z)"
    and used: "\<forall>e' \<in># all_mset z. \<forall>ki. entity_ilk e' = Some ki \<longrightarrow> registered (ilk z) ki"
    using assms(2) by (simp_all add: zoo_inv_def ilk_ok_def)
  have fresh: "fresh_entity (ilk z) p (e, g)"
    using assms(1) bound mk by (rule make_entity_fresh)
  have "zoo_inv (add_new_entity env (props_etype p) e (z\<lparr>ilk := g\<rparr>))"
  proof (rule add_new_entity_inv)
    show "zoo_inv (z\<lparr>ilk := g\<rparr>)"
      using fresh by (intro wider_ilk_inv [OF assms(2)]) (auto simp: fresh_entity_def)
    show "fresh_entity (ilk z) p (e, ilk (z\<lparr>ilk := g\<rparr>))" using fresh by simp
  qed (use used in simp)
  then show ?thesis using True assms(3) mk by (simp add: add_entity_def)
qed


lemma convert_kv2entity_inv:
  assumes "set_pop_ok env" and "zoo_inv z"
  shows "zoo_inv (convert_kv2entity env t path properties z)"
  using assms add_entity_inv by (auto simp: convert_kv2entity_def split: option.splits)

lemma fold_inv:
  assumes "P z" and "\<And>x z. P z \<Longrightarrow> P (f x z)"
  shows "P (fold f xs z)"
  using assms by (induction xs arbitrary: z) auto

lemma convert_pool2entity_inv:
  assumes "set_pop_ok env" and "zoo_inv z"
  shows "zoo_inv (convert_pool2entity env t pool z)"
  unfolding convert_pool2entity_def
  by (rule fold_inv) (use assms convert_kv2entity_inv in \<open>auto split: prod.splits\<close>)

lemma move_by_pool_inv:
  assumes "zoo_inv z"
  shows "zoo_inv (move_entity2sink_by_pool t pool z)"
  unfolding move_entity2sink_by_pool_def
  by (rule fold_inv) (use assms move_entity2sink_inv in \<open>auto split: prod.splits\<close>)

lemma move_all_inv:
  assumes "zoo_inv z"
  shows "zoo_inv (move_all_entity2sink exclude z)"
  unfolding move_all_entity2sink_def
  by (rule fold_inv) (use assms in \<open>auto intro!: fold_inv [where P = zoo_inv] move_entity2sink_inv\<close>)

lemma touch_entity_inv:
  assumes "zoo_inv z"
  shows "zoo_inv (snd (touch_entity t fn z))"
  unfolding touch_entity_def Let_def snd_conv
  by (rule fold_inv) (use assms touch_key_inv in auto)

lemma update_version_force_inv: "zoo_inv z \<Longrightarrow> zoo_inv (update_version_force z)"
  by (simp add: zoo_inv_def update_version_force_def live_ok_def sink_ok_def facts_ok_def idx_ok_def
      ilk_ok_def)

section \<open>Sweeping\<close>

lemma free_ilk_idx_ok:
  assumes "registered g (key, i)" and "ilk_bound g"
  obtains g' where "free_ilk_idx g key i = Some g'" "ilk_bound g'"
    "\<And>ki. registered g' ki \<longleftrightarrow> registered g ki \<and> ki \<noteq> (key, i)"
proof -
  obtain occ where occ: "g key = Some occ" "i \<in> set occ"
    using assms(1) by (auto simp: registered_def)
  let ?g = "g(key := Some (removeAll i occ))"
  have "ilk_bound ?g" using assms(2) occ by (fastforce simp: ilk_bound_def split: if_splits)
  moreover have "registered ?g ki \<longleftrightarrow> registered g ki \<and> ki \<noteq> (key, i)" for ki
    using occ by (cases ki) (auto simp: registered_def)
  ultimately show ?thesis using that occ by (simp add: free_ilk_idx_def)
qed

lemma eliminate_ok:
  assumes "ilk_bound g" and "\<And>ki. entity_ilk e = Some ki \<Longrightarrow> registered g ki"
  obtains g' where "eliminate e (f, g) = Some (del_clause e f, g')" "ilk_bound g'"
    "\<And>ki. registered g' ki \<longleftrightarrow> registered g ki \<and> entity_ilk e \<noteq> Some ki"
proof (cases "entity_ilk e")
  case None
  then show ?thesis using that [of g] assms(1) by (simp add: eliminate_def entity_ilk_def)
next
  case (Some ki)
  obtain key i where ki: "ki = (key, i)" by (cases ki)
  obtain g' where "free_ilk_idx g key i = Some g'" "ilk_bound g'"
    "\<And>ki. registered g' ki \<longleftrightarrow> registered g ki \<and> ki \<noteq> (key, i)"
    using free_ilk_idx_ok assms Some ki by metis
  then show ?thesis using that [of g'] Some ki by (auto simp: eliminate_def entity_ilk_def)
qed

text \<open>
  Eliminating entities with distinct, registered indices succeeds and unregisters exactly theirs.
\<close>

lemma eliminate_all_ok:
  assumes "ilk_bound g" and "uniq_in (\<lambda>x. x \<noteq> None) entity_ilk (mset es)"
    and "\<And>e ki. e \<in> set es \<Longrightarrow> entity_ilk e = Some ki \<Longrightarrow> registered g ki"
  shows "\<exists>f' g'. eliminate_all es (f, g) = Some (f', g') \<and> ilk_bound g' \<and>
    fact_set f' = fact_set f - rows (mset es) \<and>
    (\<forall>ki. registered g' ki \<longleftrightarrow> registered g ki \<and> Some ki \<notin> entity_ilk ` set es)"
  using assms
proof (induction es arbitrary: f g)
  case (Cons e es)
  obtain g1 where el: "eliminate e (f, g) = Some (del_clause e f, g1)" and b1: "ilk_bound g1"
    and r1: "\<And>ki. registered g1 ki \<longleftrightarrow> registered g ki \<and> entity_ilk e \<noteq> Some ki"
    using eliminate_ok [OF Cons.prems(1), of e f] Cons.prems(3) by (metis list.set_intros(1))
  have "registered g1 ki" if "e' \<in> set es" "entity_ilk e' = Some ki" for e' ki
  proof -
    have "entity_ilk e \<noteq> None \<longrightarrow> entity_ilk e \<notin> entity_ilk ` set_mset (mset es)"
      using Cons.prems(2) unfolding mset.simps uniq_in_add by (rule conjunct2)
    then have "entity_ilk e \<noteq> Some ki" using that by (force simp: image_iff)
    then show ?thesis using Cons.prems(3) [of e' ki] that r1 by simp
  qed
  then obtain f' g' where rest: "eliminate_all es (del_clause e f, g1) = Some (f', g')"
    "ilk_bound g'" "fact_set f' = fact_set (del_clause e f) - rows (mset es)"
    "\<forall>ki. registered g' ki \<longleftrightarrow> registered g1 ki \<and> Some ki \<notin> entity_ilk ` set es"
    using Cons.IH [OF b1, of "del_clause e f"] Cons.prems(2) by auto
  have "fact_set (del_clause e f) = fact_set f - (if touched e then {body e} else {})"
    by (simp add: del_clause_def db.view_retract)
  then show ?case using el rest r1 by (auto split: if_splits)
qed simp

lemma sink_entities_mset:
  "mset (concat (map (sink_entities z) logical_entity_types)) = sink_mset z"
proof -
  have "sink_entities z = (\<lambda>t. concat (map snd (entity_sink_set z t)))"
    by (simp add: sink_entities_def fun_eq_iff)
  then show ?thesis by (simp only: sink_values_def)
qed

lemma ilk_ok_registered:
  "ilk_ok z \<Longrightarrow> e \<in># all_mset z \<Longrightarrow> entity_ilk e = Some ki \<Longrightarrow> registered (ilk z) ki"
  unfolding ilk_ok_def by blast

lemma ilk_ok_uniq: "ilk_ok z \<Longrightarrow> uniq_in (\<lambda>x. x \<noteq> None) entity_ilk (all_mset z)"
  by (simp only: ilk_ok_def)

lemma uniq_in_union: "uniq_in P f (M + N) \<Longrightarrow> uniq_in P f N"
  by (induction M) auto

lemma uniq_in_disjoint:
  "uniq_in P f (M + N) \<Longrightarrow> e \<in># M \<Longrightarrow> P (f e) \<Longrightarrow> f e \<notin> f ` set_mset N"
  by (induction M) auto

lemma rows_sink_disjoint:
  assumes "live_ok z" and "sink_ok z"
  shows "rows (live_mset z) \<inter> rows (sink_mset z) = {}"
    and "BChassis flow_tunnel_row \<notin> rows (sink_mset z)"
proof -
  have "e \<in># live_mset z \<Longrightarrow> body_state (body e) \<noteq> State_DEL" for e
    using assms(1) in_live_mset [of z e] unfolding live_ok_def live_entity_def by fastforce
  moreover have "e \<in># sink_mset z \<Longrightarrow> body_state (body e) = State_DEL" for e
    using assms(2) by (simp add: sink_ok_def)
  ultimately show "rows (live_mset z) \<inter> rows (sink_mset z) = {}"
    by (fastforce simp: rows_def)
  show "BChassis flow_tunnel_row \<notin> rows (sink_mset z)"
    using assms(2) row_ok_not_tunnel by (force simp: rows_def sink_ok_def)
qed

lemma clean_sink_inv:
  assumes "zoo_inv z"
  obtains z' where "clean_sink z = Some z'" "zoo_inv z'" "entity_set z' = entity_set z"
    "sink_mset z' = {#}" "zoo_ver z' = zoo_ver z"
proof -
  have inv: "live_ok z" "sink_ok z" "facts_ok z" "idx_ok z" "ilk_ok z"
    using assms by (simp_all add: zoo_inv_def)
  let ?es = "concat (map (sink_entities z) logical_entity_types)"
  have es: "set ?es = set_mset (sink_mset z)" by (metis set_mset_mset sink_entities_mset)
  have "\<exists>f' g'. eliminate_all ?es (db z, ilk z) = Some (f', g') \<and> ilk_bound g' \<and>
      fact_set f' = fact_set (db z) - rows (mset ?es) \<and>
      (\<forall>ki. registered g' ki \<longleftrightarrow> registered (ilk z) ki \<and> Some ki \<notin> entity_ilk ` set ?es)"
  proof (rule eliminate_all_ok)
    show "uniq_in (\<lambda>x. x \<noteq> None) entity_ilk (mset ?es)"
      unfolding sink_entities_mset using inv(5) uniq_in_union by (fastforce simp: ilk_ok_def)
    show "ilk_bound (ilk z)" using inv(5) by (simp add: ilk_ok_def)
    show "registered (ilk z) ki" if "e \<in> set ?es" "entity_ilk e = Some ki" for e ki
      using ilk_ok_registered [OF inv(5) _ that(2)] that(1) unfolding es by simp
  qed
  then obtain f' g' where el: "eliminate_all ?es (db z, ilk z) = Some (f', g')" "ilk_bound g'"
    and f': "fact_set f' = fact_set (db z) - rows (sink_mset z)"
    and g': "\<And>ki. registered g' ki \<longleftrightarrow> registered (ilk z) ki \<and> Some ki \<notin> entity_ilk ` set_mset (sink_mset z)"
    unfolding sink_entities_mset es by blast
  define z' where "z' = z\<lparr>entity_sink_set := (\<lambda>_. []), db := f', ilk := g'\<rparr>"
  have sets: "entity_set z' = entity_set z" "sink_mset z' = {#}" by (simp_all add: z'_def)
  have "facts_ok z'"
    using inv(3) rows_sink_disjoint [OF inv(1,2)] f'
    unfolding facts_ok_def sets by (auto simp: z'_def)
  moreover have "ilk_ok z'"
    unfolding ilk_ok_def sets
  proof (intro conjI ballI allI impI)
    show "uniq_in (\<lambda>x. x \<noteq> None) entity_ilk (live_mset z + {#})"
      using ilk_ok_uniq [OF inv(5)] uniq_in_union [of _ _ "sink_mset z" "live_mset z"]
      unfolding add_0_right by (metis add.commute)
    show "registered (ilk z') ki" if "e \<in># live_mset z + {#}" "entity_ilk e = Some ki" for e ki
    proof -
      have "Some ki \<notin> entity_ilk ` set_mset (sink_mset z)"
        using inv(5) uniq_in_disjoint [of "\<lambda>x. x \<noteq> None" entity_ilk "live_mset z" "sink_mset z" e] that
        by (simp add: ilk_ok_def)
      moreover have "registered (ilk z) ki"
        using ilk_ok_registered [OF inv(5) _ that(2)] that(1) by simp
      ultimately show ?thesis using g' by (simp add: z'_def)
    qed
  qed (use el(2) in \<open>simp add: z'_def\<close>)
  ultimately have "zoo_inv z'"
    using inv(1,4) unfolding zoo_inv_def live_ok_def idx_ok_def sink_ok_def sets by (simp add: z'_def)
  moreover have "clean_sink z = Some z'" using el(1) by (simp add: clean_sink_def z'_def)
  ultimately show ?thesis using that sets by (simp add: z'_def)
qed


lemma sweep_key_live:
  "live (sweep_key t k z) s k' =
     (if (s, k') = (t, k)
      then map_option (\<lambda>e. if state e = State_ADD then update_dup_data (e\<lparr>state := State_NO\<rparr>) else e)
             (live z t k)
      else live z s k')"
  by (cases "live z t k") (auto simp: sweep_key_def put_entity_def mark_fst update_conv')

lemma sweep_key_frame [simp]:
  "entity_sink_set (sweep_key t k z) = entity_sink_set z" "zoo_ver (sweep_key t k z) = zoo_ver z"
  by (simp_all add: sweep_key_def put_entity_def split: option.splits)

lemma sweep_fold_inv: "zoo_inv z \<Longrightarrow> zoo_inv (fold (sweep_key t) ks z)"
  by (rule fold_inv) (auto intro: sweep_key_inv)

text \<open>Sweeping a key twice is sweeping it once, so a group can be read off its keys.\<close>

definition swept :: "entity option \<Rightarrow> entity option" where
  "swept = map_option (\<lambda>e. if state e = State_ADD then update_dup_data (e\<lparr>state := State_NO\<rparr>) else e)"

lemma swept_idem [simp]: "swept (swept x) = swept x"
  by (cases x) (auto simp: swept_def)

lemma sweep_fold_live:
  "live (fold (sweep_key t) ks z) s k =
     (if s = t \<and> k \<in> set ks then swept (live z s k) else live z s k)"
proof (induction ks arbitrary: z)
  case (Cons k' ks)
  have "live (sweep_key t k' z) s k = (if s = t \<and> k = k' then swept (live z s k) else live z s k)"
    by (auto simp: sweep_key_live swept_def)
  then show ?case using Cons by auto
qed simp

lemma sweep_fold_frame [simp]:
  "entity_sink_set (fold (sweep_key t) ks z) = entity_sink_set z"
  "zoo_ver (fold (sweep_key t) ks z) = zoo_ver z"
  by (induction ks arbitrary: z) auto

lemma swept_none [simp]: "swept None = None"
  by (simp add: swept_def)

lemma sweep_types_live:
  assumes "distinct ts"
  shows "live (fold (\<lambda>t z. fold (sweep_key t) (map fst (entity_set z t)) z) ts z) s k =
    (if s \<in> set ts then swept (live z s k) else live z s k)"
  using assms
proof (induction ts arbitrary: z)
  case (Cons t ts)
  have "k \<notin> set (map fst (entity_set z t)) \<Longrightarrow> live z t k = None"
    by (simp add: map_of_eq_None_iff)
  then have "live (fold (sweep_key t) (map fst (entity_set z t)) z) s k =
      (if s = t then swept (live z s k) else live z s k)"
    by (auto simp: sweep_fold_live simp del: set_map)
  then show ?case using Cons by auto
qed simp

lemma sweep_entity_set_ok:
  assumes "zoo_inv z"
  shows "zoo_inv (sweep_entity_set z)" and "live (sweep_entity_set z) t k = swept (live z t k)"
    and "entity_sink_set (sweep_entity_set z) = entity_sink_set z"
    and "zoo_ver (sweep_entity_set z) = zoo_ver z"
proof -
  show "zoo_inv (sweep_entity_set z)"
    unfolding sweep_entity_set_def by (rule fold_inv) (auto intro: assms sweep_fold_inv)
  show "live (sweep_entity_set z) t k = swept (live z t k)"
    unfolding sweep_entity_set_def by (simp add: sweep_types_live)
  show "entity_sink_set (sweep_entity_set z) = entity_sink_set z"
    unfolding sweep_entity_set_def
    by (rule fold_inv [where P = "\<lambda>y. entity_sink_set y = entity_sink_set z"]) simp_all
  show "zoo_ver (sweep_entity_set z) = zoo_ver z"
    unfolding sweep_entity_set_def
    by (rule fold_inv [where P = "\<lambda>y. zoo_ver y = zoo_ver z"]) simp_all
qed

lemma body_update_dup: "body (update_dup_data e) = set_state (state e) (body e)"
  by simp

text \<open>
  \<open>sweep_zoo\<close> does not raise; it empties the sink, and every row of the facts is in state
  \<open>State_NO\<close> afterwards.
\<close>

lemma sweep_zoo_ok:
  assumes "zoo_inv z"
  obtains z' where "sweep_zoo z = Some z'" "zoo_inv z'" "sink_mset z' = {#}"
    "\<And>b. b \<in> fact_set (db z') \<Longrightarrow> body_state b = State_NO"
    "\<And>t k. live z' t k = swept (live z t k)" "zoo_ver z' = zoo_ver z"
proof -
  obtain z1 where z1: "clean_sink z = Some z1" "zoo_inv z1" "entity_set z1 = entity_set z"
    "sink_mset z1 = {#}" "zoo_ver z1 = zoo_ver z"
    using clean_sink_inv [OF assms] by blast
  let ?z = "sweep_entity_set z1"
  note sw = sweep_entity_set_ok [OF z1(2)]
  have sink: "sink_mset ?z = {#}" using sw(3) z1(4) by simp
  have live: "live ?z t k = swept (live z t k)" for t k using sw(2) z1(3) by simp
  have "body_state b = State_NO" if b: "b \<in> fact_set (db ?z)" for b
  proof (cases "b = BChassis flow_tunnel_row")
    case False
    then obtain e where e: "e \<in># live_mset ?z" "b = body e"
      using b sw(1) sink by (auto simp: zoo_inv_def facts_ok_def rows_def)
    have ok: "live_ok ?z" using sw(1) by (simp add: zoo_inv_def)
    then obtain t k where tk: "live ?z t k = Some e"
      using e(1) in_live_mset [of ?z e] by (auto simp: live_ok_def)
    then have "live_entity t k e" using ok by (metis live_ok_def)
    moreover have "state e \<noteq> State_ADD"
      using tk live [of t k] by (auto simp: swept_def split: if_splits dest: arg_cong [of _ _ state])
    ultimately show ?thesis using e(2) by (auto simp: live_entity_def)
  qed (simp add: flow_tunnel_row_def)
  then show ?thesis using that [of ?z] z1 sw sink live by (simp add: sweep_zoo_def)
qed


section \<open>Reachable zoos\<close>

text \<open>
  The operations other modules call: the OVS monitor and the configuration pools add, move and
  convert, the packet-in handler touches, and each round of flow generation ends with a sweep.
\<close>

inductive zoo_update :: "env \<Rightarrow> zoo \<Rightarrow> zoo \<Rightarrow> bool" for env where
  step_add: "add_entity env p z = Some z' \<Longrightarrow> zoo_update env z z'"
| step_convert: "zoo_update env z (convert_pool2entity env t pool z)"
| step_move: "zoo_update env z (move_entity2sink t key z)"
| step_move_pool: "zoo_update env z (move_entity2sink_by_pool t pool z)"
| step_move_all: "zoo_update env z (move_all_entity2sink exclude z)"
| step_touch: "zoo_update env z (snd (touch_entity t fn z))"
| step_force: "zoo_update env z (update_version_force z)"

inductive zoo_step :: "env \<Rightarrow> zoo \<Rightarrow> zoo \<Rightarrow> bool" for env where
  step_update: "zoo_update env z z' \<Longrightarrow> zoo_step env z z'"
| step_sweep: "sweep_zoo z = Some z' \<Longrightarrow> zoo_step env z z'"

inductive zoo_reachable :: "env \<Rightarrow> string list \<Rightarrow> zoo \<Rightarrow> bool" for env ids where
  reach_init: "zoo_reachable env ids (init_zoo ids)"
| reach_step: "zoo_reachable env ids z \<Longrightarrow> zoo_step env z z' \<Longrightarrow> zoo_reachable env ids z'"

lemma zoo_update_inv:
  assumes "set_pop_ok env" and "zoo_update env z z'" and "zoo_inv z"
  shows "zoo_inv z'"
  using assms(2)
  by cases (use assms(1,3) in \<open>auto intro: add_entity_inv convert_pool2entity_inv move_entity2sink_inv
       move_by_pool_inv move_all_inv touch_entity_inv update_version_force_inv\<close>)

lemma zoo_step_inv:
  assumes "set_pop_ok env" and "zoo_step env z z'" and "zoo_inv z"
  shows "zoo_inv z'"
  using assms(2)
proof cases
  case (step_sweep)
  then show ?thesis using sweep_zoo_ok [OF assms(3)] by (metis option.inject)
qed (use assms(1,3) zoo_update_inv in blast)

lemma zoo_reachable_inv:
  assumes "set_pop_ok env" and "zoo_reachable env ids z"
  shows "zoo_inv z"
  using assms(2) by induction (use assms(1) in \<open>auto intro: init_zoo_inv zoo_step_inv\<close>)

lemma convert_reachable:
  "zoo_reachable env ids z \<Longrightarrow> zoo_reachable env ids (convert_pool2entity env t pool z)"
  by (blast intro: reach_step step_update step_convert)

section \<open>What the invariant gives\<close>

lemma live_same_key:
  assumes "idx_ok z" and "live z t k = Some e" and "live z t' k' = Some e'"
    and "kv \<in> set (uniq_keys (body e))" and "kv \<in> set (uniq_keys (body e'))"
  shows "t = t' \<and> k = k'"
proof -
  have "entity_idxmap z kv = Some (t, k)" "entity_idxmap z kv = Some (t', k')"
    using assms unfolding idx_ok_def by blast+
  then show ?thesis by simp
qed

lemma live_same_ilk:
  assumes "zoo_inv z" and "live z t k = Some e" and "live z t' k' = Some e'"
    and "entity_ilk e = Some ki" and "entity_ilk e' = Some ki"
  shows "t = t' \<and> k = k'"
proof -
  have inv: "live_ok z" "ilk_ok z" using assms(1) by (simp_all add: zoo_inv_def)
  have "e' \<notin># live_mset z - {#e#}"
  proof
    assume e': "e' \<in># live_mset z - {#e#}"
    have "live_mset z = add_mset e (live_mset z - {#e#})" using live_in [OF assms(2)] by simp
    then have split: "all_mset z = add_mset e ((live_mset z - {#e#}) + sink_mset z)" by simp
    have "uniq_in (\<lambda>x. x \<noteq> None) entity_ilk (add_mset e ((live_mset z - {#e#}) + sink_mset z))"
      using ilk_ok_uniq [OF inv(2)] by (simp only: split [symmetric])
    then have "entity_ilk e \<noteq> None \<longrightarrow>
        entity_ilk e \<notin> entity_ilk ` set_mset ((live_mset z - {#e#}) + sink_mset z)"
      unfolding uniq_in_add by (rule conjunct2)
    moreover have "entity_ilk e \<in> entity_ilk ` set_mset ((live_mset z - {#e#}) + sink_mset z)"
      using e' assms(4,5) by (intro image_eqI [of _ _ e']) simp_all
    ultimately show False using assms(4) by simp
  qed
  moreover have "e' \<in># live_mset z" using assms(3) by (rule live_in)
  ultimately have "e' = e" by (metis insert_DiffM insert_noteq_member live_in [OF assms(2)])
  moreover have "ident e = (t, k)" "ident e' = (t', k')"
    using assms(2,3) inv(1) by (auto simp: live_ok_def live_entity_def)
  ultimately show ?thesis by simp
qed

lemma live_ilk_bound:
  assumes "zoo_inv z" and "live z t k = Some e" and "entity_ilk e = Some (key, i)"
  shows "i < max_ilk_n"
proof -
  have ok: "ilk_ok z" using assms(1) by (simp add: zoo_inv_def)
  have "registered (ilk z) (key, i)"
    using ilk_ok_registered [OF ok _ assms(3)] live_in [OF assms(2)] by simp
  moreover have "ilk_bound (ilk z)" using ok by (simp add: ilk_ok_def)
  ultimately show ?thesis unfolding registered_def ilk_bound_def by fastforce
qed

lemma fact_live_entity:
  assumes "zoo_inv z" and "b \<in> fact_set (db z)" and "body_state b \<noteq> State_DEL"
    and "b \<noteq> BChassis flow_tunnel_row"
  obtains e where "live z (body_etype b) (body_uuid b) = Some e" "body e = b"
proof -
  have inv: "live_ok z" "sink_ok z" "facts_ok z" using assms(1) by (simp_all add: zoo_inv_def)
  have "b \<in> rows (all_mset z)" using inv(3) assms(2,4) unfolding facts_ok_def by blast
  then obtain e where e: "e \<in># all_mset z" "body e = b" by (auto simp: rows_def)
  have "e \<notin># sink_mset z" using inv(2) assms(3) e(2) by (auto simp: sink_ok_def)
  then have "e \<in># live_mset z" using e(1) by simp
  then obtain t k where tk: "live z t k = Some e"
    using in_live_mset [of z e] inv(1) by (auto simp: live_ok_def)
  then have "live_entity t k e" using inv(1) by (metis live_ok_def)
  then show ?thesis using that [of e] tk e(2) by (auto simp: live_entity_def ident_def)
qed


text \<open>Every row of the facts is one a constructor made, whether its entity is live or in the sink.\<close>

lemma fact_row_ok:
  assumes "zoo_inv z" and "b \<in> fact_set (db z)" and "b \<noteq> BChassis flow_tunnel_row"
  shows "row_ok b \<and> (\<forall>key i. body_ilk b = Some (key, i) \<longrightarrow> i < max_ilk_n)"
proof -
  have inv: "live_ok z" "sink_ok z" "facts_ok z" "ilk_ok z" using assms(1) by (simp_all add: zoo_inv_def)
  have "b \<in> rows (all_mset z)" using inv(3) assms(2,3) unfolding facts_ok_def by blast
  then obtain e where e: "e \<in># all_mset z" "body e = b" by (auto simp: rows_def)
  have "row_ok (body e)"
  proof (cases "e \<in># sink_mset z")
    case True
    then show ?thesis using inv(2) by (simp add: sink_ok_def)
  next
    case False
    then have "e \<in># live_mset z" using e(1) by simp
    then obtain t k where "live z t k = Some e" using in_live_mset [of z e] inv(1) by (auto simp: live_ok_def)
    then show ?thesis using inv(1) by (auto simp: live_ok_def live_entity_def)
  qed
  moreover have "i < max_ilk_n" if i: "body_ilk (body e) = Some (key, i)" for key i
  proof -
    have "registered (ilk z) (key, i)" using ilk_ok_registered [OF inv(4) e(1)] i by (simp add: entity_ilk_def)
    moreover have "ilk_bound (ilk z)" using inv(4) by (simp add: ilk_ok_def)
    ultimately show ?thesis unfolding registered_def ilk_bound_def by fastforce
  qed
  ultimately show ?thesis using e(2) by blast
qed


section \<open>The version\<close>

text \<open>
  \<open>quiet z z'\<close>: the version never decreases, and while it stays the same the entities and the
  facts are the same.
\<close>

definition quiet :: "zoo \<Rightarrow> zoo \<Rightarrow> bool" where
  "quiet z z' \<longleftrightarrow>
     zoo_ver z \<le> zoo_ver z' \<and>
     (zoo_ver z' = zoo_ver z \<longrightarrow>
        entity_set z' = entity_set z \<and> entity_sink_set z' = entity_sink_set z \<and> db z' = db z)"

lemma quiet_refl [simp]: "quiet z z"
  by (simp add: quiet_def)

lemma quiet_trans: "quiet z z1 \<Longrightarrow> quiet z1 z2 \<Longrightarrow> quiet z z2"
  by (auto simp: quiet_def)

lemma quiet_force: "quiet z (update_version_force z)"
  by (simp add: quiet_def update_version_force_def)

lemma quiet_fold: "(\<And>x z. quiet z (f x z)) \<Longrightarrow> quiet z (fold f xs z)"
  by (induction xs arbitrary: z) (auto intro: quiet_trans)

lemma quiet_less: "zoo_ver z < zoo_ver z' \<Longrightarrow> quiet z z'"
  by (simp add: quiet_def)

lemma quiet_move: "quiet z (move_entity2sink t k z)"
  by (cases "live z t k") (simp_all add: move_entity2sink_none move_entity2sink_eq quiet_less)

lemma zoo_ver_touch_key [simp]: "zoo_ver (touch_key t k z) = zoo_ver z"
  by (simp add: touch_key_def put_entity_def split: option.splits)

lemma zoo_ver_after_add [simp]: "zoo_ver (after_add env e z) = zoo_ver z"
proof -
  have "zoo_ver (fold (\<lambda>(k, lr) z. if P lr then touch_key CHASSIS u z else z) xs z) = zoo_ver z"
    for P u xs by (induction xs arbitrary: z) auto
  then show ?thesis
    by (auto simp: after_add_def touch_gateway_by_LR_def touch_gateway_by_chassis_def
        split: body.splits option.splits)
qed

lemma quiet_add_new: "quiet z (add_new_entity env t e z)"
proof -
  let ?k = "body_uuid (body e)"
  define z1 where "z1 = (if live z t ?k \<noteq> None then move_entity2sink t ?k z else z)"
  obtain b z2 where ins: "insert_entity_idxmap e z1 = (b, z2)" by fastforce
  note frame = insert_entity_idxmap_frame [OF ins]
  have "quiet z z1" by (simp add: z1_def quiet_move)
  moreover have "quiet z1 (add_new_entity env t e z)"
    using frame unfolding add_new_entity_def add_entity_in_zoo_def Let_def z1_def [symmetric] ins
    by (cases b) (auto simp: quiet_def put_entity_def)
  ultimately show ?thesis by (rule quiet_trans)
qed

lemma quiet_add: "add_entity env p z = Some z' \<Longrightarrow> quiet z z'"
proof -
  assume *: "add_entity env p z = Some z'"
  have "quiet z (add_new_entity env t e (z\<lparr>ilk := g\<rparr>))" for t e g
    using quiet_add_new [of "z\<lparr>ilk := g\<rparr>" env t e] by (simp add: quiet_def)
  then show ?thesis using * by (auto simp: add_entity_def split: option.splits bool.splits)
qed

lemma quiet_convert_kv: "quiet z (convert_kv2entity env t path vs z)"
  using quiet_add by (auto simp: convert_kv2entity_def split: option.splits)

lemma quiet_convert: "quiet z (convert_pool2entity env t pool z)"
  unfolding convert_pool2entity_def by (rule quiet_fold) (auto simp: quiet_convert_kv)

lemma quiet_move_pool: "quiet z (move_entity2sink_by_pool t pool z)"
  unfolding move_entity2sink_by_pool_def by (rule quiet_fold) (auto simp: quiet_move)

lemma quiet_move_all: "quiet z (move_all_entity2sink exclude z)"
  unfolding move_all_entity2sink_def by (rule quiet_fold) (auto intro: quiet_fold simp: quiet_move)

section \<open>Properties\<close>

fun datapath_id :: "body \<Rightarrow> string option" where
  "datapath_id (BLs r) = Some (pystr (LS_ID r))"
| "datapath_id (BLr r) = Some (int_str (LR_ID r))"
| "datapath_id _ = None"

text \<open>
  C11. In every state the operations of the zoo can reach, the Datalog facts are exactly the row of
  the flow-based tunnel and the rows of the touched entities, live or waiting in the sink.
\<close>

theorem zoo_facts_are_touched_entities:
  assumes "set_pop_ok env" and "zoo_reachable env ids z"
  shows "fact_set (db z) =
    insert (BChassis flow_tunnel_row)
      {body e | e. touched e \<and>
         ((\<exists>t k. map_of (entity_set z t) k = Some e) \<or> (\<exists>t. e \<in> set (sink_entities z t)))}"
proof -
  have inv: "live_ok z" "facts_ok z"
    using zoo_reachable_inv [OF assms] by (simp_all add: zoo_inv_def)
  have "e \<in># live_mset z \<longleftrightarrow> (\<exists>t k. live z t k = Some e)" for e
    using inv(1) by (intro in_live_mset) (simp add: live_ok_def)
  moreover have "e \<in># sink_mset z \<longleftrightarrow> (\<exists>t. e \<in> set (sink_entities z t))" for e
    using logical_entity_types_all by (fastforce simp flip: sink_entities_mset)
  ultimately have "rows (all_mset z) = {body e | e. touched e \<and>
      ((\<exists>t k. live z t k = Some e) \<or> (\<exists>t. e \<in> set (sink_entities z t)))}"
    unfolding rows_def image_def by (intro Collect_cong) (simp, blast)
  then show ?thesis using inv(2) unfolding facts_ok_def by (simp only:)
qed

text \<open>
  C12. Two live ports of one switch never have the same IP or the same MAC.
\<close>

theorem lsp_address_unique:
  assumes "set_pop_ok env" and "zoo_reachable env ids z"
    and "map_of (entity_set z LSP) k = Some e" and "body e = BLsp r"
    and "map_of (entity_set z LSP) k' = Some e'" and "body e' = BLsp r'"
    and "LSP_LS_UUID r = LSP_LS_UUID r'" and "LSP_IP r = LSP_IP r' \<or> LSP_MAC r = LSP_MAC r'"
  shows "k = k'"
proof -
  have idx: "idx_ok z" using zoo_reachable_inv [OF assms(1,2)] by (simp add: zoo_inv_def)
  show ?thesis
    using assms(8) live_same_key [OF idx assms(3,5), of "(Ls_view_ip, LSP_LS_UUID r @ LSP_IP r)"]
      live_same_key [OF idx assms(3,5), of "(Ls_view_mac, LSP_LS_UUID r @ LSP_MAC r)"]
    by (auto simp: assms(4,6,7))
qed

text \<open>
  C13. Switches and routers never share the id that becomes the datapath number in the
  \<open>metadata\<close> register.
\<close>

theorem datapath_id_unique:
  assumes "set_pop_ok env" and "zoo_reachable env ids z"
    and "map_of (entity_set z t) k = Some e" and "datapath_id (body e) = Some i"
    and "map_of (entity_set z t') k' = Some e'" and "datapath_id (body e') = Some i"
  shows "(t, k) = (t', k')"
proof -
  have idx: "idx_ok z" using zoo_reachable_inv [OF assms(1,2)] by (simp add: zoo_inv_def)
  have "(Global_view_id, i) \<in> set (uniq_keys (body e))"
    using assms(4) by (cases "body e") auto
  moreover have "(Global_view_id, i) \<in> set (uniq_keys (body e'))"
    using assms(6) by (cases "body e'") auto
  ultimately show ?thesis using live_same_key [OF idx assms(3,5)] by blast
qed

text \<open>
  C14. Router ports, or static routes, of one router with the same network and prefix have
  different ILK indices, all of them below 64.
\<close>

theorem ilk_index_distinct:
  assumes "set_pop_ok env" and "zoo_reachable env ids z"
    and "map_of (entity_set z t) k = Some e" and "body_ilk (body e) = Some (key, i)"
    and "map_of (entity_set z t') k' = Some e'" and "body_ilk (body e') = Some (key, i')"
    and "(t, k) \<noteq> (t', k')"
  shows "i \<noteq> i' \<and> i < 64 \<and> i' < 64"
proof -
  have inv: "zoo_inv z" using assms(1,2) by (rule zoo_reachable_inv)
  have "i \<noteq> i'"
    using live_same_ilk [OF inv assms(3,5)] assms(4,6,7) by (auto simp: entity_ilk_def)
  then show ?thesis
    using live_ilk_bound [OF inv assms(3)] live_ilk_bound [OF inv assms(5)] assms(4,6)
    by (simp add: entity_ilk_def)
qed

text \<open>
  C15. \<open>sweep_zoo\<close> never raises, and leaves an empty sink and only rows in state \<open>State_NO\<close>: one round
  later, nothing is reported as added or deleted any more.
\<close>

theorem sweep_zoo_total:
  assumes "set_pop_ok env" and "zoo_reachable env ids z"
  shows "\<exists>z'. sweep_zoo z = Some z' \<and> (\<forall>t. sink_entities z' t = []) \<and>
    (\<forall>b. facts_has (db z') b \<longrightarrow> body_state b = State_NO) \<and>
    (\<forall>t k. (map_of (entity_set z' t) k = None) = (map_of (entity_set z t) k = None))"
proof -
  obtain z' where z': "sweep_zoo z = Some z'" "sink_mset z' = {#}"
    "\<And>b. b \<in> fact_set (db z') \<Longrightarrow> body_state b = State_NO"
    "\<And>t k. live z' t k = swept (live z t k)"
    using sweep_zoo_ok [OF zoo_reachable_inv [OF assms]] by metis
  have "sink_entities z' t = []" for t
  proof -
    have "set (sink_entities z' t) \<subseteq> set_mset (sink_mset z')"
      using logical_entity_types_all by (fastforce simp flip: sink_entities_mset)
    then show ?thesis by (simp add: z'(2))
  qed
  moreover have "(swept x = None) = (x = None)" for x by (cases x) (simp_all add: swept_def)
  ultimately show ?thesis using z' by (auto simp: fact_set_def)
qed


section \<open>A concrete zoo\<close>

text \<open>
  A switch port, and a router with two ports of the same network: the state at which the
  properties are instantiated.
\<close>

definition demo_env :: env where
  "demo_env =
     \<lparr>opts = \<lparr>ONDEMAND = True, ENABLE_REDIRECT = True, GATEWAY = False, ENABLE_UNTUNNEL = False,
        dsrport = None, HASH_FN = ''nw_dst''\<rparr>, system_id = ''hv1'', set_pop = hd\<rparr>"

lemma demo_env_pop: "set_pop_ok demo_env"
  by (simp add: set_pop_ok_def demo_env_def)

definition demo_pools :: "(etype \<times> (string \<times> value_set) list) list" where
  "demo_pools =
     [(LSP, [(''LS/sw/lsp/p1'',
               [(''ip'', ''10.1.0.2''), (''mac'', ''f2:01:0a:01:00:02''), (''chassis'', ''hv1'')])]),
      (LR, [(''LR/r'', [(''id'', ''8'')])]),
      (LRP, [(''LR/r/lrp/a'', [(''ip'', ''10.1.0.1''), (''prefix'', ''24''), (''mac'', ''f2:01:0a:01:00:01'')]),
             (''LR/r/lrp/b'', [(''ip'', ''10.1.0.9''), (''prefix'', ''24''), (''mac'', ''f2:01:0a:01:00:09'')])])]"

definition demo_zoo :: zoo where
  "demo_zoo = fold (\<lambda>(t, pool). convert_pool2entity demo_env t pool) demo_pools (init_zoo [''hv1''])"

lemma demo_reachable: "zoo_reachable demo_env [''hv1''] demo_zoo"
  unfolding demo_zoo_def
  by (rule fold_inv) (auto intro: convert_reachable reach_init split: prod.splits)

definition bodies_at :: "zoo \<Rightarrow> (etype \<times> string) list \<Rightarrow> body option list" where
  "bodies_at z = map (\<lambda>(t, k). map_option body (map_of (entity_set z t) k))"

definition demo_body :: "etype \<Rightarrow> string \<Rightarrow> body option" where
  "demo_body t k = map_option body (map_of (entity_set demo_zoo t) k)"


lemma demo_bodies:
  "bodies_at demo_zoo [(LSP, ''p1''), (LR, ''r''), (LRP, ''a''), (LRP, ''b'')] =
   [Some (BLsp
      \<lparr>LSP_UUID = ''p1'', LSP_IP = ''10.1.0.2'', LSP_IP_INT = 167837698,
       LSP_MAC = ''f2:01:0a:01:00:02'', LSP_MAC_INT = 266086276726786,
       LSP_CHASSIS_UUID = Some ''hv1'', LSP_LS_UUID = ''sw'', LSP_PEER = None, LSP_PORTID = 2,
       LSP_State = 1\<rparr>),
    Some (BLr \<lparr>LR_UUID = ''r'', LR_CHASSIS_UUID = None, LR_ID = 8, LR_State = 1\<rparr>),
    Some (BLrp
      \<lparr>LRP_UUID = ''a'', LRP_PREFIX = 24, LRP_IP = ''10.1.0.1'', LRP_IP_INT = 167837697,
       LRP_MAC = ''f2:01:0a:01:00:01'', LRP_MAC_INT = 266086276726785, LRP_LR_UUID = ''r'',
       LRP_PEER = None, LRP_PORTID = 1, LRP_ILK_IDX = 0, LRP_State = 1\<rparr>),
    Some (BLrp
      \<lparr>LRP_UUID = ''b'', LRP_PREFIX = 24, LRP_IP = ''10.1.0.9'', LRP_IP_INT = 167837705,
       LRP_MAC = ''f2:01:0a:01:00:09'', LRP_MAC_INT = 266086276726793, LRP_LR_UUID = ''r'',
       LRP_PEER = None, LRP_PORTID = 9, LRP_ILK_IDX = 1, LRP_State = 1\<rparr>)]"
  by code_simp

lemma demo_ilk_key:
  "ilk_key ''r'' 167837697 24 = ''r16783769624''" "ilk_key ''r'' 167837705 24 = ''r16783769624''"
  by code_simp+

lemma demo_evaluated:
  "demo_body LSP ''p1'' = Some (BLsp
     \<lparr>LSP_UUID = ''p1'', LSP_IP = ''10.1.0.2'', LSP_IP_INT = 167837698,
      LSP_MAC = ''f2:01:0a:01:00:02'', LSP_MAC_INT = 266086276726786,
      LSP_CHASSIS_UUID = Some ''hv1'', LSP_LS_UUID = ''sw'', LSP_PEER = None, LSP_PORTID = 2,
      LSP_State = 1\<rparr>) \<and>
   demo_body LR ''r'' = Some (BLr
     \<lparr>LR_UUID = ''r'', LR_CHASSIS_UUID = None, LR_ID = 8, LR_State = 1\<rparr>) \<and>
   map_option body_ilk (demo_body LRP ''a'') = Some (Some ((LRP, ''r16783769624''), 0)) \<and>
   map_option body_ilk (demo_body LRP ''b'') = Some (Some ((LRP, ''r16783769624''), 1))"
  using demo_bodies by (simp add: bodies_at_def demo_ilk_key flip: demo_body_def)

lemma demo_body_live:
  assumes "demo_body t k = Some b"
  obtains e where "map_of (entity_set demo_zoo t) k = Some e" "body e = b"
  using assms by (auto simp: demo_body_def)

lemma zoo_facts_witness:
  "set_pop_ok demo_env \<and> zoo_reachable demo_env [''hv1''] demo_zoo \<and>
   BChassis flow_tunnel_row \<in> fact_set (db demo_zoo)"
  using zoo_facts_are_touched_entities [OF demo_env_pop demo_reachable] demo_env_pop demo_reachable
  by simp

lemma lsp_address_unique_witness:
  "\<exists>e r. map_of (entity_set demo_zoo LSP) ''p1'' = Some e \<and> body e = BLsp r \<and>
     LSP_IP r = ''10.1.0.2'' \<and> ''p1'' = ''p1''"
proof -
  obtain e where e: "map_of (entity_set demo_zoo LSP) ''p1'' = Some e"
    and b: "Some (body e) = demo_body LSP ''p1''"
    using demo_evaluated by (metis demo_body_live)
  obtain r where r: "body e = BLsp r" "LSP_IP r = ''10.1.0.2''"
    using b demo_evaluated by simp
  have "''p1'' = ''p1''"
    by (rule lsp_address_unique [OF demo_env_pop demo_reachable e r(1) e r(1)]) simp_all
  then show ?thesis using e r by blast
qed

lemma datapath_id_unique_witness:
  "\<exists>e. map_of (entity_set demo_zoo LR) ''r'' = Some e \<and> datapath_id (body e) = Some ''8'' \<and>
     (LR, ''r'') = (LR, ''r'')"
proof -
  obtain e where e: "map_of (entity_set demo_zoo LR) ''r'' = Some e"
    and b: "Some (body e) = demo_body LR ''r''"
    using demo_evaluated by (metis demo_body_live)
  have "int_str 8 = ''8''" by code_simp
  then have i: "datapath_id (body e) = Some ''8''" using b demo_evaluated by simp
  have "(LR, ''r'') = (LR, ''r'')"
    by (rule datapath_id_unique [OF demo_env_pop demo_reachable e i e i])
  then show ?thesis using e i by blast
qed

lemma ilk_index_distinct_witness:
  "\<exists>e e' key i i'.
     map_of (entity_set demo_zoo LRP) ''a'' = Some e \<and> body_ilk (body e) = Some (key, i) \<and>
     map_of (entity_set demo_zoo LRP) ''b'' = Some e' \<and> body_ilk (body e') = Some (key, i') \<and>
     i \<noteq> i' \<and> i < 64 \<and> i' < 64"
proof -
  let ?key = "(LRP, ''r16783769624'')"
  obtain e where e: "map_of (entity_set demo_zoo LRP) ''a'' = Some e"
      "body_ilk (body e) = Some (?key, 0)"
    using demo_evaluated by (auto simp: demo_body_def)
  obtain e' where e': "map_of (entity_set demo_zoo LRP) ''b'' = Some e'"
      "body_ilk (body e') = Some (?key, 1)"
    using demo_evaluated by (auto simp: demo_body_def)
  have "(0 :: nat) \<noteq> 1 \<and> (0 :: nat) < 64 \<and> (1 :: nat) < 64"
    by (rule ilk_index_distinct [OF demo_env_pop demo_reachable e e']) simp
  then show ?thesis using e e' by blast
qed

lemma sweep_zoo_witness:
  "\<exists>z'. sweep_zoo demo_zoo = Some z' \<and> (\<forall>t. sink_entities z' t = [])"
  using sweep_zoo_total [OF demo_env_pop demo_reachable] by blast

end
