(* ===== verification/Delta.thy ===== *)
theory Delta imports View_Rules begin

text \<open>
  Incremental evaluation. A row is unchanged (\<open>State_NO\<close>), new (\<open>State_ADD\<close>) or deleted
  (\<open>State_DEL\<close>), a tuple gets the sum of the states of the rows it is derived from, and
  \<open>convert_tuple2flow\<close> reads the sign of that sum and whether it is a multiple of \<open>State_DEL\<close>. This
  theory is the algebra behind that encoding: \<open>st n s\<close> says that \<open>s\<close> is the sum of the states of at
  most \<open>n\<close> rows; below 100 rows the sum still tells whether one of them is new and whether one is
  deleted.

  The database before the change has the rows that are not new, the one after it those that
  are not deleted, and the unchanged rows are in both. All three are views \<open>view keep f\<close>, where \<open>keep\<close> is a predicate on states, and the
  locale \<open>state_view\<close> has the one law they share. A relation is exact when evaluating it on a view
  gives what the tuples with a kept sum give.
\<close>

section \<open>Sums of states\<close>

definition st :: "nat \<Rightarrow> int \<Rightarrow> bool" where
  "st n s \<longleftrightarrow> (\<exists>a d. a + d \<le> n \<and> s = int a - 100 * int d)"

lemma st_row: "s \<in> {State_NO, State_ADD, State_DEL} \<Longrightarrow> st 1 s"
proof -
  have "st 1 0" unfolding st_def by (intro exI [of _ 0]) simp
  moreover have "st 1 1" unfolding st_def by (intro exI [of _ 1] exI [of _ 0]) simp
  moreover have "st 1 (-100)" unfolding st_def by (intro exI [of _ 0] exI [of _ 1]) simp
  moreover assume "s \<in> {State_NO, State_ADD, State_DEL}"
  ultimately show ?thesis by auto
qed

lemma st_zero [simp]: "st n 0"
  unfolding st_def by (intro exI [of _ 0]) simp

lemma st_add: "st n s \<Longrightarrow> st m t \<Longrightarrow> st (n + m) (s + t)"
proof -
  assume "st n s" "st m t"
  then obtain a d b e where "a + d \<le> n" "s = int a - 100 * int d" "b + e \<le> m"
    "t = int b - 100 * int e" by (auto simp: st_def)
  then show ?thesis unfolding st_def by (intro exI [of _ "a + b"] exI [of _ "d + e"]) simp
qed

lemma st_mono: "st n s \<Longrightarrow> n \<le> m \<Longrightarrow> st m s"
  by (auto simp: st_def intro: le_trans)

text \<open>What the sum of few enough states tells.\<close>

definition kept_new :: "int \<Rightarrow> bool" where
  "kept_new s \<longleftrightarrow> 0 \<le> s"

definition kept_old :: "int \<Rightarrow> bool" where
  "kept_old s \<longleftrightarrow> s \<le> 0 \<and> 100 dvd s"

definition kept_same :: "int \<Rightarrow> bool" where
  "kept_same s \<longleftrightarrow> s = 0"

lemma kept_same_iff: "kept_same s \<longleftrightarrow> kept_new s \<and> kept_old s"
  by (auto simp: kept_same_def kept_new_def kept_old_def)

lemma kept_new_count: "a + d < 100 \<Longrightarrow> kept_new (int a - 100 * int d) \<longleftrightarrow> d = 0"
  by (auto simp: kept_new_def)

lemma kept_old_count: "a + d < 100 \<Longrightarrow> kept_old (int a - 100 * int d) \<longleftrightarrow> a = 0"
proof -
  assume "a + d < 100"
  have "100 dvd int a - 100 * int d \<longleftrightarrow> 100 dvd int a"
    by (metis dvd_diff_commute dvd_minus_iff dvd_triv_left dvd_diff_left_iff minus_diff_eq)
  moreover have "100 dvd int a \<longleftrightarrow> a = 0" using \<open>a + d < 100\<close> zdvd_not_zless [of "int a" 100] by auto
  ultimately show ?thesis by (auto simp: kept_old_def)
qed

section \<open>Views of the database\<close>

abbreviation er_lsp :: "lsp_row \<Rightarrow> lsp_row" where "er_lsp r \<equiv> r\<lparr>LSP_State := State_ADD\<rparr>"
abbreviation er_lrp :: "lrp_row \<Rightarrow> lrp_row" where "er_lrp r \<equiv> r\<lparr>LRP_State := State_ADD\<rparr>"
abbreviation er_lr :: "lr_row \<Rightarrow> lr_row" where "er_lr r \<equiv> r\<lparr>LR_State := State_ADD\<rparr>"
abbreviation er_lsr :: "lsr_row \<Rightarrow> lsr_row" where "er_lsr r \<equiv> r\<lparr>LSR_State := State_ADD\<rparr>"
abbreviation er_lnat :: "lnat_row \<Rightarrow> lnat_row" where "er_lnat r \<equiv> r\<lparr>LNAT_State := State_ADD\<rparr>"
abbreviation er_ls :: "ls_row \<Rightarrow> ls_row" where "er_ls r \<equiv> r\<lparr>LS_State := State_ADD\<rparr>"
abbreviation er_pch :: "pch_row \<Rightarrow> pch_row" where "er_pch r \<equiv> r\<lparr>PCH_State := State_ADD\<rparr>"
abbreviation er_port :: "ovsport_row \<Rightarrow> ovsport_row" where "er_port r \<equiv> r\<lparr>OVSPORT_State := State_ADD\<rparr>"

text \<open>\<open>view keep f\<close>: the rows whose state is kept, all marked as new, as after a start.\<close>

definition view :: "(int \<Rightarrow> bool) \<Rightarrow> facts \<Rightarrow> facts" where
  "view keep f =
     \<lparr>lsp_array = map er_lsp (filter (\<lambda>r. keep (LSP_State r)) (lsp_array f)),
      exchange_lsp_array = map er_lsp (filter (\<lambda>r. keep (LSP_State r)) (exchange_lsp_array f)),
      lrp_array = map er_lrp (filter (\<lambda>r. keep (LRP_State r)) (lrp_array f)),
      u_lr_array = map er_lr (filter (\<lambda>r. keep (LR_State r)) (u_lr_array f)),
      lroute_array = map er_lsr (filter (\<lambda>r. keep (LSR_State r)) (lroute_array f)),
      lnat_array = map er_lnat (filter (\<lambda>r. keep (LNAT_State r)) (lnat_array f)),
      ls_array = map er_ls (filter (\<lambda>r. keep (LS_State r)) (ls_array f)),
      chassis_array = map er_pch (filter (\<lambda>r. keep (PCH_State r)) (chassis_array f)),
      ovsport = map er_port (filter (\<lambda>r. keep (OVSPORT_State r)) (ovsport f)),
      ovsport_chassis = map er_port (filter (\<lambda>r. keep (OVSPORT_State r)) (ovsport_chassis f)),
      local_system_id = local_system_id f\<rparr>"

lemma local_system_id_view [simp]: "local_system_id (view keep f) = local_system_id f"
  by (simp add: view_def)

definition row_state :: "int \<Rightarrow> bool" where
  "row_state s \<longleftrightarrow> s \<in> {State_NO, State_ADD, State_DEL}"

definition states_ok :: "facts \<Rightarrow> bool" where
  "states_ok f \<longleftrightarrow>
     (\<forall>r \<in> set (lsp_array f). row_state (LSP_State r)) \<and>
     (\<forall>r \<in> set (exchange_lsp_array f). row_state (LSP_State r)) \<and>
     (\<forall>r \<in> set (lrp_array f). row_state (LRP_State r)) \<and>
     (\<forall>r \<in> set (u_lr_array f). row_state (LR_State r)) \<and>
     (\<forall>r \<in> set (lroute_array f). row_state (LSR_State r)) \<and>
     (\<forall>r \<in> set (lnat_array f). row_state (LNAT_State r)) \<and>
     (\<forall>r \<in> set (ls_array f). row_state (LS_State r)) \<and>
     (\<forall>r \<in> set (chassis_array f). row_state (PCH_State r)) \<and>
     (\<forall>r \<in> set (ovsport f). row_state (OVSPORT_State r)) \<and>
     (\<forall>r \<in> set (ovsport_chassis f). row_state (OVSPORT_State r))"

text \<open>The rows of a predicate as a relation.\<close>

definition row_rel :: "('r \<Rightarrow> int) \<Rightarrow> (facts \<Rightarrow> 'r list) \<Rightarrow> facts \<Rightarrow> 'r rel" where
  "row_rel st_of arr f = map (\<lambda>r. (r, st_of r)) (arr f)"

lemma set_row_rel [simp]: "(r, s) \<in> set (row_rel st_of arr f) \<longleftrightarrow> r \<in> set (arr f) \<and> s = st_of r"
  by (auto simp: row_rel_def)

section \<open>Exact relations\<close>

locale state_view =
  fixes keep :: "int \<Rightarrow> bool"
  assumes keep_zero: "keep 0"
    and keep_add: "\<And>n m s t. st n s \<Longrightarrow> st m t \<Longrightarrow> n + m < 100 \<Longrightarrow> keep (s + t) \<longleftrightarrow> keep s \<and> keep t"
begin

definition exact :: "nat \<Rightarrow> ('a \<Rightarrow> 'a) \<Rightarrow> (facts \<Rightarrow> 'a rel) \<Rightarrow> facts \<Rightarrow> bool" where
  "exact n er R f \<longleftrightarrow>
     (\<forall>x s. (x, s) \<in> set (R f) \<longrightarrow> st n s) \<and>
     (\<forall>x s. (x, s) \<in> set (R (view keep f)) \<longrightarrow> 0 < s) \<and>
     (\<forall>y. (\<exists>s. (y, s) \<in> set (R (view keep f))) \<longleftrightarrow>
          (\<exists>x s. (x, s) \<in> set (R f) \<and> keep s \<and> y = er x))"

lemma exact_row:
  assumes "arr (view keep f) = map er (filter (\<lambda>r. keep (st_of r)) (arr f))"
    and "\<And>r. st_of (er r) = State_ADD" and "\<forall>r \<in> set (arr f). row_state (st_of r)"
  shows "exact 1 er (row_rel st_of arr) f"
proof -
  have "st 1 (st_of r)" if "r \<in> set (arr f)" for r
    using assms(3) st_row that unfolding row_state_def by blast
  then show ?thesis using assms(1,2) unfolding exact_def set_row_rel by auto
qed

lemma exact_bind_kept:
  assumes R1: "exact n er1 R1 f" and R2: "exact m er2 R2 f" and "n + m < 100"
    and R: "\<And>g z u. (z, u) \<in> set (R g) \<longleftrightarrow>
      (\<exists>x s y t. (x, s) \<in> set (R1 g) \<and> (y, t) \<in> set (R2 g) \<and> P g x y \<and> z = h x y \<and> u = s + t)"
    and P: "\<And>x s y t. (x, s) \<in> set (R1 f) \<Longrightarrow> (y, t) \<in> set (R2 f) \<Longrightarrow> keep s \<Longrightarrow> keep t \<Longrightarrow>
      P (view keep f) (er1 x) (er2 y) \<longleftrightarrow> P f x y"
    and h: "\<And>x y. er (h x y) = h (er1 x) (er2 y)"
  shows "exact (n + m) er R f"
proof -
  have "st (n + m) u" if "(z, u) \<in> set (R f)" for z u
    using that R1 R2 unfolding R exact_def by (auto intro: st_add)
  moreover have "0 < u" if "(z, u) \<in> set (R (view keep f))" for z u
    using that R1 R2 unfolding R exact_def by (fastforce intro: add_pos_pos)
  moreover have "(\<exists>u. (z, u) \<in> set (R (view keep f))) \<longleftrightarrow>
      (\<exists>w u. (w, u) \<in> set (R f) \<and> keep u \<and> z = er w)" (is "?L \<longleftrightarrow> ?R") for z
  proof -
    have "?L \<longleftrightarrow> (\<exists>x y. (\<exists>s. (x, s) \<in> set (R1 (view keep f))) \<and>
        (\<exists>t. (y, t) \<in> set (R2 (view keep f))) \<and> P (view keep f) x y \<and> z = h x y)"
      unfolding R by blast
    also have "\<dots> \<longleftrightarrow> (\<exists>x s y t. ((x, s) \<in> set (R1 f) \<and> keep s) \<and> ((y, t) \<in> set (R2 f) \<and> keep t) \<and>
        P (view keep f) (er1 x) (er2 y) \<and> z = er (h x y))"
      using R1 R2 unfolding exact_def h by metis
    also have "\<dots> \<longleftrightarrow> (\<exists>x s y t. ((x, s) \<in> set (R1 f) \<and> keep s) \<and> ((y, t) \<in> set (R2 f) \<and> keep t) \<and>
        P f x y \<and> z = er (h x y))"
      using P by blast
    also have "\<dots> \<longleftrightarrow> ?R"
      using R1 R2 keep_add [OF _ _ assms(3)] unfolding R exact_def by metis
    finally show ?thesis .
  qed
  ultimately show ?thesis by (auto simp: exact_def)
qed

lemma exact_bind:
  assumes "exact n er1 R1 f" and "exact m er2 R2 f" and "n + m < 100"
    and "\<And>g z u. (z, u) \<in> set (R g) \<longleftrightarrow>
      (\<exists>x s y t. (x, s) \<in> set (R1 g) \<and> (y, t) \<in> set (R2 g) \<and> P g x y \<and> z = h x y \<and> u = s + t)"
    and "\<And>x y. P (view keep f) (er1 x) (er2 y) \<longleftrightarrow> P f x y"
    and "\<And>x y. er (h x y) = h (er1 x) (er2 y)"
  shows "exact (n + m) er R f"
  using assms by (rule exact_bind_kept)

lemma exact_map:
  assumes R1: "exact n er1 R1 f"
    and R: "\<And>g z u. (z, u) \<in> set (R g) \<longleftrightarrow>
      (\<exists>x s. (x, s) \<in> set (R1 g) \<and> P g x \<and> z = h x \<and> u = s)"
    and P: "\<And>x. P (view keep f) (er1 x) \<longleftrightarrow> P f x"
    and h: "\<And>x. er (h x) = h (er1 x)"
  shows "exact n er R f"
proof -
  have "st n u" if "(z, u) \<in> set (R f)" for z u
    using that R1 unfolding R exact_def by blast
  moreover have "0 < u" if "(z, u) \<in> set (R (view keep f))" for z u
    using that R1 unfolding R exact_def by blast
  moreover have "(\<exists>u. (z, u) \<in> set (R (view keep f))) \<longleftrightarrow>
      (\<exists>w u. (w, u) \<in> set (R f) \<and> keep u \<and> z = er w)" (is "?L \<longleftrightarrow> ?R") for z
  proof -
    have "?L \<longleftrightarrow> (\<exists>x. (\<exists>s. (x, s) \<in> set (R1 (view keep f))) \<and> P (view keep f) x \<and> z = h x)"
      unfolding R by blast
    also have "\<dots> \<longleftrightarrow> (\<exists>x s. (x, s) \<in> set (R1 f) \<and> keep s \<and> P f x \<and> z = er (h x))"
      using R1 unfolding exact_def h P [symmetric] by metis
    also have "\<dots> \<longleftrightarrow> ?R" unfolding R by blast
    finally show ?thesis .
  qed
  ultimately show ?thesis by (simp add: exact_def)
qed

lemma exact_un:
  assumes "exact n er R1 f" and "exact m er R2 f" and "n \<le> k" and "m \<le> k"
    and R: "\<And>g z u. (z, u) \<in> set (R g) \<longleftrightarrow> (z, u) \<in> set (R1 g) \<or> (z, u) \<in> set (R2 g)"
  shows "exact k er R f"
proof -
  have "st k u" if "(z, u) \<in> set (R f)" for z u
    using that assms(1-4) st_mono unfolding R exact_def by blast
  moreover have "0 < u" if "(z, u) \<in> set (R (view keep f))" for z u
    using that assms(1,2) unfolding R exact_def by blast
  moreover have "(\<exists>u. (z, u) \<in> set (R (view keep f))) \<longleftrightarrow>
      (\<exists>w u. (w, u) \<in> set (R f) \<and> keep u \<and> z = er w)" for z
    using assms(1,2) unfolding R exact_def by metis
  ultimately show ?thesis by (simp add: exact_def)
qed

end

lemma kept_new_add:
  assumes "st n s" and "st m t" and "n + m < 100"
  shows "kept_new (s + t) \<longleftrightarrow> kept_new s \<and> kept_new t"
proof -
  obtain a d where s: "s = int a - 100 * int d" "a + d \<le> n" using assms(1) by (auto simp: st_def)
  obtain b e where t: "t = int b - 100 * int e" "b + e \<le> m" using assms(2) by (auto simp: st_def)
  have "s + t = int (a + b) - 100 * int (d + e)" using s t by simp
  then show ?thesis
    using kept_new_count [of "a + b" "d + e"] kept_new_count [of a d] kept_new_count [of b e]
      s(2) t(2) assms(3) by (simp only: s(1) t(1)) simp
qed

lemma kept_old_add:
  assumes "st n s" and "st m t" and "n + m < 100"
  shows "kept_old (s + t) \<longleftrightarrow> kept_old s \<and> kept_old t"
proof -
  obtain a d where s: "s = int a - 100 * int d" "a + d \<le> n" using assms(1) by (auto simp: st_def)
  obtain b e where t: "t = int b - 100 * int e" "b + e \<le> m" using assms(2) by (auto simp: st_def)
  have "s + t = int (a + b) - 100 * int (d + e)" using s t by simp
  then show ?thesis
    using kept_old_count [of "a + b" "d + e"] kept_old_count [of a d] kept_old_count [of b e]
      s(2) t(2) assms(3) by (simp only: s(1) t(1)) simp
qed

interpretation new: state_view kept_new
  by unfold_locales (simp_all add: kept_new_add, simp add: kept_new_def)

interpretation old: state_view kept_old
  by unfold_locales (simp_all add: kept_old_add, simp add: kept_old_def)

interpretation same: state_view kept_same
  by unfold_locales (simp_all add: kept_same_iff kept_new_add kept_old_add,
    simp_all add: kept_new_def kept_old_def, blast)


section \<open>Tracking relations\<close>

text \<open>
  A relation that drops the tuples whose sum is zero, as the flow rules do with \<open>State != 0\<close>. It
  tracks the change when evaluating it afresh before and after gives the deleted, or the added,
  tuples and beside them those that the unchanged rows give.
\<close>

definition dom_rel :: "'a rel \<Rightarrow> 'a set" where
  "dom_rel R = {x. \<exists>s. (x, s) \<in> set R}"

definition added :: "'a rel \<Rightarrow> 'a set" where
  "added R = {x. \<exists>s. (x, s) \<in> set R \<and> 0 < s}"

definition gone :: "'a rel \<Rightarrow> 'a set" where
  "gone R = {x. \<exists>s. (x, s) \<in> set R \<and> s < 0 \<and> 100 dvd s}"

definition tracks :: "('a \<Rightarrow> 'a) \<Rightarrow> (facts \<Rightarrow> 'a rel) \<Rightarrow> facts \<Rightarrow> bool" where
  "tracks er R f \<longleftrightarrow>
     dom_rel (R (view kept_new f)) = er ` added (R f) \<union> dom_rel (R (view kept_same f)) \<and>
     dom_rel (R (view kept_old f)) = er ` gone (R f) \<union> dom_rel (R (view kept_same f))"

abbreviation exact_all :: "nat \<Rightarrow> ('a \<Rightarrow> 'a) \<Rightarrow> (facts \<Rightarrow> 'a rel) \<Rightarrow> facts \<Rightarrow> bool" where
  "exact_all n er R f \<equiv> new.exact n er R f \<and> old.exact n er R f \<and> same.exact n er R f"

lemma exact_all_map:
  assumes "exact_all n er1 R1 f"
    and "\<And>g z u. (z, u) \<in> set (R g) \<longleftrightarrow> (\<exists>x s. (x, s) \<in> set (R1 g) \<and> P (local_system_id g) x \<and> z = h x \<and> u = s)"
    and "\<And>l x. P l (er1 x) \<longleftrightarrow> P l x" and "\<And>x. er (h x) = h (er1 x)"
  shows "exact_all n er R f"
  using assms new.exact_map [of n er1 R1 f R "\<lambda>g. P (local_system_id g)" h er]
    old.exact_map [of n er1 R1 f R "\<lambda>g. P (local_system_id g)" h er]
    same.exact_map [of n er1 R1 f R "\<lambda>g. P (local_system_id g)" h er] by simp

lemma exact_all_bind:
  assumes "exact_all n er1 R1 f" and "exact_all m er2 R2 f" and "n + m < 100"
    and "\<And>g z u. (z, u) \<in> set (R g) \<longleftrightarrow>
      (\<exists>x s y t. (x, s) \<in> set (R1 g) \<and> (y, t) \<in> set (R2 g) \<and> P (local_system_id g) x y \<and>
         z = h x y \<and> u = s + t)"
    and "\<And>l x y. P l (er1 x) (er2 y) \<longleftrightarrow> P l x y" and "\<And>x y. er (h x y) = h (er1 x) (er2 y)"
  shows "exact_all (n + m) er R f"
  using assms new.exact_bind [of n er1 R1 f m er2 R2 R "\<lambda>g. P (local_system_id g)" h er]
    old.exact_bind [of n er1 R1 f m er2 R2 R "\<lambda>g. P (local_system_id g)" h er]
    same.exact_bind [of n er1 R1 f m er2 R2 R "\<lambda>g. P (local_system_id g)" h er] by simp

text \<open>The three predicates on states.\<close>

definition kept :: "(int \<Rightarrow> bool) \<Rightarrow> bool" where
  "kept keep \<longleftrightarrow> keep \<in> {kept_new, kept_old, kept_same}"

lemma kept_split:
  assumes "kept keep" and "st n s" and "st m t" and "n + m < 100" and "keep (s + t)"
  shows "keep s \<and> keep t"
  using assms kept_new_add [OF assms(2-4)] kept_old_add [OF assms(2-4)]
  by (auto simp: kept_def kept_same_iff)

lemma kept_not_both: "kept keep \<Longrightarrow> keep State_ADD \<Longrightarrow> keep State_DEL \<Longrightarrow> False"
  by (auto simp: kept_def kept_new_def kept_old_def kept_same_def)

lemma exact_all_bind_kept:
  assumes "exact_all n er1 R1 f" and "exact_all m er2 R2 f" and "n + m < 100"
    and "\<And>g z u. (z, u) \<in> set (R g) \<longleftrightarrow>
      (\<exists>x s y t. (x, s) \<in> set (R1 g) \<and> (y, t) \<in> set (R2 g) \<and> P x y \<and> z = h x y \<and> u = s + t)"
    and P: "\<And>keep x s y t. kept keep \<Longrightarrow> (x, s) \<in> set (R1 f) \<Longrightarrow> (y, t) \<in> set (R2 f) \<Longrightarrow>
      keep s \<Longrightarrow> keep t \<Longrightarrow> P (er1 x) (er2 y) \<longleftrightarrow> P x y"
    and "\<And>x y. er (h x y) = h (er1 x) (er2 y)"
  shows "exact_all (n + m) er R f"
proof -
  have k: "kept kept_new" "kept kept_old" "kept kept_same" by (simp_all add: kept_def)
  have R1: "new.exact n er1 R1 f" "old.exact n er1 R1 f" "same.exact n er1 R1 f"
    and R2: "new.exact m er2 R2 f" "old.exact m er2 R2 f" "same.exact m er2 R2 f"
    using assms(1,2) by simp_all
  have "new.exact (n + m) er R f"
    by (rule new.exact_bind_kept [OF R1(1) R2(1) assms(3,4)]) (simp_all add: P [OF k(1)] assms(6))
  moreover have "old.exact (n + m) er R f"
    by (rule old.exact_bind_kept [OF R1(2) R2(2) assms(3,4)]) (simp_all add: P [OF k(2)] assms(6))
  moreover have "same.exact (n + m) er R f"
    by (rule same.exact_bind_kept [OF R1(3) R2(3) assms(3,4)]) (simp_all add: P [OF k(3)] assms(6))
  ultimately show ?thesis by blast
qed

lemma exact_all_un:
  assumes "exact_all n er R1 f" and "exact_all m er R2 f" and "n \<le> k" and "m \<le> k"
    and "\<And>g z u. (z, u) \<in> set (R g) \<longleftrightarrow> (z, u) \<in> set (R1 g) \<or> (z, u) \<in> set (R2 g)"
  shows "exact_all k er R f"
  using assms new.exact_un [of n er R1 f m R2 k R] old.exact_un [of n er R1 f m R2 k R]
    same.exact_un [of n er R1 f m R2 k R] by simp

lemma tracks_filter:
  assumes ex: "exact_all n er1 R1 f"
    and R: "\<And>g z u. (z, u) \<in> set (R g) \<longleftrightarrow>
      (\<exists>x s. (x, s) \<in> set (R1 g) \<and> s \<noteq> 0 \<and> P x \<and> z = h x \<and> u = s)"
    and P: "\<And>x. P (er1 x) \<longleftrightarrow> P x" and h: "\<And>x. P x \<Longrightarrow> er (h x) = h (er1 x)"
  shows "tracks er R f"
proof -
  let ?Z = "dom_rel (R (view kept_same f))"
  have view: "dom_rel (R (view keep f)) =
      {y. \<exists>x s. (x, s) \<in> set (R1 f) \<and> keep s \<and> P x \<and> y = h (er1 x)}"
    if "\<forall>x s. (x, s) \<in> set (R1 (view keep f)) \<longrightarrow> 0 < s"
      "\<forall>y. (\<exists>s. (y, s) \<in> set (R1 (view keep f))) \<longleftrightarrow>
        (\<exists>x s. (x, s) \<in> set (R1 f) \<and> keep s \<and> y = er1 x)" for keep
  proof -
    have "y \<in> dom_rel (R (view keep f)) \<longleftrightarrow>
        (\<exists>x. (\<exists>s. (x, s) \<in> set (R1 (view keep f))) \<and> P x \<and> y = h x)" for y
    proof -
      have "y \<in> dom_rel (R (view keep f)) \<longleftrightarrow>
          (\<exists>x s. (x, s) \<in> set (R1 (view keep f)) \<and> s \<noteq> 0 \<and> P x \<and> y = h x)"
        unfolding dom_rel_def mem_Collect_eq R by blast
      also have "\<dots> \<longleftrightarrow> (\<exists>x s. (x, s) \<in> set (R1 (view keep f)) \<and> P x \<and> y = h x)"
        using that(1) by (metis less_irrefl)
      finally show ?thesis by blast
    qed
    then show ?thesis unfolding that(2) [rule_format] using P by blast
  qed
  have new: "kept_new s \<longleftrightarrow> 0 < s \<or> s = 0" and old: "kept_old s \<longleftrightarrow> (s < 0 \<and> 100 dvd s) \<or> s = 0" for s
    by (auto simp: kept_new_def kept_old_def)
  have "?Z = {y. \<exists>x s. (x, s) \<in> set (R1 f) \<and> kept_same s \<and> P x \<and> y = h (er1 x)}"
    using ex unfolding same.exact_def by (intro view) blast+
  then have Z: "?Z = {y. \<exists>x. (x, 0) \<in> set (R1 f) \<and> P x \<and> y = h (er1 x)}"
    by (simp add: kept_same_def)
  have "dom_rel (R (view kept_new f)) =
      {y. \<exists>x s. (x, s) \<in> set (R1 f) \<and> kept_new s \<and> P x \<and> y = h (er1 x)}"
    using ex unfolding new.exact_def by (intro view) blast+
  also have "\<dots> = er ` added (R f) \<union> ?Z"
  proof -
    have "er ` added (R f) = {y. \<exists>x s. (x, s) \<in> set (R1 f) \<and> 0 < s \<and> P x \<and> y = h (er1 x)}"
    proof -
      have "added (R f) = h ` {x. \<exists>s. (x, s) \<in> set (R1 f) \<and> 0 < s \<and> P x}"
        unfolding added_def R by (auto simp: image_iff; blast)
      then have "er ` added (R f) = (\<lambda>x. h (er1 x)) ` {x. \<exists>s. (x, s) \<in> set (R1 f) \<and> 0 < s \<and> P x}"
        by (simp only: image_image) (rule image_cong [OF refl], use h in blast)
      then show ?thesis by blast
    qed
    then show ?thesis unfolding new Z by blast
  qed
  finally have new_eq: "dom_rel (R (view kept_new f)) = er ` added (R f) \<union> ?Z" .
  have "dom_rel (R (view kept_old f)) =
      {y. \<exists>x s. (x, s) \<in> set (R1 f) \<and> kept_old s \<and> P x \<and> y = h (er1 x)}"
    using ex unfolding old.exact_def by (intro view) blast+
  also have "\<dots> = er ` gone (R f) \<union> ?Z"
  proof -
    have "er ` gone (R f) =
        {y. \<exists>x s. (x, s) \<in> set (R1 f) \<and> (s < 0 \<and> 100 dvd s) \<and> P x \<and> y = h (er1 x)}"
    proof -
      have "gone (R f) = h ` {x. \<exists>s. (x, s) \<in> set (R1 f) \<and> (s < 0 \<and> 100 dvd s) \<and> P x}"
        unfolding gone_def R by (auto simp: image_iff; blast)
      then have "er ` gone (R f) = (\<lambda>x. h (er1 x)) ` {x. \<exists>s. (x, s) \<in> set (R1 f) \<and> (s < 0 \<and> 100 dvd s) \<and> P x}"
        by (simp only: image_image) (rule image_cong [OF refl], use h in blast)
      then show ?thesis by blast
    qed
    then show ?thesis unfolding old Z by blast
  qed
  finally show ?thesis using new_eq unfolding tracks_def by blast
qed

lemma dom_rel_append [simp]:
  "dom_rel (xs @ ys) = dom_rel xs \<union> dom_rel ys" "added (xs @ ys) = added xs \<union> added ys"
  "gone (xs @ ys) = gone xs \<union> gone ys"
  by (auto simp: dom_rel_def added_def gone_def)

lemma dom_rel_Nil [simp]: "dom_rel [] = {}" "added [] = {}" "gone [] = {}"
  by (auto simp: dom_rel_def added_def gone_def)

lemma tracks_Nil: "tracks er (\<lambda>f. []) f"
  by (auto simp: tracks_def)

lemma tracks_append:
  assumes "tracks er R1 f" and "tracks er R2 f"
  shows "tracks er (\<lambda>f. R1 f @ R2 f) f"
  using assms unfolding tracks_def by (simp add: image_Un Un_ac)

lemma tracks_if: "tracks er R1 f \<Longrightarrow> tracks er R2 f \<Longrightarrow> tracks er (\<lambda>f. if b then R1 f else R2 f) f"
  by (cases b) simp_all

lemma tracks_map:
  assumes "tracks er R1 f" and h: "\<And>x. er' (h x) = h (er x)"
  shows "tracks er' (\<lambda>f. map (\<lambda>(x, s). (h x, s)) (R1 f)) f"
proof -
  let ?M = "\<lambda>f. map (\<lambda>(x, s). (h x, s)) (R1 f)"
  have "dom_rel (?M g) = h ` dom_rel (R1 g)" "added (?M g) = h ` added (R1 g)"
    "gone (?M g) = h ` gone (R1 g)" for g
    unfolding dom_rel_def added_def gone_def by force+
  moreover have "er' ` h ` A = h ` er ` A" for A by (simp add: image_image h)
  ultimately show ?thesis using assms(1) unfolding tracks_def by (simp add: image_Un)
qed

text \<open>
  What tracking means for the set of installed tuples: if it holds those of the unchanged rows, and
  otherwise only such as are reported gone, then removing what is reported gone and adding
  what is reported added leaves no stale tuple, and misses at most what is reported both as gone and
  derived otherwise.
\<close>

lemma tracks_update:
  assumes "tracks id R f" and "dom_rel (R (view kept_same f)) \<subseteq> T" and "T \<subseteq> dom_rel (R (view kept_old f))"
  defines "N \<equiv> dom_rel (R (view kept_new f))"
  shows "(T - gone (R f)) \<union> added (R f) \<subseteq> N" and "N \<subseteq> T \<union> added (R f)"
    and "N - gone (R f) \<subseteq> (T - gone (R f)) \<union> added (R f)"
  using assms(1-3) unfolding tracks_def N_def by auto

end
