(* ===== verification/Exact.thy ===== *)
theory Exact imports Delta begin

text \<open>
  The predicates of \<open>View_Rules\<close> are exact: evaluated on the database before or after a change they give
  what the kept sums of the one evaluation on the marked database say. Rows of a switch or router
  that a rule compares as a whole have to be told apart by more than their state, which
  \<open>rows_apart\<close> demands; the zoo guarantees it.
\<close>

definition rows_apart :: "facts \<Rightarrow> bool" where
  "rows_apart f \<longleftrightarrow>
     (\<forall>r \<in> set (u_lr_array f). \<forall>r' \<in> set (u_lr_array f).
        er_lr r = er_lr r' \<longrightarrow> r = r' \<or> {LR_State r, LR_State r'} = {State_ADD, State_DEL}) \<and>
     (\<forall>r \<in> set (ls_array f). \<forall>r' \<in> set (ls_array f).
        er_ls r = er_ls r' \<longrightarrow> r = r' \<or> {LS_State r, LS_State r'} = {State_ADD, State_DEL})"

text \<open>Membership in a comprehension over pairs.\<close>

lemma bex_pair: "(\<exists>p \<in> A. P p) \<longleftrightarrow> (\<exists>a b. (a, b) \<in> A \<and> P (a, b))"
  by auto

section \<open>Single rows\<close>

lemma exact_all_row:
  assumes "\<And>keep. arr (view keep f) = map er (filter (\<lambda>r. keep (st_of r)) (arr f))"
    and "\<And>r. st_of (er r) = State_ADD" and "\<forall>r \<in> set (arr f). row_state (st_of r)"
  shows "exact_all 1 er (row_rel st_of arr) f"
  using new.exact_row [OF assms(1-3)] old.exact_row [OF assms(1-3)] same.exact_row [OF assms(1-3)]
  by simp

lemma exact_rows:
  assumes "states_ok f"
  shows exact_lsp: "exact_all 1 er_lsp (row_rel LSP_State lsp_array) f"
    and exact_xlsp: "exact_all 1 er_lsp (row_rel LSP_State exchange_lsp_array) f"
    and exact_lrp: "exact_all 1 er_lrp (row_rel LRP_State lrp_array) f"
    and exact_ulr: "exact_all 1 er_lr (row_rel LR_State u_lr_array) f"
    and exact_lsr: "exact_all 1 er_lsr (row_rel LSR_State lroute_array) f"
    and exact_lnat: "exact_all 1 er_lnat (row_rel LNAT_State lnat_array) f"
    and exact_ls: "exact_all 1 er_ls (row_rel LS_State ls_array) f"
    and exact_pch: "exact_all 1 er_pch (row_rel PCH_State chassis_array) f"
    and exact_port: "exact_all 1 er_port (row_rel OVSPORT_State ovsport) f"
    and exact_rport: "exact_all 1 er_port (row_rel OVSPORT_State ovsport_chassis) f"
  by (rule exact_all_row; use assms in \<open>simp add: view_def states_ok_def\<close>)+

lemma exact_all_append:
  "exact_all n er R1 f \<Longrightarrow> exact_all m er R2 f \<Longrightarrow> n \<le> k \<Longrightarrow> m \<le> k \<Longrightarrow>
     exact_all k er (\<lambda>g. R1 g @ R2 g) f"
  by (rule exact_all_un [of n er R1 f m R2]) simp_all

section \<open>Predicates\<close>

lemma exact_lr: "states_ok f \<Longrightarrow> exact_all 2 er_lr lr_array f"
  unfolding lr_array_def [abs_def]
proof (rule exact_all_append [where n = 1 and m = 2, OF _ exact_all_append])
  assume ok: "states_ok f"
  show "exact_all 1 er_lr (\<lambda>f. [(lr, LR_State lr). lr \<leftarrow> u_lr_array f, LR_CHASSIS_UUID lr = None]) f"
    by (rule exact_all_map [OF exact_ulr [OF ok], where P = "\<lambda>l lr. LR_CHASSIS_UUID lr = None" and h = "\<lambda>x. x"])
      auto
  show "exact_all (1 + 1) er_lr (\<lambda>f. [(lr, LR_State lr + PCH_State ch).
        lr \<leftarrow> u_lr_array f, LR_CHASSIS_UUID lr \<noteq> None,
        uuid_chassis \<leftarrow> local_system_id f, LR_CHASSIS_UUID lr \<noteq> Some uuid_chassis,
        ch \<leftarrow> chassis_array f, LR_CHASSIS_UUID lr = Some (PCH_UUID ch)]) f"
    by (rule exact_all_bind [OF exact_ulr [OF ok] exact_pch [OF ok],
          where P = "\<lambda>l lr ch. (\<exists>u \<in> set l. LR_CHASSIS_UUID lr \<noteq> Some u) \<and>
             LR_CHASSIS_UUID lr = Some (PCH_UUID ch)" and h = "\<lambda>x y. x"]) auto
  show "exact_all 1 er_lr (\<lambda>f. [(lr, LR_State lr). uuid_chassis \<leftarrow> local_system_id f,
        lr \<leftarrow> u_lr_array f, LR_CHASSIS_UUID lr = Some uuid_chassis]) f"
    by (rule exact_all_map [OF exact_ulr [OF ok],
          where P = "\<lambda>l lr. \<exists>u \<in> set l. LR_CHASSIS_UUID lr = Some u" and h = "\<lambda>x. x"]) auto
qed simp_all


lemma exact_remote_chassis:
  assumes ok: "states_ok f"
  shows "exact_all 2 (\<lambda>(ch, n). (er_pch ch, n)) remote_chassis f"
proof -
  have "exact_all (1 + 1) (\<lambda>(ch, n). (er_pch ch, n)) remote_chassis f"
    unfolding remote_chassis_def [abs_def]
    by (rule exact_all_bind [OF exact_rport [OF ok] exact_pch [OF ok],
          where P = "\<lambda>l p ch. OVSPORT_OFPORT p > 0 \<and> PCH_UUID ch = OVSPORT_IFACE_ID p"
            and h = "\<lambda>p ch. (ch, OVSPORT_OFPORT p)"]) auto
  then show ?thesis by (simp add: numeral_2_eq_2)
qed

abbreviation er_bond :: "(lsp_row \<times> int) \<times> ls_row \<Rightarrow> (lsp_row \<times> int) \<times> ls_row" where
  "er_bond \<equiv> \<lambda>((lsp, n), ls). ((er_lsp lsp, n), er_ls ls)"

abbreviation er_link :: "lsp_row \<times> ls_row \<times> lrp_row \<times> lr_row \<Rightarrow> lsp_row \<times> ls_row \<times> lrp_row \<times> lr_row" where
  "er_link \<equiv> \<lambda>(lsp, ls, lrp, lr). (er_lsp lsp, er_ls ls, er_lrp lrp, er_lr lr)"

text \<open>A port of this host with its switch: the join that two clauses share.\<close>

definition port_ls :: "facts \<Rightarrow> (ovsport_row \<times> ls_row) rel" where
  "port_ls f = [((p, ls), OVSPORT_State p + LS_State ls). p \<leftarrow> ovsport f, ls \<leftarrow> ls_array f]"

lemma mem_port_ls [simp]:
  "((p, ls), s) \<in> set (port_ls f) \<longleftrightarrow>
     p \<in> set (ovsport f) \<and> ls \<in> set (ls_array f) \<and> s = OVSPORT_State p + LS_State ls"
  by (auto simp: port_ls_def)

lemma exact_port_ls:
  assumes ok: "states_ok f"
  shows "exact_all 2 (\<lambda>(p, ls). (er_port p, er_ls ls)) port_ls f"
proof -
  have "exact_all (1 + 1) (\<lambda>(p, ls). (er_port p, er_ls ls)) port_ls f"
    unfolding port_ls_def [abs_def]
    by (rule exact_all_bind [OF exact_port [OF ok] exact_ls [OF ok],
          where P = "\<lambda>l p ls. True" and h = "\<lambda>p ls. (p, ls)"]) auto
  then show ?thesis by (simp add: numeral_2_eq_2)
qed

lemma exact_patchport:
  assumes ok: "states_ok f"
  shows "exact_all 3 er_bond local_patchport f"
proof -
  have "exact_all (2 + 1) er_bond local_patchport f"
    unfolding local_patchport_def [abs_def]
    by (rule exact_all_bind [OF exact_port_ls [OF ok] exact_xlsp [OF ok],
          where P = "\<lambda>l (p, ls) lsp. OVSPORT_OFPORT p > 0 \<and> (\<exists>u \<in> set l.
             LSP_UUID lsp = OVSPORT_IFACE_ID p \<and> LSP_LS_UUID lsp = LS_UUID ls \<and>
             LSP_CHASSIS_UUID lsp = Some u \<and> LSP_IP lsp = ''255.255.255.255'')"
            and h = "\<lambda>(p, ls) lsp. ((lsp, OVSPORT_OFPORT p), ls)"])
      auto
  then show ?thesis by simp
qed

lemma exact_bond:
  assumes ok: "states_ok f"
  shows "exact_all 3 er_bond local_bond_lsp f"
  unfolding local_bond_lsp_def [abs_def]
proof (rule exact_all_append [OF _ exact_patchport [OF ok]])
  show "exact_all (2 + 1) er_bond
    (\<lambda>f. [(((lsp, OVSPORT_OFPORT p), ls), OVSPORT_State p + LS_State ls + LSP_State lsp).
        p \<leftarrow> ovsport f, OVSPORT_OFPORT p > 0,
        ls \<leftarrow> ls_array f,
        uuid_chassis \<leftarrow> local_system_id f,
        lsp \<leftarrow> lsp_array f,
        LSP_UUID lsp = OVSPORT_IFACE_ID p \<and> LSP_LS_UUID lsp = LS_UUID ls \<and>
        LSP_CHASSIS_UUID lsp = Some uuid_chassis]) f"
    by (rule exact_all_bind [OF exact_port_ls [OF ok] exact_lsp [OF ok],
          where P = "\<lambda>l (p, ls) lsp. OVSPORT_OFPORT p > 0 \<and> (\<exists>u \<in> set l.
             LSP_UUID lsp = OVSPORT_IFACE_ID p \<and> LSP_LS_UUID lsp = LS_UUID ls \<and>
             LSP_CHASSIS_UUID lsp = Some u)"
            and h = "\<lambda>(p, ls) lsp. ((lsp, OVSPORT_OFPORT p), ls)"])
      auto
qed simp_all

text \<open>A router port with its peer on a switch.\<close>

definition peer_ports :: "facts \<Rightarrow> (lrp_row \<times> lsp_row) rel" where
  "peer_ports f =
     [((lrp, lsp), LRP_State lrp + LSP_State lsp). lrp \<leftarrow> lrp_array f, lsp \<leftarrow> exchange_lsp_array f,
        LRP_PEER lrp = Some (LSP_UUID lsp) \<and> LSP_PEER lsp = Some (LRP_UUID lrp)]"

lemma mem_peer_ports [simp]:
  "((lrp, lsp), s) \<in> set (peer_ports f) \<longleftrightarrow>
     lrp \<in> set (lrp_array f) \<and> lsp \<in> set (exchange_lsp_array f) \<and>
     LRP_PEER lrp = Some (LSP_UUID lsp) \<and> LSP_PEER lsp = Some (LRP_UUID lrp) \<and>
     s = LRP_State lrp + LSP_State lsp"
  by (auto simp: peer_ports_def)

lemma exact_peer_ports:
  assumes ok: "states_ok f"
  shows "exact_all 2 (\<lambda>(lrp, lsp). (er_lrp lrp, er_lsp lsp)) peer_ports f"
proof -
  have "exact_all (1 + 1) (\<lambda>(lrp, lsp). (er_lrp lrp, er_lsp lsp)) peer_ports f"
    unfolding peer_ports_def [abs_def]
    by (rule exact_all_bind [OF exact_lrp [OF ok] exact_xlsp [OF ok],
          where P = "\<lambda>l lrp lsp. LRP_PEER lrp = Some (LSP_UUID lsp) \<and>
            LSP_PEER lsp = Some (LRP_UUID lrp)" and h = Pair]) auto
  then show ?thesis by (simp add: numeral_2_eq_2)
qed

definition peer_ports_ls :: "facts \<Rightarrow> (lrp_row \<times> lsp_row \<times> ls_row) rel" where
  "peer_ports_ls f =
     [((lrp, lsp, ls), s + LS_State ls). ((lrp, lsp), s) \<leftarrow> peer_ports f,
        ls \<leftarrow> ls_array f, LS_UUID ls = LSP_LS_UUID lsp]"

lemma mem_peer_ports_ls [simp]:
  "((lrp, lsp, ls), s) \<in> set (peer_ports_ls f) \<longleftrightarrow>
     lrp \<in> set (lrp_array f) \<and> lsp \<in> set (exchange_lsp_array f) \<and> ls \<in> set (ls_array f) \<and>
     LRP_PEER lrp = Some (LSP_UUID lsp) \<and> LSP_PEER lsp = Some (LRP_UUID lrp) \<and>
     LS_UUID ls = LSP_LS_UUID lsp \<and> s = LRP_State lrp + LSP_State lsp + LS_State ls"
  by (auto simp: peer_ports_ls_def bex_pair)

lemma exact_peer_ports_ls:
  assumes ok: "states_ok f"
  shows "exact_all 3 (\<lambda>(lrp, lsp, ls). (er_lrp lrp, er_lsp lsp, er_ls ls)) peer_ports_ls f"
proof -
  have "exact_all (2 + 1) (\<lambda>(lrp, lsp, ls). (er_lrp lrp, er_lsp lsp, er_ls ls)) peer_ports_ls f"
    by (rule exact_all_bind [OF exact_peer_ports [OF ok] exact_ls [OF ok],
          where P = "\<lambda>l (lrp, lsp) ls. LS_UUID ls = LSP_LS_UUID lsp"
            and h = "\<lambda>(lrp, lsp) ls. (lrp, lsp, ls)"]) (auto split: prod.splits)
  then show ?thesis by simp
qed

lemma exact_link:
  assumes ok: "states_ok f"
  shows "exact_all 5 er_link lsp_link_lrp f"
proof -
  have "exact_all (3 + 2) er_link lsp_link_lrp f"
    by (rule exact_all_bind [OF exact_peer_ports_ls [OF ok] exact_lr [OF ok],
          where P = "\<lambda>l (lrp, lsp, ls) lr. LR_UUID lr = LRP_LR_UUID lrp"
            and h = "\<lambda>(lrp, lsp, ls) lr. (lsp, ls, lrp, lr)"])
      (fastforce simp: lsp_link_lrp_def bex_pair)+
  then show ?thesis by simp
qed


abbreviation er_lsp_ls :: "lsp_row \<times> ls_row \<Rightarrow> lsp_row \<times> ls_row" where
  "er_lsp_ls \<equiv> \<lambda>(lsp, ls). (er_lsp lsp, er_ls ls)"

lemma exact_local_lsp:
  assumes ok: "states_ok f"
  shows "exact_all 5 er_lsp_ls local_lsp f"
  unfolding local_lsp_def [abs_def]
proof (rule exact_all_append [where n = 5 and m = 5, OF _ exact_all_append [where n = 5 and m = 3]])
  show "exact_all 5 er_lsp_ls (\<lambda>f. [((lsp, ls), s). ((lsp, ls, lrp, lr), s) \<leftarrow> lsp_link_lrp f,
      LR_CHASSIS_UUID lr = None]) f"
    by (rule exact_all_map [OF exact_link [OF ok], where P = "\<lambda>l (lsp, ls, lrp, lr). LR_CHASSIS_UUID lr = None"
          and h = "\<lambda>(lsp, ls, lrp, lr). (lsp, ls)"]) (auto simp: bex_pair)
  show "exact_all 5 er_lsp_ls (\<lambda>f. [((lsp, ls), s). uuid_lr_chassis \<leftarrow> local_system_id f,
      ((lsp, ls, lrp, lr), s) \<leftarrow> lsp_link_lrp f, LR_CHASSIS_UUID lr = Some uuid_lr_chassis]) f"
    by (rule exact_all_map [OF exact_link [OF ok],
          where P = "\<lambda>l (lsp, ls, lrp, lr). \<exists>u \<in> set l. LR_CHASSIS_UUID lr = Some u"
          and h = "\<lambda>(lsp, ls, lrp, lr). (lsp, ls)"]) (fastforce simp: bex_pair)+
  show "exact_all 3 er_lsp_ls (\<lambda>f. [((lsp, ls), s). (((lsp, ofport), ls), s) \<leftarrow> local_bond_lsp f]) f"
    by (rule exact_all_map [OF exact_bond [OF ok], where P = "\<lambda>l x. True"
          and h = "\<lambda>((lsp, n), ls). (lsp, ls)"]) (fastforce simp: bex_pair image_iff)+
qed simp_all

definition lsp_with_ls :: "facts \<Rightarrow> (lsp_row \<times> ls_row) rel" where
  "lsp_with_ls f =
     [((lsp, ls), LSP_State lsp + LS_State ls). lsp \<leftarrow> lsp_array f, ls \<leftarrow> ls_array f,
        LS_UUID ls = LSP_LS_UUID lsp]"

lemma mem_lsp_with_ls [simp]:
  "((lsp, ls), s) \<in> set (lsp_with_ls f) \<longleftrightarrow>
     lsp \<in> set (lsp_array f) \<and> ls \<in> set (ls_array f) \<and> LS_UUID ls = LSP_LS_UUID lsp \<and>
     s = LSP_State lsp + LS_State ls"
  by (auto simp: lsp_with_ls_def)

lemma exact_lsp_with_ls:
  assumes ok: "states_ok f"
  shows "exact_all 2 er_lsp_ls lsp_with_ls f"
proof -
  have "exact_all (1 + 1) er_lsp_ls lsp_with_ls f"
    by (rule exact_all_bind [OF exact_lsp [OF ok] exact_ls [OF ok],
          where P = "\<lambda>l lsp ls. LS_UUID ls = LSP_LS_UUID lsp" and h = Pair]) auto
  then show ?thesis by (simp add: numeral_2_eq_2)
qed

lemma exact_active_lsp:
  assumes ok: "states_ok f"
  shows "exact_all 5 er_lsp_ls active_lsp f"
  unfolding active_lsp_def [abs_def]
proof (rule exact_all_append [where n = "2 + 1" and m = 5])
  show "exact_all (2 + 1) er_lsp_ls (\<lambda>f. [((lsp, ls), LS_State ls + LSP_State lsp + PCH_State ch).
        ls \<leftarrow> ls_array f,
        lsp \<leftarrow> lsp_array f, LSP_LS_UUID lsp = LS_UUID ls,
        ch \<leftarrow> chassis_array f, LSP_CHASSIS_UUID lsp = Some (PCH_UUID ch)]) f"
    by (rule exact_all_bind [OF exact_lsp_with_ls [OF ok] exact_pch [OF ok],
          where P = "\<lambda>l (lsp, ls) ch. LSP_CHASSIS_UUID lsp = Some (PCH_UUID ch)"
          and h = "\<lambda>x ch. x"]) (fastforce simp: add.commute)+
  show "exact_all 5 er_lsp_ls (\<lambda>f. [((lsp, ls), s). ((lsp, ls, lrp, lr), s) \<leftarrow> lsp_link_lrp f]) f"
    by (rule exact_all_map [OF exact_link [OF ok], where P = "\<lambda>l x. True"
          and h = "\<lambda>(lsp, ls, lrp, lr). (lsp, ls)"]) (fastforce simp: bex_pair image_iff)+
qed simp_all

abbreviation er_remote :: "lsp_row \<times> ls_row \<times> pch_row \<times> int \<Rightarrow> lsp_row \<times> ls_row \<times> pch_row \<times> int" where
  "er_remote \<equiv> \<lambda>(lsp, ls, ch, n). (er_lsp lsp, er_ls ls, er_pch ch, n)"

lemma exact_remote_lsp:
  assumes ok: "states_ok f"
  shows "exact_all 7 er_remote remote_lsp f"
  unfolding remote_lsp_def [abs_def]
proof (rule exact_all_append [where n = "2 + 2" and m = "5 + 2"])
  show "exact_all (2 + 2) er_remote (\<lambda>f. [((lsp, ls, ch, ofport), state1 + LSP_State lsp + LS_State ls).
        ((ch, ofport), state1) \<leftarrow> remote_chassis f,
        lsp \<leftarrow> lsp_array f, LSP_CHASSIS_UUID lsp = Some (PCH_UUID ch),
        ls \<leftarrow> ls_array f, LS_UUID ls = LSP_LS_UUID lsp]) f"
    by (rule exact_all_bind [OF exact_remote_chassis [OF ok] exact_lsp_with_ls [OF ok],
          where P = "\<lambda>l (ch, n) (lsp, ls). LSP_CHASSIS_UUID lsp = Some (PCH_UUID ch)"
          and h = "\<lambda>(ch, n) (lsp, ls). (lsp, ls, ch, n)"]) (fastforce simp: bex_pair)+
  show "exact_all (5 + 2) er_remote (\<lambda>f. [((lsp, ls, ch, ofport), state1 + state2).
        ((lsp, ls, lrp, lr), state1) \<leftarrow> lsp_link_lrp f,
        ((ch, ofport), state2) \<leftarrow> remote_chassis f, LR_CHASSIS_UUID lr = Some (PCH_UUID ch)]) f"
    by (rule exact_all_bind [OF exact_link [OF ok] exact_remote_chassis [OF ok],
          where P = "\<lambda>l (lsp, ls, lrp, lr) (ch, n). LR_CHASSIS_UUID lr = Some (PCH_UUID ch)"
          and h = "\<lambda>(lsp, ls, lrp, lr) (ch, n). (lsp, ls, ch, n)"]) (fastforce simp: bex_pair)+
qed simp_all

lemma exact_lnat_data:
  assumes ok: "states_ok f"
  shows "exact_all 3 (\<lambda>(lnat, lr). (er_lnat lnat, er_lr lr)) lnat_data f"
proof -
  have "exact_all (2 + 1) (\<lambda>(lnat, lr). (er_lnat lnat, er_lr lr)) lnat_data f"
    by (rule exact_all_bind [OF exact_lr [OF ok] exact_lnat [OF ok],
          where P = "\<lambda>l lr lnat. LNAT_LR_UUID lnat = LR_UUID lr"
          and h = "\<lambda>lr lnat. (lnat, lr)"]) (auto simp: lnat_data_def bex_pair)
  then show ?thesis by simp
qed

text \<open>Two router ports on one switch, then with their routers.\<close>

definition hop_ports :: "facts \<Rightarrow> (lrp_row \<times> lrp_row) rel" where
  "hop_ports f =
     [((lrp, lrp2), s + t). ((lrp, lsp1), s) \<leftarrow> peer_ports f, ((lrp2, lsp2), t) \<leftarrow> peer_ports f,
        LSP_LS_UUID lsp2 = LSP_LS_UUID lsp1 \<and> LRP_LR_UUID lrp \<noteq> LRP_LR_UUID lrp2]"

lemma exact_hop_ports:
  assumes ok: "states_ok f"
  shows "exact_all 4 (\<lambda>(lrp, lrp2). (er_lrp lrp, er_lrp lrp2)) hop_ports f"
proof -
  have "exact_all (2 + 2) (\<lambda>(lrp, lrp2). (er_lrp lrp, er_lrp lrp2)) hop_ports f"
    unfolding hop_ports_def [abs_def]
    by (rule exact_all_bind [OF exact_peer_ports [OF ok] exact_peer_ports [OF ok],
          where P = "\<lambda>l (lrp, lsp1) (lrp2, lsp2).
             LSP_LS_UUID lsp2 = LSP_LS_UUID lsp1 \<and> LRP_LR_UUID lrp \<noteq> LRP_LR_UUID lrp2"
          and h = "\<lambda>(lrp, lsp1) (lrp2, lsp2). (lrp, lrp2)"]) (fastforce simp: bex_pair)+
  then show ?thesis by simp
qed

definition hop_next :: "facts \<Rightarrow> (lrp_row \<times> lr_row) rel" where
  "hop_next f =
     [((lrp, lr_next), s + t). ((lrp, lrp2), s) \<leftarrow> hop_ports f, (lr_next, t) \<leftarrow> lr_array f,
        LR_UUID lr_next = LRP_LR_UUID lrp2]"

lemma exact_hop_next:
  assumes ok: "states_ok f"
  shows "exact_all 6 (\<lambda>(lrp, lr). (er_lrp lrp, er_lr lr)) hop_next f"
proof -
  have "exact_all (4 + 2) (\<lambda>(lrp, lr). (er_lrp lrp, er_lr lr)) hop_next f"
    unfolding hop_next_def [abs_def]
    by (rule exact_all_bind [OF exact_hop_ports [OF ok] exact_lr [OF ok],
          where P = "\<lambda>l (lrp, lrp2) lr. LR_UUID lr = LRP_LR_UUID lrp2"
          and h = "\<lambda>(lrp, lrp2) lr. (lrp, lr)"]) (fastforce simp: bex_pair)+
  then show ?thesis by simp
qed

lemma next_hop_lr_eq:
  "set (next_hop_lr f) =
     {((lrp, lr, lr_next), s + t) | lrp lr lr_next s t.
        ((lrp, lr_next), s) \<in> set (hop_next f) \<and> (lr, t) \<in> set (lr_array f) \<and>
        LR_UUID lr = LRP_LR_UUID lrp}"
proof -
  have hop: "((lrp, lr_next), s) \<in> set (hop_next f) \<longleftrightarrow>
      (\<exists>lsp1 lsp2 lrp2 t. lrp \<in> set (lrp_array f) \<and> lsp1 \<in> set (exchange_lsp_array f) \<and>
         LRP_PEER lrp = Some (LSP_UUID lsp1) \<and> LSP_PEER lsp1 = Some (LRP_UUID lrp) \<and>
         lsp2 \<in> set (exchange_lsp_array f) \<and> LSP_LS_UUID lsp2 = LSP_LS_UUID lsp1 \<and>
         lrp2 \<in> set (lrp_array f) \<and> LRP_PEER lrp2 = Some (LSP_UUID lsp2) \<and>
         LSP_PEER lsp2 = Some (LRP_UUID lrp2) \<and> LRP_LR_UUID lrp \<noteq> LRP_LR_UUID lrp2 \<and>
         (lr_next, t) \<in> set (lr_array f) \<and> LR_UUID lr_next = LRP_LR_UUID lrp2 \<and>
         s = LRP_State lrp + LSP_State lsp1 + (LRP_State lrp2 + LSP_State lsp2) + t)" for lrp lr_next s
    by (fastforce simp: hop_next_def hop_ports_def bex_pair)
  show ?thesis
  proof (rule set_eqI)
    fix x :: "(lrp_row \<times> lr_row \<times> lr_row) \<times> int"
    obtain lrp lr lr_next u where x: "x = ((lrp, lr, lr_next), u)" by (metis surj_pair)
    show "x \<in> set (next_hop_lr f) \<longleftrightarrow> x \<in> {((lrp, lr, lr_next), s + t) | lrp lr lr_next s t.
        ((lrp, lr_next), s) \<in> set (hop_next f) \<and> (lr, t) \<in> set (lr_array f) \<and>
        LR_UUID lr = LRP_LR_UUID lrp}"
      unfolding x by (simp add: hop next_hop_lr_def bex_pair; safe; fastforce simp: add_ac)
  qed
qed


lemma exact_next_hop_lr:
  assumes ok: "states_ok f"
  shows "exact_all 8 (\<lambda>(lrp, lr, lr'). (er_lrp lrp, er_lr lr, er_lr lr')) next_hop_lr f"
proof -
  have "exact_all (6 + 2) (\<lambda>(lrp, lr, lr'). (er_lrp lrp, er_lr lr, er_lr lr')) next_hop_lr f"
    by (rule exact_all_bind [OF exact_hop_next [OF ok] exact_lr [OF ok],
          where P = "\<lambda>l (lrp, lr') lr. LR_UUID lr = LRP_LR_UUID lrp"
          and h = "\<lambda>(lrp, lr') lr. (lrp, lr, lr')"]) (fastforce simp: next_hop_lr_eq)+
  then show ?thesis by simp
qed

lemma exact_next_hop_ovsport:
  assumes ok: "states_ok f"
  shows "exact_all 9 (\<lambda>x. x) next_hop_ovsport f"
proof -
  have "exact_all (8 + 1) (\<lambda>x. x) next_hop_ovsport f"
    unfolding next_hop_ovsport_def [abs_def]
    by (rule exact_all_bind [OF exact_next_hop_lr [OF ok] exact_rport [OF ok],
          where P = "\<lambda>l (lrp, lr, lr') p. LR_CHASSIS_UUID lr' = Some (OVSPORT_IFACE_ID p) \<and> OVSPORT_OFPORT p > 0"
          and h = "\<lambda>(lrp, lr, lr') p. (LRP_UUID lrp, OVSPORT_OFPORT p)"]) (fastforce simp: bex_pair)+
  then show ?thesis by simp
qed


section \<open>Rows compared as a whole\<close>

lemma row_state_st: "row_state s \<Longrightarrow> st 1 s" "row_state s \<Longrightarrow> st (Suc 0) s"
  using st_row unfolding row_state_def by simp_all

lemma lr_array_kept:
  assumes ok: "states_ok f" and k: "kept keep" and mem: "(lr, s) \<in> set (lr_array f)" and s: "keep s"
  shows "lr \<in> set (u_lr_array f) \<and> keep (LR_State lr)"
proof -
  have st: "st 1 (LR_State lr)" if "lr \<in> set (u_lr_array f)"
    using ok that by (simp add: states_ok_def row_state_st)
  have "st 1 (PCH_State ch)" if "ch \<in> set (chassis_array f)" for ch
    using ok that by (simp add: states_ok_def row_state_st)
  then show ?thesis
    using mem s st kept_split [OF k, of 1 "LR_State lr" 1] by (auto simp: lr_array_def)
qed

lemma link_kept:
  assumes ok: "states_ok f" and k: "kept keep"
    and mem: "((lsp, ls, lrp, lr), s) \<in> set (lsp_link_lrp f)" and s: "keep s"
  shows "lr \<in> set (u_lr_array f) \<and> keep (LR_State lr) \<and> ls \<in> set (ls_array f) \<and> keep (LS_State ls)"
proof -
  obtain t where rows: "lrp \<in> set (lrp_array f)" "lsp \<in> set (exchange_lsp_array f)"
      "ls \<in> set (ls_array f)" "(lr, t) \<in> set (lr_array f)"
    and s_eq: "s = LRP_State lrp + LSP_State lsp + LS_State ls + t"
    using mem by (auto simp: lsp_link_lrp_def)
  have lrp: "st 1 (LRP_State lrp)" and lsp: "st 1 (LSP_State lsp)" and ls: "st 1 (LS_State ls)"
    using ok rows(1-3) by (simp_all add: states_ok_def row_state_st)
  then have two: "st (1 + 1) (LRP_State lrp + LSP_State lsp)" by (intro st_add)
  then have three: "st (1 + 1 + 1) (LRP_State lrp + LSP_State lsp + LS_State ls)" using ls by (rule st_add)
  have "st 2 t" using exact_lr [OF ok] rows(4) by (auto simp: new.exact_def)
  then have "keep (LRP_State lrp + LSP_State lsp + LS_State ls) \<and> keep t"
    using kept_split [OF k three] s unfolding s_eq by simp
  moreover from this have "keep (LS_State ls)"
    using kept_split [OF k two ls] by simp
  ultimately show ?thesis using lr_array_kept [OF ok k rows(4)] rows(3) by simp
qed

lemma lnat_kept:
  assumes ok: "states_ok f" and k: "kept keep" and mem: "((lnat, lr), s) \<in> set (lnat_data f)" and s: "keep s"
  shows "lr \<in> set (u_lr_array f) \<and> keep (LR_State lr)"
proof -
  obtain t where rows: "(lr, t) \<in> set (lr_array f)" "lnat \<in> set (lnat_array f)"
    and s_eq: "s = t + LNAT_State lnat"
    using mem by (auto simp: lnat_data_def)
  have "st 2 t" using exact_lr [OF ok] rows(1) by (auto simp: new.exact_def)
  moreover have "st 1 (LNAT_State lnat)" using ok rows(2) by (simp add: states_ok_def row_state_st)
  ultimately have "keep t" using kept_split [OF k, of 2 t 1] s unfolding s_eq by simp
  then show ?thesis using lr_array_kept [OF ok k rows(1)] by simp
qed

lemma patchport_kept:
  assumes ok: "states_ok f" and k: "kept keep" and mem: "((p, ls), s) \<in> set (local_patchport f)" and s: "keep s"
  shows "ls \<in> set (ls_array f) \<and> keep (LS_State ls)"
proof -
  obtain q lsp where rows: "q \<in> set (ovsport f)" "ls \<in> set (ls_array f)" "lsp \<in> set (exchange_lsp_array f)"
    and s_eq: "s = OVSPORT_State q + LS_State ls + LSP_State lsp"
    using mem by (auto simp: local_patchport_def)
  have st: "st 1 (OVSPORT_State q)" "st 1 (LS_State ls)" "st 1 (LSP_State lsp)"
    using ok rows by (simp_all add: states_ok_def row_state_st)
  have "keep (OVSPORT_State q + LS_State ls)"
    using kept_split [OF k st_add [OF st(1,2)] st(3)] s unfolding s_eq by simp
  then show ?thesis using kept_split [OF k st(1,2)] rows(2) by simp
qed

lemma lr_apart:
  assumes "rows_apart f" and "kept keep" and "lr \<in> set (u_lr_array f)" "keep (LR_State lr)"
    and "lr' \<in> set (u_lr_array f)" "keep (LR_State lr')"
  shows "er_lr lr' = er_lr lr \<longleftrightarrow> lr' = lr"
  using assms kept_not_both [OF assms(2)] unfolding rows_apart_def
  by (auto simp: doubleton_eq_iff; metis)

lemma ls_apart:
  assumes "rows_apart f" and "kept keep" and "ls \<in> set (ls_array f)" "keep (LS_State ls)"
    and "ls' \<in> set (ls_array f)" "keep (LS_State ls')"
  shows "er_ls ls' = er_ls ls \<longleftrightarrow> ls' = ls"
  using assms kept_not_both [OF assms(2)] unfolding rows_apart_def
  by (auto simp: doubleton_eq_iff; metis)

text \<open>A NAT entry with a port of its router, and a patch port with a router port on its switch.\<close>

definition nat_link :: "facts \<Rightarrow> (lnat_row \<times> lsp_row \<times> ls_row) rel" where
  "nat_link f =
     [((lnat, lsp, ls), s1 + s2). ((lnat, lr), s1) \<leftarrow> lnat_data f,
        ((lsp, ls, lrp, lr'), s2) \<leftarrow> lsp_link_lrp f, lr' = lr]"

lemma mem_nat_link:
  "((lnat, lsp, ls), s) \<in> set (nat_link f) \<longleftrightarrow>
     (\<exists>lr lrp s1 s2. ((lnat, lr), s1) \<in> set (lnat_data f) \<and>
        ((lsp, ls, lrp, lr), s2) \<in> set (lsp_link_lrp f) \<and> s = s1 + s2)"
  by (fastforce simp: nat_link_def bex_pair)

lemma exact_nat_link:
  assumes ok: "states_ok f" and apart: "rows_apart f"
  shows "exact_all 8 (\<lambda>(lnat, lsp, ls). (er_lnat lnat, er_lsp lsp, er_ls ls)) nat_link f"
proof -
  have "exact_all (3 + 5) (\<lambda>(lnat, lsp, ls). (er_lnat lnat, er_lsp lsp, er_ls ls)) nat_link f"
  proof (rule exact_all_bind_kept [OF exact_lnat_data [OF ok] exact_link [OF ok],
        where P = "\<lambda>(lnat, lr) (lsp, ls, lrp, lr'). lr' = lr"
        and h = "\<lambda>(lnat, lr) (lsp, ls, lrp, lr'). (lnat, lsp, ls)"], goal_cases)
    case (3 keep x s y t)
    obtain lnat lr lsp ls lrp lr' where [simp]: "x = (lnat, lr)" "y = (lsp, ls, lrp, lr')"
      by (metis surj_pair)
    have "lr \<in> set (u_lr_array f) \<and> keep (LR_State lr)" using lnat_kept [OF ok 3(1)] 3(2,4) by simp
    moreover have "lr' \<in> set (u_lr_array f) \<and> keep (LR_State lr')" using link_kept [OF ok 3(1)] 3(3,5) by simp
    ultimately show ?case using lr_apart [OF apart 3(1)] by simp
  qed (fastforce simp: nat_link_def bex_pair)+
  then show ?thesis by simp
qed

definition patch_link :: "facts \<Rightarrow> (lr_row \<times> lrp_row) rel" where
  "patch_link f =
     [((lr, lrp), s1 + s2). (((lsp, ofport), ls), s1) \<leftarrow> local_patchport f,
        ((lsp1, ls1, lrp, lr), s2) \<leftarrow> lsp_link_lrp f, ls1 = ls]"

lemma exact_patch_link:
  assumes ok: "states_ok f" and apart: "rows_apart f"
  shows "exact_all 8 (\<lambda>(lr, lrp). (er_lr lr, er_lrp lrp)) patch_link f"
proof -
  have "exact_all (3 + 5) (\<lambda>(lr, lrp). (er_lr lr, er_lrp lrp)) patch_link f"
  proof (rule exact_all_bind_kept [OF exact_patchport [OF ok] exact_link [OF ok],
        where P = "\<lambda>(p, ls) (lsp1, ls1, lrp, lr). ls1 = ls"
        and h = "\<lambda>(p, ls) (lsp1, ls1, lrp, lr). (lr, lrp)"], goal_cases)
    case (3 keep x s y t)
    obtain p ls lsp1 ls1 lrp lr where [simp]: "x = (p, ls)" "y = (lsp1, ls1, lrp, lr)"
      by (metis surj_pair)
    have "ls \<in> set (ls_array f) \<and> keep (LS_State ls)" using patchport_kept [OF ok 3(1)] 3(2,4) by simp
    moreover have "ls1 \<in> set (ls_array f) \<and> keep (LS_State ls1)" using link_kept [OF ok 3(1)] 3(3,5) by simp
    ultimately show ?case using ls_apart [OF apart 3(1)] by (simp split: prod.splits)
  qed (fastforce simp: patch_link_def bex_pair)+
  then show ?thesis by simp
qed

end
