(* ===== verification/Reg.thy ===== *)
theory Reg imports Prelude begin

text \<open>
  The register and field indices of \<open>lcp/reg.py\<close>, the two dictionaries that give their
  OpenFlow names in matches and in actions, the bits of the flag register, and the class
  \<open>NXM_Reg\<close> with its \<open>__repr__\<close>. The dictionaries are kept in the order of the source and
  looked up as a Python literal is: of two entries with the same key the last one counts.
\<close>

section \<open>Indices\<close>

abbreviation (input) NONE_IDX :: nat where "NONE_IDX \<equiv> 0"
abbreviation (input) REG0_IDX :: nat where "REG0_IDX \<equiv> 1"
abbreviation (input) REG1_IDX :: nat where "REG1_IDX \<equiv> 2"
abbreviation (input) REG2_IDX :: nat where "REG2_IDX \<equiv> 3"
abbreviation (input) REG3_IDX :: nat where "REG3_IDX \<equiv> 4"
abbreviation (input) REG4_IDX :: nat where "REG4_IDX \<equiv> 5"
abbreviation (input) REG5_IDX :: nat where "REG5_IDX \<equiv> 6"
abbreviation (input) REG6_IDX :: nat where "REG6_IDX \<equiv> 7"
abbreviation (input) REG7_IDX :: nat where "REG7_IDX \<equiv> 8"
abbreviation (input) REG8_IDX :: nat where "REG8_IDX \<equiv> 9"
abbreviation (input) REG9_IDX :: nat where "REG9_IDX \<equiv> 10"
abbreviation (input) REG10_IDX :: nat where "REG10_IDX \<equiv> 11"
abbreviation (input) REG11_IDX :: nat where "REG11_IDX \<equiv> 12"
abbreviation (input) REG12_IDX :: nat where "REG12_IDX \<equiv> 13"
abbreviation (input) REG13_IDX :: nat where "REG13_IDX \<equiv> 14"
abbreviation (input) REG14_IDX :: nat where "REG14_IDX \<equiv> 15"
abbreviation (input) REG15_IDX :: nat where "REG15_IDX \<equiv> 16"
abbreviation (input) XREG0_IDX :: nat where "XREG0_IDX \<equiv> 20"
abbreviation (input) XREG1_IDX :: nat where "XREG1_IDX \<equiv> 21"
abbreviation (input) XREG2_IDX :: nat where "XREG2_IDX \<equiv> 22"
abbreviation (input) XREG3_IDX :: nat where "XREG3_IDX \<equiv> 23"
abbreviation (input) XREG4_IDX :: nat where "XREG4_IDX \<equiv> 24"
abbreviation (input) XREG5_IDX :: nat where "XREG5_IDX \<equiv> 25"
abbreviation (input) XREG6_IDX :: nat where "XREG6_IDX \<equiv> 26"
abbreviation (input) XREG7_IDX :: nat where "XREG7_IDX \<equiv> 27"
abbreviation (input) XXREG0_IDX :: nat where "XXREG0_IDX \<equiv> 30"
abbreviation (input) XXREG1_IDX :: nat where "XXREG1_IDX \<equiv> 31"
abbreviation (input) XXREG2_IDX :: nat where "XXREG2_IDX \<equiv> 32"
abbreviation (input) XXREG3_IDX :: nat where "XXREG3_IDX \<equiv> 33"
abbreviation (input) ETH_SRC_IDX :: nat where "ETH_SRC_IDX \<equiv> 40"
abbreviation (input) ETH_DST_IDX :: nat where "ETH_DST_IDX \<equiv> 41"
abbreviation (input) ETH_TYPE_IDX :: nat where "ETH_TYPE_IDX \<equiv> 42"
abbreviation (input) VLAN_VID_IDX :: nat where "VLAN_VID_IDX \<equiv> 50"
abbreviation (input) VLAN_PCP_IDX :: nat where "VLAN_PCP_IDX \<equiv> 51"
abbreviation (input) VLAN_TCI_IDX :: nat where "VLAN_TCI_IDX \<equiv> 52"
abbreviation (input) MPLS_LABEL_IDX :: nat where "MPLS_LABEL_IDX \<equiv> 60"
abbreviation (input) MPLS_TC_IDX :: nat where "MPLS_TC_IDX \<equiv> 61"
abbreviation (input) MPLS_BOS_IDX :: nat where "MPLS_BOS_IDX \<equiv> 62"
abbreviation (input) MPLS_TTL_IDX :: nat where "MPLS_TTL_IDX \<equiv> 63"
abbreviation (input) IP_SRC_IDX :: nat where "IP_SRC_IDX \<equiv> 70"
abbreviation (input) IP_DST_IDX :: nat where "IP_DST_IDX \<equiv> 71"
abbreviation (input) IPV6_SRC_IDX :: nat where "IPV6_SRC_IDX \<equiv> 72"
abbreviation (input) IPV6_DST_IDX :: nat where "IPV6_DST_IDX \<equiv> 73"
abbreviation (input) IPV6_LABEL_IDX :: nat where "IPV6_LABEL_IDX \<equiv> 74"
abbreviation (input) IP_PROTO_IDX_field :: nat where "IP_PROTO_IDX_field \<equiv> 75"
abbreviation (input) IP_TTL_IDX :: nat where "IP_TTL_IDX \<equiv> 76"
abbreviation (input) IP_FRAG_IDX :: nat where "IP_FRAG_IDX \<equiv> 77"
abbreviation (input) IP_TOS_IDX :: nat where "IP_TOS_IDX \<equiv> 78"
abbreviation (input) IP_DSCP_IDX :: nat where "IP_DSCP_IDX \<equiv> 79"
abbreviation (input) IP_ECN_IDX :: nat where "IP_ECN_IDX \<equiv> 80"
abbreviation (input) ARP_OP_IDX :: nat where "ARP_OP_IDX \<equiv> 90"
abbreviation (input) ARP_SPA_IDX :: nat where "ARP_SPA_IDX \<equiv> 91"
abbreviation (input) ARP_TPA_IDX :: nat where "ARP_TPA_IDX \<equiv> 92"
abbreviation (input) ARP_SHA_IDX :: nat where "ARP_SHA_IDX \<equiv> 93"
abbreviation (input) ARP_THA_IDX :: nat where "ARP_THA_IDX \<equiv> 94"
abbreviation (input) TCP_SRC_IDX :: nat where "TCP_SRC_IDX \<equiv> 100"
abbreviation (input) TCP_DST_IDX :: nat where "TCP_DST_IDX \<equiv> 101"
abbreviation (input) TCP_FLAGS_IDX :: nat where "TCP_FLAGS_IDX \<equiv> 102"
abbreviation (input) UDP_SRC_IDX :: nat where "UDP_SRC_IDX \<equiv> 103"
abbreviation (input) UDP_DST_IDX :: nat where "UDP_DST_IDX \<equiv> 104"
abbreviation (input) SCTP_SRC_IDX :: nat where "SCTP_SRC_IDX \<equiv> 105"
abbreviation (input) SCTP_DST_IDX :: nat where "SCTP_DST_IDX \<equiv> 106"
abbreviation (input) ICMP_TYPE_IDX :: nat where "ICMP_TYPE_IDX \<equiv> 110"
abbreviation (input) ICMP_CODE_IDX :: nat where "ICMP_CODE_IDX \<equiv> 111"
abbreviation (input) ICMPV6_TYPE_IDX :: nat where "ICMPV6_TYPE_IDX \<equiv> 112"
abbreviation (input) ICMPV6_CODE_IDX :: nat where "ICMPV6_CODE_IDX \<equiv> 113"
abbreviation (input) ND_TAEGET_IDX :: nat where "ND_TAEGET_IDX \<equiv> 114"
abbreviation (input) ND_SLL_IDX :: nat where "ND_SLL_IDX \<equiv> 115"
abbreviation (input) ND_TLL_IDX :: nat where "ND_TLL_IDX \<equiv> 116"
abbreviation (input) ETH_PROTO_IDX :: nat where "ETH_PROTO_IDX \<equiv> 200"
abbreviation (input) IP_PROTO_IDX :: nat where "IP_PROTO_IDX \<equiv> 201"
abbreviation (input) IPV6_PROTO_IDX :: nat where "IPV6_PROTO_IDX \<equiv> 202"
abbreviation (input) ICMP_PROTO_IDX :: nat where "ICMP_PROTO_IDX \<equiv> 203"
abbreviation (input) ICMP6_PROTO_IDX :: nat where "ICMP6_PROTO_IDX \<equiv> 204"
abbreviation (input) TCP_PROTO_IDX :: nat where "TCP_PROTO_IDX \<equiv> 205"
abbreviation (input) TCP6_PROTO_IDX :: nat where "TCP6_PROTO_IDX \<equiv> 206"
abbreviation (input) UDP_PROTO_IDX :: nat where "UDP_PROTO_IDX \<equiv> 207"
abbreviation (input) UDP6_PROTO_IDX :: nat where "UDP6_PROTO_IDX \<equiv> 208"
abbreviation (input) SCTP_PROTO_IDX :: nat where "SCTP_PROTO_IDX \<equiv> 29"
abbreviation (input) SCTP6_PROTO_IDX :: nat where "SCTP6_PROTO_IDX \<equiv> 210"
abbreviation (input) ARP_PROTO_IDX :: nat where "ARP_PROTO_IDX \<equiv> 211"
abbreviation (input) RARP_PROTO_IDX :: nat where "RARP_PROTO_IDX \<equiv> 212"
abbreviation (input) MPLS_PROTO_IDX :: nat where "MPLS_PROTO_IDX \<equiv> 213"
abbreviation (input) MPLSM_PROTO_IDX :: nat where "MPLSM_PROTO_IDX \<equiv> 214"
abbreviation (input) TUN_ID_IDX :: nat where "TUN_ID_IDX \<equiv> 220"
abbreviation (input) TUN_SRC_IDX :: nat where "TUN_SRC_IDX \<equiv> 221"
abbreviation (input) TUN_DST_IDX :: nat where "TUN_DST_IDX \<equiv> 222"
abbreviation (input) TUN_IPV6_SRC_IDX :: nat where "TUN_IPV6_SRC_IDX \<equiv> 223"
abbreviation (input) TUN_IPV6_DST_IDX :: nat where "TUN_IPV6_DST_IDX \<equiv> 224"
abbreviation (input) TUN_GBP_ID_IDX :: nat where "TUN_GBP_ID_IDX \<equiv> 225"
abbreviation (input) TUN_GBP_FLAGS_IDX :: nat where "TUN_GBP_FLAGS_IDX \<equiv> 226"
abbreviation (input) TUN_FLAGS :: nat where "TUN_FLAGS \<equiv> 227"
abbreviation (input) TUN_METADATA0_IDX :: nat where "TUN_METADATA0_IDX \<equiv> 230"
abbreviation (input) TUN_METADATA1_IDX :: nat where "TUN_METADATA1_IDX \<equiv> 231"
abbreviation (input) TUN_METADATA2_IDX :: nat where "TUN_METADATA2_IDX \<equiv> 232"
abbreviation (input) TUN_METADATA3_IDX :: nat where "TUN_METADATA3_IDX \<equiv> 233"
abbreviation (input) TUN_METADATA4_IDX :: nat where "TUN_METADATA4_IDX \<equiv> 234"
abbreviation (input) TUN_METADATA5_IDX :: nat where "TUN_METADATA5_IDX \<equiv> 235"
abbreviation (input) TUN_METADATA6_IDX :: nat where "TUN_METADATA6_IDX \<equiv> 236"
abbreviation (input) TUN_METADATA7_IDX :: nat where "TUN_METADATA7_IDX \<equiv> 237"
abbreviation (input) TUN_METADATA8_IDX :: nat where "TUN_METADATA8_IDX \<equiv> 238"
abbreviation (input) TUN_METADATA9_IDX :: nat where "TUN_METADATA9_IDX \<equiv> 239"
abbreviation (input) METADATA_IDX :: nat where "METADATA_IDX \<equiv> 300"
abbreviation (input) IN_PORT_IDX :: nat where "IN_PORT_IDX \<equiv> 301"
abbreviation (input) IN_PORT_OXM_IDX :: nat where "IN_PORT_OXM_IDX \<equiv> 302"
abbreviation (input) SKB_PRIORITY_IDX :: nat where "SKB_PRIORITY_IDX \<equiv> 303"
abbreviation (input) PKT_MARK_IDX :: nat where "PKT_MARK_IDX \<equiv> 304"
abbreviation (input) ACTSET_OUTPUT_IDX :: nat where "ACTSET_OUTPUT_IDX \<equiv> 305"
abbreviation (input) PACKET_TYPE_IDX :: nat where "PACKET_TYPE_IDX \<equiv> 306"
abbreviation (input) REG_DP_IDX :: nat where "REG_DP_IDX \<equiv> METADATA_IDX"
abbreviation (input) REG_SRC_IDX :: nat where "REG_SRC_IDX \<equiv> REG0_IDX"
abbreviation (input) REG_DST_IDX :: nat where "REG_DST_IDX \<equiv> REG1_IDX"
abbreviation (input) REG_OUTPORT_IDX :: nat where "REG_OUTPORT_IDX \<equiv> REG4_IDX"
abbreviation (input) REG_FLAG_IDX :: nat where "REG_FLAG_IDX \<equiv> REG10_IDX"
abbreviation (input) REG_DST_TUN_IP_IDX :: nat where "REG_DST_TUN_IP_IDX \<equiv> REG11_IDX"
abbreviation (input) FLAG_LOOPBACK :: nat where "FLAG_LOOPBACK \<equiv> 1"
abbreviation (input) FLAG_LOOPBACK_BIT_IDX :: nat where "FLAG_LOOPBACK_BIT_IDX \<equiv> 0"
abbreviation (input) FLAG_TRACE :: nat where "FLAG_TRACE \<equiv> 2"
abbreviation (input) FLAG_TRACE_BIT_IDX :: nat where "FLAG_TRACE_BIT_IDX \<equiv> 1"
abbreviation (input) FLAG_REDIRECT :: nat where "FLAG_REDIRECT \<equiv> 4"
abbreviation (input) FLAG_REDIRECT_BIT_IDX :: nat where "FLAG_REDIRECT_BIT_IDX \<equiv> 2"
abbreviation (input) FLAG_NAT :: nat where "FLAG_NAT \<equiv> 8"
abbreviation (input) FLAG_NAT_BIT_IDX :: nat where "FLAG_NAT_BIT_IDX \<equiv> 3"

text \<open>
  \<open>IP_PROTO_IDX\<close> is bound twice in the source, to 75 (the field \<open>ip_proto\<close>) and later to 201
  (the protocol \<open>ip\<close>). The dictionaries are built after both, so the name stands for 201 in
  them; the first binding is \<open>IP_PROTO_IDX_field\<close> here and is not a key of either.
\<close>

section \<open>The dictionaries of names\<close>

text \<open>A Python dictionary literal: a later entry replaces an earlier one with the same key.\<close>

definition dict_literal :: "('k \<times> 'v) list \<Rightarrow> 'k \<rightharpoonup> 'v" where
  "dict_literal kvs = map_of (rev kvs)"

definition REG_MATCH_DICT_entries :: "(nat \<times> string) list" where
  "REG_MATCH_DICT_entries = [
    (NONE_IDX, ''''), (REG0_IDX, ''reg0''), (REG1_IDX, ''reg1''), (REG2_IDX, ''reg2''),
    (REG3_IDX, ''reg3''), (REG4_IDX, ''reg4''), (REG5_IDX, ''reg5''), (REG6_IDX, ''reg6''),
    (REG7_IDX, ''reg7''), (REG8_IDX, ''reg8''), (REG9_IDX, ''reg9''), (REG10_IDX, ''reg10''),
    (REG11_IDX, ''reg11''), (REG12_IDX, ''reg12''), (REG13_IDX, ''reg13''), (REG14_IDX, ''reg14''),
    (REG15_IDX, ''reg15''), (XREG0_IDX, ''xreg0''), (XREG1_IDX, ''xreg1''), (XREG2_IDX, ''xreg2''),
    (XREG3_IDX, ''xreg3''), (XREG4_IDX, ''xreg4''), (XREG5_IDX, ''xreg5''), (XREG6_IDX, ''xreg6''),
    (XREG7_IDX, ''xreg7''), (XXREG0_IDX, ''xxreg0''), (XXREG1_IDX, ''xxreg1''),
    (XXREG2_IDX, ''xxreg2''), (XXREG3_IDX, ''xxreg3''), (ETH_SRC_IDX, ''eth_src''),
    (ETH_DST_IDX, ''eth_dst''), (ETH_TYPE_IDX, ''eth_type''), (VLAN_VID_IDX, ''vlan_id''),
    (VLAN_PCP_IDX, ''vlan_pcp''), (VLAN_TCI_IDX, ''vlan_tci''), (MPLS_LABEL_IDX, ''mpls_label''),
    (MPLS_TC_IDX, ''mpls_tc''), (MPLS_BOS_IDX, ''mpls_bos''), (MPLS_TTL_IDX, ''mpls_ttl''),
    (IP_SRC_IDX, ''ip_src''), (IP_DST_IDX, ''ip_dst''), (IPV6_SRC_IDX, ''ipv6_src''),
    (IPV6_DST_IDX, ''ipv6_dst''), (IPV6_LABEL_IDX, ''ipv6_label''), (IP_PROTO_IDX, ''ip_proto''),
    (IP_TTL_IDX, ''nw_ttl''), (IP_FRAG_IDX, ''ip_frag''), (IP_TOS_IDX, ''nw_tos''),
    (IP_DSCP_IDX, ''ip_dscp''), (IP_ECN_IDX, ''nw_ecn''), (ARP_OP_IDX, ''arp_op''),
    (ARP_SPA_IDX, ''arp_spa''), (ARP_TPA_IDX, ''arp_tpa''), (ARP_SHA_IDX, ''arp_sha''),
    (ARP_THA_IDX, ''arp_tha''), (TCP_SRC_IDX, ''tcp_src''), (TCP_DST_IDX, ''tcp_dst''),
    (TCP_FLAGS_IDX, ''tcp_flag''), (UDP_SRC_IDX, ''udp_src''), (UDP_DST_IDX, ''udp_dst''),
    (SCTP_SRC_IDX, ''sctp_src''), (SCTP_DST_IDX, ''sctp_dst''), (ICMP_TYPE_IDX, ''icmp_type''),
    (ICMP_CODE_IDX, ''icmp_code''), (ICMPV6_TYPE_IDX, ''icmpv6_type''),
    (ICMPV6_CODE_IDX, ''icmpv6_code''), (ND_TAEGET_IDX, ''nd_target''), (ND_SLL_IDX, ''nd_sll''),
    (ND_TLL_IDX, ''nd_TLL''), (ETH_PROTO_IDX, ''packet_type=(0,0)''), (IP_PROTO_IDX, ''ip''),
    (IPV6_PROTO_IDX, ''ipv6''), (ICMP_PROTO_IDX, ''icmp''), (ICMP6_PROTO_IDX, ''icmp6''),
    (TCP_PROTO_IDX, ''tcp''), (TCP6_PROTO_IDX, ''tcp6''), (UDP_PROTO_IDX, ''udp''),
    (UDP6_PROTO_IDX, ''udp6''), (SCTP_PROTO_IDX, ''sctp''), (SCTP6_PROTO_IDX, ''sctp6''),
    (ARP_PROTO_IDX, ''arp''), (RARP_PROTO_IDX, ''rarp''), (MPLS_PROTO_IDX, ''mpls''),
    (MPLSM_PROTO_IDX, ''mplsm''), (TUN_ID_IDX, ''tun_id''), (TUN_SRC_IDX, ''tun_src''),
    (TUN_DST_IDX, ''tun_dst''), (TUN_IPV6_SRC_IDX, ''tun_ipv6_src''),
    (TUN_IPV6_DST_IDX, ''tun_ipv6_dst''), (TUN_GBP_ID_IDX, ''tun_gbp_id''),
    (TUN_GBP_FLAGS_IDX, ''tun_gbp_flags''), (TUN_FLAGS, ''tun_flags''),
    (TUN_METADATA0_IDX, ''tun_metadata0''), (TUN_METADATA1_IDX, ''tun_metadata1''),
    (TUN_METADATA2_IDX, ''tun_metadata2''), (TUN_METADATA3_IDX, ''tun_metadata3''),
    (TUN_METADATA4_IDX, ''tun_metadata4''), (TUN_METADATA5_IDX, ''tun_metadata5''),
    (TUN_METADATA6_IDX, ''tun_metadata6''), (TUN_METADATA7_IDX, ''tun_metadata7''),
    (TUN_METADATA8_IDX, ''tun_metadata8''), (TUN_METADATA9_IDX, ''tun_metadata9''),
    (METADATA_IDX, ''metadata''), (IN_PORT_IDX, ''in_port''), (IN_PORT_OXM_IDX, ''in_port_oxm''),
    (SKB_PRIORITY_IDX, ''skb_priority''), (PKT_MARK_IDX, ''pkt_mark''),
    (ACTSET_OUTPUT_IDX, ''actset_output''), (PACKET_TYPE_IDX, ''packet_type'')]"

definition REG_MATCH_DICT :: "nat \<rightharpoonup> string" where
  "REG_MATCH_DICT = dict_literal REG_MATCH_DICT_entries"

definition REG_ACTION_DICT_entries :: "(nat \<times> string) list" where
  "REG_ACTION_DICT_entries = [
    (REG0_IDX, ''NXM_NX_REG0''), (REG1_IDX, ''NXM_NX_REG1''), (REG2_IDX, ''NXM_NX_REG2''),
    (REG3_IDX, ''NXM_NX_REG3''), (REG4_IDX, ''NXM_NX_REG4''), (REG5_IDX, ''NXM_NX_REG5''),
    (REG6_IDX, ''NXM_NX_REG6''), (REG7_IDX, ''NXM_NX_REG7''), (REG8_IDX, ''NXM_NX_REG8''),
    (REG9_IDX, ''NXM_NX_REG9''), (REG10_IDX, ''NXM_NX_REG10''), (REG11_IDX, ''NXM_NX_REG11''),
    (REG12_IDX, ''NXM_NX_REG12''), (REG13_IDX, ''NXM_NX_REG13''), (REG14_IDX, ''NXM_NX_REG14''),
    (REG15_IDX, ''NXM_NX_REG15''), (XREG0_IDX, ''OXM_OF_PKT_REG0''),
    (XREG1_IDX, ''OXM_OF_PKT_REG1''), (XREG2_IDX, ''OXM_OF_PKT_REG2''),
    (XREG3_IDX, ''OXM_OF_PKT_REG3''), (XREG4_IDX, ''OXM_OF_PKT_REG4''),
    (XREG5_IDX, ''OXM_OF_PKT_REG5''), (XREG6_IDX, ''OXM_OF_PKT_REG6''),
    (XREG7_IDX, ''OXM_OF_PKT_REG7''), (XXREG0_IDX, ''NXM_NX_XXREG0''),
    (XXREG1_IDX, ''NXM_NX_XXREG1''), (XXREG2_IDX, ''NXM_NX_XXREG2''),
    (XXREG3_IDX, ''NXM_NX_XXREG3''), (ETH_SRC_IDX, ''NXM_OF_ETH_SRC''),
    (ETH_DST_IDX, ''NXM_OF_ETH_DST''), (ETH_TYPE_IDX, ''NXM_OF_ETH_TYPE''),
    (VLAN_VID_IDX, ''OXM_OF_VLAN_VID''), (VLAN_PCP_IDX, ''OXM_OF_VLAN_PCP''),
    (VLAN_TCI_IDX, ''NXM_OF_VLAN_TCI''), (MPLS_LABEL_IDX, ''OXM_OF_MPLS_LABEL''),
    (MPLS_TC_IDX, ''OXM_OF_MPLS_TC''), (MPLS_BOS_IDX, ''OXM_OF_MPLS_BOS''),
    (MPLS_TTL_IDX, ''NXM_NX_MPLS_TTL''), (IP_SRC_IDX, ''NXM_OF_IP_SRC''),
    (IP_DST_IDX, ''NXM_OF_IP_DST''), (IPV6_SRC_IDX, ''NXM_NX_IPV6_SRC''),
    (IPV6_DST_IDX, ''NXM_NX_IPV6_DST''), (IPV6_LABEL_IDX, ''NXM_NX_IPV6_LABEL''),
    (IP_PROTO_IDX, ''NXM_OF_IP_PROTO''), (IP_TTL_IDX, ''NXM_NX_IP_TTL''),
    (IP_FRAG_IDX, ''NXM_NX_IP_FRAG''), (IP_TOS_IDX, ''NXM_OF_IP_TOS''),
    (IP_DSCP_IDX, ''OXM_OF_IP_DSCP''), (IP_ECN_IDX, ''NXM_NX_IP_ECN''),
    (ARP_OP_IDX, ''NXM_OF_ARP_OP''), (ARP_SPA_IDX, ''NXM_OF_ARP_SPA''),
    (ARP_TPA_IDX, ''NXM_OF_ARP_TPA''), (ARP_SHA_IDX, ''NXM_NX_ARP_SHA''),
    (ARP_THA_IDX, ''NXM_NX_ARP_THA''), (TCP_SRC_IDX, ''NXM_OF_TCP_SRC''),
    (TCP_DST_IDX, ''NXM_OF_TCP_DST''), (TCP_FLAGS_IDX, ''NXM_NX_TCP_FLAGS''),
    (UDP_SRC_IDX, ''NXM_OF_UDP_SRC''), (UDP_DST_IDX, ''NXM_OF_UDP_DST''),
    (SCTP_SRC_IDX, ''OXM_OF_SCTP_SRC''), (SCTP_DST_IDX, ''OXM_OF_SCTP_DST''),
    (ICMP_TYPE_IDX, ''NXM_OF_ICMP_TYPE''), (ICMP_CODE_IDX, ''NXM_OF_ICMP_CODE''),
    (ICMPV6_TYPE_IDX, ''NXM_NX_ICMPV6_TYPE''), (ICMPV6_CODE_IDX, ''NXM_NX_ICMPV6_CODE''),
    (ND_TAEGET_IDX, ''NXM_NX_ND_TARGET''), (ND_SLL_IDX, ''NXM_NX_ND_SLL''),
    (ND_TLL_IDX, ''NXM_NX_ND_TLL''), (TUN_ID_IDX, ''NXM_NX_TUN_ID''),
    (TUN_SRC_IDX, ''NXM_NX_TUN_IPV4_SRC''), (TUN_DST_IDX, ''NXM_NX_TUN_IPV4_DST''),
    (TUN_IPV6_SRC_IDX, ''NXM_NX_TUN_IPV6_SRC''), (TUN_IPV6_DST_IDX, ''NXM_NX_TUN_IPV6_DST''),
    (TUN_GBP_ID_IDX, ''NXM_NX_TUN_GBP_ID''), (TUN_GBP_FLAGS_IDX, ''NXM_NX_TUN_GBP_FLAGS''),
    (TUN_FLAGS, ''NXM_NX_TUN_FLAGS''), (TUN_METADATA0_IDX, ''NXM_NX_TUN_METADATA0''),
    (TUN_METADATA1_IDX, ''NXM_NX_TUN_METADATA1''), (TUN_METADATA2_IDX, ''NXM_NX_TUN_METADATA2''),
    (TUN_METADATA3_IDX, ''NXM_NX_TUN_METADATA3''), (TUN_METADATA4_IDX, ''NXM_NX_TUN_METADATA4''),
    (TUN_METADATA5_IDX, ''NXM_NX_TUN_METADATA5''), (TUN_METADATA6_IDX, ''NXM_NX_TUN_METADATA6''),
    (TUN_METADATA7_IDX, ''NXM_NX_TUN_METADATA7''), (TUN_METADATA8_IDX, ''NXM_NX_TUN_METADATA8''),
    (TUN_METADATA9_IDX, ''NXM_NX_TUN_METADATA9''), (METADATA_IDX, ''OXM_OF_METADATA''),
    (IN_PORT_IDX, ''NXM_OF_IN_PORT''), (IN_PORT_OXM_IDX, ''UNKNOW''),
    (SKB_PRIORITY_IDX, ''UNKNOW''), (PKT_MARK_IDX, ''NXM_NX_PKT_MARK''),
    (ACTSET_OUTPUT_IDX, ''OXM_OF_ACTSET_OUTPUT''), (PACKET_TYPE_IDX, ''OXM_OF_PACKET_TYPE'')]"

definition REG_ACTION_DICT :: "nat \<rightharpoonup> string" where
  "REG_ACTION_DICT = dict_literal REG_ACTION_DICT_entries"

lemma dict_literal_Some: "dict_literal kvs k \<noteq> None \<longleftrightarrow> k \<in> fst ` set kvs"
  by (simp add: dict_literal_def map_of_eq_None_iff)

text \<open>The keys the rules use are in the dictionaries, so that looking them up never raises.\<close>

lemma REG_MATCH_DICT_known:
  "k \<in> set (map fst REG_MATCH_DICT_entries) \<Longrightarrow> \<exists>s. REG_MATCH_DICT k = Some s"
  by (simp add: REG_MATCH_DICT_def dict_literal_Some flip: not_None_eq)

lemma REG_ACTION_DICT_known:
  "k \<in> set (map fst REG_ACTION_DICT_entries) \<Longrightarrow> \<exists>s. REG_ACTION_DICT k = Some s"
  by (simp add: REG_ACTION_DICT_def dict_literal_Some flip: not_None_eq)

section \<open>Register references\<close>

record nxm_reg =
  nxm_idx :: nat
  nxm_start :: int
  nxm_end :: int

definition NXM_Reg :: "nat \<Rightarrow> nxm_reg" where
  "NXM_Reg i = \<lparr>nxm_idx = i, nxm_start = 0, nxm_end = -1\<rparr>"

definition NXM_Reg_bits :: "nat \<Rightarrow> int \<Rightarrow> int \<Rightarrow> nxm_reg" where
  "NXM_Reg_bits i s e = \<lparr>nxm_idx = i, nxm_start = s, nxm_end = e\<rparr>"

text \<open>\<open>__repr__\<close>: the whole register, or a range of its bits; an unknown index raises \<open>KeyError\<close>.\<close>

definition nxm_repr :: "nxm_reg \<Rightarrow> string option" where
  "nxm_repr r =
     (case REG_ACTION_DICT (nxm_idx r) of
        None \<Rightarrow> None
      | Some name \<Rightarrow>
          Some (if nxm_end r = -1 then name @ ''[]''
                else name @ ''['' @ int_str (nxm_start r) @ ''..'' @ int_str (nxm_end r) @ '']''))"

lemma nxm_repr_known:
  "nxm_idx r \<in> set (map fst REG_ACTION_DICT_entries) \<Longrightarrow> \<exists>s. nxm_repr r = Some s"
  by (drule REG_ACTION_DICT_known) (auto simp: nxm_repr_def)

lemma NXM_Reg_sel [simp]:
  "nxm_idx (NXM_Reg i) = i" "nxm_start (NXM_Reg i) = 0" "nxm_end (NXM_Reg i) = -1"
  "nxm_idx (NXM_Reg_bits i s e) = i" "nxm_start (NXM_Reg_bits i s e) = s"
  "nxm_end (NXM_Reg_bits i s e) = e"
  by (simp_all add: NXM_Reg_def NXM_Reg_bits_def)

end
