(* ===== verification/Match.thy ===== *)
theory Match imports Reg begin

text \<open>
  \<open>lcp/match.py\<close>: the terms from which the rules build the match part of a flow, and
  \<open>convert_tuple2match\<close>, which prints a match for \<open>ovs-ofctl\<close>. A match expression is the
  Python tuple \<open>(index, parameters...)\<close>; a match is a list of them.
\<close>

type_synonym match_exp = "nat \<times> pyval list"

section \<open>Terms (init_match_clause)\<close>

definition match_none :: "match_exp list" where [flow_defs]: "match_none = [(NONE_IDX, [])]"
definition datapath :: "pyval \<Rightarrow> match_exp list" where [flow_defs]: "datapath x = [(REG_DP_IDX, [x])]"
definition in_port :: "pyval \<Rightarrow> match_exp list" where [flow_defs]: "in_port x = [(IN_PORT_IDX, [x])]"
definition reg_2 :: "pyval \<Rightarrow> match_exp list" where [flow_defs]: "reg_2 x = [(REG2_IDX, [x])]"
definition reg_5 :: "pyval \<Rightarrow> match_exp list" where [flow_defs]: "reg_5 x = [(REG5_IDX, [x])]"
definition reg_dst :: "pyval \<Rightarrow> match_exp list" where [flow_defs]: "reg_dst x = [(REG_DST_IDX, [x])]"
definition reg_outport :: "pyval \<Rightarrow> match_exp list" where
  [flow_defs]: "reg_outport x = [(REG_OUTPORT_IDX, [x])]"
definition reg_flag :: "pyval \<Rightarrow> match_exp list" where [flow_defs]: "reg_flag x = [(REG_FLAG_IDX, [x])]"
definition ip_proto :: "match_exp list" where [flow_defs]: "ip_proto = [(IP_PROTO_IDX, [])]"
definition ip_dst :: "pyval \<Rightarrow> match_exp list" where [flow_defs]: "ip_dst x = [(IP_DST_IDX, [x])]"
definition ip_src :: "pyval \<Rightarrow> match_exp list" where [flow_defs]: "ip_src x = [(IP_SRC_IDX, [x])]"
definition ip_dst_prefix :: "pyval \<Rightarrow> pyval \<Rightarrow> match_exp list" where
  [flow_defs]: "ip_dst_prefix x y = [(IP_DST_IDX, [x, y])]"
definition ip_src_prefix :: "pyval \<Rightarrow> pyval \<Rightarrow> match_exp list" where
  [flow_defs]: "ip_src_prefix x y = [(IP_SRC_IDX, [x, y])]"
definition ip_ttl :: "pyval \<Rightarrow> match_exp list" where [flow_defs]: "ip_ttl x = [(IP_TTL_IDX, [x])]"
definition eth_dst :: "pyval \<Rightarrow> match_exp list" where [flow_defs]: "eth_dst x = [(ETH_DST_IDX, [x])]"
definition arp_proto :: "match_exp list" where [flow_defs]: "arp_proto = [(ARP_PROTO_IDX, [])]"
definition arp_tpa :: "pyval \<Rightarrow> match_exp list" where [flow_defs]: "arp_tpa x = [(ARP_TPA_IDX, [x])]"
definition arp_op :: "pyval \<Rightarrow> match_exp list" where [flow_defs]: "arp_op x = [(ARP_OP_IDX, [x])]"
definition icmp_proto :: "match_exp list" where [flow_defs]: "icmp_proto = [(ICMP_PROTO_IDX, [])]"
definition icmp_type :: "pyval \<Rightarrow> match_exp list" where [flow_defs]: "icmp_type x = [(ICMP_TYPE_IDX, [x])]"
definition icmp_code :: "pyval \<Rightarrow> match_exp list" where [flow_defs]: "icmp_code x = [(ICMP_CODE_IDX, [x])]"

text \<open>The terms the rules never use: the other registers and the TCP ports.\<close>

definition reg_n :: "nat \<Rightarrow> pyval \<Rightarrow> match_exp list" where
  "reg_n i x = [(i, [x])]"
definition tcp_proto :: "match_exp list" where "tcp_proto = [(TCP_PROTO_IDX, [])]"
definition tcp_dstport :: "pyval \<Rightarrow> match_exp list" where "tcp_dstport x = [(TCP_DST_IDX, [x])]"
definition tcp_srcport :: "pyval \<Rightarrow> match_exp list" where "tcp_srcport x = [(TCP_SRC_IDX, [x])]"

section \<open>Printing\<close>

text \<open>\<open>sum(flags)\<close> raises on anything but numbers.\<close>

fun py_sum :: "pyval list \<Rightarrow> int option" where
  "py_sum [] = Some 0"
| "py_sum (PInt i # vs) = map_option (\<lambda>n. i + n) (py_sum vs)"
| "py_sum (v # vs) = None"

definition convert_flags :: "pyval list \<Rightarrow> string option" where
  "convert_flags flags =
     (case py_sum flags of
        None \<Rightarrow> None
      | Some sumflag \<Rightarrow> Some (int_str sumflag @ ''/'' @ int_str sumflag))"

text \<open>
  The loop of \<open>convert_tuple2match\<close>. Two variables live across its iterations:
  \<open>match_parameter1\<close>, unbound (\<open>None\<close>) before the first expression with a parameter, and
  \<open>prev_flags\<close>, the flag parameters seen so far.
\<close>

fun convert_exps :: "pyval option \<Rightarrow> pyval list \<Rightarrow> match_exp list \<Rightarrow> string list option" where
  "convert_exps param1 prev_flags [] = Some []"
| "convert_exps param1 prev_flags ((match_type, params) # exps) =
     (let p = (case params of [] \<Rightarrow> param1 | x # _ \<Rightarrow> Some x) in
      let flagged =
        (if match_type = REG_FLAG_IDX
         then (case p of
                 None \<Rightarrow> None
               | Some v \<Rightarrow> map_option (\<lambda>s. (Some (PStr s), prev_flags @ [v]))
                            (convert_flags (prev_flags @ [v])))
         else Some (p, prev_flags)) in
      case flagged of
        None \<Rightarrow> None
      | Some (p', flags') \<Rightarrow>
          (case REG_MATCH_DICT match_type of
             None \<Rightarrow> None
           | Some name \<Rightarrow>
               map_option (\<lambda>rest.
                 (name @ (case (p', params) of
                            (Some v, [_]) \<Rightarrow> ''='' @ pystr v
                          | (Some v, [_, w]) \<Rightarrow> ''='' @ pystr v @ ''/'' @ pystr w
                          | _ \<Rightarrow> '''')) # rest)
                 (convert_exps p' flags' exps)))"

definition convert_tuple2match :: "match_exp list \<Rightarrow> string option" where
  "convert_tuple2match match_tuple =
     map_option (join_with '','') (convert_exps None [] match_tuple)"

section \<open>Printing cannot fail on well-formed matches\<close>

text \<open>
  A well-formed expression names a field of \<open>REG_MATCH_DICT\<close> and a flag expression has one
  number as its parameter. This is all \<open>convert_tuple2match\<close> needs.
\<close>

definition match_exp_ok :: "match_exp \<Rightarrow> bool" where
  "match_exp_ok me \<longleftrightarrow>
     fst me \<in> set (map fst REG_MATCH_DICT_entries) \<and>
     (fst me = REG_FLAG_IDX \<longrightarrow> (\<exists>i. snd me = [PInt i]))"

lemma py_sum_ints: "\<forall>v \<in> set vs. \<exists>i. v = PInt i \<Longrightarrow> \<exists>n. py_sum vs = Some n"
  by (induction vs) auto

lemma convert_exps_total:
  assumes "\<forall>me \<in> set exps. match_exp_ok me" and "\<forall>v \<in> set flags. \<exists>i. v = PInt i"
  shows "\<exists>ss. convert_exps p flags exps = Some ss"
  using assms
proof (induction exps arbitrary: p flags)
  case Nil
  then show ?case by simp
next
  case (Cons me exps)
  obtain t ps where me: "me = (t, ps)" by (cases me)
  from Cons.prems me have ok: "match_exp_ok (t, ps)"
    and rest: "\<forall>me \<in> set exps. match_exp_ok me" by auto
  from ok obtain name where name: "REG_MATCH_DICT t = Some name"
    using REG_MATCH_DICT_known [of t] unfolding match_exp_ok_def fst_conv by blast
  show ?case
  proof (cases "t = REG_FLAG_IDX")
    case True
    with ok obtain i where ps: "ps = [PInt i]" by (auto simp: match_exp_ok_def)
    from Cons.prems(2) have flags: "\<forall>v \<in> set (flags @ [PInt i]). \<exists>i. v = PInt i" by auto
    then obtain n where n: "py_sum (flags @ [PInt i]) = Some n" using py_sum_ints by blast
    from Cons.IH [OF rest flags] show ?thesis
      using True me ps name n by (fastforce simp: convert_flags_def)
  next
    case False
    from Cons.IH [OF rest Cons.prems(2)]
    obtain ss where "convert_exps (case ps of [] \<Rightarrow> p | x # _ \<Rightarrow> Some x) flags exps = Some ss"
      by blast
    with False me name show ?thesis by simp
  qed
qed

lemma convert_tuple2match_total:
  "\<forall>me \<in> set m. match_exp_ok me \<Longrightarrow> \<exists>s. convert_tuple2match m = Some s"
  using convert_exps_total [of m "[]" None] by (auto simp: convert_tuple2match_def)

end
