(* ===== verification/Action.thy ===== *)
theory Action imports Reg begin

text \<open>
  \<open>lcp/action.py\<close>: the action codes, the templates that print them, the terms from which the
  rules build the action part of a flow, and \<open>convert_tuple2action\<close>. An action is the Python
  tuple \<open>(code, arguments...)\<close>. The templates are the strings of the source, and \<open>py_format\<close> is
  the part of \<open>str.format\<close> they use: \<open>{}\<close>, \<open>{:02x}\<close> and doubled braces.
\<close>

datatype aarg = AV pyval | AR nxm_reg | AL "int list"

type_synonym act = "nat \<times> aarg list"

section \<open>Codes\<close>

abbreviation (input) Action_output :: nat where "Action_output \<equiv> 1"
abbreviation (input) Action_output_reg :: nat where "Action_output_reg \<equiv> 2"
abbreviation (input) Action_output_max_len :: nat where "Action_output_max_len \<equiv> 3"
abbreviation (input) Action_output_group :: nat where "Action_output_group \<equiv> 4"
abbreviation (input) Action_normal :: nat where "Action_normal \<equiv> 5"
abbreviation (input) Action_flood :: nat where "Action_flood \<equiv> 6"
abbreviation (input) Action_all :: nat where "Action_all \<equiv> 7"
abbreviation (input) Action_local :: nat where "Action_local \<equiv> 8"
abbreviation (input) Action_output_inport :: nat where "Action_output_inport \<equiv> 9"
abbreviation (input) Action_enqueue :: nat where "Action_enqueue \<equiv> 20"
abbreviation (input) Action_drop :: nat where "Action_drop \<equiv> 21"
abbreviation (input) Action_mod_vlan_vid :: nat where "Action_mod_vlan_vid \<equiv> 31"
abbreviation (input) Acton_mod_vlan_pcp :: nat where "Acton_mod_vlan_pcp \<equiv> 32"
abbreviation (input) Action_strip_vlan :: nat where "Action_strip_vlan \<equiv> 33"
abbreviation (input) Action_push_vlan :: nat where "Action_push_vlan \<equiv> 34"
abbreviation (input) Action_push_mpls :: nat where "Action_push_mpls \<equiv> 35"
abbreviation (input) Action_pop_mpls :: nat where "Action_pop_mpls \<equiv> 36"
abbreviation (input) Action_mod_dl_src :: nat where "Action_mod_dl_src \<equiv> 40"
abbreviation (input) Action_mod_dl_dst :: nat where "Action_mod_dl_dst \<equiv> 41"
abbreviation (input) Action_mod_nw_src :: nat where "Action_mod_nw_src \<equiv> 42"
abbreviation (input) Action_mod_nw_dst :: nat where "Action_mod_nw_dst \<equiv> 43"
abbreviation (input) Action_mod_nw_tos :: nat where "Action_mod_nw_tos \<equiv> 44"
abbreviation (input) Action_mod_nw_ecn :: nat where "Action_mod_nw_ecn \<equiv> 45"
abbreviation (input) Action_mod_nw_ttl :: nat where "Action_mod_nw_ttl \<equiv> 46"
abbreviation (input) Action_mod_tp_src :: nat where "Action_mod_tp_src \<equiv> 47"
abbreviation (input) Action_mod_tp_dst :: nat where "Action_mod_tp_dst \<equiv> 48"
abbreviation (input) Action_resubmit :: nat where "Action_resubmit \<equiv> 50"
abbreviation (input) Action_resubmit_table :: nat where "Action_resubmit_table \<equiv> 51"
abbreviation (input) Action_resubmit_ct :: nat where "Action_resubmit_ct \<equiv> 52"
abbreviation (input) Action_set_tunnel :: nat where "Action_set_tunnel \<equiv> 60"
abbreviation (input) Action_set_tunnel64 :: nat where "Action_set_tunnel64 \<equiv> 61"
abbreviation (input) Action_set_queue :: nat where "Action_set_queue \<equiv> 62"
abbreviation (input) Action_pop_queue :: nat where "Action_pop_queue \<equiv> 63"
abbreviation (input) Action_ct :: nat where "Action_ct \<equiv> 70"
abbreviation (input) Action_dec_ttl :: nat where "Action_dec_ttl \<equiv> 80"
abbreviation (input) Action_set_mpls_label :: nat where "Action_set_mpls_label \<equiv> 81"
abbreviation (input) Action_set_mpls_tc :: nat where "Action_set_mpls_tc \<equiv> 82"
abbreviation (input) Action_set_mpls_ttl :: nat where "Action_set_mpls_ttl \<equiv> 83"
abbreviation (input) Action_dec_mpls_ttl :: nat where "Action_dec_mpls_ttl \<equiv> 84"
abbreviation (input) Action_note :: nat where "Action_note \<equiv> 90"
abbreviation (input) Action_move :: nat where "Action_move \<equiv> 100"
abbreviation (input) Action_load :: nat where "Action_load \<equiv> 101"
abbreviation (input) Action_push :: nat where "Action_push \<equiv> 102"
abbreviation (input) Action_pop :: nat where "Action_pop \<equiv> 103"
abbreviation (input) Action_multipath :: nat where "Action_multipath \<equiv> 110"
abbreviation (input) Action_bundle :: nat where "Action_bundle \<equiv> 111"
abbreviation (input) Action_bundle_load :: nat where "Action_bundle_load \<equiv> 112"
abbreviation (input) Action_learn :: nat where "Action_learn \<equiv> 120"
abbreviation (input) Action_clear_actions :: nat where "Action_clear_actions \<equiv> 121"
abbreviation (input) Action_write_actions :: nat where "Action_write_actions \<equiv> 122"
abbreviation (input) Action_write_metadata :: nat where "Action_write_metadata \<equiv> 130"
abbreviation (input) Action_meter :: nat where "Action_meter \<equiv> 131"
abbreviation (input) Action_goto_table :: nat where "Action_goto_table \<equiv> 132"
abbreviation (input) Action_fin_timeout :: nat where "Action_fin_timeout \<equiv> 133"
abbreviation (input) Action_sample :: nat where "Action_sample \<equiv> 134"
abbreviation (input) Action_exit :: nat where "Action_exit \<equiv> 135"
abbreviation (input) Action_conjunction :: nat where "Action_conjunction \<equiv> 136"
abbreviation (input) Action_clone :: nat where "Action_clone \<equiv> 137"
abbreviation (input) Action_encap :: nat where "Action_encap \<equiv> 138"
abbreviation (input) Action_decap :: nat where "Action_decap \<equiv> 139"
abbreviation (input) Action_set_bit :: nat where "Action_set_bit \<equiv> 200"
abbreviation (input) Action_clear_bit :: nat where "Action_clear_bit \<equiv> 201"
abbreviation (input) Action_resubmit_next :: nat where "Action_resubmit_next \<equiv> 202"
abbreviation (input) Action_exchange :: nat where "Action_exchange \<equiv> 203"
abbreviation (input) Action_upload_arp :: nat where "Action_upload_arp \<equiv> 204"
abbreviation (input) Action_generate_arp :: nat where "Action_generate_arp \<equiv> 205"
abbreviation (input) Action_upload_trace :: nat where "Action_upload_trace \<equiv> 206"
abbreviation (input) Action_upload_unknow_dst :: nat where "Action_upload_unknow_dst \<equiv> 207"
abbreviation (input) Action_snat :: nat where "Action_snat \<equiv> 208"
abbreviation (input) Action_unsnat :: nat where "Action_unsnat \<equiv> 209"
abbreviation (input) Action_dnat :: nat where "Action_dnat \<equiv> 210"
abbreviation (input) Action_undnat :: nat where "Action_undnat \<equiv> 211"

section \<open>str.format\<close>

text \<open>A register reference prints by its \<open>__repr__\<close>, a list of ports as a Python list.\<close>

definition aarg_str :: "aarg \<Rightarrow> string option" where
  "aarg_str a =
     (case a of
        AV v \<Rightarrow> Some (pystr v)
      | AR r \<Rightarrow> nxm_repr r
      | AL ns \<Rightarrow> Some (''['' @ join_with '', '' (map int_str ns) @ '']''))"

text \<open>\<open>{:02x}\<close> accepts integers only.\<close>

definition aarg_hex :: "aarg \<Rightarrow> string option" where
  "aarg_hex a = (case a of AV (PInt i) \<Rightarrow> Some (hex02 i) | _ \<Rightarrow> None)"

function py_format :: "string \<Rightarrow> aarg list \<Rightarrow> string option" where
  "py_format [] args = Some []"
| "py_format (c # cs) args =
     (if c = CHR ''{'' then
        (if take 1 cs = ''{'' then map_option (Cons (CHR ''{'')) (py_format (drop 1 cs) args)
         else if take 1 cs = ''}'' then
           (case args of
              [] \<Rightarrow> None
            | a # as \<Rightarrow>
                (case aarg_str a of
                   None \<Rightarrow> None
                 | Some s \<Rightarrow> map_option (append s) (py_format (drop 1 cs) as)))
         else if take 5 cs = '':02x}'' then
           (case args of
              [] \<Rightarrow> None
            | a # as \<Rightarrow>
                (case aarg_hex a of
                   None \<Rightarrow> None
                 | Some s \<Rightarrow> map_option (append s) (py_format (drop 5 cs) as)))
         else None)
      else if c = CHR ''}'' then
        (if take 1 cs = ''}'' then map_option (Cons (CHR ''}'')) (py_format (drop 1 cs) args)
         else None)
      else map_option (Cons c) (py_format cs args))"
  by pat_completeness auto
termination
  by (relation "measure (\<lambda>(s, _). length s)") auto

lemma py_format_literal:
  "CHR ''{'' \<notin> set s \<Longrightarrow> CHR ''}'' \<notin> set s \<Longrightarrow>
   py_format (s @ t) args = map_option (append s) (py_format t args)"
proof (induction s)
  case Nil
  show ?case by (cases "py_format t args") auto
next
  case (Cons c s)
  then show ?case by (cases "py_format t args") auto
qed

section \<open>Templates\<close>

text \<open>\<open>'...'.format(hash_fn)\<close>, evaluated when the module is loaded.\<close>

definition hash_template :: "string \<Rightarrow> string \<Rightarrow> string" where
  "hash_template t hash_fn =
     (case py_format t [AV (PStr hash_fn)] of Some s \<Rightarrow> s | None \<Rightarrow> [])"

definition ACTION_STR_entries :: "string \<Rightarrow> (nat \<times> string) list" where
  "ACTION_STR_entries hash_fn = [
    (Action_output, ''output:{}''),
    (Action_output_reg, ''output:{}''),
    (Action_drop, ''drop''),
    (Action_mod_dl_src, ''mod_dl_src:{}''),
    (Action_mod_dl_dst, ''mod_dl_dst:{}''),
    (Action_mod_nw_src, ''mod_nw_src:{}''),
    (Action_mod_nw_dst, ''mod_nw_dst:{}''),
    (Action_mod_nw_ttl, ''mod_nw_ttl:{}''),
    (Action_dec_ttl, ''dec_ttl''),
    (Action_mod_tp_dst, ''mod_tp_dst:{}''),
    (Action_mod_tp_src, ''mod_tp_src:{}''),
    (Action_resubmit, ''resubmit({},{})''),
    (Action_resubmit_table, ''resubmit(,{})''),
    (Action_move, ''move:{}->{}''),
    (Action_load, ''load:{}->{}''),
    (Action_push, ''push:{}''),
    (Action_pop, ''pop:{}''),
    (Action_snat, ''ct(commit,nat(src={}),table={})''),
    (Action_unsnat, ''ct(nat,table={})''),
    (Action_dnat, ''ct(commit,nat(dst={}),table={})''),
    (Action_undnat, ''ct(nat,table={})''),
    (Action_bundle, hash_template ''bundle({},0,active_backup,ofport,slaves:{{}})'' hash_fn),
    (Action_bundle_load, hash_template ''bundle_load({},0,hrw,ofport,{{}},slaves:{{}})'' hash_fn),
    (Action_note, ''note:{:02x}''),
    (Action_resubmit_next, ''resubmit(,{})''),
    (Action_exchange, ''push:{},push:{},pop:{},pop:{}''),
    (Action_upload_arp, ''controller(userdata=00.00.00.01.00.00.00.00)''),
    (Action_generate_arp, ''controller(userdata=00.00.00.02.00.00.00.00.ff.ff.00.10.00.00.23.20.00.0e.ff.f8.{:02x}.00.00.00)''),
    (Action_upload_trace, ''controller(userdata=00.00.00.03.00.00.00.{:02x},pause)''),
    (Action_upload_unknow_dst, ''controller(userdata=00.00.00.04.00.00.00.00)'')]"

definition ACTION_STR_MAP :: "string \<Rightarrow> nat \<rightharpoonup> string" where
  "ACTION_STR_MAP hash_fn = dict_literal (ACTION_STR_entries hash_fn)"

section \<open>Terms (init_action_clause)\<close>

definition resubmit_table :: "nat \<Rightarrow> act list" where
  [flow_defs]: "resubmit_table t = [(Action_resubmit_table, [AV (PInt (int t))])]"
definition move :: "nxm_reg \<Rightarrow> nxm_reg \<Rightarrow> act list" where
  [flow_defs]: "move x y = [(Action_move, [AR x, AR y])]"
definition load :: "pyval \<Rightarrow> nxm_reg \<Rightarrow> act list" where
  [flow_defs]: "load x y = [(Action_load, [AV x, AR y])]"
definition output_port :: "pyval \<Rightarrow> act list" where
  [flow_defs]: "output_port x = [(Action_output, [AV x])]"
definition output_reg :: "nxm_reg \<Rightarrow> act list" where
  [flow_defs]: "output_reg x = [(Action_output_reg, [AR x])]"
definition bundle_act :: "int list \<Rightarrow> act list" where
  [flow_defs]: "bundle_act x = [(Action_bundle, [AL x])]"
definition bundle_load :: "nxm_reg \<Rightarrow> int list \<Rightarrow> act list" where
  [flow_defs]: "bundle_load x y = [(Action_bundle_load, [AR x, AL y])]"
definition drop_act :: "act list" where
  [flow_defs]: "drop_act = [(Action_drop, [])]"
definition mod_nw_dst :: "pyval \<Rightarrow> act list" where
  [flow_defs]: "mod_nw_dst x = [(Action_mod_nw_dst, [AV x])]"
definition mod_nw_src :: "pyval \<Rightarrow> act list" where
  [flow_defs]: "mod_nw_src x = [(Action_mod_nw_src, [AV x])]"
definition mod_dl_src :: "pyval \<Rightarrow> act list" where
  [flow_defs]: "mod_dl_src x = [(Action_mod_dl_src, [AV x])]"
definition mod_dl_dst :: "pyval \<Rightarrow> act list" where
  [flow_defs]: "mod_dl_dst x = [(Action_mod_dl_dst, [AV x])]"
definition mod_nw_tos :: "pyval \<Rightarrow> act list" where
  [flow_defs]: "mod_nw_tos x = [(Action_mod_nw_tos, [AV x])]"
definition mod_nw_ecn :: "pyval \<Rightarrow> act list" where
  [flow_defs]: "mod_nw_ecn x = [(Action_mod_nw_ecn, [AV x])]"
definition mod_nw_ttl :: "pyval \<Rightarrow> act list" where
  [flow_defs]: "mod_nw_ttl x = [(Action_mod_nw_ttl, [AV x])]"
definition note_act :: "int \<Rightarrow> act list" where
  [flow_defs]: "note_act x = [(Action_note, [AV (PInt x)])]"
definition dec_ttl :: "act list" where
  [flow_defs]: "dec_ttl = [(Action_dec_ttl, [])]"
definition mod_nw_tp_src :: "pyval \<Rightarrow> act list" where
  [flow_defs]: "mod_nw_tp_src x = [(Action_mod_tp_src, [AV x])]"
definition mod_nw_tp_dst :: "pyval \<Rightarrow> act list" where
  [flow_defs]: "mod_nw_tp_dst x = [(Action_mod_tp_dst, [AV x])]"
definition push :: "nxm_reg \<Rightarrow> act list" where
  [flow_defs]: "push x = [(Action_push, [AR x])]"
definition resubmit_next :: "act list" where
  [flow_defs]: "resubmit_next = [(Action_resubmit_next, [])]"
definition exchange :: "nxm_reg \<Rightarrow> nxm_reg \<Rightarrow> act list" where
  [flow_defs]: "exchange x y = [(Action_exchange, [AR x, AR y])]"
definition upload_arp :: "act list" where
  [flow_defs]: "upload_arp = [(Action_upload_arp, [])]"
definition upload_trace :: "act list" where
  [flow_defs]: "upload_trace = [(Action_upload_trace, [])]"
definition upload_unknow_dst :: "act list" where
  [flow_defs]: "upload_unknow_dst = [(Action_upload_unknow_dst, [])]"
definition generate_arp :: "nat \<Rightarrow> act list" where
  [flow_defs]: "generate_arp x = [(Action_generate_arp, [AV (PInt (int x))])]"
definition snat :: "pyval \<Rightarrow> nat \<Rightarrow> act list" where
  [flow_defs]: "snat x y = [(Action_snat, [AV x, AV (PInt (int y))])]"
definition unsnat :: "nat \<Rightarrow> act list" where
  [flow_defs]: "unsnat x = [(Action_unsnat, [AV (PInt (int x))])]"
definition dnat :: "pyval \<Rightarrow> nat \<Rightarrow> act list" where
  [flow_defs]: "dnat x y = [(Action_dnat, [AV x, AV (PInt (int y))])]"
definition undnat :: "nat \<Rightarrow> act list" where
  [flow_defs]: "undnat x = [(Action_undnat, [AV (PInt (int x))])]"

section \<open>Printing\<close>

definition join_ports :: "aarg \<Rightarrow> string option" where
  "join_ports a = (case a of AL ns \<Rightarrow> Some (join_with '','' (map int_str ns)) | _ \<Rightarrow> None)"

definition parse_action_tuple :: "string \<Rightarrow> act \<Rightarrow> nat \<Rightarrow> string option" where
  "parse_action_tuple hash_fn a cur_table =
     (case ACTION_STR_MAP hash_fn (fst a) of
        None \<Rightarrow> None
      | Some template \<Rightarrow>
          if fst a = Action_resubmit_next then
            py_format template [AV (PInt (int (cur_table + 1)))]
          else if fst a = Action_exchange then
            (case snd a of x # y # _ \<Rightarrow> py_format template [x, y, x, y] | _ \<Rightarrow> None)
          else if fst a = Action_bundle then
            (case snd a of
               x # _ \<Rightarrow> (case join_ports x of
                           None \<Rightarrow> None | Some s \<Rightarrow> py_format template [AV (PStr s)])
             | _ \<Rightarrow> None)
          else if fst a = Action_bundle_load then
            (case snd a of
               x # y # _ \<Rightarrow> (case join_ports y of
                           None \<Rightarrow> None | Some s \<Rightarrow> py_format template [x, AV (PStr s)])
             | _ \<Rightarrow> None)
          else if fst a = Action_upload_trace then
            py_format template [AV (PInt (int cur_table))]
          else if snd a \<noteq> [] then py_format template (snd a)
          else Some template)"

fun parse_actions :: "string \<Rightarrow> act list \<Rightarrow> nat \<Rightarrow> string list option" where
  "parse_actions hash_fn [] table = Some []"
| "parse_actions hash_fn (a # as) table =
     (case parse_action_tuple hash_fn a table of
        None \<Rightarrow> None
      | Some s \<Rightarrow> map_option (Cons s) (parse_actions hash_fn as table))"

definition convert_tuple2action :: "string \<Rightarrow> act list \<Rightarrow> nat \<Rightarrow> string option" where
  "convert_tuple2action hash_fn action_tuple table =
     map_option (join_with '','') (parse_actions hash_fn action_tuple table)"

section \<open>Printing cannot fail on well-formed actions\<close>

text \<open>
  \<open>act_ok\<close> lists the shapes of the tuples the terms above build, with registers that have an
  OpenFlow name; two of the terms, \<open>mod_nw_tos\<close> and \<open>mod_nw_ecn\<close>, have no template.
\<close>

definition reg_ok :: "nxm_reg \<Rightarrow> bool" where
  "reg_ok r \<longleftrightarrow> nxm_idx r \<in> set (map fst REG_ACTION_DICT_entries)"

definition plain_codes :: "nat list" where
  "plain_codes = [Action_drop, Action_dec_ttl, Action_resubmit_next, Action_upload_arp,
     Action_upload_trace, Action_upload_unknow_dst]"

definition value_codes :: "nat list" where
  "value_codes = [Action_output, Action_mod_dl_src, Action_mod_dl_dst, Action_mod_nw_src,
     Action_mod_nw_dst, Action_mod_nw_ttl, Action_mod_tp_src, Action_mod_tp_dst,
     Action_resubmit_table, Action_unsnat, Action_undnat]"

inductive act_ok :: "act \<Rightarrow> bool" where
  plain: "c \<in> set plain_codes \<Longrightarrow> act_ok (c, [])"
| val: "c \<in> set value_codes \<Longrightarrow> act_ok (c, [AV v])"
| hex: "c \<in> {Action_note, Action_generate_arp} \<Longrightarrow> act_ok (c, [AV (PInt i)])"
| reg: "c \<in> {Action_output_reg, Action_push} \<Longrightarrow> reg_ok r \<Longrightarrow> act_ok (c, [AR r])"
| regs: "c \<in> {Action_move, Action_exchange} \<Longrightarrow> reg_ok r \<Longrightarrow> reg_ok r' \<Longrightarrow> act_ok (c, [AR r, AR r'])"
| load: "reg_ok r \<Longrightarrow> act_ok (Action_load, [AV v, AR r])"
| nat: "c \<in> {Action_snat, Action_dnat} \<Longrightarrow> act_ok (c, [AV v, AV w])"
| bundle_load: "reg_ok r \<Longrightarrow> act_ok (Action_bundle_load, [AR r, AL ns])"

inductive_simps act_ok_simps:
  "act_ok (c, [])" "act_ok (c, [AV v])" "act_ok (c, [AR r])" "act_ok (c, [AV v, AV w])"
  "act_ok (c, [AV v, AR r])" "act_ok (c, [AR r, AR r'])" "act_ok (c, [AR r, AL ns])"

definition hash_fns :: "string list" where
  "hash_fns = [''eth_src'', ''symmetric_l4'', ''symmetric_l3l4'', ''symmetric_l3l4+udp'',
     ''nw_src'', ''nw_dst'']"

lemma ACTION_STR_MAP_simp:
  "ACTION_STR_MAP h c = map_of (rev (ACTION_STR_entries h)) c"
  by (simp add: ACTION_STR_MAP_def dict_literal_def)

lemma bundle_load_template:
  assumes "h \<in> set hash_fns"
  shows "hash_template ''bundle_load({},0,hrw,ofport,{{}},slaves:{{}})'' h
     = ''bundle_load('' @ h @ '',0,hrw,ofport,{},slaves:{})''"
  by (simp add: hash_template_def aarg_str_def pystr_def)

lemma reg_ok_repr: "reg_ok r \<Longrightarrow> \<exists>s. nxm_repr r = Some s"
  by (simp only: reg_ok_def nxm_repr_known)

lemma parse_plain:
  "c \<in> set plain_codes \<Longrightarrow> \<exists>s. parse_action_tuple h (c, []) t = Some s"
  by (auto simp: plain_codes_def parse_action_tuple_def ACTION_STR_MAP_simp
      ACTION_STR_entries_def aarg_str_def aarg_hex_def)

lemma parse_value:
  "c \<in> set value_codes \<Longrightarrow> \<exists>s. parse_action_tuple h (c, [AV v]) t = Some s"
  by (auto simp: value_codes_def parse_action_tuple_def ACTION_STR_MAP_simp
      ACTION_STR_entries_def aarg_str_def)

lemma parse_hex:
  "c \<in> {Action_note, Action_generate_arp} \<Longrightarrow>
   \<exists>s. parse_action_tuple h (c, [AV (PInt i)]) t = Some s"
  by (auto simp: parse_action_tuple_def ACTION_STR_MAP_simp ACTION_STR_entries_def aarg_hex_def)

lemma parse_reg:
  assumes "c \<in> {Action_output_reg, Action_push}" and "reg_ok r"
  shows "\<exists>s. parse_action_tuple h (c, [AR r]) t = Some s"
  using assms(1) reg_ok_repr [OF assms(2)]
  by (auto simp: parse_action_tuple_def ACTION_STR_MAP_simp ACTION_STR_entries_def aarg_str_def)

lemma parse_reg_reg:
  assumes "c \<in> {Action_move, Action_exchange}" and "reg_ok r" and "reg_ok r'"
  shows "\<exists>s. parse_action_tuple h (c, [AR r, AR r']) t = Some s"
  using assms(1) reg_ok_repr [OF assms(2)] reg_ok_repr [OF assms(3)]
  by (auto simp: parse_action_tuple_def ACTION_STR_MAP_simp ACTION_STR_entries_def aarg_str_def)

lemma parse_load:
  assumes "reg_ok r"
  shows "\<exists>s. parse_action_tuple h (Action_load, [AV v, AR r]) t = Some s"
  using reg_ok_repr [OF assms]
  by (auto simp: parse_action_tuple_def ACTION_STR_MAP_simp ACTION_STR_entries_def aarg_str_def)

lemma parse_nat:
  "c \<in> {Action_snat, Action_dnat} \<Longrightarrow> \<exists>s. parse_action_tuple h (c, [AV v, AV w]) t = Some s"
  by (auto simp: parse_action_tuple_def ACTION_STR_MAP_simp ACTION_STR_entries_def aarg_str_def)

lemma parse_bundle_load:
  assumes "h \<in> set hash_fns" and "reg_ok r"
  shows "\<exists>s. parse_action_tuple h (Action_bundle_load, [AR r, AL ns]) t = Some s"
  using reg_ok_repr [OF assms(2)] bundle_load_template [OF assms(1)] assms(1)
  by (auto simp: parse_action_tuple_def ACTION_STR_MAP_simp ACTION_STR_entries_def aarg_str_def
      join_ports_def hash_fns_def)

lemma parse_action_total:
  assumes "h \<in> set hash_fns" and "act_ok a"
  shows "\<exists>s. parse_action_tuple h a t = Some s"
  using assms(2)
  by cases (rule assms(1) parse_plain parse_value parse_hex parse_reg parse_reg_reg parse_load
      parse_nat parse_bundle_load | simp)+

lemma parse_actions_total:
  "\<forall>a \<in> set as. \<exists>s. parse_action_tuple h a t = Some s \<Longrightarrow> \<exists>ss. parse_actions h as t = Some ss"
  by (induction as) fastforce+

lemma convert_tuple2action_total:
  assumes "h \<in> set hash_fns" and "\<forall>a \<in> set as. act_ok a"
  shows "\<exists>s. convert_tuple2action h as t = Some s"
  using parse_actions_total [of as h t] parse_action_total [OF assms(1)] assms(2)
  by (auto simp: convert_tuple2action_def)

end
