(* ===== verification/Flow_Common.thy ===== *)
theory Flow_Common imports Reg begin

text \<open>
  \<open>lcp/flow_common.py\<close>: the OpenFlow table numbers of the logical switch and logical router
  pipelines, the notes by which an installed flow can be traced back to its rule, and the names of
  the tables that packet tracing reports. \<open>flow_note_dict\<close> is built by the loop over
  \<open>flows_note_array\<close>; looking up an unknown note or index raises.
\<close>

section \<open>Tables\<close>

abbreviation (input) TABLE_CONVERT_PHY_LOGICAL :: nat where "TABLE_CONVERT_PHY_LOGICAL \<equiv> 0"
abbreviation (input) TABLE_LSP_TRACE_INGRESS_IN :: nat where "TABLE_LSP_TRACE_INGRESS_IN \<equiv> 1"
abbreviation (input) TABLE_LSP_INGRESS_PROCESS_EXT_LOGIC :: nat where "TABLE_LSP_INGRESS_PROCESS_EXT_LOGIC \<equiv> 2"
abbreviation (input) TABLE_LSP_INGRESS_ARP_CONTROLLER :: nat where "TABLE_LSP_INGRESS_ARP_CONTROLLER \<equiv> 3"
abbreviation (input) TABLE_LSP_INGRESS_ARP_RESPONSE :: nat where "TABLE_LSP_INGRESS_ARP_RESPONSE \<equiv> 4"
abbreviation (input) TABLE_LSP_INGRESS_UNTUNNEL :: nat where "TABLE_LSP_INGRESS_UNTUNNEL \<equiv> 5"
abbreviation (input) TABLE_LSP_INGRESS_LOOKUP_DST_PORT :: nat where "TABLE_LSP_INGRESS_LOOKUP_DST_PORT \<equiv> 6"
abbreviation (input) TABLE_LSP_INGRESS_OUTPUT_DST_PORT :: nat where "TABLE_LSP_INGRESS_OUTPUT_DST_PORT \<equiv> 7"
abbreviation (input) TABLE_LSP_TRACE_INGRESS_OUT :: nat where "TABLE_LSP_TRACE_INGRESS_OUT \<equiv> 7"
abbreviation (input) TABLE_LSP_TRACE_EGRESS_IN :: nat where "TABLE_LSP_TRACE_EGRESS_IN \<equiv> 20"
abbreviation (input) TABLE_LSP_EGRESS_JUDGE_LOOPBACK :: nat where "TABLE_LSP_EGRESS_JUDGE_LOOPBACK \<equiv> 21"
abbreviation (input) TABLE_LSP_EGRESS_FORWARD_PACKET :: nat where "TABLE_LSP_EGRESS_FORWARD_PACKET \<equiv> 22"
abbreviation (input) TABLE_LSP_EGRESS_PUSHOUT :: nat where "TABLE_LSP_EGRESS_PUSHOUT \<equiv> 23"
abbreviation (input) TABLE_LSP_TRACE_EGRESS_OUT :: nat where "TABLE_LSP_TRACE_EGRESS_OUT \<equiv> 23"
abbreviation (input) TABLE_LSP_INGRESS_FIRST :: nat where "TABLE_LSP_INGRESS_FIRST \<equiv> TABLE_LSP_TRACE_INGRESS_IN"
abbreviation (input) TABLE_LSP_EGRESS_FIRST :: nat where "TABLE_LSP_EGRESS_FIRST \<equiv> TABLE_LSP_TRACE_EGRESS_IN"
abbreviation (input) TABLE_LRP_TRACE_INGRESS_IN :: nat where "TABLE_LRP_TRACE_INGRESS_IN \<equiv> 30"
abbreviation (input) TABLE_LRP_INGRESS_PKT_RESPONSE :: nat where "TABLE_LRP_INGRESS_PKT_RESPONSE \<equiv> 31"
abbreviation (input) TABLE_LRP_INGRESS_DROP_UNEXPECT :: nat where "TABLE_LRP_INGRESS_DROP_UNEXPECT \<equiv> 32"
abbreviation (input) TABLE_LRP_INGRESS_UNSNAT_STAGE1 :: nat where "TABLE_LRP_INGRESS_UNSNAT_STAGE1 \<equiv> 33"
abbreviation (input) TABLE_LRP_INGRESS_UNSNAT_STAGE2 :: nat where "TABLE_LRP_INGRESS_UNSNAT_STAGE2 \<equiv> 34"
abbreviation (input) TABLE_LRP_INGRESS_DNAT_STAGE1 :: nat where "TABLE_LRP_INGRESS_DNAT_STAGE1 \<equiv> 35"
abbreviation (input) TABLE_LRP_INGRESS_DNAT_STAGE2 :: nat where "TABLE_LRP_INGRESS_DNAT_STAGE2 \<equiv> 36"
abbreviation (input) TABLE_LRP_INGRESS_IP_ROUTE :: nat where "TABLE_LRP_INGRESS_IP_ROUTE \<equiv> 37"
abbreviation (input) TABLE_LRP_INGRESS_ECMP :: nat where "TABLE_LRP_INGRESS_ECMP \<equiv> 38"
abbreviation (input) TABLE_LRP_TRACE_INGRESS_OUT :: nat where "TABLE_LRP_TRACE_INGRESS_OUT \<equiv> 39"
abbreviation (input) TABLE_LRP_TRACE_EGRESS_IN :: nat where "TABLE_LRP_TRACE_EGRESS_IN \<equiv> 50"
abbreviation (input) TABLE_LRP_EGRESS_UNDNAT_STAGE1 :: nat where "TABLE_LRP_EGRESS_UNDNAT_STAGE1 \<equiv> 51"
abbreviation (input) TABLE_LRP_EGRESS_UNDNAT_STAGE2 :: nat where "TABLE_LRP_EGRESS_UNDNAT_STAGE2 \<equiv> 52"
abbreviation (input) TABLE_LRP_EGRESS_SNAT_STAGE1 :: nat where "TABLE_LRP_EGRESS_SNAT_STAGE1 \<equiv> 53"
abbreviation (input) TABLE_LRP_EGRESS_SNAT_STAGE2 :: nat where "TABLE_LRP_EGRESS_SNAT_STAGE2 \<equiv> 54"
abbreviation (input) TABLE_LRP_EGRESS_UPDATE_ETH_DST :: nat where "TABLE_LRP_EGRESS_UPDATE_ETH_DST \<equiv> 55"
abbreviation (input) TABLE_LRP_EGRESS_HANDLE_UNK_PKT :: nat where "TABLE_LRP_EGRESS_HANDLE_UNK_PKT \<equiv> 56"
abbreviation (input) TABLE_LRP_EGRESS_FORWARD_PACKET :: nat where "TABLE_LRP_EGRESS_FORWARD_PACKET \<equiv> 57"
abbreviation (input) TABLE_LRP_TRACE_EGRESS_OUT :: nat where "TABLE_LRP_TRACE_EGRESS_OUT \<equiv> 58"
abbreviation (input) TABLE_LRP_INGRESS_FIRST :: nat where "TABLE_LRP_INGRESS_FIRST \<equiv> TABLE_LRP_TRACE_INGRESS_IN"
abbreviation (input) TABLE_LRP_EGRESS_FIRST :: nat where "TABLE_LRP_EGRESS_FIRST \<equiv> TABLE_LRP_TRACE_EGRESS_IN"
abbreviation (input) TABLE_OUTPUT_PKT :: nat where "TABLE_OUTPUT_PKT \<equiv> 94"
abbreviation (input) TABLE_REDIRECT_CHASSIS :: nat where "TABLE_REDIRECT_CHASSIS \<equiv> 95"
abbreviation (input) TABLE_ARP_FEEDBACK_CONSTRUCT :: nat where "TABLE_ARP_FEEDBACK_CONSTRUCT \<equiv> 96"
abbreviation (input) TABLE_EMBED2_METADATA :: nat where "TABLE_EMBED2_METADATA \<equiv> 97"
abbreviation (input) TABLE_EXTRACT_METADATA :: nat where "TABLE_EXTRACT_METADATA \<equiv> 98"
abbreviation (input) TABLE_PIPELINE_FORWARD :: nat where "TABLE_PIPELINE_FORWARD \<equiv> 99"
abbreviation (input) TABLE_SEARCH_IP_MAC :: nat where "TABLE_SEARCH_IP_MAC \<equiv> 100"
abbreviation (input) TABLE_DROP_PACKET :: nat where "TABLE_DROP_PACKET \<equiv> 101"
abbreviation (input) TABLE_THIRD_PARTY :: nat where "TABLE_THIRD_PARTY \<equiv> 201"

abbreviation (input) TP_OFPORT_NONE :: int where "TP_OFPORT_NONE \<equiv> 0xffff"

section \<open>Notes\<close>

definition flows_note_array :: "string list" where
  "flows_note_array = [
    ''lsp_lookup_dst_port'', ''lsp_output_dst_port'', ''lsp_pushout_packet'',
    ''lsp_arp_controller'', ''lsp_arp_response'', ''lsp_untunnel_deliver'',
    ''convert_phy_logical'', ''lsp_judge_loopback'', ''lsp_forward_packet'', ''lrp_pkt_response'',
    ''lrp_drop_unexpect'', ''lrp_ip_route'', ''lrp_ip_unsnat_stage1'', ''lrp_ip_unsnat_stage2'',
    ''lrp_ip_dnat_stage1'', ''lrp_ip_dnat_stage2'', ''lrp_ecmp_judge'', ''lrp_update_eth_dst'',
    ''lrp_ip_undnat_stage1'', ''lrp_ip_undnat_stage2'', ''lrp_ip_snat_stage1'',
    ''lrp_ip_snat_stage2'', ''lrp_handle_unknow_dst_pkt'', ''lrp_forward_packet'',
    ''pkt_trace_lsp_ingress_in'', ''pkt_trace_lsp_lookup_dst_port'',
    ''pkt_trace_lsp_output_dst_port'', ''pkt_trace_lsp_pushout_packet'',
    ''pkt_trace_lsp_egress_in'', ''pkt_trace_lsp_forward_packet'', ''pkt_trace_lrp_ingress_in'',
    ''pkt_trace_lrp_ingress_out'', ''pkt_trace_lrp_egress_in'', ''pkt_trace_lrp_egress_out'',
    ''pkt_trace_drop_packet'', ''pkt_trace_output_pkt'', ''arp_feedback_construct'',
    ''embed_metadata'', ''extract_metadata'', ''pipeline_forward'', ''redirect_other_chassis'',
    ''output_pkt'', ''process_third_logic'']"

abbreviation (input) START_IDX :: nat where "START_IDX \<equiv> 10"

text \<open>The loop \<open>for i in xrange(len(flows_note_array)): flow_note_dict[flows_note_array[i]] = i + START_IDX\<close>.\<close>

definition flow_note_dict :: "string \<rightharpoonup> nat" where
  "flow_note_dict =
     fold (\<lambda>i d. d(flows_note_array ! i \<mapsto> i + START_IDX)) [0..<length flows_note_array] Map.empty"

definition flows_note2idx :: "string \<Rightarrow> nat option" where
  "flows_note2idx n = flow_note_dict n"

text \<open>\<open>idx -= START_IDX; return flows_note_array[idx]\<close>: a negative index counts from the end.\<close>

definition flows_idx2note :: "int \<Rightarrow> string option" where
  "flows_idx2note idx =
     (let i = idx - int START_IDX; n = int (length flows_note_array);
          j = (if i < 0 then n + i else i)
      in if 0 \<le> j \<and> j < n then Some (flows_note_array ! nat j) else None)"

text \<open>The index of a note that is known to be in the array, as the rules use it.\<close>

definition note_idx :: "string \<Rightarrow> int" where
  "note_idx n = (case flows_note2idx n of Some i \<Rightarrow> int i | None \<Rightarrow> 0)"

section \<open>Names of tables\<close>

definition table_note_entries :: "(nat \<times> string) list" where
  "table_note_entries = [
    (TABLE_CONVERT_PHY_LOGICAL, ''TABLE_CONVERT_PHY_LOGICAL''),
    (TABLE_LSP_TRACE_INGRESS_IN, ''TABLE_LSP_TRACE_INGRESS_IN''),
    (TABLE_LSP_INGRESS_PROCESS_EXT_LOGIC, ''TABLE_LSP_INGRESS_PROCESS_EXT_LOGIC''),
    (TABLE_LSP_INGRESS_ARP_RESPONSE, ''TABLE_LSP_INGRESS_ARP_RESPONSE''),
    (TABLE_LSP_INGRESS_ARP_CONTROLLER, ''TABLE_LSP_INGRESS_ARP_CONTROLLER''),
    (TABLE_LSP_INGRESS_UNTUNNEL, ''TABLE_LSP_INGRESS_UNTUNNEL''),
    (TABLE_LSP_INGRESS_LOOKUP_DST_PORT, ''TABLE_LSP_INGRESS_LOOKUP_DST_PORT''),
    (TABLE_LSP_TRACE_INGRESS_OUT, ''TABLE_LSP_TRACE_INGRESS_OUT''),
    (TABLE_LSP_TRACE_EGRESS_IN, ''TABLE_LSP_TRACE_EGRESS_IN''),
    (TABLE_LSP_EGRESS_JUDGE_LOOPBACK, ''TABLE_LSP_EGRESS_JUDGE_LOOPBACK''),
    (TABLE_LSP_EGRESS_FORWARD_PACKET, ''TABLE_LSP_EGRESS_FORWARD_PACKET''),
    (TABLE_LSP_TRACE_EGRESS_OUT, ''TABLE_LSP_TRACE_EGRESS_OUT''),
    (TABLE_LRP_TRACE_INGRESS_IN, ''TABLE_LRP_TRACE_INGRESS_IN''),
    (TABLE_LRP_INGRESS_PKT_RESPONSE, ''TABLE_LRP_INGRESS_PKT_RESPONSE''),
    (TABLE_LRP_INGRESS_DROP_UNEXPECT, ''TABLE_LRP_INGRESS_DROP_UNEXPECT''),
    (TABLE_LRP_INGRESS_UNSNAT_STAGE1, ''TABLE_LRP_INGRESS_UNSNAT_STAGE1''),
    (TABLE_LRP_INGRESS_UNSNAT_STAGE2, ''TABLE_LRP_INGRESS_UNSNAT_STAGE2''),
    (TABLE_LRP_INGRESS_DNAT_STAGE1, ''TABLE_LRP_INGRESS_DNAT_STAGE1''),
    (TABLE_LRP_INGRESS_DNAT_STAGE2, ''TABLE_LRP_INGRESS_DNAT_STAGE2''),
    (TABLE_LRP_INGRESS_IP_ROUTE, ''TABLE_LRP_INGRESS_IP_ROUTE''),
    (TABLE_LRP_INGRESS_ECMP, ''TABLE_LRP_INGRESS_ECMP''),
    (TABLE_LRP_TRACE_INGRESS_OUT, ''TABLE_LRP_TRACE_INGRESS_OUT''),
    (TABLE_LRP_TRACE_EGRESS_IN, ''TABLE_LRP_TRACE_EGRESS_IN''),
    (TABLE_LRP_EGRESS_UNDNAT_STAGE1, ''TABLE_LRP_EGRESS_UNDNAT_STAGE1''),
    (TABLE_LRP_EGRESS_UNDNAT_STAGE2, ''TABLE_LRP_EGRESS_UNDNAT_STAGE2''),
    (TABLE_LRP_EGRESS_SNAT_STAGE1, ''TABLE_LRP_EGRESS_SNAT_STAGE1''),
    (TABLE_LRP_EGRESS_SNAT_STAGE2, ''TABLE_LRP_EGRESS_SNAT_STAGE2''),
    (TABLE_LRP_EGRESS_UPDATE_ETH_DST, ''TABLE_LRP_EGRESS_UPDATE_ETH_DST''),
    (TABLE_LRP_EGRESS_HANDLE_UNK_PKT, ''TABLE_LRP_EGRESS_HANDLE_UNK_PKT''),
    (TABLE_LRP_EGRESS_FORWARD_PACKET, ''TABLE_LRP_EGRESS_FORWARD_PACKET''),
    (TABLE_LRP_TRACE_EGRESS_OUT, ''TABLE_LRP_TRACE_EGRESS_OUT''),
    (TABLE_OUTPUT_PKT, ''TABLE_OUTPUT_PKT''),
    (TABLE_SEARCH_IP_MAC, ''TABLE_SEARCH_IP_MAC''),
    (TABLE_DROP_PACKET, ''TABLE_DROP_PACKET''),
    (TABLE_THIRD_PARTY, ''TABLE_THIRD_PARTY'')]"

definition table_note_dict :: "nat \<rightharpoonup> string" where
  "table_note_dict = dict_literal table_note_entries"

section \<open>Notes and indices are inverse\<close>

lemma fold_index_dict:
  assumes "distinct xs" and "n \<le> length xs" and "i < n"
  shows "fold (\<lambda>i d. d(xs ! i \<mapsto> i + k)) [0..<n] m (xs ! i) = Some (i + k)"
  using assms
proof (induction n)
  case 0
  then show ?case by simp
next
  case (Suc n)
  then show ?case by (cases "i = n") (auto simp: nth_eq_iff_index_eq)
qed

lemma distinct_flows_note_array: "distinct flows_note_array"
  by (simp add: flows_note_array_def)

lemma length_flows_note_array: "length flows_note_array = 43"
  by (simp add: flows_note_array_def)

lemma flows_note2idx_nth:
  "i < length flows_note_array \<Longrightarrow> flows_note2idx (flows_note_array ! i) = Some (i + START_IDX)"
  unfolding flows_note2idx_def flow_note_dict_def
  by (rule fold_index_dict [OF distinct_flows_note_array order_refl])

lemma flows_note2idx_in:
  assumes "n \<in> set flows_note_array"
  obtains i where "i < length flows_note_array" and "flows_note_array ! i = n"
    and "flows_note2idx n = Some (i + START_IDX)"
  using assms flows_note2idx_nth by (auto simp: in_set_conv_nth)

end
