(* ===== verification/Base_Rules.thy ===== *)
theory Base_Rules imports View_Rules Match Action Flow_Common begin

text \<open>
  The rules of \<open>lcp/pkt_trace.py\<close>, \<open>lcp/physical_flow.py\<close> and \<open>lcp/middle_table.py\<close>. A rule
  that depends on the database is a relation of \<open>(row, Priority, Match, Action)\<close> with its
  \<open>State\<close>; a constant rule is a list of \<open>(Priority, Match, Action)\<close>. The guard \<open>State != 0\<close> of the
  clauses drops what has not changed since the last round.
\<close>

type_synonym flow = "int \<times> match_exp list \<times> act list"
type_synonym 'a rule = "('a \<times> flow) rel"

abbreviation (input) pnat :: "nat \<Rightarrow> pyval" where "pnat n \<equiv> PInt (int n)"

abbreviation NXM_Reg_bit :: "nat \<Rightarrow> nat \<Rightarrow> nxm_reg" where
  "NXM_Reg_bit r i \<equiv> NXM_Reg_bits r (int i) (int i)"

section \<open>Packet tracing (pkt_trace.py)\<close>

definition trace_pipeline_start :: "flow list" where [rule_defs]:
  "trace_pipeline_start =
     [(100, reg_flag (pnat FLAG_TRACE), upload_trace @ resubmit_next),
      (0, match_none, resubmit_next)]"

definition trace_pipeline_end :: "flow list" where [rule_defs]:
  "trace_pipeline_end =
     [(100, reg_flag (pnat FLAG_TRACE), upload_trace),
      (0, match_none, push (NXM_Reg REG_DST_IDX))]"

definition trace_pipeline_module :: "(match_exp list \<times> act list) list" where [rule_defs]:
  "trace_pipeline_module = [(reg_flag (pnat FLAG_TRACE), upload_trace)]"

section \<open>Physical ports (physical_flow.py)\<close>

definition convert_phy_logical :: "facts \<Rightarrow> unit rule" where [rule_defs]:
  "convert_phy_logical f =
     [(((), 2, in_port (PInt ofport),
        resubmit_table TABLE_EXTRACT_METADATA @
        load (PInt 1) (NXM_Reg_bit REG_FLAG_IDX FLAG_LOOPBACK_BIT_IDX) @
        resubmit_table TABLE_PIPELINE_FORWARD), s).
        ((ch, ofport), s) \<leftarrow> remote_chassis f, s \<noteq> 0] @
     [(((), 2, in_port (PInt ofport),
        load (pnat (LSP_PORTID lsp)) (NXM_Reg REG_SRC_IDX) @
        load (LS_ID ls) (NXM_Reg REG_DP_IDX) @
        resubmit_next), s).
        (((lsp, ofport), ls), s) \<leftarrow> local_bond_lsp f, s \<noteq> 0]"

text \<open>\<open>_arp_ip_mac\<close>: the address, as text and as number, of what answers ARP on a switch.\<close>

definition arp_ip_mac :: "facts \<Rightarrow> (string \<times> nat \<times> string \<times> nat \<times> ls_row) rel" where [rule_defs]:
  "arp_ip_mac f =
     [((LSP_IP lsp, LSP_IP_INT lsp, LSP_MAC lsp, LSP_MAC_INT lsp, ls), s).
        ((lsp, ls), s) \<leftarrow> active_lsp f, s \<noteq> 0] @
     [((LNAT_XLATE_IP lnat, LNAT_XLATE_IP_INT lnat, LNAT_XLATE_MAC lnat, LNAT_XLATE_MAC_INT lnat, ls),
       s1 + s2).
        ((lnat, lr), s1) \<leftarrow> lnat_data f,
        ((lsp, ls, lrp, lr'), s2) \<leftarrow> lsp_link_lrp f, lr' = lr,
        s1 + s2 \<noteq> 0]"

definition arp_feedback_action :: "nat \<Rightarrow> string \<Rightarrow> nat \<Rightarrow> act list" where [rule_defs]:
  "arp_feedback_action ip_int mac mac_int =
     load (PInt 1) (NXM_Reg_bit REG_FLAG_IDX FLAG_LOOPBACK_BIT_IDX) @
     move (NXM_Reg ETH_SRC_IDX) (NXM_Reg ETH_DST_IDX) @
     mod_dl_src (PStr mac) @
     load (PInt 2) (NXM_Reg ARP_OP_IDX) @
     move (NXM_Reg ARP_SHA_IDX) (NXM_Reg ARP_THA_IDX) @
     load (pnat mac_int) (NXM_Reg ARP_SHA_IDX) @
     move (NXM_Reg ARP_SPA_IDX) (NXM_Reg ARP_TPA_IDX) @
     load (pnat ip_int) (NXM_Reg ARP_SPA_IDX) @
     move (NXM_Reg REG_SRC_IDX) (NXM_Reg REG_DST_IDX)"

definition arp_feedback_construct :: "facts \<Rightarrow> ls_row rule" where [rule_defs]:
  "arp_feedback_construct f =
     [((ls, 0, arp_proto @ arp_tpa (PStr ip) @ arp_op (PInt 1),
        arp_feedback_action ip_int mac mac_int), s).
        ((ip, ip_int, mac, mac_int, ls), s) \<leftarrow> arp_ip_mac f]"

definition output_pkt_by_reg :: "flow list" where [rule_defs]:
  "output_pkt_by_reg =
     [(1, reg_outport (PInt TP_OFPORT_NONE), resubmit_table TABLE_DROP_PACKET),
      (0, match_none, output_reg (NXM_Reg REG_OUTPORT_IDX))]"

section \<open>Aggregates\<close>

text \<open>
  \<open>p[X] == tuple_(Y, order_by=Z)\<close>: for every \<open>X\<close> that is derived, the \<open>Y\<close> of its distinct
  \<open>(Y, Z)\<close> in the order of \<open>Z\<close>.
\<close>

definition tuple_by :: "('k \<times> 'y \<times> ('z :: linorder)) list \<Rightarrow> ('k \<times> 'y list) list" where
  "tuple_by xs =
     map (\<lambda>k. (k, map fst (sort_key snd (remdups (map snd (filter (\<lambda>x. fst x = k) xs))))))
       (remdups (map fst xs))"

text \<open>\<open>sum_(State, for_each=Z)\<close>: the sum over the distinct pairs.\<close>

definition sum_for_each :: "(int \<times> 'z) list \<Rightarrow> int" where
  "sum_for_each xs = sum_list (map fst (remdups xs))"

lemma tuple_by_Nil [simp]: "tuple_by [] = []"
  by (simp add: tuple_by_def)

section \<open>Redirection to a gateway and tunnel metadata (middle_table.py)\<close>

text \<open>The part the aggregates share: chassis a router is pinned on.\<close>

definition gateway_chassis :: "facts \<Rightarrow> (pch_row \<times> int) rel" where
  "gateway_chassis f =
     [((ch, ofport), s1 + s2).
        ((ch, ofport), s1) \<leftarrow> remote_chassis f,
        (lr, s2) \<leftarrow> lr_array f, LR_CHASSIS_UUID lr = Some (PCH_UUID ch)]"

definition gateway_state_sum :: "facts \<Rightarrow> int option" where
  "gateway_state_sum f =
     (case [(s, PCH_UUID ch). ((ch, ofport), s) \<leftarrow> gateway_chassis f, s \<ge> 0] of
        [] \<Rightarrow> None
      | xs \<Rightarrow> Some (sum_for_each xs))"

text \<open>\<open>X\<close> is the pair of a label and a state.\<close>

definition gateway_ofport_1 :: "facts \<Rightarrow> ((string \<times> int) \<times> int list) list" where
  "gateway_ofport_1 f =
     tuple_by
       [((''adding'', b), ofport, PCH_UUID ch).
          ((ch, ofport), s) \<leftarrow> gateway_chassis f, s \<ge> 0,
          b \<leftarrow> (case gateway_state_sum f of None \<Rightarrow> [] | Some b \<Rightarrow> [b])] @
     tuple_by
       [((''deleting'', State_DEL), ofport, PCH_UUID ch).
          ((ch, ofport), s) \<leftarrow> gateway_chassis f, s < 0]"

definition gateway_ofport_readd :: "facts \<Rightarrow> ((string \<times> int) \<times> int list) list" where
  "gateway_ofport_readd f =
     tuple_by
       [((''readding'', State_ADD), ofport, PCH_UUID ch).
          (a, b) \<leftarrow> gateway_ofport_1 f, fst a = ''deleting'',
          ((ch, ofport), s) \<leftarrow> gateway_chassis f, s \<ge> 0]"

definition gateway_ofport :: "facts \<Rightarrow> ((string \<times> int) \<times> int list) list" where
  "gateway_ofport f = gateway_ofport_1 f @ gateway_ofport_readd f"

definition redirect_other_chassis :: "facts \<Rightarrow> unit rule" where [rule_defs]:
  "redirect_other_chassis f =
     [(((), 1, match_none,
        load (PInt 1) (NXM_Reg_bit REG_FLAG_IDX FLAG_REDIRECT_BIT_IDX) @
        bundle_load (NXM_Reg REG_OUTPORT_IDX) ofports @
        resubmit_table TABLE_EMBED2_METADATA @
        resubmit_table TABLE_OUTPUT_PKT), snd x).
        (x, ofports) \<leftarrow> gateway_ofport f, snd x \<noteq> 0]"

definition redirect_other_chassis_const :: "flow list" where [rule_defs]:
  "redirect_other_chassis_const = [(0, match_none, resubmit_table TABLE_DROP_PACKET)]"

definition embed_metadata :: "flow list" where [rule_defs]:
  "embed_metadata =
     [(0, match_none,
       move (NXM_Reg_bits REG_DP_IDX 0 23) (NXM_Reg_bits TUN_ID_IDX 0 23) @
       move (NXM_Reg_bits REG_SRC_IDX 0 15) (NXM_Reg_bits TUN_METADATA0_IDX 0 15) @
       move (NXM_Reg_bits REG_DST_IDX 0 15) (NXM_Reg_bits TUN_METADATA0_IDX 16 31) @
       move (NXM_Reg_bits REG_FLAG_IDX 0 31) (NXM_Reg_bits TUN_METADATA0_IDX 32 63))]"

definition extract_metadata :: "flow list" where [rule_defs]:
  "extract_metadata =
     [(0, match_none,
       move (NXM_Reg_bits TUN_ID_IDX 0 23) (NXM_Reg_bits REG_DP_IDX 0 23) @
       move (NXM_Reg_bits TUN_METADATA0_IDX 0 15) (NXM_Reg_bits REG_SRC_IDX 0 15) @
       move (NXM_Reg_bits TUN_METADATA0_IDX 16 31) (NXM_Reg_bits REG_DST_IDX 0 15) @
       move (NXM_Reg_bits TUN_METADATA0_IDX 32 63) (NXM_Reg_bits REG_FLAG_IDX 0 31))]"

definition pipeline_forward :: "flow list" where [rule_defs]:
  "pipeline_forward =
     [(1, ip_proto @ eth_dst (PStr ''00:00:00:00:00:00'') @ reg_flag (pnat FLAG_REDIRECT),
       resubmit_table TABLE_LRP_INGRESS_IP_ROUTE),
      (0, match_none, resubmit_table TABLE_LSP_EGRESS_FIRST)]"

end
