(* ===== verification/Lsp_Rules.thy ===== *)
theory Lsp_Rules imports Base_Rules begin

text \<open>
  The pipeline of a logical switch: \<open>init_lsp_ingress_clause\<close> of \<open>lcp/lsp_ingress.py\<close> and
  \<open>init_lsp_egress_clause\<close> of \<open>lcp/lsp_egress.py\<close>. Clauses that are only there under an option
  are guarded by it. The first component of a tuple is the row of the switch.
\<close>

text \<open>A flow for every switch that changed.\<close>

definition per_ls :: "facts \<Rightarrow> flow \<Rightarrow> ls_row rule" where [rule_defs]:
  "per_ls f fl = [((ls, fl), LS_State ls). ls \<leftarrow> ls_array f, LS_State ls \<noteq> 0]"

section \<open>Priorities\<close>

text \<open>\<open>(int(prefix) << 10) + (int(level) << 6) + idx\<close>.\<close>

definition cal_priority :: "nat \<Rightarrow> nat \<Rightarrow> nat \<Rightarrow> int" where
  "cal_priority prefix level idx =
     push_bit 10 (int prefix) + push_bit 6 (int level) + int idx"

section \<open>Ingress (lsp_ingress.py)\<close>

definition lsp_arp_controller :: "options \<Rightarrow> facts \<Rightarrow> ls_row rule" where [rule_defs]:
  "lsp_arp_controller options f =
     (if GATEWAY options
      then per_ls f (2, arp_proto @ arp_op (PInt 2), upload_arp) else []) @
     (if \<not> ONDEMAND options
      then per_ls f (1, arp_proto @ arp_op (PInt 1), upload_arp @ resubmit_next) else []) @
     per_ls f (0, match_none, resubmit_next)"

definition lsp_arp_response :: "facts \<Rightarrow> ls_row rule" where [rule_defs]:
  "lsp_arp_response f =
     per_ls f (2, arp_proto @ arp_op (PInt 1),
       resubmit_table TABLE_ARP_FEEDBACK_CONSTRUCT @ resubmit_next) @
     per_ls f (0, match_none, resubmit_next)"

text \<open>Every switch with every linked router port, whichever switch that port is on.\<close>

definition lsp_lrp_ls_changed :: "facts \<Rightarrow> (ls_row \<times> lrp_row) rel" where [rule_defs]:
  "lsp_lrp_ls_changed f =
     [((ls, lrp), LS_State ls + s2).
        ls \<leftarrow> ls_array f,
        ((lsp, ls1, lrp, lr), s2) \<leftarrow> lsp_link_lrp f,
        LS_State ls + s2 \<noteq> 0]"

definition lsp_untunnel_deliver :: "options \<Rightarrow> facts \<Rightarrow> ls_row rule" where [rule_defs]:
  "lsp_untunnel_deliver options f =
     (case (ENABLE_UNTUNNEL options, dsrport options) of
        (True, Some (mac, ofport)) \<Rightarrow>
          [((ls, cal_priority (LRP_PREFIX lrp) 2 (LRP_ILK_IDX lrp),
             ip_proto @ ip_dst_prefix (PStr (LRP_IP lrp)) (pnat (LRP_PREFIX lrp)),
             resubmit_next), s).
             ((ls, lrp), s) \<leftarrow> lsp_lrp_ls_changed f] @
          per_ls f (1, ip_proto, mod_dl_dst (PStr mac) @ output_port (PStr ofport))
      | _ \<Rightarrow> []) @
     per_ls f (0, match_none, resubmit_next)"

definition lsp_remote_lsp_changed :: "facts \<Rightarrow> (lsp_row \<times> ls_row \<times> pch_row \<times> int) rel" where [rule_defs]:
  "lsp_remote_lsp_changed f = [(x, s). (x, s) \<leftarrow> remote_lsp f, s \<noteq> 0]"

definition lsp_lookup_nat :: "facts \<Rightarrow> ls_row rule" where [rule_defs]:
  "lsp_lookup_nat f =
     [((ls, 5, eth_dst (PStr (LNAT_XLATE_MAC lnat)),
        load (pnat (LSP_PORTID lsp)) (NXM_Reg REG_DST_IDX) @ resubmit_next), s1 + s2).
        ((lnat, lr), s1) \<leftarrow> lnat_data f,
        ((lsp, ls, lrp, lr'), s2) \<leftarrow> lsp_link_lrp f, lr' = lr,
        s1 + s2 \<noteq> 0]"

definition lsp_lookup_local :: "facts \<Rightarrow> ls_row rule" where [rule_defs]:
  "lsp_lookup_local f =
     [((ls, 4, eth_dst (PStr (LSP_MAC lsp)),
        load (pnat (LSP_PORTID lsp)) (NXM_Reg REG_DST_IDX) @ resubmit_next), s).
        ((lsp, ls), s) \<leftarrow> local_lsp f, s \<noteq> 0]"

definition lsp_lookup_remote :: "options \<Rightarrow> facts \<Rightarrow> ls_row rule" where [rule_defs]:
  "lsp_lookup_remote options f =
     (if ENABLE_REDIRECT options
      then [((ls, 3, eth_dst (PStr (LSP_MAC lsp)),
              load (pnat (LSP_PORTID lsp)) (NXM_Reg REG_DST_IDX) @
              bundle_load (NXM_Reg REG_OUTPORT_IDX) [ofport] @
              load (PInt 1) (NXM_Reg REG5_IDX) @
              resubmit_next), s).
              ((lsp, ls, ch, ofport), s) \<leftarrow> lsp_remote_lsp_changed f]
      else [((ls, 3, eth_dst (PStr (LSP_MAC lsp)),
              load (pnat (LSP_PORTID lsp)) (NXM_Reg REG_DST_IDX) @
              load (PInt ofport) (NXM_Reg REG_OUTPORT_IDX) @
              load (PInt 1) (NXM_Reg REG5_IDX) @
              resubmit_next), s).
              ((lsp, ls, ch, ofport), s) \<leftarrow> lsp_remote_lsp_changed f])"

definition lsp_lookup_patchport :: "facts \<Rightarrow> ls_row rule" where [rule_defs]:
  "lsp_lookup_patchport f =
     [((ls, 2, match_none,
        load (pnat (LSP_PORTID lsp)) (NXM_Reg REG_DST_IDX) @
        resubmit_table TABLE_LSP_EGRESS_FIRST), s).
        (((lsp, ofport), ls), s) \<leftarrow> local_patchport f, s \<noteq> 0]"

definition lsp_lookup_dst_port :: "options \<Rightarrow> facts \<Rightarrow> ls_row rule" where [rule_defs]:
  "lsp_lookup_dst_port options f =
     lsp_lookup_nat f @
     lsp_lookup_local f @
     lsp_lookup_remote options f @
     lsp_lookup_patchport f @
     (if ONDEMAND options
      then per_ls f (0, match_none,
             upload_unknow_dst @
             load (PInt TP_OFPORT_NONE) (NXM_Reg REG_OUTPORT_IDX) @
             load (PInt 1) (NXM_Reg REG5_IDX) @
             resubmit_next)
      else per_ls f (0, match_none, resubmit_table TABLE_DROP_PACKET))"

definition lsp_output_dst_port :: "options \<Rightarrow> facts \<Rightarrow> ls_row rule" where [rule_defs]:
  "lsp_output_dst_port options f =
     (if ENABLE_REDIRECT options
      then per_ls f (4, reg_5 (PInt 1) @ reg_flag (pnat FLAG_REDIRECT) @
             reg_outport (PInt TP_OFPORT_NONE), resubmit_table TABLE_DROP_PACKET) @
           per_ls f (3, reg_5 (PInt 1) @ reg_outport (PInt TP_OFPORT_NONE),
             resubmit_table TABLE_REDIRECT_CHASSIS)
      else []) @
     per_ls f (2, reg_5 (PInt 1),
       resubmit_table TABLE_EMBED2_METADATA @ resubmit_table TABLE_OUTPUT_PKT) @
     per_ls f (1, match_none, resubmit_table TABLE_LSP_EGRESS_FIRST)"

section \<open>Egress (lsp_egress.py)\<close>

definition lsp_judge_loopback :: "facts \<Rightarrow> ls_row rule" where [rule_defs]:
  "lsp_judge_loopback f =
     per_ls f (2, reg_flag (pnat FLAG_LOOPBACK),
       load (PInt TP_OFPORT_NONE) (NXM_Reg IN_PORT_IDX) @ resubmit_next) @
     per_ls f (0, match_none, resubmit_next)"

definition lsp_forward_local :: "facts \<Rightarrow> ls_row rule" where [rule_defs]:
  "lsp_forward_local f =
     [((ls, 3, reg_dst (pnat (LSP_PORTID lsp)),
        load (PInt 1) (NXM_Reg REG5_IDX) @
        load (PInt ofport) (NXM_Reg REG_OUTPORT_IDX) @
        resubmit_next), s).
        (((lsp, ofport), ls), s) \<leftarrow> local_bond_lsp f, s \<noteq> 0]"

definition lsp_forward_router :: "facts \<Rightarrow> ls_row rule" where [rule_defs]:
  "lsp_forward_router f =
     [((ls, 2, reg_dst (pnat (LSP_PORTID lsp)),
        load (PInt (LR_ID lr)) (NXM_Reg REG6_IDX) @
        load (pnat (LRP_PORTID lrp)) (NXM_Reg REG7_IDX) @
        resubmit_next), s).
        ((lsp, ls, lrp, lr), s) \<leftarrow> lsp_link_lrp f, s \<noteq> 0]"

definition lsp_forward_packet :: "facts \<Rightarrow> ls_row rule" where [rule_defs]:
  "lsp_forward_packet f =
     lsp_forward_local f @
     lsp_forward_router f @
     per_ls f (0, ip_proto,
       load (PInt 1) (NXM_Reg_bit REG_FLAG_IDX FLAG_REDIRECT_BIT_IDX) @
       resubmit_table TABLE_LSP_INGRESS_LOOKUP_DST_PORT) @
     per_ls f (0, arp_proto @ arp_op (PInt 1),
       load (PInt 1) (NXM_Reg_bit REG_FLAG_IDX FLAG_REDIRECT_BIT_IDX) @
       resubmit_table TABLE_ARP_FEEDBACK_CONSTRUCT @
       resubmit_table TABLE_LSP_INGRESS_LOOKUP_DST_PORT)"

definition lsp_pushout_packet :: "facts \<Rightarrow> ls_row rule" where [rule_defs]:
  "lsp_pushout_packet f =
     per_ls f (2, reg_5 (PInt 1), resubmit_table TABLE_OUTPUT_PKT) @
     per_ls f (1, match_none,
       move (NXM_Reg_bits REG6_IDX 0 23) (NXM_Reg_bits REG_DP_IDX 0 23) @
       move (NXM_Reg REG7_IDX) (NXM_Reg REG_SRC_IDX) @
       load (PInt 0) (NXM_Reg REG6_IDX) @
       load (PInt 0) (NXM_Reg REG7_IDX) @
       resubmit_table TABLE_LRP_TRACE_INGRESS_IN)"

end
