(* ===== verification/Nat_Rules.thy ===== *)
theory Nat_Rules imports Base_Rules begin

text \<open>
  The NAT stages of a logical router, \<open>lcp/nat.py\<close>. Stage 1 sends the packet through connection
  tracking, or rewrites it when the address is both SNAT'ed and DNAT'ed; stage 2 sees it afterwards.
  Packets that are not translated pass on in the last clause of each stage.
\<close>

text \<open>A flow for every router that changed.\<close>

definition per_lr :: "facts \<Rightarrow> flow \<Rightarrow> lr_row rule" where [rule_defs]:
  "per_lr f fl = [((lr, fl), s). (lr, s) \<leftarrow> lr_array f, s \<noteq> 0]"

definition lnat_of :: "string \<Rightarrow> facts \<Rightarrow> (lnat_row \<times> lr_row) rel" where [rule_defs]:
  "lnat_of xlate_type f = [((lnat, lr), s). ((lnat, lr), s) \<leftarrow> lnat_data f, LNAT_TYPE lnat = Some xlate_type]"

text \<open>
  The pairs of an SNAT and a DNAT entry for one address, which two clauses derive.
\<close>

definition lnat_pair :: "facts \<Rightarrow> (lnat_row \<times> lr_row) rel" where [rule_defs]:
  "lnat_pair f =
     [((lnat1, lr), s1 + s2).
        ((lnat1, lr), s1) \<leftarrow> lnat_of ''snat'' f,
        ((lnat2, lr1), s2) \<leftarrow> lnat_of ''dnat'' f, LR_UUID lr1 = LR_UUID lr,
        s1 + s2 \<noteq> 0,
        LNAT_XLATE_IP lnat1 = LNAT_XLATE_IP lnat2 \<and> LNAT_IP lnat1 = LNAT_IP lnat2 \<and>
        LNAT_PREFIX lnat1 = 32 \<and> LNAT_PREFIX lnat2 = 32]"

section \<open>Ingress\<close>

definition lunsnat_xlate_stage1 :: "facts \<Rightarrow> lr_row rule" where [rule_defs]:
  "lunsnat_xlate_stage1 f =
     [((lr, 2, ip_proto @ ip_dst (PStr (LNAT_XLATE_IP lnat)),
        mod_nw_dst (PStr (LNAT_IP lnat)) @ resubmit_next), s).
        ((lnat, lr), s) \<leftarrow> lnat_pair f] @
     [((lr, 1, ip_proto @ ip_dst (PStr (LNAT_XLATE_IP lnat)),
        unsnat TABLE_LRP_INGRESS_UNSNAT_STAGE2), s).
        ((lnat, lr), s) \<leftarrow> lnat_of ''snat'' f, s \<noteq> 0] @
     per_lr f (0, match_none, resubmit_next)"

definition lunsnat_xlate_stage2 :: "facts \<Rightarrow> lr_row rule" where [rule_defs]:
  "lunsnat_xlate_stage2 f = per_lr f (0, match_none, resubmit_next)"

definition ldnat_xlate_stage1 :: "facts \<Rightarrow> lr_row rule" where [rule_defs]:
  "ldnat_xlate_stage1 f =
     [((lr, LNAT_PREFIX lnat + 1, ip_proto @ ip_dst (PStr (LNAT_XLATE_IP lnat)),
        load (PInt 1) (NXM_Reg_bit REG_FLAG_IDX FLAG_NAT_BIT_IDX) @
        dnat (PStr (LNAT_IP lnat)) TABLE_LRP_INGRESS_DNAT_STAGE2), s).
        ((lnat, lr), s) \<leftarrow> lnat_of ''dnat'' f, s \<noteq> 0, LNAT_PREFIX lnat = 32] @
     per_lr f (0, match_none, resubmit_next)"

definition ldnat_xlate_stage2 :: "facts \<Rightarrow> lr_row rule" where [rule_defs]:
  "ldnat_xlate_stage2 f = per_lr f (0, match_none, resubmit_next)"

section \<open>Egress\<close>

definition lundnat_xlate_stage1 :: "facts \<Rightarrow> lr_row rule" where [rule_defs]:
  "lundnat_xlate_stage1 f =
     [((lr, 2, ip_proto @ ip_src (PStr (LNAT_IP lnat)),
        mod_nw_src (PStr (LNAT_XLATE_IP lnat)) @ resubmit_next), s).
        ((lnat, lr), s) \<leftarrow> lnat_pair f] @
     [((lr, 1, ip_proto @ ip_src (PStr (LNAT_IP lnat)),
        load (PInt 1) (NXM_Reg_bit REG_FLAG_IDX FLAG_NAT_BIT_IDX) @
        undnat TABLE_LRP_EGRESS_UNDNAT_STAGE2), s).
        ((lnat, lr), s) \<leftarrow> lnat_of ''dnat'' f, s \<noteq> 0] @
     per_lr f (0, match_none, resubmit_next)"

definition lundnat_xlate_stage2 :: "facts \<Rightarrow> lr_row rule" where [rule_defs]:
  "lundnat_xlate_stage2 f =
     [((lr, 1, reg_flag (pnat FLAG_NAT) @ ip_proto @ ip_src (PStr (LNAT_XLATE_IP lnat)),
        mod_dl_src (PStr (LNAT_XLATE_MAC lnat)) @ resubmit_next), s).
        ((lnat, lr), s) \<leftarrow> lnat_of ''dnat'' f, s \<noteq> 0] @
     per_lr f (0, match_none, resubmit_next)"

definition lsnat_xlate_stage1 :: "facts \<Rightarrow> lr_row rule" where [rule_defs]:
  "lsnat_xlate_stage1 f =
     [((lr, LNAT_PREFIX lnat + 1,
        ip_proto @ ip_src_prefix (PStr (LNAT_IP lnat)) (PInt (LNAT_PREFIX lnat)),
        load (PInt 1) (NXM_Reg_bit REG_FLAG_IDX FLAG_NAT_BIT_IDX) @
        snat (PStr (LNAT_XLATE_IP lnat)) TABLE_LRP_EGRESS_SNAT_STAGE2), s).
        ((lnat, lr), s) \<leftarrow> lnat_of ''snat'' f, s \<noteq> 0] @
     per_lr f (0, match_none, resubmit_next)"

definition lsnat_xlate_stage2 :: "facts \<Rightarrow> lr_row rule" where [rule_defs]:
  "lsnat_xlate_stage2 f =
     [((lr, 1, reg_flag (pnat FLAG_NAT) @ ip_proto @ ip_src (PStr (LNAT_XLATE_IP lnat)),
        mod_dl_src (PStr (LNAT_XLATE_MAC lnat)) @ resubmit_next), s).
        ((lnat, lr), s) \<leftarrow> lnat_of ''snat'' f, s \<noteq> 0] @
     per_lr f (0, match_none, resubmit_next)"

end
