(* ===== verification/Ecmp_Rules.thy ===== *)
theory Ecmp_Rules imports Lsp_Rules Nat_Rules begin

text \<open>
  Equal-cost routes, \<open>lcp/ecmp.py\<close>. Two static routes of one router with the same network and next
  hop but different ports are bundled: their tunnel ports become the slaves of one \<open>bundle_load\<close>.
  A deletion removes the whole bundle, so the ports that stay are added again (\<open>readding\<close>). An
  aggregate is keyed by router, network, prefix, the state of the flow to be made, and a label.
\<close>

type_synonym ecmp_key = "string \<times> string \<times> nat \<times> int \<times> string"

text \<open>The guards on two routes that all three aggregates share.\<close>

definition ecmp_pair :: "lsr_row \<Rightarrow> lsr_row \<Rightarrow> bool" where
  "ecmp_pair route1 route2 \<longleftrightarrow>
     LSR_LR_UUID route1 = LSR_LR_UUID route2 \<and>
     LSR_UUID route1 \<noteq> LSR_UUID route2 \<and>
     LSR_IP route1 = LSR_IP route2 \<and>
     LSR_PREFIX route1 = LSR_PREFIX route2 \<and>
     LSR_NEXT_HOP route1 = LSR_NEXT_HOP route2 \<and>
     LSR_OUTPORT route1 \<noteq> LSR_OUTPORT route2"

definition ecmp_adding :: "facts \<Rightarrow> (ecmp_key \<times> int list) list" where
  "ecmp_adding f =
     tuple_by
       [((LSR_LR_UUID route1, LSR_IP route1, LSR_PREFIX route1, State_ADD, ''adding''),
         ofport1, LSR_UUID route1).
          route1 \<leftarrow> lroute_array f,
          route2 \<leftarrow> lroute_array f,
          LSR_State route1 + LSR_State route2 \<ge> 0 \<and> ecmp_pair route1 route2,
          ((lrp1, ofport1), s3) \<leftarrow> next_hop_ovsport f, LSR_OUTPORT route1 = Some lrp1,
          ((lrp2, ofport2), s4) \<leftarrow> next_hop_ovsport f, LSR_OUTPORT route2 = Some lrp2,
          LSR_State route1 + LSR_State route2 + s3 + s4 > 0]"

definition ecmp_deleting :: "facts \<Rightarrow> (ecmp_key \<times> int list) list" where
  "ecmp_deleting f =
     tuple_by
       [((LSR_LR_UUID route1, LSR_IP route1, LSR_PREFIX route1, State_DEL, ''deleting''),
         ofport, ofport).
          route1 \<leftarrow> lroute_array f,
          route2 \<leftarrow> lroute_array f, ecmp_pair route1 route2,
          ((lrp1, ofport), s3) \<leftarrow> next_hop_ovsport f, LSR_OUTPORT route1 = Some lrp1,
          LSR_State route1 + LSR_State route2 + s3 < 0]"

definition ecmp_aggregate_outport :: "facts \<Rightarrow> (ecmp_key \<times> int list) list" where
  "ecmp_aggregate_outport f = ecmp_adding f @ ecmp_deleting f"

definition ecmp_aggregate_outport_readd :: "facts \<Rightarrow> (ecmp_key \<times> int list) list" where
  "ecmp_aggregate_outport_readd f =
     tuple_by
       [((LSR_LR_UUID route1, LSR_IP route1, LSR_PREFIX route1, State_ADD, ''readding''),
         ofport1, LSR_UUID route1).
          route1 \<leftarrow> lroute_array f,
          route2 \<leftarrow> lroute_array f,
          LSR_State route1 + LSR_State route2 \<ge> 0 \<and> ecmp_pair route1 route2,
          ((lrp1, ofport1), s3) \<leftarrow> next_hop_ovsport f, LSR_OUTPORT route1 = Some lrp1,
          ((lrp2, ofport2), s4) \<leftarrow> next_hop_ovsport f, LSR_OUTPORT route2 = Some lrp2,
          LSR_State route1 + LSR_State route2 + s3 + s4 \<ge> 0,
          ((uuid_lr, ip, prefix, st, label), b) \<leftarrow> ecmp_aggregate_outport f,
          uuid_lr = LSR_LR_UUID route1 \<and> ip = LSR_IP route1 \<and> prefix = LSR_PREFIX route1 \<and>
          label = ''deleting'']"

definition ecmp_static_route :: "facts \<Rightarrow> lr_row rule" where [rule_defs]:
  "ecmp_static_route f =
     [((lr, cal_priority prefix 2 0,
        ip_proto @ ip_dst_prefix (PStr ip) (pnat prefix),
        bundle_load (NXM_Reg REG_OUTPORT_IDX) ofports @ resubmit_next), s1 + st).
        (lr, s1) \<leftarrow> lr_array f,
        ((uuid_lr, ip, prefix, st, label), ofports) \<leftarrow>
          ecmp_aggregate_outport f @ ecmp_aggregate_outport_readd f,
        s1 + st \<noteq> 0, uuid_lr = LR_UUID lr]"

definition ecmp_judge_route :: "facts \<Rightarrow> lr_row rule" where [rule_defs]:
  "ecmp_judge_route f =
     [((lr, cal_priority (LSR_PREFIX route) 2 0,
        reg_outport (PInt ofport) @ ip_proto @
        ip_dst_prefix (PStr (LSR_IP route)) (pnat (LSR_PREFIX route)),
        load (pnat (LRP_PORTID lrp)) (NXM_Reg REG_DST_IDX) @
        load (pnat (LRP_MAC_INT lrp)) (NXM_Reg ETH_SRC_IDX) @
        load (pnat (LSR_NEXT_HOP_INT route)) (NXM_Reg REG2_IDX) @
        load (pnat (LRP_IP_INT lrp)) (NXM_Reg REG3_IDX) @
        resubmit_next), LSR_State route + s2 + s3 + LRP_State lrp).
        route \<leftarrow> lroute_array f,
        ((lrp_uuid, ofport), s2) \<leftarrow> next_hop_ovsport f, LSR_OUTPORT route = Some lrp_uuid,
        (lr, s3) \<leftarrow> lr_array f, LR_UUID lr = LSR_LR_UUID route,
        lrp \<leftarrow> lrp_array f, LRP_UUID lrp = lrp_uuid \<and> LRP_LR_UUID lrp = LSR_LR_UUID route,
        LSR_State route + s2 + s3 + LRP_State lrp \<noteq> 0]"

definition ecmp_static_route_judge :: "options \<Rightarrow> facts \<Rightarrow> lr_row rule" where [rule_defs]:
  "ecmp_static_route_judge options f =
     (if \<not> GATEWAY options
      then ecmp_judge_route f @
           per_lr f (1, reg_outport (PInt TP_OFPORT_NONE), resubmit_table TABLE_DROP_PACKET)
      else []) @
     per_lr f (0, match_none, resubmit_next)"

text \<open>\<open>ecmp_bfd_port\<close>: the tunnel ports whose liveness is to be watched, or no longer.\<close>

definition ecmp_bfd_port :: "options \<Rightarrow> facts \<Rightarrow> string rel" where
  "ecmp_bfd_port options f =
     (if GATEWAY options
      then [(OVSPORT_NAME p, OVSPORT_State p + PCH_State ch).
              p \<leftarrow> ovsport_chassis f,
              OVSPORT_State p \<ge> 0 \<and> OVSPORT_IFACE_ID p \<noteq> TP_FLOW_TUNNEL_NAME,
              ch \<leftarrow> chassis_array f, PCH_UUID ch = OVSPORT_IFACE_ID p,
              OVSPORT_State p + PCH_State ch \<noteq> 0] @
           [(OVSPORT_NAME p, PCH_State ch1 + PCH_State ch2).
              uuid_chassis \<leftarrow> local_system_id f,
              ch1 \<leftarrow> chassis_array f, PCH_UUID ch1 = uuid_chassis,
              ch2 \<leftarrow> chassis_array f, PCH_UUID ch2 = uuid_chassis,
              PCH_State ch1 + PCH_State ch2 \<noteq> 0,
              p \<leftarrow> ovsport_chassis f,
              OVSPORT_State p \<ge> 0 \<and> OVSPORT_IFACE_ID p \<noteq> TP_FLOW_TUNNEL_NAME]
      else [(OVSPORT_NAME p, LSR_State route + s2 + OVSPORT_State p + PCH_State ch).
              route \<leftarrow> lroute_array f,
              ((lrp_uuid, ofport), s2) \<leftarrow> next_hop_ovsport f, LSR_OUTPORT route = Some lrp_uuid,
              p \<leftarrow> ovsport_chassis f, OVSPORT_OFPORT p = ofport \<and> OVSPORT_State p \<ge> 0,
              ch \<leftarrow> chassis_array f,
              PCH_UUID ch = OVSPORT_IFACE_ID p \<and> OVSPORT_IFACE_ID p \<noteq> TP_FLOW_TUNNEL_NAME])"

end
