(* ===== verification/Lrp_Rules.thy ===== *)
theory Lrp_Rules imports Ecmp_Rules begin

text \<open>
  The pipeline of a logical router: \<open>init_lrp_ingress_clause\<close> of \<open>lcp/lrp_ingress.py\<close> and
  \<open>init_lrp_egress_clause\<close> of \<open>lcp/lrp_egress.py\<close>.
\<close>

section \<open>Ingress (lrp_ingress.py)\<close>

definition live_lsp_link_lrp :: "options \<Rightarrow> facts \<Rightarrow> (lsp_row \<times> ls_row \<times> lrp_row \<times> lr_row) rel" where
  "live_lsp_link_lrp options f =
     (if GATEWAY options
      then [((lsp, ls, lrp, lr), s). ((lsp, ls, lrp, lr), s) \<leftarrow> lsp_link_lrp f, LR_CHASSIS_UUID lr = None] @
           [((lsp, ls, lrp, lr), s1 + PCH_State ch).
              ((lsp, ls, lrp, lr), s1) \<leftarrow> lsp_link_lrp f,
              ch \<leftarrow> chassis_array f, LR_CHASSIS_UUID lr = Some (PCH_UUID ch)]
      else lsp_link_lrp f)"

definition lrp_icmp_response :: "options \<Rightarrow> facts \<Rightarrow> lr_row rule" where [rule_defs]:
  "lrp_icmp_response options f =
     [((lr, 3,
        icmp_proto @ icmp_type (PInt 8) @ icmp_code (PInt 0) @ ip_dst (PStr (LRP_IP lrp)),
        exchange (NXM_Reg IP_SRC_IDX) (NXM_Reg IP_DST_IDX) @
        load (PInt 0xff) (NXM_Reg IP_TTL_IDX) @
        load (PInt 0) (NXM_Reg ICMP_TYPE_IDX) @
        move (NXM_Reg REG_SRC_IDX) (NXM_Reg REG_DST_IDX) @
        load (PInt 1) (NXM_Reg_bit REG_FLAG_IDX FLAG_LOOPBACK_BIT_IDX) @
        resubmit_next), s).
        ((lsp, ls, lrp, lr), s) \<leftarrow> live_lsp_link_lrp options f, s \<noteq> 0]"

definition lrp_pkt_response :: "options \<Rightarrow> facts \<Rightarrow> lr_row rule" where [rule_defs]:
  "lrp_pkt_response options f =
     lrp_icmp_response options f @ per_lr f (0, ip_proto, resubmit_next)"

definition lrp_drop_unexpect :: "facts \<Rightarrow> lr_row rule" where [rule_defs]:
  "lrp_drop_unexpect f =
     per_lr f (2, ip_proto @ ip_ttl (PInt 1), resubmit_table TABLE_DROP_PACKET) @
     per_lr f (0, ip_proto, dec_ttl @ resubmit_next)"

text \<open>
  What a route does: the outgoing port, the source MAC, the address of the next hop in \<open>reg2\<close> and that
  of the port in \<open>reg3\<close>.
\<close>

definition lrp_auto_route :: "facts \<Rightarrow> lr_row rule" where [rule_defs]:
  "lrp_auto_route f =
     [((lr, cal_priority (LRP_PREFIX lrp) 0 (LRP_ILK_IDX lrp),
        ip_proto @ ip_dst_prefix (PStr (LRP_IP lrp)) (pnat (LRP_PREFIX lrp)),
        load (pnat (LRP_PORTID lrp)) (NXM_Reg REG_DST_IDX) @
        load (pnat (LRP_MAC_INT lrp)) (NXM_Reg ETH_SRC_IDX) @
        move (NXM_Reg IP_DST_IDX) (NXM_Reg REG2_IDX) @
        load (pnat (LRP_IP_INT lrp)) (NXM_Reg REG3_IDX) @
        resubmit_next), s).
        ((lsp, ls, lrp, lr), s) \<leftarrow> lsp_link_lrp f, s \<noteq> 0]"

definition next_live_hop_lr :: "facts \<Rightarrow> (lrp_row \<times> lr_row \<times> lr_row) rel" where
  "next_live_hop_lr f =
     [((lrp, lr, lr_next), s).
        ((lrp, lr, lr_next), s) \<leftarrow> next_hop_lr f, LR_CHASSIS_UUID lr_next = None] @
     [((lrp, lr, lr_next), s1 + s2).
        ((lrp, lr, lr_next), s1) \<leftarrow> next_hop_lr f, LR_CHASSIS_UUID lr_next \<noteq> None,
        ((ch, ofport), s2) \<leftarrow> remote_chassis f, LR_CHASSIS_UUID lr_next = Some (PCH_UUID ch)] @
     [((lrp, lr, lr_next), s).
        ((lrp, lr, lr_next), s) \<leftarrow> next_hop_lr f,
        uuid_chassis \<leftarrow> local_system_id f, LR_CHASSIS_UUID lr_next = Some uuid_chassis]"

definition static_route_patch :: "facts \<Rightarrow> (lsr_row \<times> lr_row \<times> lrp_row) rel" where [rule_defs]:
  "static_route_patch f =
     [((route, lr, lrp), LSR_State route + s2 + s3).
        uuid_chassis \<leftarrow> local_system_id f,
        route \<leftarrow> lroute_array f,
        ((lsp, ls, lrp, lr), s2) \<leftarrow> lsp_link_lrp f,
        LR_UUID lr = LSR_LR_UUID route \<and> LR_CHASSIS_UUID lr = Some uuid_chassis \<and>
        LSR_OUTPORT route = Some (LRP_UUID lrp),
        ((lsp1, ls1), s3) \<leftarrow> local_patchport f, ls1 = ls,
        LSR_State route + s2 + s3 \<noteq> 0]"

definition static_route_hop :: "facts \<Rightarrow> (lsr_row \<times> lr_row \<times> lrp_row) rel" where [rule_defs]:
  "static_route_hop f =
     [((route, lr, lrp), LSR_State route + s2).
        route \<leftarrow> lroute_array f,
        ((lrp, lr, lr_next), s2) \<leftarrow> next_live_hop_lr f, LSR_OUTPORT route = Some (LRP_UUID lrp),
        LSR_State route + s2 \<noteq> 0]"

definition static_route_changed :: "options \<Rightarrow> facts \<Rightarrow> (lsr_row \<times> lr_row \<times> lrp_row) rel" where [rule_defs]:
  "static_route_changed options f =
     (if GATEWAY options then static_route_patch f else []) @ static_route_hop f"

definition lrp_static_route :: "options \<Rightarrow> facts \<Rightarrow> lr_row rule" where [rule_defs]:
  "lrp_static_route options f =
     [((lr, cal_priority (LSR_PREFIX route) 1 (LSR_ILK_IDX route),
        ip_proto @ ip_dst_prefix (PStr (LSR_IP route)) (pnat (LSR_PREFIX route)),
        load (pnat (LRP_PORTID lrp)) (NXM_Reg REG_DST_IDX) @
        load (pnat (LRP_MAC_INT lrp)) (NXM_Reg ETH_SRC_IDX) @
        load (pnat (LSR_NEXT_HOP_INT route)) (NXM_Reg REG2_IDX) @
        load (pnat (LRP_IP_INT lrp)) (NXM_Reg REG3_IDX) @
        resubmit_next), s).
        ((route, lr, lrp), s) \<leftarrow> static_route_changed options f]"

definition lrp_ip_route :: "options \<Rightarrow> facts \<Rightarrow> lr_row rule" where [rule_defs]:
  "lrp_ip_route options f =
     lrp_auto_route f @
     lrp_static_route options f @
     (if \<not> GATEWAY options then ecmp_static_route f else []) @
     per_lr f (0, match_none, resubmit_table TABLE_DROP_PACKET)"

definition lrp_ecmp_judge :: "options \<Rightarrow> facts \<Rightarrow> lr_row rule" where [rule_defs]:
  "lrp_ecmp_judge options f = ecmp_static_route_judge options f"

section \<open>Egress (lrp_egress.py)\<close>

text \<open>What can be reached through a router port: the ports of the switch at its other end.\<close>

definition opposite_side_link :: "facts \<Rightarrow> (lr_row \<times> lrp_row \<times> lsp_row) rel" where [rule_defs]:
  "opposite_side_link f =
     [((lr, lrp, lsp), s1 + LSP_State lsp).
        ((lsp1, ls, lrp, lr), s1) \<leftarrow> lsp_link_lrp f,
        lsp \<leftarrow> exchange_lsp_array f, LSP_LS_UUID lsp = LS_UUID ls,
        s1 + LSP_State lsp \<noteq> 0]"

definition opposite_side_regular :: "facts \<Rightarrow> (lr_row \<times> lrp_row \<times> lsp_row) rel" where [rule_defs]:
  "opposite_side_regular f =
     [((lr, lrp, lsp),
       LRP_State lrp + LSP_State lsp1 + LS_State ls + s4 + LSP_State lsp).
        lrp \<leftarrow> lrp_array f,
        lsp1 \<leftarrow> exchange_lsp_array f,
        LRP_PEER lrp = Some (LSP_UUID lsp1) \<and> LSP_PEER lsp1 = Some (LRP_UUID lrp),
        ls \<leftarrow> ls_array f, LS_UUID ls = LSP_LS_UUID lsp1,
        (lr, s4) \<leftarrow> lr_array f, LR_UUID lr = LRP_LR_UUID lrp,
        lsp \<leftarrow> lsp_array f, LSP_LS_UUID lsp = LS_UUID ls \<and> LSP_CHASSIS_UUID lsp \<noteq> None,
        LRP_State lrp + LSP_State lsp1 + LS_State ls + s4 + LSP_State lsp \<noteq> 0]"

definition opposite_side_changed_lsp :: "facts \<Rightarrow> (lr_row \<times> lrp_row \<times> lsp_row) rel" where [rule_defs]:
  "opposite_side_changed_lsp f = opposite_side_link f @ opposite_side_regular f"

definition opposite_side_has_patch_port :: "facts \<Rightarrow> (lr_row \<times> lrp_row) rel" where
  "opposite_side_has_patch_port f =
     [((lr, lrp), s1 + s2).
        (((lsp, ofport), ls), s1) \<leftarrow> local_patchport f,
        ((lsp1, ls1, lrp, lr), s2) \<leftarrow> lsp_link_lrp f, ls1 = ls]"

definition lrp_update_eth_dst :: "facts \<Rightarrow> lr_row rule" where [rule_defs]:
  "lrp_update_eth_dst f =
     [((lr, 3,
        ip_proto @ reg_dst (pnat (LRP_PORTID lrp)) @ reg_2 (pnat (LSP_IP_INT lsp)),
        load (pnat (LSP_MAC_INT lsp)) (NXM_Reg ETH_DST_IDX) @ resubmit_next), s).
        ((lr, lrp, lsp), s) \<leftarrow> opposite_side_changed_lsp f] @
     per_lr f (2, match_none,
       mod_dl_dst (PStr ''00:00:00:00:00:00'') @ resubmit_table TABLE_SEARCH_IP_MAC @ resubmit_next)"

definition lrp_ask_arp :: "facts \<Rightarrow> lr_row rule" where [rule_defs]:
  "lrp_ask_arp f =
     [((lr, 3,
        ip_proto @ eth_dst (PStr ''00:00:00:00:00:00'') @ reg_dst (pnat (LRP_PORTID lrp)),
        generate_arp TABLE_LRP_EGRESS_FORWARD_PACKET @ resubmit_table TABLE_DROP_PACKET), s).
        ((lr, lrp), s) \<leftarrow> opposite_side_has_patch_port f, s \<noteq> 0]"

text \<open>The four combinations of the options \<open>ONDEMAND\<close> and \<open>ENABLE_REDIRECT\<close>.\<close>

definition lrp_unknow_fallback :: "options \<Rightarrow> facts \<Rightarrow> lr_row rule" where [rule_defs]:
  "lrp_unknow_fallback options f =
     (if ONDEMAND options
      then (if ENABLE_REDIRECT options
            then per_lr f (2, ip_proto @ eth_dst (PStr ''00:00:00:00:00:00''),
                   load (PInt 1) (NXM_Reg_bit REG_FLAG_IDX FLAG_REDIRECT_BIT_IDX) @
                   upload_unknow_dst @
                   resubmit_table TABLE_EMBED2_METADATA @
                   resubmit_table TABLE_REDIRECT_CHASSIS)
            else per_lr f (2, ip_proto @ eth_dst (PStr ''00:00:00:00:00:00''), upload_unknow_dst))
      else (if ENABLE_REDIRECT options
            then per_lr f (2, ip_proto @ eth_dst (PStr ''00:00:00:00:00:00''),
                   load (PInt 1) (NXM_Reg_bit REG_FLAG_IDX FLAG_REDIRECT_BIT_IDX) @
                   resubmit_table TABLE_EMBED2_METADATA @
                   resubmit_table TABLE_REDIRECT_CHASSIS)
            else []))"

definition lrp_handle_unknow_dst_pkt :: "options \<Rightarrow> facts \<Rightarrow> lr_row rule" where [rule_defs]:
  "lrp_handle_unknow_dst_pkt options f =
     per_lr f (4, reg_flag (pnat FLAG_REDIRECT) @ eth_dst (PStr ''00:00:00:00:00:00''),
       resubmit_table TABLE_DROP_PACKET) @
     lrp_ask_arp f @
     lrp_unknow_fallback options f @
     per_lr f (1, eth_dst (PStr ''00:00:00:00:00:00''), resubmit_table TABLE_DROP_PACKET) @
     per_lr f (0, match_none, resubmit_next)"

definition lrp_forward_packet :: "facts \<Rightarrow> lr_row rule" where [rule_defs]:
  "lrp_forward_packet f =
     [((lr, 3, reg_dst (pnat (LRP_PORTID lrp)),
        load (LS_ID ls) (NXM_Reg REG_DP_IDX) @
        load (pnat (LSP_PORTID lsp)) (NXM_Reg REG_SRC_IDX) @
        resubmit_next), s).
        ((lsp, ls, lrp, lr), s) \<leftarrow> lsp_link_lrp f, s \<noteq> 0]"

end
