(* ===== verification/Lflow.thy ===== *)
theory Lflow imports Lrp_Rules begin

text \<open>
  \<open>lcp/lflow.py\<close>: the flows of all tables. \<open>build_flows\<close> is evaluated in every round and its flows
  carry a state; \<open>build_const_flows\<close> is installed once. A flow of a logical switch or router
  matches its datapath id first, and every action but the one in \<open>TABLE_ARP_FEEDBACK_CONSTRUCT\<close>
  ends in a note that names the rule.
\<close>

type_synonym lflow = "nat \<times> int \<times> match_exp list \<times> act list"

abbreviation note_of :: "string \<Rightarrow> act list" where
  "note_of n \<equiv> note_act (note_idx n)"

section \<open>The shapes of a rule\<close>

definition ls_flow :: "nat \<Rightarrow> string \<Rightarrow> ls_row \<times> flow \<Rightarrow> lflow" where [rule_defs]:
  "ls_flow t n x = (case x of (ls, p, m, a) \<Rightarrow> (t, p, datapath (LS_ID ls) @ m, a @ note_of n))"

definition lr_flow :: "nat \<Rightarrow> string \<Rightarrow> lr_row \<times> flow \<Rightarrow> lflow" where [rule_defs]:
  "lr_flow t n x = (case x of (lr, p, m, a) \<Rightarrow> (t, p, datapath (PInt (LR_ID lr)) @ m, a @ note_of n))"

definition plain_flow :: "nat \<Rightarrow> string \<Rightarrow> unit \<times> flow \<Rightarrow> lflow" where [rule_defs]:
  "plain_flow t n x = (case x of (_, p, m, a) \<Rightarrow> (t, p, m, a @ note_of n))"

text \<open>
  The trace copy of the last rule of a switch pipeline: ten higher, and only for traced packets.
\<close>

definition ls_trace_flow :: "nat \<Rightarrow> string \<Rightarrow> match_exp list \<times> act list \<Rightarrow> ls_row \<times> flow \<Rightarrow> lflow" where [rule_defs]:
  "ls_trace_flow t n tr x =
     (case (tr, x) of ((m1, a1), (ls, p, m, a)) \<Rightarrow>
        (t, p + 10, m1 @ m @ datapath (LS_ID ls), a1 @ a @ note_of n))"

definition emit :: "('a \<Rightarrow> lflow) \<Rightarrow> 'a rel \<Rightarrow> lflow rel" where [rule_defs]:
  "emit h r = map (\<lambda>(x, s). (h x, s)) r"

section \<open>build_flows\<close>

definition build_flows_phy :: "facts \<Rightarrow> lflow rel" where [rule_defs]:
  "build_flows_phy f =
     emit (plain_flow TABLE_CONVERT_PHY_LOGICAL ''convert_phy_logical'') (convert_phy_logical f) @
     emit (\<lambda>(ls, p, m, a). (TABLE_ARP_FEEDBACK_CONSTRUCT, p, datapath (LS_ID ls) @ m, a))
       (arp_feedback_construct f)"

definition build_flows_mid :: "facts \<Rightarrow> lflow rel" where [rule_defs]:
  "build_flows_mid f =
     emit (plain_flow TABLE_REDIRECT_CHASSIS ''redirect_other_chassis'') (redirect_other_chassis f)"

definition build_flows_lsp :: "options \<Rightarrow> facts \<Rightarrow> lflow rel" where [rule_defs]:
  "build_flows_lsp options f =
     emit (ls_flow TABLE_LSP_INGRESS_UNTUNNEL ''lsp_untunnel_deliver'')
       (lsp_untunnel_deliver options f) @
     emit (ls_flow TABLE_LSP_INGRESS_OUTPUT_DST_PORT ''lsp_output_dst_port'')
       (lsp_output_dst_port options f) @
     emit (ls_flow TABLE_LSP_INGRESS_LOOKUP_DST_PORT ''lsp_lookup_dst_port'')
       (lsp_lookup_dst_port options f) @
     emit (ls_flow TABLE_LSP_INGRESS_ARP_CONTROLLER ''lsp_arp_controller'')
       (lsp_arp_controller options f) @
     emit (ls_flow TABLE_LSP_INGRESS_ARP_RESPONSE ''lsp_arp_response'') (lsp_arp_response f) @
     emit (ls_flow TABLE_LSP_EGRESS_JUDGE_LOOPBACK ''lsp_judge_loopback'') (lsp_judge_loopback f) @
     emit (ls_flow TABLE_LSP_EGRESS_FORWARD_PACKET ''lsp_forward_packet'') (lsp_forward_packet f) @
     emit (ls_flow TABLE_LSP_EGRESS_PUSHOUT ''lsp_pushout_packet'') (lsp_pushout_packet f) @
     concat (map (\<lambda>tr. emit (ls_trace_flow TABLE_LSP_TRACE_INGRESS_OUT
         ''pkt_trace_lsp_output_dst_port'' tr) (lsp_output_dst_port options f))
       trace_pipeline_module) @
     concat (map (\<lambda>tr. emit (ls_trace_flow TABLE_LSP_TRACE_EGRESS_OUT
         ''pkt_trace_lsp_pushout_packet'' tr) (lsp_pushout_packet f))
       trace_pipeline_module)"

definition build_flows_lrp :: "options \<Rightarrow> facts \<Rightarrow> lflow rel" where [rule_defs]:
  "build_flows_lrp options f =
     emit (lr_flow TABLE_LRP_INGRESS_PKT_RESPONSE ''lrp_pkt_response'') (lrp_pkt_response options f) @
     emit (lr_flow TABLE_LRP_INGRESS_DROP_UNEXPECT ''lrp_drop_unexpect'') (lrp_drop_unexpect f) @
     emit (lr_flow TABLE_LRP_INGRESS_UNSNAT_STAGE1 ''lrp_ip_unsnat_stage1'') (lunsnat_xlate_stage1 f) @
     emit (lr_flow TABLE_LRP_INGRESS_UNSNAT_STAGE2 ''lrp_ip_unsnat_stage2'') (lunsnat_xlate_stage2 f) @
     emit (lr_flow TABLE_LRP_INGRESS_DNAT_STAGE1 ''lrp_ip_dnat_stage1'') (ldnat_xlate_stage1 f) @
     emit (lr_flow TABLE_LRP_INGRESS_DNAT_STAGE2 ''lrp_ip_dnat_stage2'') (ldnat_xlate_stage2 f) @
     emit (lr_flow TABLE_LRP_INGRESS_IP_ROUTE ''lrp_ip_route'') (lrp_ip_route options f) @
     emit (lr_flow TABLE_LRP_INGRESS_ECMP ''lrp_ecmp_judge'') (lrp_ecmp_judge options f) @
     emit (lr_flow TABLE_LRP_EGRESS_UPDATE_ETH_DST ''lrp_update_eth_dst'') (lrp_update_eth_dst f) @
     emit (lr_flow TABLE_LRP_EGRESS_UNDNAT_STAGE1 ''lrp_ip_undnat_stage1'') (lundnat_xlate_stage1 f) @
     emit (lr_flow TABLE_LRP_EGRESS_UNDNAT_STAGE2 ''lrp_ip_undnat_stage2'') (lundnat_xlate_stage2 f) @
     emit (lr_flow TABLE_LRP_EGRESS_SNAT_STAGE1 ''lrp_ip_snat_stage1'') (lsnat_xlate_stage1 f) @
     emit (lr_flow TABLE_LRP_EGRESS_SNAT_STAGE2 ''lrp_ip_snat_stage2'') (lsnat_xlate_stage2 f) @
     emit (lr_flow TABLE_LRP_EGRESS_HANDLE_UNK_PKT ''lrp_handle_unknow_dst_pkt'')
       (lrp_handle_unknow_dst_pkt options f) @
     emit (lr_flow TABLE_LRP_EGRESS_FORWARD_PACKET ''lrp_forward_packet'') (lrp_forward_packet f)"

definition build_flows :: "options \<Rightarrow> facts \<Rightarrow> lflow rel" where
  "build_flows options f =
     build_flows_lrp options f @ build_flows_lsp options f @ build_flows_phy f @ build_flows_mid f"

section \<open>build_const_flows\<close>

definition const_flow :: "nat \<Rightarrow> string \<Rightarrow> flow \<Rightarrow> lflow" where [rule_defs]:
  "const_flow t n x = (case x of (p, m, a) \<Rightarrow> (t, p, m, a @ note_of n))"

definition build_flows_drop :: "lflow list" where [rule_defs]:
  "build_flows_drop =
     (TABLE_DROP_PACKET, 0, match_none, drop_act) #
     map (\<lambda>(m, a). (TABLE_DROP_PACKET, 1, m, a @ note_of ''pkt_trace_drop_packet'')) trace_pipeline_module"

text \<open>The trace copy of \<open>output_pkt_by_reg\<close> refreshes the flags in the tunnel metadata.\<close>

definition build_const_phy :: "lflow list" where [rule_defs]:
  "build_const_phy =
     map (const_flow TABLE_OUTPUT_PKT ''output_pkt'') output_pkt_by_reg @
     [(TABLE_OUTPUT_PKT, p + 10, m1 @ m2,
       a1 @ move (NXM_Reg_bits REG_FLAG_IDX 0 31) (NXM_Reg_bits TUN_METADATA0_IDX 32 63) @ a3 @
       note_of ''pkt_trace_output_pkt'').
       (m1, a1) \<leftarrow> trace_pipeline_module, (p, m2, a3) \<leftarrow> output_pkt_by_reg]"

definition build_const_mid :: "lflow list" where [rule_defs]:
  "build_const_mid =
     map (const_flow TABLE_EMBED2_METADATA ''embed_metadata'') embed_metadata @
     map (const_flow TABLE_EXTRACT_METADATA ''extract_metadata'') extract_metadata @
     map (const_flow TABLE_PIPELINE_FORWARD ''pipeline_forward'') pipeline_forward @
     map (const_flow TABLE_REDIRECT_CHASSIS ''redirect_other_chassis'') redirect_other_chassis_const"

definition build_const_lsp :: "lflow list" where [rule_defs]:
  "build_const_lsp =
     map (\<lambda>(p, m, a). (TABLE_LSP_TRACE_INGRESS_IN, p, m,
       load (PInt 0) (NXM_Reg REG_DST_IDX) @ a @ note_of ''pkt_trace_lsp_ingress_in''))
       trace_pipeline_start @
     map (const_flow TABLE_LSP_TRACE_EGRESS_IN ''pkt_trace_lsp_egress_in'') trace_pipeline_start @
     [(TABLE_LSP_INGRESS_PROCESS_EXT_LOGIC, 0, match_none,
       resubmit_table TABLE_THIRD_PARTY @ note_of ''process_third_logic''),
      (TABLE_THIRD_PARTY, 0, match_none,
       resubmit_table (TABLE_LSP_INGRESS_PROCESS_EXT_LOGIC + 1) @ note_of ''process_third_logic'')]"

definition build_const_lrp :: "lflow list" where [rule_defs]:
  "build_const_lrp =
     map (\<lambda>(p, m, a). (TABLE_LRP_TRACE_INGRESS_IN, p, m,
       load (PInt 0) (NXM_Reg REG_DST_IDX) @ a @ note_of ''pkt_trace_lrp_ingress_in''))
       trace_pipeline_start @
     map (\<lambda>(p, m, a). (TABLE_LRP_TRACE_INGRESS_OUT, p, m,
       a @ resubmit_table TABLE_LRP_EGRESS_FIRST @ note_of ''pkt_trace_lrp_ingress_out''))
       trace_pipeline_end @
     map (const_flow TABLE_LRP_TRACE_EGRESS_IN ''pkt_trace_lrp_egress_in'') trace_pipeline_start @
     map (\<lambda>(p, m, a). (TABLE_LRP_TRACE_EGRESS_OUT, p, m,
       a @ resubmit_table TABLE_LSP_INGRESS_FIRST @ note_of ''pkt_trace_lrp_egress_out''))
       trace_pipeline_end"

definition build_const_flows :: "lflow list" where
  "build_const_flows =
     build_flows_drop @ build_const_phy @ build_const_lsp @ build_const_lrp @ build_const_mid"

end
