(* ===== verification/Tracks.thy ===== *)
theory Tracks imports Exact Lflow begin

text \<open>
  Every flow rule but the two that aggregate ports into a bundle tracks the change: the flows it derives
  with a positive sum are the ones to install, those with a negative multiple of \<open>State_DEL\<close> the ones
  to remove, and all others are derived before and after alike.
\<close>

section \<open>Clauses over one relation\<close>

abbreviation er_ls_fl :: "ls_row \<times> flow \<Rightarrow> ls_row \<times> flow" where
  "er_ls_fl \<equiv> \<lambda>(ls, fl). (er_ls ls, fl)"

abbreviation er_lr_fl :: "lr_row \<times> flow \<Rightarrow> lr_row \<times> flow" where
  "er_lr_fl \<equiv> \<lambda>(lr, fl). (er_lr lr, fl)"

text \<open>
  \<open>c\<close> is the body of a clause with the guard \<open>State != 0\<close>: at most one tuple, with the state passed on.
\<close>

lemma tracks_clause:
  assumes ex: "exact_all n er1 R1 f"
    and c: "\<And>x s. c (x, s) = (if s = 0 then [] else map (\<lambda>(z, t). (z, s)) (take 1 (c (x, 1))))"
    and er: "\<And>x. c (er1 x, 1) = map (\<lambda>(z, t). (er z, t)) (c (x, 1))"
  shows "tracks er (\<lambda>g. concat (map c (R1 g))) f"
proof (rule tracks_filter [OF ex, where P = "\<lambda>x. c (x, 1) \<noteq> []" and h = "\<lambda>x. fst (hd (c (x, 1)))"])
  fix g z u
  have "(z, u) \<in> set (c (x, s)) \<longleftrightarrow> s \<noteq> 0 \<and> c (x, 1) \<noteq> [] \<and> z = fst (hd (c (x, 1))) \<and> u = s" for x s
    by (subst c) (cases "c (x, 1)"; auto)
  then show "(z, u) \<in> set (concat (map c (R1 g))) \<longleftrightarrow>
      (\<exists>x s. (x, s) \<in> set (R1 g) \<and> s \<noteq> 0 \<and> c (x, 1) \<noteq> [] \<and> z = fst (hd (c (x, 1))) \<and> u = s)"
    by (simp add: bex_pair)
next
  fix x
  show "c (er1 x, 1) \<noteq> [] \<longleftrightarrow> c (x, 1) \<noteq> []" by (simp add: er)
  show "er (fst (hd (c (x, 1)))) = fst (hd (c (er1 x, 1)))" if "c (x, 1) \<noteq> []"
    using that by (cases "c (x, 1)") (auto simp: er split: prod.splits)
qed

text \<open>A clause that joins two relations and keeps what has changed.\<close>

lemma tracks_bind:
  assumes "exact_all n er1 R1 f" and "exact_all m er2 R2 f" and "n + m < 100"
    and R: "\<And>g z u. (z, u) \<in> set (R g) \<longleftrightarrow>
      (\<exists>x s y t. (x, s) \<in> set (R1 g) \<and> (y, t) \<in> set (R2 g) \<and> P (local_system_id g) x y \<and>
         s + t \<noteq> 0 \<and> z = h x y \<and> u = s + t)"
    and "\<And>l x y. P l (er1 x) (er2 y) \<longleftrightarrow> P l x y" and "\<And>x y. er (h x y) = h (er1 x) (er2 y)"
  shows "tracks er R f"
proof -
  define J where "J = (\<lambda>g. [(h x y, s + t). (x, s) \<leftarrow> R1 g, (y, t) \<leftarrow> R2 g, P (local_system_id g) x y])"
  have mem: "(z, u) \<in> set (J g) \<longleftrightarrow>
      (\<exists>x s y t. (x, s) \<in> set (R1 g) \<and> (y, t) \<in> set (R2 g) \<and> P (local_system_id g) x y \<and>
         z = h x y \<and> u = s + t)" for g z u
    by (simp add: J_def bex_pair)
  have "exact_all (n + m) er J f" 
    using assms(1-3) mem assms(5,6)
    by (rule exact_all_bind [where R = J and ?R1.0 = R1 and ?R2.0 = R2 and P = P and h = h and er = er
          and ?er1.0 = er1 and ?er2.0 = er2])
  moreover have "(z, u) \<in> set (R g) \<longleftrightarrow> (z, u) \<in> set (J g) \<and> u \<noteq> 0" for g z u
    unfolding R mem by auto
  ultimately show ?thesis
    by (intro tracks_filter [where P = "\<lambda>x. True" and h = "\<lambda>x. x"]) auto
qed

text \<open>A clause that only forwards the tuples of one that tracks.\<close>

lemma tracks_forward:
  assumes R1: "tracks er R1 f" and c: "\<And>x s. c (x, s) = (fst (c (x, 1)), s)"
    and er: "\<And>x. er' (fst (c (x, 1))) = fst (c (er x, 1))"
  shows "tracks er' (\<lambda>g. map c (R1 g)) f"
proof -
  define h where "h = (\<lambda>x. fst (c (x, 1)))"
  have "c (x, s) = (h x, s)" for x s unfolding h_def by (rule c)
  then have "c = (\<lambda>(x, s). (h x, s))" by (simp add: fun_eq_iff)
  moreover have "er' (h x) = h (er x)" for x using er by (simp add: h_def)
  ultimately show ?thesis using tracks_map [OF R1, of er' h] by simp
qed

lemma tracks_cong: "tracks er R f \<Longrightarrow> (\<And>g. set (R' g) = set (R g)) \<Longrightarrow> tracks er R' f"
  by (simp add: tracks_def dom_rel_def added_def gone_def)

lemma tracks_per_ls: "states_ok f \<Longrightarrow> tracks er_ls_fl (\<lambda>f. per_ls f fl) f"
  by (rule tracks_filter [OF exact_ls, where P = "\<lambda>x. True" and h = "\<lambda>ls. (ls, fl)"])
    (auto simp: per_ls_def)

lemma tracks_per_lr: "states_ok f \<Longrightarrow> tracks er_lr_fl (\<lambda>f. per_lr f fl) f"
  unfolding per_lr_def by (rule tracks_clause [OF exact_lr]) auto

section \<open>Physical ports and ARP\<close>

lemma tracks_convert_phy: "states_ok f \<Longrightarrow> tracks id convert_phy_logical f"
  unfolding convert_phy_logical_def [abs_def]
  by (rule tracks_append; (rule tracks_clause [OF exact_remote_chassis] tracks_clause [OF exact_bond];
        auto))

abbreviation er_arp :: "string \<times> nat \<times> string \<times> nat \<times> ls_row \<Rightarrow> string \<times> nat \<times> string \<times> nat \<times> ls_row" where
  "er_arp \<equiv> \<lambda>(ip, ip_int, mac, mac_int, ls). (ip, ip_int, mac, mac_int, er_ls ls)"

lemma tracks_arp_ip_mac: "states_ok f \<Longrightarrow> rows_apart f \<Longrightarrow> tracks er_arp arp_ip_mac f"
  unfolding arp_ip_mac_def [abs_def]
proof (rule tracks_append, goal_cases)
  case 1
  then show ?case by (intro tracks_clause [OF exact_active_lsp]) auto
next
  case 2
  show ?case
    by (rule tracks_filter [OF exact_nat_link [OF 2], where P = "\<lambda>x. True"
          and h = "\<lambda>(lnat, lsp, ls). (LNAT_XLATE_IP lnat, LNAT_XLATE_IP_INT lnat, LNAT_XLATE_MAC lnat,
            LNAT_XLATE_MAC_INT lnat, ls)"]) (fastforce simp: mem_nat_link bex_pair)+
qed

lemma tracks_arp_feedback:
  "states_ok f \<Longrightarrow> rows_apart f \<Longrightarrow> tracks er_ls_fl arp_feedback_construct f"
  unfolding arp_feedback_construct_def [abs_def]
  by (rule tracks_forward [OF tracks_arp_ip_mac]) auto

section \<open>Switches\<close>

lemma tracks_untunnel: "states_ok f \<Longrightarrow> tracks er_ls_fl (lsp_untunnel_deliver options) f"
proof -
  assume ok: "states_ok f"
  define link where "link = (\<lambda>f. [((ls, lrp), LS_State ls + s2). ls \<leftarrow> ls_array f,
        ((lsp, ls1, lrp, lr), s2) \<leftarrow> lsp_link_lrp f])"
  have "exact_all (1 + 5) (\<lambda>(ls, lrp). (er_ls ls, er_lrp lrp)) link f"
    unfolding link_def
    by (rule exact_all_bind [OF exact_ls [OF ok] exact_link [OF ok], where P = "\<lambda>l x y. True"
          and h = "\<lambda>ls (lsp, ls1, lrp, lr). (ls, lrp)"]) (fastforce simp: bex_pair image_iff)+
  then have changed: "tracks (\<lambda>(ls, lrp). (er_ls ls, er_lrp lrp)) lsp_lrp_ls_changed f"
    by (rule tracks_filter [where P = "\<lambda>x. True" and h = "\<lambda>x. x"])
      (fastforce simp: link_def lsp_lrp_ls_changed_def bex_pair image_iff)+
  show ?thesis
  proof (cases "ENABLE_UNTUNNEL options"; cases "dsrport options")
    fix d assume on: "ENABLE_UNTUNNEL options" "dsrport options = Some d"
    obtain mac ofport where d: "d = (mac, ofport)" by (cases d)
    have en: "ENABLE_UNTUNNEL options = True" using on(1) by simp
    show ?thesis
      unfolding lsp_untunnel_deliver_def [abs_def] en on(2) d option.case prod.case bool.case
      by (intro tracks_append tracks_per_ls ok tracks_forward [OF changed]) auto
  qed (simp_all add: lsp_untunnel_deliver_def [abs_def] tracks_per_ls ok)
qed

lemma tracks_lookup_nat: "states_ok f \<Longrightarrow> rows_apart f \<Longrightarrow> tracks er_ls_fl lsp_lookup_nat f"
  by (rule tracks_filter [OF exact_nat_link, where P = "\<lambda>x. True"
        and h = "\<lambda>(lnat, lsp, ls). (ls, 5, eth_dst (PStr (LNAT_XLATE_MAC lnat)),
          load (pnat (LSP_PORTID lsp)) (NXM_Reg REG_DST_IDX) @ resubmit_next)"])
    (fastforce simp: lsp_lookup_nat_def mem_nat_link bex_pair)+

lemma tracks_lookup_local: "states_ok f \<Longrightarrow> tracks er_ls_fl lsp_lookup_local f"
  unfolding lsp_lookup_local_def [abs_def] by (rule tracks_clause [OF exact_local_lsp]) auto

lemma tracks_remote_changed: "states_ok f \<Longrightarrow> tracks er_remote lsp_remote_lsp_changed f"
  unfolding lsp_remote_lsp_changed_def [abs_def] by (rule tracks_clause [OF exact_remote_lsp]) auto

lemma tracks_lookup_remote: "states_ok f \<Longrightarrow> tracks er_ls_fl (lsp_lookup_remote options) f"
  unfolding lsp_lookup_remote_def [abs_def]
  by (intro tracks_if; rule tracks_forward [OF tracks_remote_changed]; auto)

lemma tracks_lookup_patchport: "states_ok f \<Longrightarrow> tracks er_ls_fl lsp_lookup_patchport f"
  unfolding lsp_lookup_patchport_def [abs_def] by (rule tracks_clause [OF exact_patchport]) auto

lemma tracks_forward_local: "states_ok f \<Longrightarrow> tracks er_ls_fl lsp_forward_local f"
  unfolding lsp_forward_local_def [abs_def] by (rule tracks_clause [OF exact_bond]) auto

lemma tracks_forward_router: "states_ok f \<Longrightarrow> tracks er_ls_fl lsp_forward_router f"
  unfolding lsp_forward_router_def [abs_def] by (rule tracks_clause [OF exact_link]) auto

lemma tracks_ls_rules:
  assumes "states_ok f" and "rows_apart f"
  shows "tracks er_ls_fl (lsp_arp_controller options) f"
    and "tracks er_ls_fl lsp_arp_response f"
    and "tracks er_ls_fl (lsp_lookup_dst_port options) f"
    and "tracks er_ls_fl (lsp_output_dst_port options) f"
    and "tracks er_ls_fl lsp_judge_loopback f"
    and "tracks er_ls_fl lsp_forward_packet f"
    and "tracks er_ls_fl lsp_pushout_packet f"
  unfolding lsp_arp_controller_def [abs_def] lsp_arp_response_def [abs_def]
    lsp_lookup_dst_port_def [abs_def] lsp_output_dst_port_def [abs_def]
    lsp_judge_loopback_def [abs_def] lsp_forward_packet_def [abs_def] lsp_pushout_packet_def [abs_def]
  by (intro tracks_append tracks_if tracks_Nil tracks_per_ls tracks_lookup_nat tracks_lookup_local
      tracks_lookup_remote tracks_lookup_patchport tracks_forward_local tracks_forward_router assms)+

section \<open>Routers\<close>

lemma exact_lnat_of: "states_ok f \<Longrightarrow> exact_all 3 (\<lambda>(lnat, lr). (er_lnat lnat, er_lr lr)) (lnat_of ty) f"
  by (rule exact_all_map [OF exact_lnat_data, where P = "\<lambda>l (lnat, lr). LNAT_TYPE lnat = Some ty" and h = "\<lambda>x. x"])
    (fastforce simp: lnat_of_def bex_pair)+

lemma tracks_lnat_pair:
  "states_ok f \<Longrightarrow> tracks (\<lambda>(lnat, lr). (er_lnat lnat, er_lr lr)) lnat_pair f"
  by (rule tracks_bind [OF exact_lnat_of exact_lnat_of, where P = "\<lambda>l (lnat1, lr) (lnat2, lr1).
        LR_UUID lr1 = LR_UUID lr \<and> LNAT_XLATE_IP lnat1 = LNAT_XLATE_IP lnat2 \<and>
        LNAT_IP lnat1 = LNAT_IP lnat2 \<and> LNAT_PREFIX lnat1 = 32 \<and> LNAT_PREFIX lnat2 = 32"
        and h = "\<lambda>x y. x"]) (fastforce simp: lnat_pair_def bex_pair)+

lemma tracks_nat_rules:
  assumes "states_ok f"
  shows "tracks er_lr_fl lunsnat_xlate_stage1 f" and "tracks er_lr_fl lunsnat_xlate_stage2 f"
    and "tracks er_lr_fl ldnat_xlate_stage1 f" and "tracks er_lr_fl ldnat_xlate_stage2 f"
    and "tracks er_lr_fl lundnat_xlate_stage1 f" and "tracks er_lr_fl lundnat_xlate_stage2 f"
    and "tracks er_lr_fl lsnat_xlate_stage1 f" and "tracks er_lr_fl lsnat_xlate_stage2 f"
  unfolding lunsnat_xlate_stage1_def [abs_def] lunsnat_xlate_stage2_def [abs_def]
    ldnat_xlate_stage1_def [abs_def] ldnat_xlate_stage2_def [abs_def]
    lundnat_xlate_stage1_def [abs_def] lundnat_xlate_stage2_def [abs_def]
    lsnat_xlate_stage1_def [abs_def] lsnat_xlate_stage2_def [abs_def]
  by (intro tracks_append tracks_per_lr assms;
      (rule tracks_forward [OF tracks_lnat_pair] tracks_clause [OF exact_lnat_of]; auto simp: assms))+

lemma exact_live_link: "states_ok f \<Longrightarrow> exact_all 6 er_link (live_lsp_link_lrp options) f"
proof (cases "GATEWAY options")
  assume ok: "states_ok f"
  {
    case True
    have "exact_all 5 er_link (\<lambda>f. [((lsp, ls, lrp, lr), s). ((lsp, ls, lrp, lr), s) \<leftarrow> lsp_link_lrp f,
        LR_CHASSIS_UUID lr = None]) f"
      by (rule exact_all_map [OF exact_link [OF ok], where P = "\<lambda>l (lsp, ls, lrp, lr). LR_CHASSIS_UUID lr = None"
            and h = "\<lambda>x. x"]) (fastforce simp: bex_pair)+
    note A = this
    have B: "exact_all (5 + 1) er_link (\<lambda>f. [((lsp, ls, lrp, lr), s1 + PCH_State ch).
        ((lsp, ls, lrp, lr), s1) \<leftarrow> lsp_link_lrp f,
        ch \<leftarrow> chassis_array f, LR_CHASSIS_UUID lr = Some (PCH_UUID ch)]) f"
      by (rule exact_all_bind [OF exact_link [OF ok] exact_pch [OF ok],
            where P = "\<lambda>l (lsp, ls, lrp, lr) ch. LR_CHASSIS_UUID lr = Some (PCH_UUID ch)"
            and h = "\<lambda>x y. x"]) (fastforce simp: bex_pair)+
    show ?thesis
      unfolding live_lsp_link_lrp_def [abs_def] using exact_all_append [OF A B, of 6] True by simp
  next
    case False
    then show ?thesis
      unfolding live_lsp_link_lrp_def [abs_def]
      using exact_all_un [OF exact_link [OF ok] exact_link [OF ok], of 6 lsp_link_lrp] by simp
  }
qed

lemma tracks_link_rules:
  assumes "states_ok f"
  shows "tracks er_lr_fl (lrp_icmp_response options) f" and "tracks er_lr_fl lrp_auto_route f"
    and "tracks er_lr_fl lrp_forward_packet f"
  unfolding lrp_icmp_response_def [abs_def] lrp_auto_route_def [abs_def] lrp_forward_packet_def [abs_def]
  by ((rule tracks_clause [OF exact_live_link] tracks_clause [OF exact_link]; auto simp: assms))+

subsection \<open>Static routes\<close>

abbreviation er_hop :: "lrp_row \<times> lr_row \<times> lr_row \<Rightarrow> lrp_row \<times> lr_row \<times> lr_row" where
  "er_hop \<equiv> \<lambda>(lrp, lr, lr'). (er_lrp lrp, er_lr lr, er_lr lr')"

abbreviation er_route :: "lsr_row \<times> lr_row \<times> lrp_row \<Rightarrow> lsr_row \<times> lr_row \<times> lrp_row" where
  "er_route \<equiv> \<lambda>(route, lr, lrp). (er_lsr route, er_lr lr, er_lrp lrp)"

lemma exact_next_live_hop: "states_ok f \<Longrightarrow> exact_all 10 er_hop next_live_hop_lr f"
  unfolding next_live_hop_lr_def [abs_def]
proof (rule exact_all_append [where n = 8 and m = 10, OF _ exact_all_append [where n = "8 + 2" and m = 8]])
  assume ok: "states_ok f"
  show "exact_all 8 er_hop (\<lambda>f. [((lrp, lr, lr_next), s).
        ((lrp, lr, lr_next), s) \<leftarrow> next_hop_lr f, LR_CHASSIS_UUID lr_next = None]) f"
    by (rule exact_all_map [OF exact_next_hop_lr [OF ok],
          where P = "\<lambda>l (lrp, lr, lr'). LR_CHASSIS_UUID lr' = None" and h = "\<lambda>x. x"]) (fastforce simp: bex_pair)+
  show "exact_all (8 + 2) er_hop (\<lambda>f. [((lrp, lr, lr_next), s1 + s2).
        ((lrp, lr, lr_next), s1) \<leftarrow> next_hop_lr f, LR_CHASSIS_UUID lr_next \<noteq> None,
        ((ch, ofport), s2) \<leftarrow> remote_chassis f, LR_CHASSIS_UUID lr_next = Some (PCH_UUID ch)]) f"
    by (rule exact_all_bind [OF exact_next_hop_lr [OF ok] exact_remote_chassis [OF ok],
          where P = "\<lambda>l (lrp, lr, lr') (ch, n). LR_CHASSIS_UUID lr' = Some (PCH_UUID ch)"
          and h = "\<lambda>x y. x"]) (fastforce simp: bex_pair)+
  show "exact_all 8 er_hop (\<lambda>f. [((lrp, lr, lr_next), s).
        ((lrp, lr, lr_next), s) \<leftarrow> next_hop_lr f,
        uuid_chassis \<leftarrow> local_system_id f, LR_CHASSIS_UUID lr_next = Some uuid_chassis]) f"
    by (rule exact_all_map [OF exact_next_hop_lr [OF ok],
          where P = "\<lambda>l (lrp, lr, lr'). \<exists>u \<in> set l. LR_CHASSIS_UUID lr' = Some u" and h = "\<lambda>x. x"])
      (auto simp: bex_pair split: prod.splits)
qed simp_all

lemma tracks_static_route_hop: "states_ok f \<Longrightarrow> tracks er_route static_route_hop f"
  by (rule tracks_bind [OF exact_lsr exact_next_live_hop,
        where P = "\<lambda>l route (lrp, lr, lr'). LSR_OUTPORT route = Some (LRP_UUID lrp)"
        and h = "\<lambda>route (lrp, lr, lr'). (route, lr, lrp)"])
    (fastforce simp: static_route_hop_def bex_pair)+

lemma mem_patch_link:
  "((lr, lrp), s) \<in> set (patch_link f) \<longleftrightarrow>
     (\<exists>p ls s1 s2 lsp. ((p, ls), s1) \<in> set (local_patchport f) \<and>
        ((lsp, ls, lrp, lr), s2) \<in> set (lsp_link_lrp f) \<and> s = s1 + s2)"
  by (fastforce simp: patch_link_def bex_pair)

lemma tracks_static_route_patch:
  assumes "states_ok f" and "rows_apart f"
  shows "tracks er_route static_route_patch f"
proof (rule tracks_bind [OF exact_lsr exact_patch_link, OF assms(1) assms,
      where P = "\<lambda>l route (lr, lrp). LR_UUID lr = LSR_LR_UUID route \<and>
        (\<exists>u \<in> set l. LR_CHASSIS_UUID lr = Some u) \<and> LSR_OUTPORT route = Some (LRP_UUID lrp)"
      and h = "\<lambda>route (lr, lrp). (route, lr, lrp)"], goal_cases)
  case (2 g z u)
  have reorder: "a + (b + c) = a + c + (b :: int)" for a b c by simp
  show ?case
    by (cases z) (fastforce simp: static_route_patch_def bex_pair mem_patch_link reorder)
qed auto

lemma tracks_static_route:
  assumes "states_ok f" and "rows_apart f"
  shows "tracks er_lr_fl (lrp_static_route options) f"
proof -
  have "tracks er_route (static_route_changed options) f"
    unfolding static_route_changed_def [abs_def]
    by (intro tracks_append tracks_if tracks_Nil tracks_static_route_hop tracks_static_route_patch assms)
  then show ?thesis
    unfolding lrp_static_route_def [abs_def] by (rule tracks_forward) auto
qed

subsection \<open>The chosen port of an equal-cost route\<close>

definition route_port :: "facts \<Rightarrow> (lsr_row \<times> int) rel" where
  "route_port f =
     [((route, ofport), LSR_State route + s2). route \<leftarrow> lroute_array f,
        ((lrp_uuid, ofport), s2) \<leftarrow> next_hop_ovsport f, LSR_OUTPORT route = Some lrp_uuid]"

definition route_port_lr :: "facts \<Rightarrow> (lsr_row \<times> int \<times> lr_row) rel" where
  "route_port_lr f =
     [((route, ofport, lr), s + s3). ((route, ofport), s) \<leftarrow> route_port f,
        (lr, s3) \<leftarrow> lr_array f, LR_UUID lr = LSR_LR_UUID route]"

lemma exact_route_port:
  "states_ok f \<Longrightarrow> exact_all (1 + 9) (\<lambda>(route, ofport). (er_lsr route, ofport)) route_port f"
  by (rule exact_all_bind [OF exact_lsr exact_next_hop_ovsport,
        where P = "\<lambda>l route (lrp, ofport). LSR_OUTPORT route = Some lrp"
        and h = "\<lambda>route (lrp, ofport). (route, ofport)"]) (fastforce simp: route_port_def bex_pair)+

lemma exact_route_port_lr:
  "states_ok f \<Longrightarrow> exact_all (1 + 9 + 2) (\<lambda>(route, ofport, lr). (er_lsr route, ofport, er_lr lr)) route_port_lr f"
  by (rule exact_all_bind [OF exact_route_port exact_lr,
        where P = "\<lambda>l (route, ofport) lr. LR_UUID lr = LSR_LR_UUID route"
        and h = "\<lambda>(route, ofport) lr. (route, ofport, lr)"]) (fastforce simp: route_port_lr_def bex_pair)+

lemma mem_route_port_lr:
  "((route, ofport, lr), s) \<in> set (route_port_lr f) \<longleftrightarrow>
     (\<exists>lrp s2 s3. route \<in> set (lroute_array f) \<and> ((lrp, ofport), s2) \<in> set (next_hop_ovsport f) \<and>
        LSR_OUTPORT route = Some lrp \<and> (lr, s3) \<in> set (lr_array f) \<and>
        LR_UUID lr = LSR_LR_UUID route \<and> s = LSR_State route + s2 + s3)"
  by (fastforce simp: route_port_lr_def route_port_def bex_pair)

definition judge_flow :: "lsr_row \<times> int \<times> lr_row \<Rightarrow> lrp_row \<Rightarrow> lr_row \<times> flow" where
  "judge_flow x lrp =
     (case x of (route, ofport, lr) \<Rightarrow>
        (lr, cal_priority (LSR_PREFIX route) 2 0,
         reg_outport (PInt ofport) @ ip_proto @
         ip_dst_prefix (PStr (LSR_IP route)) (pnat (LSR_PREFIX route)),
         load (pnat (LRP_PORTID lrp)) (NXM_Reg REG_DST_IDX) @
         load (pnat (LRP_MAC_INT lrp)) (NXM_Reg ETH_SRC_IDX) @
         load (pnat (LSR_NEXT_HOP_INT route)) (NXM_Reg REG2_IDX) @
         load (pnat (LRP_IP_INT lrp)) (NXM_Reg REG3_IDX) @
         resubmit_next))"

lemma ecmp_judge_route_eq:
  "(z, u) \<in> set (ecmp_judge_route g) \<longleftrightarrow>
     (\<exists>x s lrp t. (x, s) \<in> set (route_port_lr g) \<and> (lrp, t) \<in> set (row_rel LRP_State lrp_array g) \<and>
        (case x of (route, ofport, lr) \<Rightarrow>
           LSR_OUTPORT route = Some (LRP_UUID lrp) \<and> LRP_LR_UUID lrp = LSR_LR_UUID route) \<and>
        s + t \<noteq> 0 \<and> z = judge_flow x lrp \<and> u = s + t)"
  by (fastforce simp: ecmp_judge_route_def judge_flow_def bex_pair mem_route_port_lr)

lemma tracks_ecmp_judge: "states_ok f \<Longrightarrow> tracks er_lr_fl (lrp_ecmp_judge options) f"
proof -
  assume ok: "states_ok f"
  have "tracks er_lr_fl ecmp_judge_route f"
    by (rule tracks_bind [OF exact_route_port_lr exact_lrp,
          where P = "\<lambda>l (route, ofport, lr) lrp.
             LSR_OUTPORT route = Some (LRP_UUID lrp) \<and> LRP_LR_UUID lrp = LSR_LR_UUID route"
          and h = judge_flow])
      (auto simp: ok ecmp_judge_route_eq judge_flow_def)
  then show ?thesis
    unfolding lrp_ecmp_judge_def [abs_def] ecmp_static_route_judge_def [abs_def]
    by (intro tracks_append tracks_if tracks_Nil tracks_per_lr ok)
qed

subsection \<open>Egress\<close>

abbreviation er_side :: "lr_row \<times> lrp_row \<times> lsp_row \<Rightarrow> lr_row \<times> lrp_row \<times> lsp_row" where
  "er_side \<equiv> \<lambda>(lr, lrp, lsp). (er_lr lr, er_lrp lrp, er_lsp lsp)"

lemma tracks_opposite_link: "states_ok f \<Longrightarrow> tracks er_side opposite_side_link f"
  by (rule tracks_bind [OF exact_link exact_xlsp,
        where P = "\<lambda>l (lsp1, ls, lrp, lr) lsp. LSP_LS_UUID lsp = LS_UUID ls"
        and h = "\<lambda>(lsp1, ls, lrp, lr) lsp. (lr, lrp, lsp)"])
    (fastforce simp: opposite_side_link_def bex_pair)+

lemma opposite_side_regular_eq:
  "(z, u) \<in> set (opposite_side_regular g) \<longleftrightarrow>
     (\<exists>x s lsp t. (x, s) \<in> set (lsp_link_lrp g) \<and> (lsp, t) \<in> set (row_rel LSP_State lsp_array g) \<and>
        (case x of (lsp1, ls, lrp, lr) \<Rightarrow> LSP_LS_UUID lsp = LS_UUID ls \<and> LSP_CHASSIS_UUID lsp \<noteq> None) \<and>
        s + t \<noteq> 0 \<and> z = (case x of (lsp1, ls, lrp, lr) \<Rightarrow> (lr, lrp, lsp)) \<and> u = s + t)"
  by (fastforce simp: opposite_side_regular_def lsp_link_lrp_def bex_pair)

lemma tracks_opposite_regular: "states_ok f \<Longrightarrow> tracks er_side opposite_side_regular f"
  by (rule tracks_bind [OF exact_link exact_lsp,
        where P = "\<lambda>l (lsp1, ls, lrp, lr) lsp. LSP_LS_UUID lsp = LS_UUID ls \<and> LSP_CHASSIS_UUID lsp \<noteq> None"
        and h = "\<lambda>(lsp1, ls, lrp, lr) lsp. (lr, lrp, lsp)"])
    (auto simp: opposite_side_regular_eq)

lemma tracks_ask_arp:
  "states_ok f \<Longrightarrow> rows_apart f \<Longrightarrow> tracks er_lr_fl lrp_ask_arp f"
proof -
  assume a: "states_ok f" "rows_apart f"
  have "opposite_side_has_patch_port = patch_link"
    by (simp add: fun_eq_iff opposite_side_has_patch_port_def patch_link_def)
  then show ?thesis
    unfolding lrp_ask_arp_def [abs_def] by (simp only:) (rule tracks_clause [OF exact_patch_link [OF a]]; auto)
qed

lemma tracks_lr_rules:
  assumes "states_ok f" and "rows_apart f"
  shows "tracks er_lr_fl (lrp_pkt_response options) f"
    and "tracks er_lr_fl lrp_drop_unexpect f"
    and "tracks er_lr_fl lrp_update_eth_dst f"
    and "tracks er_lr_fl (lrp_handle_unknow_dst_pkt options) f"
proof -
  have side: "tracks er_side opposite_side_changed_lsp f"
    unfolding opposite_side_changed_lsp_def [abs_def]
    by (intro tracks_append tracks_opposite_link tracks_opposite_regular assms)
  show "tracks er_lr_fl (lrp_pkt_response options) f" and "tracks er_lr_fl lrp_drop_unexpect f"
    and "tracks er_lr_fl (lrp_handle_unknow_dst_pkt options) f"
    unfolding lrp_pkt_response_def [abs_def] lrp_drop_unexpect_def [abs_def]
      lrp_handle_unknow_dst_pkt_def [abs_def] lrp_unknow_fallback_def [abs_def]
    by (intro tracks_append tracks_if tracks_Nil tracks_per_lr tracks_link_rules tracks_ask_arp assms)+
  show "tracks er_lr_fl lrp_update_eth_dst f"
    unfolding lrp_update_eth_dst_def [abs_def]
    by (intro tracks_append tracks_per_lr assms; (rule tracks_forward [OF side]; auto)?)
qed

end
