(* ===== verification/Flow_Delta.thy ===== *)
theory Flow_Delta imports Tracks begin

text \<open>
  The flows of \<open>build_flows\<close> as a tracking relation. The two rules that aggregate ports into the
  slaves of a \<open>bundle_load\<close> are set aside: they delete and add again whole bundles, so what is
  true of a single flow is not true of theirs.
\<close>

definition aggregated :: "lflow \<Rightarrow> bool" where
  "aggregated fl =
     (case fl of (t, p, m, a) \<Rightarrow>
        (t = TABLE_LRP_INGRESS_IP_ROUTE \<or> t = TABLE_REDIRECT_CHASSIS) \<and>
        list_ex (\<lambda>act. fst act = Action_bundle_load) a)"

abbreviation plain :: "lflow rel \<Rightarrow> lflow rel" where
  "plain \<equiv> filter (\<lambda>(fl, s). \<not> aggregated fl)"

lemma tracks_plain: "tracks id R f \<Longrightarrow> tracks id (\<lambda>f. plain (R f)) f"
proof -
  have "dom_rel (plain r) = dom_rel r \<inter> {fl. \<not> aggregated fl}"
    "added (plain r) = added r \<inter> {fl. \<not> aggregated fl}"
    "gone (plain r) = gone r \<inter> {fl. \<not> aggregated fl}" for r
    by (auto simp: dom_rel_def added_def gone_def)
  then show "tracks id R f \<Longrightarrow> tracks id (\<lambda>f. plain (R f)) f"
    unfolding tracks_def by auto
qed

lemma tracks_emit:
  assumes "tracks er R f" and "\<And>x. h (er x) = h x"
  shows "tracks id (\<lambda>f. emit h (R f)) f"
  unfolding emit_def using assms by (intro tracks_map [OF assms(1)]) simp

lemma tracks_concat:
  "(\<And>x. x \<in> set xs \<Longrightarrow> tracks er (R x) f) \<Longrightarrow> tracks er (\<lambda>f. concat (map (\<lambda>x. R x f) xs)) f"
  by (induction xs) (simp_all add: tracks_Nil tracks_append)

lemma tracks_plain_emit:
  "tracks er R f \<Longrightarrow> (\<And>x. h (er x) = h x) \<Longrightarrow> tracks id (\<lambda>f. plain (emit h (R f))) f"
  by (intro tracks_plain tracks_emit)

lemma tracks_ls_emit:
  assumes "tracks er_ls_fl R f"
  shows "tracks id (\<lambda>f. emit (ls_flow t n) (R f)) f"
    and "tracks id (\<lambda>f. emit (ls_trace_flow t n tr) (R f)) f"
  by (rule tracks_emit [where er = er_ls_fl, OF assms];
      simp add: ls_flow_def ls_trace_flow_def split: prod.splits)+

lemma tracks_lr_emit:
  assumes "tracks er_lr_fl R f"
  shows "tracks id (\<lambda>f. plain (emit (lr_flow t n) (R f))) f"
  by (rule tracks_plain_emit [where er = er_lr_fl, OF assms]) (simp add: lr_flow_def split: prod.splits)

lemma emit_append: "emit h (xs @ ys) = emit h xs @ emit h ys"
  by (simp add: emit_def)

lemma plain_empty: "\<forall>(fl, s) \<in> set r. aggregated fl \<Longrightarrow> plain r = []"
  by (auto simp: filter_empty_conv)

lemma ecmp_aggregated: "plain (emit (lr_flow TABLE_LRP_INGRESS_IP_ROUTE n) (ecmp_static_route f)) = []"
  by (rule plain_empty)
    (auto simp: emit_def lr_flow_def ecmp_static_route_def aggregated_def bundle_load_def)

lemma redirect_aggregated:
  "plain (emit (plain_flow TABLE_REDIRECT_CHASSIS n) (redirect_other_chassis f)) = []"
  by (rule plain_empty)
    (auto simp: emit_def plain_flow_def redirect_other_chassis_def aggregated_def bundle_load_def)

lemma tracks_lr_flows:
  assumes "states_ok f" and "rows_apart f"
  shows "tracks id (\<lambda>f. plain (build_flows_lrp options f)) f"
proof -
  have route: "tracks id (\<lambda>f. plain (emit (lr_flow TABLE_LRP_INGRESS_IP_ROUTE n) (lrp_ip_route options f))) f" for n
  proof -
    have "plain (emit (lr_flow TABLE_LRP_INGRESS_IP_ROUTE n) (lrp_ip_route options g)) =
        plain (emit (lr_flow TABLE_LRP_INGRESS_IP_ROUTE n) (lrp_auto_route g)) @
        plain (emit (lr_flow TABLE_LRP_INGRESS_IP_ROUTE n) (lrp_static_route options g)) @
        plain (emit (lr_flow TABLE_LRP_INGRESS_IP_ROUTE n)
          (per_lr g (0, match_none, resubmit_table TABLE_DROP_PACKET)))" for g
      using ecmp_aggregated [of n g] by (simp add: lrp_ip_route_def emit_append emit_def)
    then show ?thesis
      by (simp only:) (intro tracks_append tracks_lr_emit tracks_link_rules tracks_static_route tracks_per_lr assms)
  qed
  show ?thesis
    unfolding build_flows_lrp_def filter_append
    by (intro tracks_append route tracks_lr_emit assms tracks_lr_rules tracks_nat_rules tracks_link_rules
        tracks_ecmp_judge)
qed

lemma tracks_ls_flows:
  assumes "states_ok f" and "rows_apart f"
  shows "tracks id (\<lambda>f. plain (build_flows_lsp options f)) f"
proof (rule tracks_plain)
  show "tracks id (build_flows_lsp options) f"
    unfolding build_flows_lsp_def [abs_def]
    by (intro tracks_append tracks_concat tracks_ls_emit tracks_ls_rules tracks_untunnel assms)
qed

text \<open>All flows of a round but the bundles.\<close>

definition plain_flows :: "options \<Rightarrow> facts \<Rightarrow> lflow rel" where
  "plain_flows options f = plain (build_flows options f)"

lemma tracks_flows:
  assumes "states_ok f" and "rows_apart f"
  shows "tracks id (plain_flows options) f"
proof -
  have "tracks id (\<lambda>f. plain (build_flows_phy f)) f"
    unfolding build_flows_phy_def filter_append
    by (intro tracks_append tracks_plain_emit [OF tracks_convert_phy]
        tracks_plain_emit [where er = er_ls_fl, OF tracks_arp_feedback] assms) auto
  moreover have "tracks id (\<lambda>f. plain (build_flows_mid f)) f"
    by (simp add: build_flows_mid_def redirect_aggregated tracks_Nil)
  ultimately show ?thesis
    unfolding plain_flows_def [abs_def] build_flows_def filter_append
    by (intro tracks_append tracks_lr_flows tracks_ls_flows assms)
qed

end
