(* ===== verification/Mono.thy ===== *)
theory Mono imports Flow_Delta begin

text \<open>
  Without the bundles the flow rules have no negation: more rows derive more tuples.
\<close>

section \<open>Databases with more rows\<close>

definition sub_facts :: "facts \<Rightarrow> facts \<Rightarrow> bool" where
  "sub_facts f g \<longleftrightarrow>
     set (lsp_array f) \<subseteq> set (lsp_array g) \<and>
     set (exchange_lsp_array f) \<subseteq> set (exchange_lsp_array g) \<and>
     set (lrp_array f) \<subseteq> set (lrp_array g) \<and> set (u_lr_array f) \<subseteq> set (u_lr_array g) \<and>
     set (lroute_array f) \<subseteq> set (lroute_array g) \<and> set (lnat_array f) \<subseteq> set (lnat_array g) \<and>
     set (ls_array f) \<subseteq> set (ls_array g) \<and> set (chassis_array f) \<subseteq> set (chassis_array g) \<and>
     set (ovsport f) \<subseteq> set (ovsport g) \<and> set (ovsport_chassis f) \<subseteq> set (ovsport_chassis g) \<and>
     set (local_system_id f) \<subseteq> set (local_system_id g)"

named_theorems more_rows "subset rules for the shapes a clause is made of"

lemma mono_base [more_rows]:
  assumes "sub_facts f g"
  shows "set (lsp_array f) \<subseteq> set (lsp_array g)" "set (exchange_lsp_array f) \<subseteq> set (exchange_lsp_array g)"
    "set (lrp_array f) \<subseteq> set (lrp_array g)" "set (u_lr_array f) \<subseteq> set (u_lr_array g)"
    "set (lroute_array f) \<subseteq> set (lroute_array g)" "set (lnat_array f) \<subseteq> set (lnat_array g)"
    "set (ls_array f) \<subseteq> set (ls_array g)" "set (chassis_array f) \<subseteq> set (chassis_array g)"
    "set (ovsport f) \<subseteq> set (ovsport g)" "set (ovsport_chassis f) \<subseteq> set (ovsport_chassis g)"
    "set (local_system_id f) \<subseteq> set (local_system_id g)"
  using assms by (simp_all add: sub_facts_def)

lemma mono_bind [more_rows]:
  "set xs \<subseteq> set ys \<Longrightarrow> (\<And>x. set (F x) \<subseteq> set (G x)) \<Longrightarrow>
     set (concat (map F xs)) \<subseteq> set (concat (map G ys))"
  by auto

lemma mono_map [more_rows]: "set xs \<subseteq> set ys \<Longrightarrow> set (map h xs) \<subseteq> set (map h ys)"
  by auto

lemma mono_append [more_rows]:
  "set xs \<subseteq> set ys \<Longrightarrow> set xs' \<subseteq> set ys' \<Longrightarrow> set (xs @ xs') \<subseteq> set (ys @ ys')"
  by auto

lemma mono_if [more_rows]:
  "set xs \<subseteq> set ys \<Longrightarrow> set xs' \<subseteq> set ys' \<Longrightarrow> set (if b then xs else xs') \<subseteq> set (if b then ys else ys')"
  by auto

lemma mono_filter [more_rows]: "set xs \<subseteq> set ys \<Longrightarrow> set (filter P xs) \<subseteq> set (filter P ys)"
  by auto

lemma mono_refl [more_rows]: "set xs \<subseteq> set xs"
  by simp

section \<open>Rules\<close>

lemma mono_views [more_rows]:
  assumes s: "sub_facts f g"
  shows mono_patchport: "set (local_patchport f) \<subseteq> set (local_patchport g)"
    and mono_lr: "set (lr_array f) \<subseteq> set (lr_array g)"
    and mono_chassis: "set (remote_chassis f) \<subseteq> set (remote_chassis g)"
  unfolding local_patchport_def lr_array_def remote_chassis_def split_beta
  by (intro more_rows s)+

lemma mono_views2 [more_rows]:
  assumes s: "sub_facts f g"
  shows "set (local_bond_lsp f) \<subseteq> set (local_bond_lsp g)"
    and "set (lsp_link_lrp f) \<subseteq> set (lsp_link_lrp g)"
    and "set (next_hop_lr f) \<subseteq> set (next_hop_lr g)"
    and "set (lnat_data f) \<subseteq> set (lnat_data g)"
  unfolding local_bond_lsp_def lsp_link_lrp_def next_hop_lr_def lnat_data_def split_beta
  by (intro more_rows s)+

lemma mono_views3 [more_rows]:
  assumes s: "sub_facts f g"
  shows "set (local_lsp f) \<subseteq> set (local_lsp g)"
    and "set (active_lsp f) \<subseteq> set (active_lsp g)"
    and "set (remote_lsp f) \<subseteq> set (remote_lsp g)"
    and "set (next_hop_ovsport f) \<subseteq> set (next_hop_ovsport g)"
    and "set (lnat_of ty f) \<subseteq> set (lnat_of ty g)"
    and "set (live_lsp_link_lrp options f) \<subseteq> set (live_lsp_link_lrp options g)"
    and "set (next_live_hop_lr f) \<subseteq> set (next_live_hop_lr g)"
    and "set (per_ls f fl) \<subseteq> set (per_ls g fl)"
    and "set (per_lr f fl) \<subseteq> set (per_lr g fl)"
    and "set (opposite_side_has_patch_port f) \<subseteq> set (opposite_side_has_patch_port g)"
  unfolding local_lsp_def active_lsp_def remote_lsp_def next_hop_ovsport_def lnat_of_def
    live_lsp_link_lrp_def next_live_hop_lr_def per_ls_def per_lr_def opposite_side_has_patch_port_def split_beta
  by (intro more_rows s)+

lemma mono_views4 [more_rows]:
  assumes s: "sub_facts f g"
  shows "set (lnat_pair f) \<subseteq> set (lnat_pair g)"
    and "set (lsp_lrp_ls_changed f) \<subseteq> set (lsp_lrp_ls_changed g)"
    and "set (lsp_remote_lsp_changed f) \<subseteq> set (lsp_remote_lsp_changed g)"
    and "set (static_route_changed options f) \<subseteq> set (static_route_changed options g)"
    and "set (opposite_side_changed_lsp f) \<subseteq> set (opposite_side_changed_lsp g)"
    and "set (arp_ip_mac f) \<subseteq> set (arp_ip_mac g)"
  unfolding lnat_pair_def lsp_lrp_ls_changed_def lsp_remote_lsp_changed_def static_route_changed_def
    static_route_patch_def static_route_hop_def opposite_side_changed_lsp_def opposite_side_link_def
    opposite_side_regular_def arp_ip_mac_def split_beta
  by (intro more_rows s)+

lemma mono_ls_rules [more_rows]:
  assumes s: "sub_facts f g"
  shows "set (lsp_arp_controller options f) \<subseteq> set (lsp_arp_controller options g)"
    and "set (lsp_arp_response f) \<subseteq> set (lsp_arp_response g)"
    and "set (lsp_untunnel_deliver options f) \<subseteq> set (lsp_untunnel_deliver options g)"
    and "set (lsp_lookup_dst_port options f) \<subseteq> set (lsp_lookup_dst_port options g)"
    and "set (lsp_output_dst_port options f) \<subseteq> set (lsp_output_dst_port options g)"
    and "set (lsp_judge_loopback f) \<subseteq> set (lsp_judge_loopback g)"
    and "set (lsp_forward_packet f) \<subseteq> set (lsp_forward_packet g)"
    and "set (lsp_pushout_packet f) \<subseteq> set (lsp_pushout_packet g)"
proof -
  show "set (lsp_untunnel_deliver options f) \<subseteq> set (lsp_untunnel_deliver options g)"
  proof (cases "ENABLE_UNTUNNEL options"; cases "dsrport options")
    fix d assume on: "ENABLE_UNTUNNEL options" "dsrport options = Some d"
    obtain mac ofport where d: "d = (mac, ofport)" by (cases d)
    have en: "ENABLE_UNTUNNEL options = True" using on(1) by simp
    show ?thesis
      unfolding lsp_untunnel_deliver_def en on(2) d option.case prod.case bool.case
      unfolding split_beta by (intro more_rows s)
  qed (simp_all add: lsp_untunnel_deliver_def mono_views3(8) [OF s])
qed (unfold lsp_arp_controller_def lsp_arp_response_def lsp_lookup_dst_port_def lsp_lookup_nat_def
    lsp_lookup_local_def lsp_lookup_remote_def lsp_lookup_patchport_def lsp_output_dst_port_def
    lsp_judge_loopback_def lsp_forward_packet_def lsp_forward_local_def lsp_forward_router_def
    lsp_pushout_packet_def split_beta; intro more_rows s)+

lemma mono_lr_rules [more_rows]:
  assumes s: "sub_facts f g"
  shows "set (lrp_pkt_response options f) \<subseteq> set (lrp_pkt_response options g)"
    and "set (lrp_drop_unexpect f) \<subseteq> set (lrp_drop_unexpect g)"
    and "set (lrp_auto_route f) \<subseteq> set (lrp_auto_route g)"
    and "set (lrp_static_route options f) \<subseteq> set (lrp_static_route options g)"
    and "set (lrp_ecmp_judge options f) \<subseteq> set (lrp_ecmp_judge options g)"
    and "set (lrp_update_eth_dst f) \<subseteq> set (lrp_update_eth_dst g)"
    and "set (lrp_handle_unknow_dst_pkt options f) \<subseteq> set (lrp_handle_unknow_dst_pkt options g)"
    and "set (lrp_forward_packet f) \<subseteq> set (lrp_forward_packet g)"
  unfolding lrp_pkt_response_def lrp_icmp_response_def lrp_drop_unexpect_def lrp_auto_route_def
    lrp_static_route_def lrp_ecmp_judge_def ecmp_static_route_judge_def ecmp_judge_route_def
    lrp_update_eth_dst_def lrp_handle_unknow_dst_pkt_def lrp_ask_arp_def lrp_unknow_fallback_def
    lrp_forward_packet_def split_beta
  by (intro more_rows s)+

lemma mono_nat_rules [more_rows]:
  assumes s: "sub_facts f g"
  shows "set (lunsnat_xlate_stage1 f) \<subseteq> set (lunsnat_xlate_stage1 g)"
    and "set (lunsnat_xlate_stage2 f) \<subseteq> set (lunsnat_xlate_stage2 g)"
    and "set (ldnat_xlate_stage1 f) \<subseteq> set (ldnat_xlate_stage1 g)"
    and "set (ldnat_xlate_stage2 f) \<subseteq> set (ldnat_xlate_stage2 g)"
    and "set (lundnat_xlate_stage1 f) \<subseteq> set (lundnat_xlate_stage1 g)"
    and "set (lundnat_xlate_stage2 f) \<subseteq> set (lundnat_xlate_stage2 g)"
    and "set (lsnat_xlate_stage1 f) \<subseteq> set (lsnat_xlate_stage1 g)"
    and "set (lsnat_xlate_stage2 f) \<subseteq> set (lsnat_xlate_stage2 g)"
  unfolding lunsnat_xlate_stage1_def lunsnat_xlate_stage2_def ldnat_xlate_stage1_def
    ldnat_xlate_stage2_def lundnat_xlate_stage1_def lundnat_xlate_stage2_def lsnat_xlate_stage1_def
    lsnat_xlate_stage2_def split_beta
  by (intro more_rows s)+

section \<open>All flows but the bundles\<close>

lemma plain_flows_mono:
  assumes s: "sub_facts f g"
  shows "dom_rel (plain_flows options f) \<subseteq> dom_rel (plain_flows options g)"
proof -
  have e1: "set r \<subseteq> set r' \<Longrightarrow> set (emit h r) \<subseteq> set (emit h r')" for h and r r' :: "(unit \<times> flow) rel"
    unfolding emit_def by (rule mono_map)
  have e2: "set r \<subseteq> set r' \<Longrightarrow> set (emit h r) \<subseteq> set (emit h r')" for h and r r' :: "(ls_row \<times> flow) rel"
    unfolding emit_def by (rule mono_map)
  have e3: "set r \<subseteq> set r' \<Longrightarrow> set (emit h r) \<subseteq> set (emit h r')" for h and r r' :: "(lr_row \<times> flow) rel"
    unfolding emit_def by (rule mono_map)
  have route: "set (plain (emit (lr_flow TABLE_LRP_INGRESS_IP_ROUTE n) (lrp_ip_route options f))) \<subseteq>
      set (plain (emit (lr_flow TABLE_LRP_INGRESS_IP_ROUTE n) (lrp_ip_route options g)))" for n
  proof (cases "GATEWAY options")
    case True
    then show ?thesis unfolding lrp_ip_route_def by (simp only: if_False simp_thms append_Nil) (intro more_rows e3 s)
  next
    case False
    then show ?thesis
      unfolding lrp_ip_route_def emit_append filter_append
      by (simp only: if_True simp_thms ecmp_aggregated append_Nil) (intro more_rows e3 s)
  qed
  have "set (convert_phy_logical f) \<subseteq> set (convert_phy_logical g)"
    unfolding convert_phy_logical_def split_beta by (intro more_rows s)
  moreover have "set (arp_feedback_construct f) \<subseteq> set (arp_feedback_construct g)"
    unfolding arp_feedback_construct_def split_beta by (intro more_rows s)
  ultimately have "set (plain_flows options f) \<subseteq> set (plain_flows options g)"
    unfolding plain_flows_def build_flows_def build_flows_lrp_def build_flows_lsp_def build_flows_phy_def
      build_flows_mid_def filter_append redirect_aggregated
    by (intro mono_append route; intro more_rows e1 e2 e3 s)
  then show ?thesis by (auto simp: dom_rel_def)
qed

end
