(* ===== verification/Round.thy ===== *)
theory Round imports Zoo_Inv Mono begin

text \<open>
  One round of the controller, from one sweep to the next: what the zoo operations do to the rows,
  seen from the zoo the round started with. Rows in state \<open>State_NO\<close> were there at the start, rows
  that were there at the start still are, unchanged or in state \<open>State_DEL\<close>, and of two rows that
  differ in their state alone one is new and the other deleted. So the database satisfies what
  \<open>Flow_Delta\<close> asks of it.
\<close>

section \<open>The invariant of a round\<close>

text \<open>The two predicates of switch ports are told apart by the peer.\<close>

definition shops_ok :: "facts \<Rightarrow> bool" where
  "shops_ok f \<longleftrightarrow>
     (\<forall>r \<in> set (lsp_array f). LSP_PEER r = None) \<and>
     (\<forall>r \<in> set (exchange_lsp_array f). LSP_PEER r \<noteq> None)"

lemma shops_ok_fact [simp]:
  "shops_ok f \<Longrightarrow> shops_ok (fact_add b f)" "shops_ok f \<Longrightarrow> shops_ok (fact_del b f)"
  by (cases b; auto simp: shops_ok_def)+

definition facts_since :: "facts \<Rightarrow> facts \<Rightarrow> bool" where
  "facts_since f0 f \<longleftrightarrow> shops_ok f \<and> local_system_id f = local_system_id f0"

lemma facts_since_clause [simp]:
  "facts_since f0 f \<Longrightarrow> facts_since f0 (fact_add b f)"
  "facts_since f0 f \<Longrightarrow> facts_since f0 (add_clause e f)"
  "facts_since f0 f \<Longrightarrow> facts_since f0 (del_clause e f)"
  by (simp_all add: facts_since_def add_clause_def del_clause_def)

text \<open>The entity as it is in the sink.\<close>

definition deleted :: "entity \<Rightarrow> entity" where
  "deleted e = update_dup_data (e\<lparr>state := State_DEL\<rparr>)"

definition since :: "zoo \<Rightarrow> (etype \<Rightarrow> string \<Rightarrow> entity option) \<Rightarrow> entity multiset \<Rightarrow> bool" where
  "since z0 l S \<longleftrightarrow>
     (\<forall>t k e. l t k = Some e \<and> state e = State_NO \<longrightarrow> live z0 t k = Some e) \<and>
     (\<forall>t k e. live z0 t k = Some e \<and> touched e \<longrightarrow> l t k = Some e \<or> deleted e \<in># S) \<and>
     (\<forall>e \<in># S. \<forall>t k e'. ident e = (t, k) \<and> l t k = Some e' \<longrightarrow> state e' = State_ADD)"

definition round_inv :: "zoo \<Rightarrow> zoo \<Rightarrow> bool" where
  "round_inv z0 z \<longleftrightarrow> zoo_inv z \<and> facts_since (db z0) (db z) \<and> since z0 (live z) (sink_mset z)"

definition idle :: "zoo \<Rightarrow> bool" where
  "idle z \<longleftrightarrow>
     (\<forall>t. sink_entities z t = []) \<and>
     (\<forall>t k e. map_of (entity_set z t) k = Some e \<longrightarrow> state e = State_NO)"

lemma idle_sink: "idle z \<Longrightarrow> sink_mset z = {#}"
  by (simp add: idle_def flip: sink_entities_mset)

lemma round_start: "zoo_inv z \<Longrightarrow> shops_ok (db z) \<Longrightarrow> idle z \<Longrightarrow> round_inv z z"
  by (simp add: round_inv_def facts_since_def since_def idle_sink)

section \<open>The operations keep it\<close>

text \<open>A live entity becomes a new one; an entity is stored where there was none.\<close>

lemma since_put:
  assumes "since z0 l S" and "state e = State_ADD"
    and "\<And>e0. l t k = Some e0 \<Longrightarrow> \<not> touched e0"
  shows "since z0 (\<lambda>s k'. if (s, k') = (t, k) then Some e else l s k') S"
  using assms unfolding since_def by (auto; metis)

lemma touch_key_live:
  "live (touch_key t k z) s k' =
     (if (s, k') = (t, k) then map_option (\<lambda>e. fst (touch e (db z))) (live z t k) else live z s k')"
  by (cases "live z t k") (auto simp: touch_key_def put_entity_def update_conv')

lemma touch_key_round:
  assumes r: "round_inv z0 z"
  shows "round_inv z0 (touch_key t k z)"
proof -
  have inv: "zoo_inv (touch_key t k z)" using r by (simp add: round_inv_def touch_key_inv)
  have sink: "sink_mset (touch_key t k z) = sink_mset z"
    by (simp add: touch_key_def put_entity_def split: option.splits)
  show ?thesis
  proof (cases "\<exists>e. live z t k = Some e \<and> \<not> touched e")
    case True
    then obtain e where e: "live z t k = Some e" "\<not> touched e" by blast
    let ?e = "fst (touch e (db z))"
    have "live (touch_key t k z) = (\<lambda>s k'. if (s, k') = (t, k) then Some ?e else live z s k')"
      by (intro ext) (simp add: touch_key_live e)
    moreover have "since z0 \<dots> (sink_mset z)"
      by (rule since_put) (use r e in \<open>auto simp: round_inv_def touch_def Let_def\<close>)
    moreover have "facts_since (db z0) (db (touch_key t k z))"
      using r e by (simp add: round_inv_def touch_key_def put_entity_def touch_def Let_def)
    ultimately show ?thesis using inv sink by (simp add: round_inv_def)
  next
    case False
    then have "live (touch_key t k z) = live z"
      by (intro ext) (cases "live z t k"; auto simp: touch_key_live touch_def)
    moreover have "db (touch_key t k z) = db z"
      using False by (auto simp: touch_key_def put_entity_def touch_def split: option.splits)
    ultimately show ?thesis using r inv sink by (simp add: round_inv_def)
  qed
qed

lemma move_entity2sink_sink:
  assumes "live z t k = Some e"
  shows "sink_mset (move_entity2sink t k z) = add_mset (deleted e) (sink_mset z)"
  using assms
  by (simp add: move_entity2sink_eq mark_fst deleted_def sink_values_append)

lemma move_round:
  assumes r: "round_inv z0 z"
  shows "round_inv z0 (move_entity2sink t k z)"
proof (cases "live z t k")
  case None
  then show ?thesis using r by (simp add: move_entity2sink_none)
next
  case (Some e)
  have ok: "live_ok z" and s: "since z0 (live z) (sink_mset z)"
    using r by (simp_all add: round_inv_def zoo_inv_def)
  have "ident (deleted e) = (t, k)"
    using ok Some by (simp add: live_ok_def live_entity_def deleted_def ident_def)
  then have "since z0 (\<lambda>s k'. if (s, k') = (t, k) then None else live z s k')
      (add_mset (deleted e) (sink_mset z))"
    using s Some unfolding since_def by (auto split: if_splits; metis option.inject)
  moreover have "live (move_entity2sink t k z) = (\<lambda>s k'. if (s, k') = (t, k) then None else live z s k')"
    by (intro ext move_entity2sink_live ok)
  moreover have "facts_since (db z0) (db (move_entity2sink t k z))"
    using r Some by (simp add: round_inv_def move_entity2sink_eq mark_def Let_def)
  ultimately show ?thesis
    using r by (simp add: round_inv_def move_entity2sink_inv move_entity2sink_sink [OF Some])
qed

lemma after_add_round:
  assumes "round_inv z0 z"
  shows "round_inv z0 (after_add env e z)"
proof -
  have "round_inv z0 (fold (\<lambda>(k, lr) z. if P lr then touch_key CHASSIS u z else z) xs z)" for P u xs
    using assms by (induction xs arbitrary: z) (auto simp: touch_key_round)
  then show ?thesis
    using assms
    by (auto simp: after_add_def touch_gateway_by_LR_def touch_gateway_by_chassis_def touch_key_round
        split: body.splits option.splits)
qed

lemma round_cong:
  assumes "round_inv z0 z" and "zoo_inv z'" and "db z' = db z" and "entity_set z' = entity_set z"
    and "entity_sink_set z' = entity_sink_set z"
  shows "round_inv z0 z'"
  using assms by (simp add: round_inv_def)

lemma stored_round:
  assumes r: "round_inv z0 z" and "zoo_inv (stored t e z)" and "live z t k = None"
    and "ident e = (t, k)" and "state e = State_ADD"
  shows "round_inv z0 (stored t e z)"
proof -
  have k: "body_uuid (body e) = k" using assms(4) by (simp add: ident_def)
  have "live (stored t e z) = (\<lambda>s k'. if (s, k') = (t, k) then Some (e\<lparr>populated := True\<rparr>) else live z s k')"
    by (intro ext) (simp add: stored_def k update_conv')
  moreover have "since z0 \<dots> (sink_mset z)"
    by (rule since_put) (use assms in \<open>simp_all add: round_inv_def\<close>)
  ultimately show ?thesis
    using r assms(2) by (simp add: round_inv_def stored_def)
qed

lemma add_entity_round:
  assumes pop: "set_pop_ok env" and r: "round_inv z0 z" and add: "add_entity env p z = Some z'"
  shows "round_inv z0 z'"
proof (cases "existing_is_same p z = Some False \<and> make_entity env (ilk z) p \<noteq> None")
  case False
  then show ?thesis using r add by (auto simp: add_entity_def split: option.splits bool.splits)
next
  case True
  then obtain e g where mk: "make_entity env (ilk z) p = Some (e, g)" by auto
  let ?t = "props_etype p" and ?k = "props_uuid p" and ?z = "z\<lparr>ilk := g\<rparr>"
  have inv: "zoo_inv z" using r by (simp add: round_inv_def)
  have used: "\<forall>e' \<in># all_mset z. \<forall>ki. entity_ilk e' = Some ki \<longrightarrow> registered (ilk z) ki"
    and bound: "ilk_bound (ilk z)" using inv by (simp_all add: zoo_inv_def ilk_ok_def)
  have fresh: "fresh_entity (ilk z) p (e, ilk ?z)"
    using make_entity_fresh [OF pop bound mk] by simp
  have inv0: "zoo_inv ?z"
    using fresh by (intro wider_ilk_inv [OF inv]) (auto simp: fresh_entity_def)
  have id: "ident e = (?t, ?k)" and st: "state e = State_ADD" "body_state (body e) = State_ADD"
    and new: "\<not> populated e" using fresh by (auto simp: fresh_entity_def)
  have k: "body_uuid (body e) = ?k" using id by (simp add: ident_def)
  obtain b z2 where ins: "insert_entity_idxmap e (move_entity2sink ?t ?k ?z) = (b, z2)" by fastforce
  note frame = insert_entity_idxmap_frame [OF ins]
  have "round_inv z0 ?z" by (rule round_cong [OF r inv0]) simp_all
  then have r1: "round_inv z0 (move_entity2sink ?t ?k ?z)" by (rule move_round)
  have r2: "round_inv z0 z2"
    by (rule round_cong [OF r1 idxmap_partial_inv [OF _ ins]])
      (use r1 in \<open>simp_all add: frame round_inv_def\<close>)
  have eq: "z' = (if b then after_add env e (stored ?t e z2) else z2)"
    using add True mk add_new_entity_eq [OF k new _ ins, of env] st by (simp add: add_entity_def)
  have "round_inv z0 (stored ?t e z2)" if b
  proof (rule stored_round [OF r2 _ _ id st(1)])
    have "live_ok ?z" using inv0 by (simp add: zoo_inv_def)
    then show "live z2 ?t ?k = None" using move_entity2sink_live by (simp add: frame)
    show "zoo_inv (stored ?t e z2)"
      using add_new_entity_stored_inv [OF inv0 fresh] used ins that by simp
  qed
  then show ?thesis using r2 after_add_round by (auto simp: eq)
qed

lemma update_round:
  assumes "set_pop_ok env" and "zoo_update env z z'" and r: "round_inv z0 z"
  shows "round_inv z0 z'"
  using assms(2)
proof cases
  case (step_add p)
  then show ?thesis using add_entity_round assms(1) r by blast
next
  case (step_convert t pool)
  have "round_inv z0 (convert_kv2entity env t path vs z)" if "round_inv z0 z" for path vs z
    using add_entity_round [OF assms(1) that] that by (auto simp: convert_kv2entity_def split: option.splits)
  then show ?thesis
    unfolding step_convert convert_pool2entity_def by (intro fold_inv [where P = "round_inv z0"]) (use r in \<open>simp_all split: prod.splits\<close>)
next
  case (step_move_pool t pool)
  then show ?thesis
    unfolding step_move_pool move_entity2sink_by_pool_def
    by (intro fold_inv [where P = "round_inv z0"]) (use r move_round in \<open>simp_all split: prod.splits\<close>)
next
  case (step_move_all exclude)
  then show ?thesis
    unfolding step_move_all move_all_entity2sink_def
    by (intro fold_inv [where P = "round_inv z0"])
      (use r in \<open>auto intro!: fold_inv [where P = "round_inv z0"] move_round\<close>)
next
  case (step_touch t fn)
  then show ?thesis
    unfolding step_touch touch_entity_def Let_def snd_conv
    by (intro fold_inv [where P = "round_inv z0"]) (use r touch_key_round in simp_all)
next
  case step_force
  have "zoo_inv z'"
    unfolding step_force by (rule update_version_force_inv) (use r in \<open>simp add: round_inv_def\<close>)
  then show ?thesis
    by (rule round_cong [OF r]) (simp_all add: step_force update_version_force_def)
qed (use r move_round in auto)

lemma updates_round:
  assumes "set_pop_ok env" and "(zoo_update env)\<^sup>*\<^sup>* z0 z" and "round_inv z0 z0"
  shows "round_inv z0 z"
  using assms(2,3) by induction (auto intro: update_round [OF assms(1)])

section \<open>What the database has\<close>

lemma sink_entity:
  assumes "zoo_inv z" and "e \<in># sink_mset z"
  shows "state e = State_DEL" and "body_state (body e) = State_DEL"
  using assms by (simp_all add: zoo_inv_def sink_ok_def)

lemma live_state:
  assumes "zoo_inv z" and "live z t k = Some e"
  shows "ident e = (t, k)" and "state e = State_NO \<or> state e = State_ADD" and "body_state (body e) = state e"
  using assms by (simp_all add: zoo_inv_def live_ok_def live_entity_def)

lemma fact_of_live:
  assumes "zoo_inv z" and "live z t k = Some e" and "touched e"
  shows "body e \<in> fact_set (db z)"
  using assms live_in [OF assms(2)] by (auto simp: zoo_inv_def facts_ok_def rows_def)

lemma fact_of_sink:
  assumes "zoo_inv z" and "e \<in># sink_mset z" and "touched e"
  shows "body e \<in> fact_set (db z)"
  using assms by (auto simp: zoo_inv_def facts_ok_def rows_def)

lemma tunnel_fact: "zoo_inv z \<Longrightarrow> BChassis flow_tunnel_row \<in> fact_set (db z)"
  by (simp add: zoo_inv_def facts_ok_def)

lemma fact_cases:
  assumes "zoo_inv z" and "b \<in> fact_set (db z)"
  obtains "b = BChassis flow_tunnel_row"
  | e where "touched e" "b = body e" "live z (body_etype b) (body_uuid b) = Some e"
  | e where "touched e" "b = body e" "e \<in># sink_mset z"
proof (cases "b = BChassis flow_tunnel_row")
  case False
  then have "b \<in> rows (all_mset z)" using assms by (auto simp: zoo_inv_def facts_ok_def)
  then obtain e where e: "touched e" "b = body e" "e \<in># live_mset z \<or> e \<in># sink_mset z"
    by (auto simp: rows_def)
  show ?thesis
  proof (cases "e \<in># sink_mset z")
    case False
    then obtain t k where tk: "live z t k = Some e"
      using e(3) in_live_mset [of z e] assms(1) by (auto simp: zoo_inv_def live_ok_def)
    then have "ident e = (t, k)" by (rule live_state(1) [OF assms(1)])
    then show ?thesis using that(2) [OF e(1,2)] tk e(2) by (simp add: ident_def)
  qed (use that e in blast)
qed (rule that(1))

lemma fact_row_state:
  assumes "zoo_inv z" and "b \<in> fact_set (db z)"
  shows "row_state (body_state b)"
  using assms
proof (cases rule: fact_cases)
  case 1
  then show ?thesis by (simp add: flow_tunnel_row_def row_state_def)
next
  case (2 e)
  then show ?thesis using live_state [OF assms(1) 2(3)] by (auto simp: row_state_def)
next
  case (3 e)
  then show ?thesis using sink_entity [OF assms(1) 3(3)] by (simp add: row_state_def)
qed

text \<open>The arrays, read off the set of facts.\<close>

lemma array_fact:
  assumes "shops_ok f"
  shows "r1 \<in> set (lsp_array f) \<longleftrightarrow> LSP_PEER r1 = None \<and> BLsp r1 \<in> fact_set f"
    and "r1 \<in> set (exchange_lsp_array f) \<longleftrightarrow> LSP_PEER r1 \<noteq> None \<and> BLsp r1 \<in> fact_set f"
    and "r2 \<in> set (lrp_array f) \<longleftrightarrow> BLrp r2 \<in> fact_set f"
    and "r3 \<in> set (u_lr_array f) \<longleftrightarrow> BLr r3 \<in> fact_set f"
    and "r4 \<in> set (lroute_array f) \<longleftrightarrow> BLsr r4 \<in> fact_set f"
    and "r5 \<in> set (lnat_array f) \<longleftrightarrow> BLnat r5 \<in> fact_set f"
    and "r6 \<in> set (ls_array f) \<longleftrightarrow> BLs r6 \<in> fact_set f"
    and "r7 \<in> set (chassis_array f) \<longleftrightarrow> BChassis r7 \<in> fact_set f"
    and "r8 \<in> set (ovsport f) \<longleftrightarrow> BOvsport False r8 \<in> fact_set f"
    and "r9 \<in> set (ovsport_chassis f) \<longleftrightarrow> BOvsport True r9 \<in> fact_set f"
  using assms by (auto simp: shops_ok_def fact_set_def)

lemma zoo_states_ok:
  assumes "zoo_inv z" and "shops_ok (db z)"
  shows "states_ok (db z)"
  unfolding states_ok_def array_fact [OF assms(2)]
  using fact_row_state [OF assms(1)] array_fact [OF assms(2)] by (auto; fastforce)

lemma facts_apart:
  assumes r: "round_inv z0 z" and "b \<in> fact_set (db z)" and "b' \<in> fact_set (db z)"
    and eq: "set_state State_ADD b = set_state State_ADD b'"
    and no: "b \<noteq> BChassis flow_tunnel_row" "b' \<noteq> BChassis flow_tunnel_row"
  shows "b = b' \<or> {body_state b, body_state b'} = {State_ADD, State_DEL}"
proof -
  have inv: "zoo_inv z" and new: "\<And>e t k e'. e \<in># sink_mset z \<Longrightarrow> ident e = (t, k) \<Longrightarrow>
      live z t k = Some e' \<Longrightarrow> state e' = State_ADD"
    using r by (auto simp: round_inv_def since_def)
  have id: "body_etype b = body_etype b'" "body_uuid b = body_uuid b'"
    using arg_cong [OF eq, of body_etype] arg_cong [OF eq, of body_uuid] by simp_all
  have same: "b = b'" if "body_state b = body_state b'"
    using that eq by (metis set_state_simps(4,5))
  have mixed: "body_state (body e) = State_ADD" if "e' \<in># sink_mset z"
      "live z (body_etype (body e')) (body_uuid (body e')) = Some e" for e e'
    using new [OF that(1) _ that(2)] live_state(3) [OF inv that(2)] by (simp add: ident_def)
  from inv assms(2) show ?thesis
  proof (cases rule: fact_cases)
    case (2 e)
    note e = this
    from inv assms(3) show ?thesis
    proof (cases rule: fact_cases)
      case (2 e')
      then show ?thesis using e id by simp
    next
      case (3 e')
      then show ?thesis using mixed [of e' e] e id sink_entity(2) [OF inv 3(3)] by simp
    qed (use no in simp)
  next
    case (3 e)
    note e = this
    from inv assms(3) show ?thesis
    proof (cases rule: fact_cases)
      case (2 e')
      then show ?thesis using mixed [of e e'] e id sink_entity(2) [OF inv e(3)] by auto
    next
      case (3 e')
      then show ?thesis using same e sink_entity(2) [OF inv] by simp
    qed (use no in simp)
  qed (use no in simp)
qed

lemma zoo_rows_apart:
  assumes "round_inv z0 z"
  shows "rows_apart (db z)"
proof -
  have shops: "shops_ok (db z)" using assms by (simp add: round_inv_def facts_since_def)
  show ?thesis
    unfolding rows_apart_def
  proof (intro conjI ballI impI)
    fix r r' assume "r \<in> set (u_lr_array (db z))" "r' \<in> set (u_lr_array (db z))" "er_lr r = er_lr r'"
    then show "r = r' \<or> {LR_State r, LR_State r'} = {State_ADD, State_DEL}"
      using facts_apart [OF assms, of "BLr r" "BLr r'"] by (simp add: array_fact [OF shops])
  next
    fix r r' assume "r \<in> set (ls_array (db z))" "r' \<in> set (ls_array (db z))" "er_ls r = er_ls r'"
    then show "r = r' \<or> {LS_State r, LS_State r'} = {State_ADD, State_DEL}"
      using facts_apart [OF assms, of "BLs r" "BLs r'"] by (simp add: array_fact [OF shops])
  qed
qed

section \<open>Comparing databases\<close>

text \<open>It is enough to compare rows with their state set aside.\<close>

lemma sub_row:
  fixes C :: "'r \<Rightarrow> body"
  assumes "\<And>b. b \<in> F \<Longrightarrow> k (body_state b) \<Longrightarrow>
      \<exists>b' \<in> G. k' (body_state b') \<and> set_state State_ADD b' = set_state State_ADD b"
    and "\<And>b r. set_state State_ADD b = C r \<Longrightarrow> \<exists>r'. b = C r'"
    and "\<And>r. body_state (C r) = st_of r" and "\<And>r. set_state State_ADD (C r) = C (er r)"
    and "\<And>r r'. C r = C r' \<Longrightarrow> r = r'" and "C r \<in> F" and "k (st_of r)"
  shows "\<exists>r'. C r' \<in> G \<and> k' (st_of r') \<and> er r' = er r"
  using assms(1) [OF assms(6)] assms(2-5,7) by metis

lemma set_state_shape:
  "set_state State_ADD b = BLsp r1 \<Longrightarrow> \<exists>r'. b = BLsp r'"
  "set_state State_ADD b = BLrp r2 \<Longrightarrow> \<exists>r'. b = BLrp r'"
  "set_state State_ADD b = BLr r3 \<Longrightarrow> \<exists>r'. b = BLr r'"
  "set_state State_ADD b = BLsr r4 \<Longrightarrow> \<exists>r'. b = BLsr r'"
  "set_state State_ADD b = BLnat r5 \<Longrightarrow> \<exists>r'. b = BLnat r'"
  "set_state State_ADD b = BLs r6 \<Longrightarrow> \<exists>r'. b = BLs r'"
  "set_state State_ADD b = BChassis r7 \<Longrightarrow> \<exists>r'. b = BChassis r'"
  "set_state State_ADD b = BOvsport c r8 \<Longrightarrow> \<exists>r'. b = BOvsport c r'"
  by (cases b; simp)+

lemma er_lsp_peer: "er_lsp r' = er_lsp r \<Longrightarrow> LSP_PEER r' = LSP_PEER r"
proof -
  assume "er_lsp r' = er_lsp r"
  then have "LSP_PEER (er_lsp r') = LSP_PEER (er_lsp r)" by (rule arg_cong)
  then show ?thesis by simp
qed

lemma image_filter_sub:
  assumes "\<And>r. r \<in> A \<Longrightarrow> p r \<Longrightarrow> \<exists>r' \<in> B. q r' \<and> h r' = h r"
  shows "h ` {r \<in> A. p r} \<subseteq> h ` {r \<in> B. q r}"
  using assms by (force simp: image_iff)

lemma array_sub:
  assumes "\<And>r. r \<in> A \<longleftrightarrow> C r \<in> F" and "\<And>r. r \<in> B \<longleftrightarrow> C r \<in> G"
    and "\<And>r. C r \<in> F \<Longrightarrow> k (s r) \<Longrightarrow> \<exists>r'. C r' \<in> G \<and> k' (s r') \<and> er r' = er r"
  shows "er ` {r \<in> A. k (s r)} \<subseteq> er ` {r \<in> B. k' (s r)}"
  using assms by (intro image_filter_sub) blast

lemma sub_view:
  assumes f: "shops_ok f" and g: "shops_ok g" and id: "local_system_id f = local_system_id g"
    and sub: "\<And>b. b \<in> fact_set f \<Longrightarrow> k (body_state b) \<Longrightarrow>
      \<exists>b' \<in> fact_set g. k' (body_state b') \<and> set_state State_ADD b' = set_state State_ADD b"
  shows "sub_facts (view k f) (view k' g)"
proof -
  have lsp: "\<exists>r'. BLsp r' \<in> fact_set g \<and> k' (LSP_State r') \<and> er_lsp r' = er_lsp r"
    if "BLsp r \<in> fact_set f" "k (LSP_State r)" for r
    using sub_row [of "fact_set f" k "fact_set g" k' BLsp LSP_State er_lsp r, OF sub set_state_shape(1)] that
    by simp
  have lrp: "\<exists>r'. BLrp r' \<in> fact_set g \<and> k' (LRP_State r') \<and> er_lrp r' = er_lrp r"
    if "BLrp r \<in> fact_set f" "k (LRP_State r)" for r
    using sub_row [of "fact_set f" k "fact_set g" k' BLrp LRP_State er_lrp r, OF sub set_state_shape(2)] that
    by simp
  have lr: "\<exists>r'. BLr r' \<in> fact_set g \<and> k' (LR_State r') \<and> er_lr r' = er_lr r"
    if "BLr r \<in> fact_set f" "k (LR_State r)" for r
    using sub_row [of "fact_set f" k "fact_set g" k' BLr LR_State er_lr r, OF sub set_state_shape(3)] that
    by simp
  have lsr: "\<exists>r'. BLsr r' \<in> fact_set g \<and> k' (LSR_State r') \<and> er_lsr r' = er_lsr r"
    if "BLsr r \<in> fact_set f" "k (LSR_State r)" for r
    using sub_row [of "fact_set f" k "fact_set g" k' BLsr LSR_State er_lsr r, OF sub set_state_shape(4)] that
    by simp
  have lnat: "\<exists>r'. BLnat r' \<in> fact_set g \<and> k' (LNAT_State r') \<and> er_lnat r' = er_lnat r"
    if "BLnat r \<in> fact_set f" "k (LNAT_State r)" for r
    using sub_row [of "fact_set f" k "fact_set g" k' BLnat LNAT_State er_lnat r, OF sub set_state_shape(5)] that
    by simp
  have ls: "\<exists>r'. BLs r' \<in> fact_set g \<and> k' (LS_State r') \<and> er_ls r' = er_ls r"
    if "BLs r \<in> fact_set f" "k (LS_State r)" for r
    using sub_row [of "fact_set f" k "fact_set g" k' BLs LS_State er_ls r, OF sub set_state_shape(6)] that
    by simp
  have pch: "\<exists>r'. BChassis r' \<in> fact_set g \<and> k' (PCH_State r') \<and> er_pch r' = er_pch r"
    if "BChassis r \<in> fact_set f" "k (PCH_State r)" for r
    using sub_row [of "fact_set f" k "fact_set g" k' BChassis PCH_State er_pch r, OF sub set_state_shape(7)] that
    by simp
  have port: "\<exists>r'. BOvsport c r' \<in> fact_set g \<and> k' (OVSPORT_State r') \<and> er_port r' = er_port r"
    if "BOvsport c r \<in> fact_set f" "k (OVSPORT_State r)" for r c
    using sub_row [of "fact_set f" k "fact_set g" k' "BOvsport c" OVSPORT_State er_port r, OF sub set_state_shape(8)] that
    by simp
  show ?thesis
    unfolding sub_facts_def view_def facts.simps set_map set_filter id
  proof (intro conjI)
    show "er_lrp ` {r \<in> set (lrp_array f). k (LRP_State r)} \<subseteq> er_lrp ` {r \<in> set (lrp_array g). k' (LRP_State r)}"
      by (rule array_sub [where C = BLrp, OF array_fact(3) [OF f] array_fact(3) [OF g]], erule (1) lrp)
    show "er_lr ` {r \<in> set (u_lr_array f). k (LR_State r)} \<subseteq> er_lr ` {r \<in> set (u_lr_array g). k' (LR_State r)}"
      by (rule array_sub [where C = BLr, OF array_fact(4) [OF f] array_fact(4) [OF g]], erule (1) lr)
    show "er_lsr ` {r \<in> set (lroute_array f). k (LSR_State r)} \<subseteq> er_lsr ` {r \<in> set (lroute_array g). k' (LSR_State r)}"
      by (rule array_sub [where C = BLsr, OF array_fact(5) [OF f] array_fact(5) [OF g]], erule (1) lsr)
    show "er_lnat ` {r \<in> set (lnat_array f). k (LNAT_State r)} \<subseteq> er_lnat ` {r \<in> set (lnat_array g). k' (LNAT_State r)}"
      by (rule array_sub [where C = BLnat, OF array_fact(6) [OF f] array_fact(6) [OF g]], erule (1) lnat)
    show "er_ls ` {r \<in> set (ls_array f). k (LS_State r)} \<subseteq> er_ls ` {r \<in> set (ls_array g). k' (LS_State r)}"
      by (rule array_sub [where C = BLs, OF array_fact(7) [OF f] array_fact(7) [OF g]], erule (1) ls)
    show "er_pch ` {r \<in> set (chassis_array f). k (PCH_State r)} \<subseteq> er_pch ` {r \<in> set (chassis_array g). k' (PCH_State r)}"
      by (rule array_sub [where C = BChassis, OF array_fact(8) [OF f] array_fact(8) [OF g]], erule (1) pch)
    show "er_port ` {r \<in> set (ovsport f). k (OVSPORT_State r)} \<subseteq> er_port ` {r \<in> set (ovsport g). k' (OVSPORT_State r)}"
      by (rule array_sub [where C = "BOvsport False", OF array_fact(9) [OF f] array_fact(9) [OF g]], erule (1) port)
    show "er_port ` {r \<in> set (ovsport_chassis f). k (OVSPORT_State r)} \<subseteq> er_port ` {r \<in> set (ovsport_chassis g). k' (OVSPORT_State r)}"
      by (rule array_sub [where C = "BOvsport True", OF array_fact(10) [OF f] array_fact(10) [OF g]], erule (1) port)
    show "er_lsp ` {r \<in> set (lsp_array f). k (LSP_State r)} \<subseteq> er_lsp ` {r \<in> set (lsp_array g). k' (LSP_State r)}"
    proof (rule image_filter_sub)
    fix r assume "r \<in> set (lsp_array f)" "k (LSP_State r)"
    then obtain r' where "BLsp r' \<in> fact_set g" "k' (LSP_State r')" "er_lsp r' = er_lsp r" "LSP_PEER r = None"
      using lsp array_fact(1) [OF f] by blast
    then show "\<exists>r' \<in> set (lsp_array g). k' (LSP_State r') \<and> er_lsp r' = er_lsp r"
      using array_fact(1) [OF g] er_lsp_peer by metis
    qed
    show "er_lsp ` {r \<in> set (exchange_lsp_array f). k (LSP_State r)} \<subseteq> er_lsp ` {r \<in> set (exchange_lsp_array g). k' (LSP_State r)}"
    proof (rule image_filter_sub)
    fix r assume "r \<in> set (exchange_lsp_array f)" "k (LSP_State r)"
    then obtain r' where "BLsp r' \<in> fact_set g" "k' (LSP_State r')" "er_lsp r' = er_lsp r" "LSP_PEER r \<noteq> None"
      using lsp array_fact(2) [OF f] by blast
    then show "\<exists>r' \<in> set (exchange_lsp_array g). k' (LSP_State r') \<and> er_lsp r' = er_lsp r"
      using array_fact(2) [OF g] er_lsp_peer by metis
    qed
  qed simp
qed

section \<open>Before and after the round\<close>

text \<open>The unchanged rows were there at the start, and what was there at the start has not vanished.\<close>

lemma idle_state: "idle z \<Longrightarrow> live z t k = Some e \<Longrightarrow> state e = State_NO"
  by (simp add: idle_def)

lemma same_from_start:
  assumes r: "round_inv z0 z" and "zoo_inv z0" and "shops_ok (db z0)"
  shows "sub_facts (view kept_same (db z)) (view kept_new (db z0))"
proof (rule sub_view)
  have inv: "zoo_inv z" using r by (simp add: round_inv_def)
  show "shops_ok (db z)" "shops_ok (db z0)" "local_system_id (db z) = local_system_id (db z0)"
    using r assms(3) by (simp_all add: round_inv_def facts_since_def)
  fix b assume b: "b \<in> fact_set (db z)" and same: "kept_same (body_state b)"
  from inv b have "b \<in> fact_set (db z0)"
  proof (cases rule: fact_cases)
    case 1
    then show ?thesis using tunnel_fact [OF assms(2)] by simp
  next
    case (2 e)
    then have "state e = State_NO" using same live_state [OF inv 2(3)] by (auto simp: kept_same_def)
    then have "live z0 (body_etype b) (body_uuid b) = Some e"
      using r 2 by (simp add: round_inv_def since_def)
    then show ?thesis using fact_of_live [OF assms(2)] 2 by simp
  next
    case (3 e)
    then show ?thesis using same sink_entity [OF inv] by (simp add: kept_same_def)
  qed
  then show "\<exists>b' \<in> fact_set (db z0). kept_new (body_state b') \<and> set_state State_ADD b' = set_state State_ADD b"
    using same by (auto simp: kept_same_iff)
qed

lemma start_to_old:
  assumes r: "round_inv z0 z" and inv0: "zoo_inv z0" and "shops_ok (db z0)" and idle: "idle z0"
  shows "sub_facts (view kept_new (db z0)) (view kept_old (db z))"
proof (rule sub_view)
  have inv: "zoo_inv z" using r by (simp add: round_inv_def)
  show "shops_ok (db z0)" "shops_ok (db z)" "local_system_id (db z0) = local_system_id (db z)"
    using r assms(3) by (simp_all add: round_inv_def facts_since_def)
  fix b assume b: "b \<in> fact_set (db z0)"
  from inv0 b show "\<exists>b' \<in> fact_set (db z). kept_old (body_state b') \<and> set_state State_ADD b' = set_state State_ADD b"
  proof (cases rule: fact_cases)
    case 1
    then show ?thesis using tunnel_fact [OF inv]
      by (intro bexI [of _ b]) (simp_all add: flow_tunnel_row_def kept_old_def)
  next
    case (2 e)
    then have no: "state e = State_NO" "body_state (body e) = State_NO"
      using idle_state [OF idle 2(3)] live_state(3) [OF inv0 2(3)] by simp_all
    from r 2 have "live z (body_etype b) (body_uuid b) = Some e \<or> deleted e \<in># sink_mset z"
      by (simp add: round_inv_def since_def)
    then have "body e \<in> fact_set (db z) \<or> body (deleted e) \<in> fact_set (db z)"
      using 2(1) fact_of_live [OF inv] fact_of_sink [OF inv, of "deleted e"] by (auto simp: deleted_def)
    moreover have "body (deleted e) = set_state State_DEL b" using 2 by (simp add: deleted_def)
    ultimately have "b \<in> fact_set (db z) \<or> set_state State_DEL b \<in> fact_set (db z)" using 2(2) by simp
    moreover have "kept_old (body_state b)" "kept_old (body_state (set_state State_DEL b))"
      using no 2(2) by (simp_all add: kept_old_def)
    ultimately show ?thesis
      by (elim disjE; intro bexI [of _ b] bexI [of _ "set_state State_DEL b"]; simp)
  next
    case (3 e)
    then show ?thesis using idle_sink [OF idle] by simp
  qed
qed

section \<open>The sweep\<close>

lemma facts_since_folds:
  assumes "facts_since f0 (db z)"
  shows "facts_since f0 (db (sweep_key t k z))"
    and "facts_since f0 (db (fold (sweep_key t) ks z))"
proof -
  have key: "facts_since f0 (db (sweep_key t k z))" if "facts_since f0 (db z)" for t k z
    using that by (simp add: sweep_key_def put_entity_def mark_def Let_def split: option.splits)
  show "facts_since f0 (db (sweep_key t k z))" using assms by (rule key)
  show "facts_since f0 (db (fold (sweep_key t) ks z))"
    by (rule fold_inv [where P = "\<lambda>z. facts_since f0 (db z)"]) (use assms key in simp_all)
qed

lemma facts_since_eliminate:
  "eliminate_all es (f, g) = Some (f', g') \<Longrightarrow> facts_since f0 f \<Longrightarrow> facts_since f0 f'"
proof (induction es arbitrary: f g)
  case (Cons e es)
  then obtain g1 where "eliminate_all es (del_clause e f, g1) = Some (f', g')"
    by (auto simp: eliminate_def bind_eq_Some_conv split: option.splits prod.splits)
  then show ?case using Cons by simp
qed simp

lemma facts_since_sweep:
  assumes "sweep_zoo z = Some z'" and "facts_since f0 (db z)"
  shows "facts_since f0 (db z')"
proof -
  obtain z1 where z1: "clean_sink z = Some z1" "z' = sweep_entity_set z1"
    using assms(1) by (auto simp: sweep_zoo_def)
  have "facts_since f0 (db z1)"
    using z1(1) assms(2) facts_since_eliminate by (auto simp: clean_sink_def)
  then show ?thesis
    unfolding z1(2) sweep_entity_set_def
    by (intro fold_inv [where P = "\<lambda>z. facts_since f0 (db z)"]) (simp_all add: facts_since_folds)
qed

lemma sweep_round:
  assumes r: "round_inv z0 z" and sw: "sweep_zoo z = Some z'"
  shows "zoo_inv z'" and "idle z'" and "facts_since (db z0) (db z')"
    and "zoo_ver z' = zoo_ver z" and "live z' t k = swept (live z t k)"
proof -
  have inv: "zoo_inv z" using r by (simp add: round_inv_def)
  obtain z2 where z2: "sweep_zoo z = Some z2" "zoo_inv z2" "sink_mset z2 = {#}"
    "\<And>b. b \<in> fact_set (db z2) \<Longrightarrow> body_state b = State_NO"
    "\<And>t k. live z2 t k = swept (live z t k)" "zoo_ver z2 = zoo_ver z"
    using sweep_zoo_ok [OF inv] by metis
  have eq: "z2 = z'" using sw z2(1) by simp
  show "zoo_inv z'" "zoo_ver z' = zoo_ver z" "live z' t k = swept (live z t k)" using z2 eq by simp_all
  show "facts_since (db z0) (db z')" using facts_since_sweep [OF sw] r by (simp add: round_inv_def)
  show "idle z'"
    unfolding idle_def
  proof (intro conjI allI impI)
    fix s
    have "set (sink_entities z' s) \<subseteq> set_mset (sink_mset z')"
      using logical_entity_types_all by (fastforce simp flip: sink_entities_mset)
    then show "sink_entities z' s = []" by (simp add: z2(3) flip: eq)
  next
    fix s k e assume "live z' s k = Some e"
    then obtain e0 where e0: "live z s k = Some e0"
      "e = (if state e0 = State_ADD then update_dup_data (e0\<lparr>state := State_NO\<rparr>) else e0)"
      using z2(5) eq by (auto simp: swept_def)
    then show "state e = State_NO" using live_state(2) [OF inv e0(1)] by auto
  qed
qed

text \<open>The sweep leaves the rows that are not deleted, but for their state.\<close>

lemma sweep_views:
  assumes r: "round_inv z0 z" and sw: "sweep_zoo z = Some z'"
  shows "sub_facts (view kept_new (db z)) (view kept_new (db z'))"
    and "sub_facts (view kept_new (db z')) (view kept_new (db z))"
proof -
  have inv: "zoo_inv z" using r by (simp add: round_inv_def)
  note sr = sweep_round [OF r sw]
  have shops: "shops_ok (db z)" "shops_ok (db z')" "local_system_id (db z) = local_system_id (db z')"
    using r sr(3) by (simp_all add: round_inv_def facts_since_def)
  have unswept: "\<exists>e. x = Some e \<and> touched e = touched e' \<and>
      set_state State_ADD (body e') = set_state State_ADD (body e)" if "swept x = Some e'" for x e'
    using that by (auto simp: swept_def)
  show "sub_facts (view kept_new (db z)) (view kept_new (db z'))"
  proof (rule sub_view [OF shops])
    fix b assume b: "b \<in> fact_set (db z)" and k: "kept_new (body_state b)"
    from inv b show "\<exists>b' \<in> fact_set (db z'). kept_new (body_state b') \<and> set_state State_ADD b' = set_state State_ADD b"
    proof (cases rule: fact_cases)
      case 1
      then show ?thesis using tunnel_fact [OF sr(1)] k by blast
    next
      case (2 e)
      obtain e' where e': "live z' (body_etype b) (body_uuid b) = Some e'" using sr(5) 2(3) by (simp add: swept_def)
      then have sw': "swept (Some e) = Some e'" using sr(5) 2(3) by simp
      have "body_state (body e') = State_NO"
        using idle_state [OF sr(2) e'] live_state(3) [OF sr(1) e'] by simp
      then show ?thesis
        using fact_of_live [OF sr(1) e'] unswept [OF sw'] 2(1,2) by (auto simp: kept_new_def intro!: bexI [of _ "body e'"])
    next
      case (3 e)
      then show ?thesis using k sink_entity [OF inv] by (simp add: kept_new_def)
    qed
  qed
  show "sub_facts (view kept_new (db z')) (view kept_new (db z))"
  proof (rule sub_view [OF shops(2,1) shops(3) [symmetric]])
    fix b assume b: "b \<in> fact_set (db z')"
    from sr(1) b show "\<exists>b' \<in> fact_set (db z). kept_new (body_state b') \<and> set_state State_ADD b' = set_state State_ADD b"
    proof (cases rule: fact_cases)
      case 1
      then show ?thesis using tunnel_fact [OF inv]
        by (intro bexI [of _ b]) (simp_all add: flow_tunnel_row_def kept_new_def)
    next
      case (2 e)
      then obtain e0 where e0: "live z (body_etype b) (body_uuid b) = Some e0" "touched e0"
        "set_state State_ADD (body e) = set_state State_ADD (body e0)"
        using unswept [of "live z (body_etype b) (body_uuid b)" e] sr(5) by auto
      have "kept_new (body_state (body e0))"
        using live_state(2,3) [OF inv e0(1)] by (auto simp: kept_new_def)
      then show ?thesis
        using fact_of_live [OF inv e0(1,2)] e0(3) 2(2) by (auto intro!: bexI [of _ "body e0"])
    next
      case (3 e)
      then show ?thesis using idle_sink [OF sr(2)] by simp
    qed
  qed
qed

section \<open>Zoos between two rounds\<close>

text \<open>
  The zoos at which a round starts: the empty zoo, and what \<open>sweep_zoo\<close> leaves after the updates
  of a round.
\<close>

inductive rested :: "env \<Rightarrow> string list \<Rightarrow> zoo \<Rightarrow> bool" for env ids where
  rested_init: "rested env ids (init_zoo ids)"
| rested_round: "rested env ids z0 \<Longrightarrow> (zoo_update env)\<^sup>*\<^sup>* z0 z \<Longrightarrow> sweep_zoo z = Some z' \<Longrightarrow> rested env ids z'"

lemma shops_ok_init [simp]: "shops_ok (db (init_zoo ids))"
  by (simp add: shops_ok_def init_zoo_def init_facts_def)

lemma rested_start:
  assumes "set_pop_ok env" and "rested env ids z"
  shows "zoo_inv z" and "shops_ok (db z)" and "idle z" and "round_inv z z"
proof -
  have "zoo_inv z \<and> shops_ok (db z) \<and> idle z"
    using assms(2)
  proof induction
    case rested_init
    have "idle (init_zoo ids)" by (simp add: idle_def init_zoo_def sink_entities_def)
    then show ?case by (simp add: init_zoo_inv)
  next
    case (rested_round z0 z z')
    then have "round_inv z0 z" using updates_round [OF assms(1)] round_start by blast
    from sweep_round [OF this rested_round.hyps(3)] show ?case by (simp add: facts_since_def)
  qed
  then show "zoo_inv z" "shops_ok (db z)" "idle z" "round_inv z z" by (simp_all add: round_start)
qed

lemma rested_updates:
  assumes "set_pop_ok env" and "rested env ids z0" and "(zoo_update env)\<^sup>*\<^sup>* z0 z"
  shows "round_inv z0 z"
  by (rule updates_round [OF assms(1,3) rested_start(4) [OF assms(1,2)]])

end
