(* ===== verification/Sync_Flows.thy ===== *)
theory Sync_Flows imports Round begin

text \<open>
  \<open>convert_tuple2flow\<close> of \<open>lcp/tuplesync.py\<close>, and what it makes of the flows of a round: compared with
  evaluating the rules from scratch, a round deletes every flow that no longer holds, adds every flow
  that did not hold before, and adds no other. The bundles of the equal-cost routes and of the
  redirection, which aggregate over rows, are excluded.
\<close>

section \<open>Texts\<close>

text \<open>The table, priority and match of a flow, by which it is deleted, and the whole flow.\<close>

definition flow_key :: "lflow \<Rightarrow> string option" where
  "flow_key fl =
     (case fl of (table, priority, match_tuple, action) \<Rightarrow>
        map_option (\<lambda>m. ''table='' @ nat_str table @ '',priority='' @ int_str priority @ '','' @ m)
          (convert_tuple2match match_tuple))"

definition flow_text :: "string \<Rightarrow> lflow \<Rightarrow> string option" where
  "flow_text hash_fn fl =
     (case flow_key fl of
        None \<Rightarrow> None
      | Some key \<Rightarrow>
          (case fl of (table, _, _, action) \<Rightarrow>
             map_option (\<lambda>a. key @ '',actions='' @ a) (convert_tuple2action hash_fn action table)))"

text \<open>
  \<open>None\<close> when a match or an action cannot be converted. A negative state that is not a multiple of
  \<open>State_DEL\<close> belongs to a flow made of added and deleted rows, which was never installed.
\<close>

fun convert_tuple2flow :: "string \<Rightarrow> lflow rel \<Rightarrow> (string list \<times> string list) option" where
  "convert_tuple2flow hash_fn [] = Some ([], [])"
| "convert_tuple2flow hash_fn ((fl, st_sum) # lflows) =
     (if st_sum > 0 then
        (case flow_text hash_fn fl of
           None \<Rightarrow> None
         | Some flow \<Rightarrow> map_option (\<lambda>(a, d). (flow # a, d)) (convert_tuple2flow hash_fn lflows))
      else if st_sum < 0 then
        (case flow_key fl of
           None \<Rightarrow> None
         | Some flow \<Rightarrow>
             if \<bar>st_sum\<bar> mod State_DEL \<noteq> 0 then convert_tuple2flow hash_fn lflows
             else map_option (\<lambda>(a, d). (a, flow # d)) (convert_tuple2flow hash_fn lflows))
      else convert_tuple2flow hash_fn lflows)"

lemma flow_text_key:
  "flow_text h fl = Some x \<Longrightarrow> \<exists>k a. flow_key fl = Some k \<and> x = k @ '',actions='' @ a"
  by (auto simp: flow_text_def split: option.splits prod.splits)

lemma added_Cons [simp]: "added ((fl, s) # r) = (if 0 < s then {fl} else {}) \<union> added r"
  by (auto simp: added_def)

lemma gone_Cons [simp]: "gone ((fl, s) # r) = (if s < 0 \<and> 100 dvd s then {fl} else {}) \<union> gone r"
  by (auto simp: gone_def)

lemma mod_State_DEL: "\<bar>s\<bar> mod State_DEL = 0 \<longleftrightarrow> 100 dvd (s :: int)"
  by (metis abs_dvd_iff dvd_abs_iff dvd_eq_mod_eq_0 minus_dvd_iff)

text \<open>The two lists are the texts of what the round reports, and every text exists.\<close>

lemma convert_tuple2flow_sets:
  "convert_tuple2flow h r = Some (adds, dels) \<Longrightarrow>
     Some ` set adds = flow_text h ` added r \<and> Some ` set dels = flow_key ` gone r"
proof (induction r arbitrary: adds dels)
  case (Cons p r)
  obtain fl s where p: "p = (fl, s)" by (cases p)
  consider (pos) "0 < s" | (skip) "s < 0" "\<not> 100 dvd s" | (neg) "s < 0" "100 dvd s" | (zero) "s = 0" by linarith
  then show ?case
  proof cases
    case pos
    then obtain x a where "flow_text h fl = Some x" "convert_tuple2flow h r = Some (a, dels)" "adds = x # a"
      using Cons.prems p by (auto split: option.splits)
    then show ?thesis using Cons.IH [of a dels] pos p by (simp add: image_insert)
  next
    case neg
    then obtain k d where "flow_key fl = Some k" "convert_tuple2flow h r = Some (adds, d)" "dels = k # d"
      using Cons.prems p mod_State_DEL [of s] by (auto split: option.splits if_splits)
    then show ?thesis using Cons.IH [of adds d] neg p by simp
  next
    case skip
    then have "convert_tuple2flow h r = Some (adds, dels)"
      using Cons.prems p mod_State_DEL [of s] by (auto split: option.splits if_splits)
    then show ?thesis using Cons.IH skip p by simp
  next
    case zero
    then show ?thesis using Cons p by simp
  qed
qed (simp add: added_def gone_def)

lemma convert_tuple2flow_texts:
  assumes "convert_tuple2flow h r = Some (adds, dels)"
  shows "fl \<in> added r \<Longrightarrow> \<exists>x. flow_text h fl = Some x \<and> x \<in> set adds"
    and "fl \<in> gone r \<Longrightarrow> \<exists>k. flow_key fl = Some k \<and> k \<in> set dels"
    and "x \<in> set adds \<Longrightarrow> \<exists>fl. fl \<in> added r \<and> flow_text h fl = Some x"
proof -
  note sets = convert_tuple2flow_sets [OF assms]
  show "\<exists>x. flow_text h fl = Some x \<and> x \<in> set adds" if "fl \<in> added r"
    using that imageI [OF that, of "flow_text h"] sets by (metis imageE)
  show "\<exists>k. flow_key fl = Some k \<and> k \<in> set dels" if "fl \<in> gone r"
    using that imageI [OF that, of flow_key] sets by (metis imageE)
  show "\<exists>fl. fl \<in> added r \<and> flow_text h fl = Some x" if "x \<in> set adds"
    using imageI [OF that, of Some] sets by (metis imageE)
qed

section \<open>The flows of a database, from scratch\<close>

text \<open>The flows that hold now: the rules evaluated on the rows that are not deleted, all of them new.\<close>

definition full_flows :: "options \<Rightarrow> zoo \<Rightarrow> lflow set" where
  "full_flows options z = dom_rel (plain_flows options (view kept_new (db z)))"

lemma plain_parts:
  "added (plain_flows options f) = added (build_flows options f) \<inter> {fl. \<not> aggregated fl}"
  "gone (plain_flows options f) = gone (build_flows options f) \<inter> {fl. \<not> aggregated fl}"
  by (auto simp: plain_flows_def added_def gone_def split: prod.splits)

lemma round_tracks:
  fixes options :: options
  assumes "round_inv z0 z" and "zoo_inv z0" and "shops_ok (db z0)" and "idle z0"
  defines "F \<equiv> plain_flows options (db z)"
  shows "full_flows options z0 - full_flows options z \<subseteq> gone F"
    and "full_flows options z - full_flows options z0 \<subseteq> added F"
    and "added F \<subseteq> full_flows options z"
proof -
  have inv: "zoo_inv z" "shops_ok (db z)" using assms(1) by (simp_all add: round_inv_def facts_since_def)
  let ?D = "\<lambda>k z. dom_rel (plain_flows options (view k (db z)))"
  have t: "?D kept_new z = added F \<union> ?D kept_same z" "?D kept_old z = gone F \<union> ?D kept_same z"
    using tracks_flows [OF zoo_states_ok [OF inv] zoo_rows_apart [OF assms(1)], of options]
    by (simp_all add: tracks_def F_def)
  have "?D kept_same z \<subseteq> ?D kept_new z0"
    by (rule plain_flows_mono [OF same_from_start [OF assms(1-3)]])
  moreover have "?D kept_new z0 \<subseteq> ?D kept_old z"
    by (rule plain_flows_mono [OF start_to_old [OF assms(1-4)]])
  ultimately show "full_flows options z0 - full_flows options z \<subseteq> gone F"
    "full_flows options z - full_flows options z0 \<subseteq> added F" "added F \<subseteq> full_flows options z"
    using t by (auto simp: full_flows_def)
qed

lemma full_flows_sweep:
  assumes "round_inv z0 z" and "sweep_zoo z = Some z'"
  shows "full_flows options z' = full_flows options z"
  unfolding full_flows_def
  by (intro subset_antisym plain_flows_mono sweep_views [OF assms])

end
