(* ===== verification/Link_Master.thy ===== *)
theory Link_Master imports Zoo Host begin

text \<open>
  \<open>lcp/link_master.py\<close>: reading the configuration from etcd, first as a whole and then as the events of a
  watch, which are aggregated between two reads. The etcd client is outside the repository: the
  fields of \<open>etcd\<close>. Its operations with \<open>_etcd_operate\<close> around them reconnect until they get an
  answer, and tell whether they had to reconnect.
\<close>

section \<open>Keys and values\<close>

definition entity_type_list :: "string list" where
  "entity_type_list = [''lsp'', ''lrp'', ''lsr'', ''lnat'', ''chassis'', ''LS'', ''LR'', ''cmd'']"

definition parse_value :: "string \<Rightarrow> value_set" where
  "parse_value s =
     fold (\<lambda>kv kv_set. case split_once CHR ''='' kv of
             [key, val] \<Rightarrow> AList.update key val kv_set
           | _ \<Rightarrow> kv_set)
       (split_on CHR '','' s) []"

definition parse_key :: "string \<Rightarrow> string option" where
  "parse_key key =
     (let path = split_on CHR ''/'' key in
      if length path < 2 then None
      else let key_type = path ! (length path - 2)
           in if key_type \<in> set entity_type_list then Some key_type else None)"

abbreviation ENTITY_TYPE :: string where
  "ENTITY_TYPE \<equiv> ''TYPE''"

text \<open>A pool: the values by path. \<open>dispatch_pool\<close> groups it by entity type.\<close>

type_synonym pool = "(string \<times> value_set) list"
type_synonym dis_pool = "(string \<times> pool) list"

definition pool_entry :: "string \<Rightarrow> value_set \<Rightarrow> value_set" where
  "pool_entry kt kv = AList.update ENTITY_TYPE kt kv"

definition dispatch_pool :: "pool \<Rightarrow> dis_pool" where
  "dispatch_pool pool =
     fold (\<lambda>(key, kv) dis.
             case map_of kv ENTITY_TYPE of
               None \<Rightarrow> dis
             | Some ty \<Rightarrow>
                 AList.update ty (AList.update key kv (case map_of dis ty of None \<Rightarrow> [] | Some p \<Rightarrow> p)) dis)
       pool []"

text \<open>\<open>sanity_etcdhost\<close>: hosts and ports; \<open>None\<close> is the \<open>RuntimeError\<close>.\<close>

definition host_spec :: "string \<Rightarrow> (string \<times> string) option" where
  "host_spec detail =
     (case split_on CHR '':'' detail of host # port # _ \<Rightarrow> Some (host, port) | _ \<Rightarrow> None)"

definition sanity_etcdhost :: "string \<Rightarrow> (string \<times> string) list option" where
  "sanity_etcdhost s =
     those (map host_spec (filter (\<lambda>d. d \<noteq> '''') (split_on CHR '','' s)))"

section \<open>The client\<close>

record 's etcd =
  etcd_get_prefix :: "string \<Rightarrow> ('s, (string \<times> string \<times> int) list option \<times> bool) state"
    \<comment> \<open>value, key and \<open>mod_revision\<close>\<close>
  etcd_put :: "string \<Rightarrow> string \<Rightarrow> nat option \<Rightarrow> ('s, unit option \<times> bool) state"
    \<comment> \<open>the last argument is the lease\<close>
  etcd_lease :: "nat \<Rightarrow> ('s, nat option \<times> bool) state"
  etcd_delete :: "string \<Rightarrow> ('s, int) prog"
  etcd_add_watch :: "string \<Rightarrow> int option \<Rightarrow> ('s, nat option \<times> bool) state"
  etcd_cancel_watch :: "nat \<Rightarrow> ('s, unit) prog"
  etcd_members :: "('s, bool) state"  \<comment> \<open>did the member list fail, so that it reconnected?\<close>
  etcd_clock :: "('s, int) state"

text \<open>
  \<open>WatchMaster\<close>. The status of a watch is whether it is in force; the two pools are \<open>None\<close> before the
  first watch and after a compaction.
\<close>

record 's watch_master =
  last_ver :: int
  read_entire :: bool  \<comment> \<open>\<open>read_remote_func\<close> is \<open>read_remote_entire_kvdata\<close>\<close>
  watch_canceled :: bool
  watch_id_hash :: "(string \<times> nat \<times> bool) list"
  entity_add_pool :: "pool option"
  entity_del_pool :: "pool option"
  fetch_data_cnt :: nat
  net :: 's

record lm_conf =
  lm_system_id :: "string option"
  prefix_path :: string

abbreviation PREFIX_PATH_ENTITY_VIEW :: string where
  "PREFIX_PATH_ENTITY_VIEW \<equiv> ''entity_view/''"

abbreviation PREFIX_PATH_COMMUNICATE :: string where
  "PREFIX_PATH_COMMUNICATE \<equiv> ''communicate/''"

definition init_watch_master :: "'s \<Rightarrow> 's watch_master" where
  "init_watch_master s =
     \<lparr>last_ver = -1, read_entire = True, watch_canceled = True, watch_id_hash = [],
      entity_add_pool = None, entity_del_pool = None, fetch_data_cnt = 0, net = s\<rparr>"

definition disable_all_watches :: "'s watch_master \<Rightarrow> 's watch_master" where
  "disable_all_watches w =
     w\<lparr>watch_id_hash := map (\<lambda>(key, wid, st). (key, wid, False)) (watch_id_hash w), watch_canceled := True\<rparr>"

section \<open>Events\<close>

datatype watch_event =
    Compacted int
  | Rpc_error
  | Put_event string string int  \<comment> \<open>key, value, \<open>mod_revision\<close>\<close>
  | Delete_event string int

definition put_pools :: "string \<Rightarrow> value_set \<Rightarrow> pool \<times> pool \<Rightarrow> pool \<times> pool" where
  "put_pools key kv ps = (case ps of (add, del) \<Rightarrow> (AList.update key kv add, AList.delete key del))"

definition delete_pools :: "string \<Rightarrow> string \<Rightarrow> pool \<times> pool \<Rightarrow> pool \<times> pool" where
  "delete_pools key kt ps =
     (case ps of (add, del) \<Rightarrow>
        if map_of add key \<noteq> None then (AList.delete key add, del)
        else (add, AList.update key [(ENTITY_TYPE, kt)] del))"

text \<open>An event meets no pools only when an earlier one was refused; the method call then raises.\<close>

definition on_pools :: "(pool \<times> pool \<Rightarrow> pool \<times> pool) \<Rightarrow> 's watch_master \<Rightarrow> 's watch_master" where
  "on_pools f w =
     (case (entity_add_pool w, entity_del_pool w) of
        (Some add, Some del) \<Rightarrow>
          (case f (add, del) of (add', del') \<Rightarrow> w\<lparr>entity_add_pool := Some add', entity_del_pool := Some del'\<rparr>)
      | _ \<Rightarrow> w)"

fun watch_callback :: "watch_event \<Rightarrow> 's watch_master \<Rightarrow> 's watch_master" where
  "watch_callback (Compacted revision) w =
     (if watch_canceled w then w
      else disable_all_watches
             (w\<lparr>last_ver := revision, read_entire := True, entity_add_pool := None, entity_del_pool := None\<rparr>))"
| "watch_callback Rpc_error w = (if watch_canceled w then w else disable_all_watches w)"
| "watch_callback (Delete_event key revision) w =
     (if watch_canceled w then w
      else let w1 = w\<lparr>last_ver := max revision (last_ver w)\<rparr> in
           case parse_key key of None \<Rightarrow> w1 | Some kt \<Rightarrow> on_pools (delete_pools key kt) w1)"
| "watch_callback (Put_event key val revision) w =
     (if watch_canceled w then w
      else let w1 = w\<lparr>last_ver := max revision (last_ver w)\<rparr> in
           case parse_key key of
             None \<Rightarrow> w1
           | Some kt \<Rightarrow> on_pools (put_pools key (pool_entry kt (parse_value val))) w1)"

section \<open>Watching\<close>

definition on_net :: "('s, 'a) state \<Rightarrow> ('s watch_master, 'a) state" where
  "on_net m = State (\<lambda>w. case run_state m (net w) of (x, s) \<Rightarrow> (x, w\<lparr>net := s\<rparr>))"

definition etcd_operate :: "('s, 'a option \<times> bool) state \<Rightarrow> ('s watch_master, 'a) prog" where
  "etcd_operate m = do {
     (r, reconnected) \<leftarrow> on_net m;
     (if reconnected then State_Monad.update disable_all_watches else ret ());
     ret r }"

text \<open>
  \<open>_add_watch\<close>; the outer \<open>None\<close> is an exception of \<open>cancel_watch\<close> that is not etcd's, the inner one a
  watch that could not be set.
\<close>

definition start_watch :: "'s etcd \<Rightarrow> string \<Rightarrow> int option \<Rightarrow> ('s watch_master \<Rightarrow> 's watch_master) \<Rightarrow>
    ('s watch_master, nat option) state" where
  "start_watch E watch_key revision init_f = do {
     State_Monad.update init_f;
     r \<leftarrow> etcd_operate (etcd_add_watch E watch_key revision);
     (case r of
        None \<Rightarrow> ret None
      | Some wid \<Rightarrow> do {
          State_Monad.update (\<lambda>w. w\<lparr>watch_canceled := False,
            watch_id_hash := AList.update watch_key (wid, True) (watch_id_hash w)\<rparr>);
          ret (Some wid) }) }"

definition add_watch :: "'s etcd \<Rightarrow> lm_conf \<Rightarrow> string \<Rightarrow> int option \<Rightarrow> ('s watch_master \<Rightarrow> 's watch_master) \<Rightarrow>
    ('s watch_master, nat option) prog" where
  "add_watch E C key revision init_f = do {
     let watch_key = prefix_path C @ key;
     w \<leftarrow> State_Monad.get;
     (case map_of (watch_id_hash w) watch_key of
        Some (wid, True) \<Rightarrow> ret (Some (Some wid))
      | Some (wid, False) \<Rightarrow> do {
          r \<leftarrow> on_net (etcd_cancel_watch E wid);
          (case r of
             None \<Rightarrow> ret None
           | Some _ \<Rightarrow> do { x \<leftarrow> start_watch E watch_key revision init_f; ret (Some x) }) }
      | None \<Rightarrow> do { x \<leftarrow> start_watch E watch_key revision init_f; ret (Some x) }) }"

definition init_entity_pool :: "'s watch_master \<Rightarrow> 's watch_master" where
  "init_entity_pool w = w\<lparr>entity_add_pool := Some [], entity_del_pool := Some []\<rparr>"

definition run_default_watch :: "'s etcd \<Rightarrow> lm_conf \<Rightarrow> ('s watch_master, unit) prog" where
  "run_default_watch E C = do {
     w \<leftarrow> State_Monad.get;
     r \<leftarrow> add_watch E C PREFIX_PATH_ENTITY_VIEW (Some (last_ver w + 1)) init_entity_pool;
     (case r of
        None \<Rightarrow> ret None
      | Some _ \<Rightarrow>
          (case lm_system_id C of
             None \<Rightarrow> ret (Some ())
           | Some sid \<Rightarrow> do {
               r' \<leftarrow> add_watch E C (PREFIX_PATH_COMMUNICATE @ ''push/'' @ sid) None id;
               ret (map_option (\<lambda>_. ()) r') })) }"

definition stop_watch :: "'s etcd \<Rightarrow> string \<Rightarrow> ('s watch_master, unit) prog" where
  "stop_watch E watch_key = do {
     w \<leftarrow> State_Monad.get;
     (case map_of (watch_id_hash w) watch_key of
        None \<Rightarrow> ret (Some ())
      | Some (wid, _) \<Rightarrow> do {
          r \<leftarrow> on_net (etcd_cancel_watch E wid);
          (case r of
             None \<Rightarrow> ret None
           | Some _ \<Rightarrow> do {
               State_Monad.update (\<lambda>w. w\<lparr>watch_canceled := True,
                 watch_id_hash := AList.delete watch_key (watch_id_hash w)\<rparr>);
               ret (Some ()) }) }) }"

definition stop_all_watches :: "'s etcd \<Rightarrow> ('s watch_master, unit) prog" where
  "stop_all_watches E = do {
     w \<leftarrow> State_Monad.get;
     each_ok (stop_watch E) (map fst (watch_id_hash w)) }"

section \<open>Reading\<close>

text \<open>The data is entire (\<open>Some True\<close>), incremental (\<open>Some False\<close>), or was not read (\<open>None\<close>).\<close>

type_synonym kvdata = "bool option \<times> dis_pool option \<times> dis_pool option"

fun entire_pool :: "(string \<times> string \<times> int) list \<Rightarrow> pool \<Rightarrow> pool" where
  "entire_pool [] add_pool = add_pool"
| "entire_pool ((val, key, revision) # xs) add_pool =
     entire_pool xs
       (case parse_key key of
          None \<Rightarrow> add_pool
        | Some kt \<Rightarrow> AList.update key (pool_entry kt (parse_value val)) add_pool)"

definition read_remote_entire_kvdata :: "'s etcd \<Rightarrow> lm_conf \<Rightarrow> ('s watch_master, kvdata) state" where
  "read_remote_entire_kvdata E C = do {
     data \<leftarrow> etcd_operate (etcd_get_prefix E (prefix_path C @ PREFIX_PATH_ENTITY_VIEW));
     (case data of
        None \<Rightarrow> ret (None, None, None)
      | Some xs \<Rightarrow> do {
          let version = fold (\<lambda>(val, key, revision) v. max revision v) xs (-1);
          State_Monad.update (\<lambda>w. w\<lparr>last_ver := max version (last_ver w)\<rparr>);
          ret (Some True, Some (dispatch_pool (entire_pool xs [])), None) }) }"

definition read_remote_incremental_kvdata :: "('s watch_master, kvdata) state" where
  "read_remote_incremental_kvdata = do {
     w \<leftarrow> State_Monad.get;
     State_Monad.update init_entity_pool;
     ret (Some False, map_option dispatch_pool (entity_add_pool w), map_option dispatch_pool (entity_del_pool w)) }"

text \<open>
  \<open>read_remote_kvdata\<close>: every tenth call first asks for the members, to find out that a connection is
  dead. When nothing was read the next call reads everything again.
\<close>

definition avoid_dummy_connection :: "'s etcd \<Rightarrow> ('s watch_master, unit) state" where
  "avoid_dummy_connection E = do {
     reconnected \<leftarrow> on_net (etcd_members E);
     (if reconnected then State_Monad.update disable_all_watches else ret ()) }"

definition read_remote_kvdata :: "'s etcd \<Rightarrow> lm_conf \<Rightarrow> ('s watch_master, kvdata) prog" where
  "read_remote_kvdata E C = do {
     State_Monad.update (\<lambda>w. w\<lparr>fetch_data_cnt := fetch_data_cnt w + 1\<rparr>);
     w \<leftarrow> State_Monad.get;
     (if fetch_data_cnt w mod 10 = 0 then avoid_dummy_connection E else ret ());
     w1 \<leftarrow> State_Monad.get;
     x \<leftarrow> (if read_entire w1 then read_remote_entire_kvdata E C else read_remote_incremental_kvdata);
     r \<leftarrow> run_default_watch E C;
     (case r of
        None \<Rightarrow> ret None
      | Some _ \<Rightarrow> do {
          State_Monad.update (\<lambda>w. w\<lparr>read_entire := (fst (snd x) = None)\<rparr>);
          ret (Some x) }) }"

section \<open>Writing\<close>

definition lm_put :: "'s etcd \<Rightarrow> lm_conf \<Rightarrow> string \<Rightarrow> string \<Rightarrow> ('s watch_master, unit) prog" where
  "lm_put E C key val = etcd_operate (etcd_put E (prefix_path C @ key) val None)"

definition put_entity_view_batch :: "'s etcd \<Rightarrow> lm_conf \<Rightarrow> (string \<times> string) list \<Rightarrow>
    ('s watch_master, nat) state" where
  "put_entity_view_batch E C kv_array =
     count_ok (\<lambda>(key, val). lm_put E C (PREFIX_PATH_ENTITY_VIEW @ key) val) kv_array"

definition put_entity_view :: "'s etcd \<Rightarrow> lm_conf \<Rightarrow> string \<Rightarrow> string \<Rightarrow> ('s watch_master, nat) state" where
  "put_entity_view E C key val = do {
     r \<leftarrow> lm_put E C (PREFIX_PATH_ENTITY_VIEW @ key) val;
     ret (if r = None then 0 else 1) }"

definition update_chassis :: "'s etcd \<Rightarrow> lm_conf \<Rightarrow> string \<Rightarrow> ('s watch_master, nat) state" where
  "update_chassis E C ip =
     (case lm_system_id C of
        None \<Rightarrow> ret 0
      | Some sid \<Rightarrow> do {
          now \<leftarrow> on_net (etcd_clock E);
          put_entity_view E C (''chassis/'' @ sid) (''ip='' @ ip @ '',tick='' @ int_str now) })"

definition remove_chassis :: "'s etcd \<Rightarrow> lm_conf \<Rightarrow> ('s watch_master, int) prog" where
  "remove_chassis E C =
     (case lm_system_id C of
        None \<Rightarrow> ret (Some 0)
      | Some sid \<Rightarrow> on_net (etcd_delete E (prefix_path C @ PREFIX_PATH_ENTITY_VIEW @ ''chassis/'' @ sid)))"

definition lm_lease :: "'s etcd \<Rightarrow> lm_conf \<Rightarrow> string \<Rightarrow> string \<Rightarrow> nat \<Rightarrow> ('s watch_master, unit) prog" where
  "lm_lease E C key val ttl = do {
     lease \<leftarrow> etcd_operate (etcd_lease E ttl);
     (case lease of
        None \<Rightarrow> ret None
      | Some l \<Rightarrow> etcd_operate (etcd_put E (prefix_path C @ key) val (Some l))) }"

definition lease_communicate :: "'s etcd \<Rightarrow> lm_conf \<Rightarrow> string \<Rightarrow> string \<Rightarrow> nat \<Rightarrow> ('s watch_master, nat) state" where
  "lease_communicate E C key val ttl = do {
     r \<leftarrow> lm_lease E C (PREFIX_PATH_COMMUNICATE @ key) val ttl;
     ret (if r = None then 0 else 1) }"

end
