(* ===== verification/Tuplesync.thy ===== *)
theory Tuplesync imports Sync_Flows Port_Rules Link_Master Commit_Ovs begin

text \<open>
  \<open>lcp/tuplesync.py\<close>: one pass of the controller. It brings the zoo up to date with etcd, tells etcd
  where the local ports are, and when the zoo has changed turns the change into flows, tunnels and
  patch ports. The state is the zoo, the module's global variables and the etcd client, whose \<open>net\<close>
  is the state of the machine.
\<close>

section \<open>State\<close>

record 's ctl =
  ezoo :: zoo
  prev_zoo_ver :: nat
  had_clean_tunnel_ports :: bool
  had_clean_ovs_flows :: bool
  accept_diff :: bool
  updated_chassis :: bool
  wmaster :: "'s watch_master"

record ctl_conf =
  ctl_env :: env
  consume_ip :: string
  runtest :: bool
  mac_ip_bind_file :: string
  lm_cfg :: lm_conf

definition on_zoo :: "(zoo \<Rightarrow> zoo) \<Rightarrow> ('s ctl, unit) state" where
  "on_zoo f = State_Monad.update (\<lambda>c. c\<lparr>ezoo := f (ezoo c)\<rparr>)"

definition on_lm :: "('s watch_master, 'a) state \<Rightarrow> ('s ctl, 'a) state" where
  "on_lm m = State (\<lambda>c. case run_state m (wmaster c) of (x, w) \<Rightarrow> (x, c\<lparr>wmaster := w\<rparr>))"

definition on_host :: "('s, 'a) state \<Rightarrow> ('s ctl, 'a) state" where
  "on_host m = on_lm (on_net m)"

definition init_ctl :: "string list \<Rightarrow> 's \<Rightarrow> 's ctl" where
  "init_ctl ids s =
     \<lparr>ezoo = init_zoo ids, prev_zoo_ver = 0, had_clean_tunnel_ports = False, had_clean_ovs_flows = False,
      accept_diff = False, updated_chassis = False, wmaster = init_watch_master s\<rparr>"

section \<open>Local ports\<close>

definition update_lsp_chassis :: "zoo \<Rightarrow> string \<Rightarrow> lsp_row list" where
  "update_lsp_chassis z sys_id =
     concat (map (\<lambda>(_, e).
       case body e of
         BOvsport _ port \<Rightarrow>
           (case map_of (entity_set z LSP) (OVSPORT_IFACE_ID port) of
              Some lsp \<Rightarrow>
                (case body lsp of
                   BLsp r \<Rightarrow> if LSP_CHASSIS_UUID r \<noteq> Some sys_id then [r] else []
                 | _ \<Rightarrow> [])
            | None \<Rightarrow> [])
       | _ \<Rightarrow> []) (entity_set z OVSPORT))"

definition lsp_kv :: "string \<Rightarrow> lsp_row \<Rightarrow> string \<times> string" where
  "lsp_kv sys_id lsp =
     (''LS/'' @ LSP_LS_UUID lsp @ ''/lsp/'' @ LSP_UUID lsp,
      ''ip='' @ LSP_IP lsp @ '',mac='' @ LSP_MAC lsp @ '',chassis='' @ sys_id @
      (case LSP_PEER lsp of None \<Rightarrow> '''' | Some peer \<Rightarrow> '',peer='' @ peer))"

definition generate_lsp_kv :: "lsp_row list \<Rightarrow> string \<Rightarrow> (string \<times> string) list" where
  "generate_lsp_kv lsps sys_id = map (lsp_kv sys_id) lsps"

definition revise_lsp_chassis :: "zoo \<Rightarrow> string \<Rightarrow> (string \<times> string) list" where
  "revise_lsp_chassis z sys_id = generate_lsp_kv (update_lsp_chassis z sys_id) sys_id"

section \<open>Addresses of the physical network\<close>

definition gen_arp_ip_flow :: "string \<Rightarrow> int \<Rightarrow> string" where
  "gen_arp_ip_flow mac_addr ip_int =
     ''table='' @ nat_str TABLE_SEARCH_IP_MAC @ '',priority=1,ip,reg2='' @ int_str ip_int @ '','' @
     ''actions=mod_dl_dst:'' @ mac_addr"

definition update_ovs_arp_ip_mac :: "'s host \<Rightarrow> ctl_conf \<Rightarrow> string \<Rightarrow> int \<Rightarrow> ('s, unit) prog" where
  "update_ovs_arp_ip_mac H C mac_addr ip_int = do {
     commit_flows H [gen_arp_ip_flow mac_addr ip_int] [];
     ok \<leftarrow> append_file H (mac_ip_bind_file C) (mac_addr @ '','' @ int_str ip_int @ [newline]);
     ret (if ok then Some () else None) }"

text \<open>The flows of the lines up to the first malformed one, and whether there was none.\<close>

fun arp_lines :: "string list \<Rightarrow> bool \<times> string list" where
  "arp_lines [] = (True, [])"
| "arp_lines (line # rest) =
     (case split_on CHR '','' line of
        [mac_addr, ip] \<Rightarrow>
          (case py_int ip of
             None \<Rightarrow> (False, [])
           | Some ip_int \<Rightarrow>
               (case arp_lines rest of (ok, flows) \<Rightarrow> (ok, gen_arp_ip_flow mac_addr ip_int # flows)))
      | _ \<Rightarrow> (False, []))"

definition get_ovs_arp_ip_mac_from_file :: "'s host \<Rightarrow> string \<Rightarrow> ('s, string list) state" where
  "get_ovs_arp_ip_mac_from_file H path = do {
     content \<leftarrow> read_file H path;
     (case content of
        None \<Rightarrow> ret []
      | Some ls \<Rightarrow>
          (case arp_lines ls of
             (True, flows) \<Rightarrow> do { truncate_file H path; ret flows }
           | (False, flows) \<Rightarrow> ret flows)) }"

section \<open>Commands pushed through etcd\<close>

definition execute_pushed_cmd_inject_pkt :: "'s host \<Rightarrow> int \<Rightarrow> string \<Rightarrow> string \<Rightarrow> zoo \<Rightarrow> ('s, unit) state" where
  "execute_pushed_cmd_inject_pkt H cmd_id packet_data lsp z =
     for_each (\<lambda>(_, e). case body e of
         BOvsport _ port \<Rightarrow>
           if OVSPORT_IFACE_ID port = lsp then inject_pkt_to_ovsport H cmd_id packet_data (OVSPORT_OFPORT port)
           else ret ()
       | _ \<Rightarrow> ret ()) (entity_set z OVSPORT)"

definition execute_pushed_cmd :: "'s host \<Rightarrow> pool \<Rightarrow> zoo \<Rightarrow> ('s, unit) state" where
  "execute_pushed_cmd H cmd_set z =
     for_each (\<lambda>(path, vs).
         if map_of vs ''cmd'' = Some ''pkt_trace'' then
           (case (py_int (last (split_on CHR ''/'' path)), map_of vs ''packet'', map_of vs ''port'') of
              (Some cmd_id, Some packet, Some port) \<Rightarrow> execute_pushed_cmd_inject_pkt H cmd_id packet port z
            | _ \<Rightarrow> ret ())
         else ret ()) cmd_set"

section \<open>The zoo follows etcd\<close>

definition update_entity :: "env \<Rightarrow> dis_pool option \<Rightarrow> dis_pool option \<Rightarrow> zoo \<Rightarrow> zoo" where
  "update_entity env add_pool del_pool z =
     (let z1 = (case del_pool of
                  None \<Rightarrow> z
                | Some dp \<Rightarrow>
                    fold (\<lambda>t z. case map_of dp (etype_name t) of
                            None \<Rightarrow> z
                          | Some p \<Rightarrow> move_entity2sink_by_pool t p z) logical_entity_types z)
      in case add_pool of
           None \<Rightarrow> z1
         | Some ap \<Rightarrow>
             fold (\<lambda>t z. case map_of ap (etype_name t) of
                     None \<Rightarrow> z
                   | Some p \<Rightarrow> convert_pool2entity env t p z) logical_entity_types z1)"

definition update_entity_from_remote :: "'s host \<Rightarrow> 's etcd \<Rightarrow> ctl_conf \<Rightarrow> ('s ctl, unit) prog" where
  "update_entity_from_remote H E C = do {
     data \<leftarrow> on_lm (read_remote_kvdata E (lm_cfg C));
     (case data of
        None \<Rightarrow> ret None
      | Some (data_type, add_pool, del_pool) \<Rightarrow> do {
          c \<leftarrow> State_Monad.get;
          (if data_type = Some True \<and> accept_diff c
           then on_zoo (move_all_entity2sink [OVSPORT, OVSPORT_CHASSIS]) else ret ());
          State_Monad.update (\<lambda>c. c\<lparr>accept_diff := True\<rparr>);
          on_zoo (update_entity (ctl_env C) add_pool del_pool);
          c \<leftarrow> State_Monad.get;
          (case Option.bind add_pool (\<lambda>ap. map_of ap ''cmd'') of
             None \<Rightarrow> ret ()
           | Some cmd_set \<Rightarrow> on_host (execute_pushed_cmd H cmd_set (ezoo c)));
          ret (Some ()) }) }"

section \<open>Open vSwitch follows the zoo\<close>

definition rebuild_chassis_tunnel :: "'s host \<Rightarrow> (string \<times> string \<times> int) list \<Rightarrow> ('s ctl, unit) prog" where
  "rebuild_chassis_tunnel H port_configs = do {
     r \<leftarrow> on_host (each_ok (\<lambda>(ip, uuid, st).
         if st \<ge> 0 then
           (if ip = '''' then do { create_flowbased_tunnel H uuid ''br-int''; ret (Some ()) }
            else do { x \<leftarrow> create_tunnel H ip uuid ''br-int''; ret (map_option (\<lambda>_. ()) x) })
         else remove_tunnel_by_ip H ip) port_configs);
     (case r of
        None \<Rightarrow> ret None
      | Some _ \<Rightarrow> do {
          c \<leftarrow> State_Monad.get;
          (if had_clean_tunnel_ports c then ret ()
           else do {
             State_Monad.update (\<lambda>c. c\<lparr>had_clean_tunnel_ports := True\<rparr>);
             on_host (for_each (remove_tunnel_by_name H) (tunnel_port_delete_exist (db (ezoo c)))) });
          ret (Some ()) }) }"

definition tun_bfd_dict :: "(string \<times> int) list \<Rightarrow> (string \<times> int) list" where
  "tun_bfd_dict port_configs =
     fold (\<lambda>(portname, st) d.
             case map_of d portname of
               None \<Rightarrow> AList.update portname st d
             | Some st' \<Rightarrow> AList.update portname (max st st') d) port_configs []"

definition config_tunnel_bfd :: "'s host \<Rightarrow> (string \<times> int) list \<Rightarrow> ('s, unit) state" where
  "config_tunnel_bfd H port_configs =
     for_each (\<lambda>(portname, st).
         if st > 0 then config_ovsport_bfd H portname ''enable=true''
         else if st < 0 then config_ovsport_bfd H portname ''enable=false''
         else ret ()) (tun_bfd_dict port_configs)"

definition rebuild_patchport :: "'s host \<Rightarrow> (string \<times> string \<times> int) list \<Rightarrow> ('s, unit) state" where
  "rebuild_patchport H port_config =
     for_each (\<lambda>(portname, peer_br, st).
         if st < 0 then delete_patchport H portname else create_patchport H portname peer_br ''br-int'')
       port_config"

text \<open>All flows of a pass: those of the round, and in the first one the constant flows.\<close>

definition pass_flows :: "options \<Rightarrow> bool \<Rightarrow> facts \<Rightarrow> lflow rel" where
  "pass_flows options first_pass f =
     build_flows options f @ (if first_pass then map (\<lambda>fl. (fl, 1)) build_const_flows else [])"

text \<open>The first pass replaces all flows, those after it commit the difference.\<close>

definition commit_pass :: "'s host \<Rightarrow> ctl_conf \<Rightarrow> string list \<Rightarrow> string list \<Rightarrow> ('s ctl, unit) prog" where
  "commit_pass H C ovs_flows_add ovs_flows_del = do {
     c \<leftarrow> State_Monad.get;
     (if \<not> had_clean_ovs_flows c then do {
        State_Monad.update (\<lambda>c. c\<lparr>had_clean_ovs_flows := True\<rparr>);
        macs \<leftarrow> on_host (get_ovs_arp_ip_mac_from_file H (mac_ip_bind_file C));
        on_host (commit_replaceflows H (ovs_flows_add @ macs) ''br-int'') }
      else do {
        on_host (commit_flows H ovs_flows_add ovs_flows_del);
        ret (Some ()) }) }"

definition update_ovs_side :: "'s host \<Rightarrow> ctl_conf \<Rightarrow> ('s ctl, unit) prog" where
  "update_ovs_side H C = do {
     c \<leftarrow> State_Monad.get;
     let options = opts (ctl_env C);
     let f = db (ezoo c);
     let lflows = pass_flows options (\<not> had_clean_ovs_flows c) f;
     (case sweep_zoo (ezoo c) of
        None \<Rightarrow> ret None
      | Some z \<Rightarrow> do {
          on_zoo (\<lambda>_. z);
          (case convert_tuple2flow (HASH_FN options) lflows of
             None \<Rightarrow> ret None
           | Some (flows_add, flows_del) \<Rightarrow> do {
               r \<leftarrow> commit_pass H C (if runtest C then sort flows_add else flows_add) flows_del;
               (case r of
                  None \<Rightarrow> ret None
                | Some _ \<Rightarrow> do {
                    r' \<leftarrow> rebuild_chassis_tunnel H (tunnel_port_oper f);
                    (case r' of
                       None \<Rightarrow> ret None
                     | Some _ \<Rightarrow> do {
                         on_host (config_tunnel_bfd H (ecmp_bfd_port options f));
                         on_host (rebuild_patchport H (patchport_oper f));
                         ret (Some ()) }) }) }) }) }"

section \<open>A pass\<close>

definition need_recompute :: "('s ctl, bool) state" where
  "need_recompute = do {
     c \<leftarrow> State_Monad.get;
     State_Monad.update (\<lambda>c. c\<lparr>prev_zoo_ver := zoo_ver (ezoo c)\<rparr>);
     ret (zoo_ver (ezoo c) \<noteq> prev_zoo_ver c) }"

definition is_new_chassis :: "string \<Rightarrow> string \<Rightarrow> facts \<Rightarrow> bool" where
  "is_new_chassis ip chassis_id f =
     (case latest_chassis f ip of None \<Rightarrow> True | Some ch \<Rightarrow> PCH_UUID ch \<noteq> chassis_id)"

text \<open>
  \<open>update_logical_view\<close> up to its recursive call; the result is the number of keys it put into etcd, or
  zero when there was nothing to recompute.
\<close>

definition register_chassis :: "'s etcd \<Rightarrow> ctl_conf \<Rightarrow> ('s ctl, nat) state" where
  "register_chassis E C = do {
     c \<leftarrow> State_Monad.get;
     (if updated_chassis c then ret 0
      else if \<not> is_new_chassis (consume_ip C) (system_id (ctl_env C)) (db (ezoo c)) then do {
        State_Monad.update (\<lambda>c. c\<lparr>updated_chassis := True\<rparr>); ret 0 }
      else do {
        n \<leftarrow> on_lm (update_chassis E (lm_cfg C) (consume_ip C));
        (if n = 1 then State_Monad.update (\<lambda>c. c\<lparr>updated_chassis := True\<rparr>) else ret ());
        ret n }) }"

text \<open>The part before \<open>need_recompute\<close>: the zoo follows etcd, and etcd learns where the local ports are.\<close>

definition read_pass :: "'s host \<Rightarrow> 's etcd \<Rightarrow> ctl_conf \<Rightarrow> ('s ctl, nat) prog" where
  "read_pass H E C = do {
     r \<leftarrow> update_entity_from_remote H E C;
     (case r of
        None \<Rightarrow> ret None
      | Some _ \<Rightarrow> do {
          c \<leftarrow> State_Monad.get;
          let upload_data = revise_lsp_chassis (ezoo c) (system_id (ctl_env C));
          cnt \<leftarrow> (if upload_data = [] then ret 0 else on_lm (put_entity_view_batch E (lm_cfg C) upload_data));
          ret (Some cnt) }) }"

definition logical_view_pass :: "'s host \<Rightarrow> 's etcd \<Rightarrow> ctl_conf \<Rightarrow> ('s ctl, nat) prog" where
  "logical_view_pass H E C = do {
     cnt_upload \<leftarrow> read_pass H E C;
     (case cnt_upload of
        None \<Rightarrow> ret None
      | Some cnt \<Rightarrow> do {
          recompute \<leftarrow> need_recompute;
          (if \<not> recompute then ret (Some 0)
           else do {
             r \<leftarrow> update_ovs_side H C;
             (case r of
                None \<Rightarrow> ret None
              | Some _ \<Rightarrow> do { n \<leftarrow> register_chassis E C; ret (Some (cnt + n)) }) }) }) }"

text \<open>As long as it puts something it goes on, which need not end; an exception is \<open>Some (None, ...)\<close>.\<close>

partial_function (option) update_logical_view ::
    "'s host \<Rightarrow> 's etcd \<Rightarrow> ctl_conf \<Rightarrow> 's ctl \<Rightarrow> (unit option \<times> 's ctl) option" where
  "update_logical_view H E C c =
     (case run_state (logical_view_pass H E C) c of
        (None, c1) \<Rightarrow> Some (None, c1)
      | (Some n, c1) \<Rightarrow> if n > 0 then update_logical_view H E C c1 else Some (Some (), c1))"

end
