(* ===== verification/Commit_Flows.thy ===== *)
theory Commit_Flows imports Commit_Ovs begin

text \<open>
  What \<open>commit_flows\<close> and \<open>commit_replaceflows\<close> do to the flows of the bridge, under the documented
  behaviour of \<open>ovs-ofctl\<close>: whatever batches fail, the deleted flows are gone in the end and nothing is
  there that was not there before or was added.
\<close>

section \<open>Batches\<close>

lemma concat_segs: "concat (map (\<lambda>k. take n (drop (n * k) xs)) [0..<m]) = take (n * m) xs"
  by (induction m) (simp_all add: mult_Suc_right add.commute [of n] take_add)

lemma flow_segs_concat [simp]: "concat (flow_segs flows) = flows"
proof -
  have "length flows \<le> 500 * ((length flows + 499) div 500)" by linarith
  then show ?thesis unfolding flow_segs_def concat_segs by simp
qed

lemma flow_segs_bounds:
  assumes "seg \<in> set (flow_segs flows)"
  shows "seg \<noteq> []" and "length seg \<le> 500" and "set seg \<subseteq> set flows"
proof -
  obtain k where k: "k < (length flows + 499) div 500" "seg = take 500 (drop (500 * k) flows)"
    using assms by (auto simp: flow_segs_def)
  then have "500 * k < length flows" by linarith
  then show "seg \<noteq> []" "length seg \<le> 500" using k(2) by auto
  show "set seg \<subseteq> set flows" using k(2) by (auto dest: in_set_takeD in_set_dropD)
qed

lemma in_flow_segs: "x \<in> set flows \<longleftrightarrow> (\<exists>seg \<in> set (flow_segs flows). x \<in> set seg)"
proof -
  have "set flows = (\<Union>seg \<in> set (flow_segs flows). set seg)"
    using arg_cong [OF flow_segs_concat, of set flows] by (simp only: set_concat)
  then show ?thesis by blast
qed

definition single_line :: "string \<Rightarrow> bool" where
  "single_line x \<longleftrightarrow> newline \<notin> set x"

lemma split_lines:
  "xs \<noteq> [] \<Longrightarrow> \<forall>x \<in> set xs. single_line x \<Longrightarrow> split_on newline (join_with [newline] xs) = xs"
  by (rule split_on_join) (auto simp: single_line_def)

section \<open>The contract of ovs-ofctl\<close>

text \<open>
  \<open>flows s\<close> are the flows of \<open>br-int\<close> as they were written when they were installed, \<open>file s\<close> the contents
  of the files. Deleting strictly by table, priority and match removes a flow whatever its actions.
\<close>

definition del_hits :: "string \<Rightarrow> string \<Rightarrow> bool" where
  "del_hits key flow \<longleftrightarrow> (\<exists>action. flow = key @ '',actions='' @ action)"

fun submitted :: "(string \<Rightarrow> string) \<Rightarrow> string list \<Rightarrow> string option \<Rightarrow> string set" where
  "submitted file (prog # timeout # op # args) commu =
     (if prog \<noteq> ''ovs-ofctl'' then {}
      else if op = ''add-flow''
        then (case commu of Some text \<Rightarrow> set (split_on newline text) | None \<Rightarrow> {last args})
      else if op = ''replace-flows'' then set (split_on newline (file (last args)))
      else {})"
| "submitted file _ commu = {}"

definition ofctl_ok :: "'s host \<Rightarrow> ('s \<Rightarrow> string set) \<Rightarrow> ('s \<Rightarrow> string \<Rightarrow> string) \<Rightarrow> bool" where
  "ofctl_ok H flows file \<longleftrightarrow>
     (\<forall>cmd commu s out s'. run_state (popen H cmd commu) s = (out, s') \<longrightarrow>
        flows s' \<subseteq> flows s \<union> submitted (file s) cmd commu) \<and>
     (\<forall>args commu s out s'. run_state (popen H (''ovs-ofctl'' # args) commu) s = (out, s') \<longrightarrow>
        file s' = file s) \<and>
     (\<forall>keys s out s'. keys \<noteq> [] \<longrightarrow> (\<forall>k \<in> set keys. single_line k) \<longrightarrow>
        run_state (popen H [''ovs-ofctl'', ''--timeout=5'', ''del-flows'', ''-O'', OPENFLOW_VER, ''br-int'',
          ''--strict'', ''-''] (Some (join_with [newline] keys))) s = (Some out, s') \<longrightarrow>
        (\<forall>k \<in> set keys. \<forall>x \<in> flows s'. \<not> del_hits k x)) \<and>
     (\<forall>k s out s'.
        run_state (popen H [''ovs-ofctl'', ''--timeout=5'', ''del-flows'', ''br-int'', k, ''--strict''] None) s =
          (Some out, s') \<longrightarrow> (\<forall>x \<in> flows s'. \<not> del_hits k x)) \<and>
     (\<forall>path s out s'.
        run_state (popen H [''ovs-ofctl'', ''--timeout=5'', ''replace-flows'', ''-O'', OPENFLOW_VER, ''br-int'', path]
          None) s = (Some out, s') \<longrightarrow> flows s' \<subseteq> set (split_on newline (file s path))) \<and>
     (\<forall>path text s ok s'. run_state (write_file H path text) s = (ok, s') \<longrightarrow>
        flows s' = flows s \<and> (ok \<longrightarrow> file s' path = text)) \<and>
     (\<forall>path text s. flows (snd (run_state (append_file H path text) s)) = flows s) \<and>
     (\<forall>path s. flows (snd (run_state (remove_file H path) s)) = flows s) \<and>
     (\<forall>path s. flows (snd (run_state (read_file H path) s)) = flows s) \<and>
     (\<forall>path s. flows (snd (run_state (truncate_file H path) s)) = flows s) \<and>
     (\<forall>s. flows (snd (run_state (temp_path H) s)) = flows s)"

lemma ofctl_grows:
  assumes "ofctl_ok H flows file" and "run_state (popen H cmd commu) s = (out, s')"
  shows "flows s' \<subseteq> flows s \<union> submitted (file s) cmd commu"
  using assms(1) [unfolded ofctl_ok_def, THEN conjunct1, rule_format, OF assms(2)] .

lemma ofctl_files:
  assumes "ofctl_ok H flows file" and "run_state (popen H (''ovs-ofctl'' # args) commu) s = (out, s')"
  shows "file s' = file s"
  using assms(1) [unfolded ofctl_ok_def, THEN conjunct2, THEN conjunct1, rule_format, OF assms(2)] .

lemma ofctl_del_batch:
  assumes "ofctl_ok H flows file" and "keys \<noteq> []" and "\<And>k. k \<in> set keys \<Longrightarrow> single_line k"
    and "run_state (popen H [''ovs-ofctl'', ''--timeout=5'', ''del-flows'', ''-O'', OPENFLOW_VER, ''br-int'',
      ''--strict'', ''-''] (Some (join_with [newline] keys))) s = (Some out, s')"
    and "k \<in> set keys" and "x \<in> flows s'"
  shows "\<not> del_hits k x"
  using assms(1) [unfolded ofctl_ok_def, THEN conjunct2, THEN conjunct2, THEN conjunct1, rule_format,
    OF assms(2,3,4,5,6)] .

lemma ofctl_del_one:
  assumes "ofctl_ok H flows file"
    and "run_state (popen H [''ovs-ofctl'', ''--timeout=5'', ''del-flows'', ''br-int'', k, ''--strict''] None) s =
      (Some out, s')" and "x \<in> flows s'"
  shows "\<not> del_hits k x"
  using assms(1) [unfolded ofctl_ok_def, THEN conjunct2, THEN conjunct2, THEN conjunct2, THEN conjunct1, rule_format,
    OF assms(2,3)] .

lemma ofctl_replace:
  assumes "ofctl_ok H flows file"
    and "run_state (popen H [''ovs-ofctl'', ''--timeout=5'', ''replace-flows'', ''-O'', OPENFLOW_VER, ''br-int'', path]
      None) s = (Some out, s')"
  shows "flows s' \<subseteq> set (split_on newline (file s path))"
  using assms(1) [unfolded ofctl_ok_def, THEN conjunct2, THEN conjunct2, THEN conjunct2, THEN conjunct2, THEN conjunct1,
    rule_format, OF assms(2)] .

lemma ofctl_write:
  assumes "ofctl_ok H flows file" and "run_state (write_file H path text) s = (ok, s')"
  shows "flows s' = flows s" and "ok \<Longrightarrow> file s' path = text"
  using assms(1) [unfolded ofctl_ok_def, THEN conjunct2, THEN conjunct2, THEN conjunct2, THEN conjunct2, THEN conjunct2,
    THEN conjunct1, rule_format, OF assms(2)] by simp_all

lemma ofctl_other_files:
  assumes "ofctl_ok H flows file"
  shows "flows (snd (run_state (append_file H path text) s)) = flows s"
    and "flows (snd (run_state (remove_file H path) s)) = flows s"
    and "flows (snd (run_state (read_file H path) s)) = flows s"
    and "flows (snd (run_state (truncate_file H path) s)) = flows s"
    and "flows (snd (run_state (temp_path H) s)) = flows s"
  using assms unfolding ofctl_ok_def by (elim conjE; simp only:)+

text \<open>A single deletion never fails three times in a row.\<close>

definition deletes_ok :: "'s host \<Rightarrow> bool" where
  "deletes_ok H \<longleftrightarrow> (\<forall>k s. fst (run_state (del_flow H k) s) \<noteq> None)"

section \<open>Growing\<close>

text \<open>Predicates of the flows that only the flows of \<open>L\<close> may be added to.\<close>

definition closed_under :: "('s \<Rightarrow> string set) \<Rightarrow> string set \<Rightarrow> ('s \<Rightarrow> bool) \<Rightarrow> bool" where
  "closed_under flows L P \<longleftrightarrow> (\<forall>s s'. P s \<longrightarrow> flows s' \<subseteq> flows s \<union> L \<longrightarrow> P s')"

lemma popen_keeps:
  assumes "ofctl_ok H flows file" and "closed_under flows L P" and "\<And>s. submitted (file s) cmd commu \<subseteq> L"
  shows "keeps P (popen H cmd commu)"
  unfolding keeps_def
proof (intro allI impI)
  fix s assume "P s"
  obtain out s' where r: "run_state (popen H cmd commu) s = (out, s')" by fastforce
  then have "flows s' \<subseteq> flows s \<union> submitted (file s) cmd commu" by (rule ofctl_grows [OF assms(1)])
  then have "flows s' \<subseteq> flows s \<union> L" using assms(3) by blast
  then have "P s'" using assms(2) \<open>P s\<close> unfolding closed_under_def by blast
  then show "P (snd (run_state (popen H cmd commu) s))" by (simp add: r)
qed

lemma ovsprog_keeps:
  assumes "ofctl_ok H flows file" and "closed_under flows L P"
    and "\<And>s. submitted (file s) ([prog, ''--timeout=5''] @ args) commu \<subseteq> L"
  shows "keeps P (call_ovsprog H prog args commu)"
  unfolding call_ovsprog_def call_popen_def
  by (intro keeps_intro popen_keeps [OF assms(1,2)] assms(3))

lemma ovsprog_some:
  assumes "run_state (call_ovsprog H prog args commu) s = (Some out, s')"
  obtains s0 out' where "run_state (popen H ([prog, ''--timeout=5''] @ args) commu) s0 = (Some out', s')"
proof -
  obtain s0 where "run_state (call_popen H ([prog, ''--timeout=5''] @ args) commu) s0 = (Some out, s')"
    using retry_some [OF assms [unfolded call_ovsprog_def]] by blast
  then show ?thesis
    using that by (cases "run_state (popen H ([prog, ''--timeout=5''] @ args) commu) s0") (auto simp: call_popen_def)
qed

section \<open>commit_flows\<close>

text \<open>\<open>cleared L k s\<close>: of the flows that \<open>k\<close> deletes only those of \<open>L\<close> are left.\<close>

definition cleared :: "('s \<Rightarrow> string set) \<Rightarrow> string set \<Rightarrow> string \<Rightarrow> 's \<Rightarrow> bool" where
  "cleared flows L k s \<longleftrightarrow> (\<forall>x \<in> flows s. del_hits k x \<longrightarrow> x \<in> L)"

lemma closed_cleared: "closed_under flows L (cleared flows L k)"
  by (auto simp: closed_under_def cleared_def)

lemma closed_subset: "L \<subseteq> B \<Longrightarrow> closed_under flows L (\<lambda>s. flows s \<subseteq> B)"
  by (auto simp: closed_under_def)

lemma del_flow_keeps:
  "ofctl_ok H flows file \<Longrightarrow> closed_under flows L P \<Longrightarrow> keeps P (del_flow H k)"
  unfolding del_flow_def ovs_ofctl_def by (rule ovsprog_keeps) auto

lemma add_flow_keeps:
  "ofctl_ok H flows file \<Longrightarrow> closed_under flows L P \<Longrightarrow> x \<in> L \<Longrightarrow> keeps P (add_flow H x)"
  unfolding add_flow_def ovs_ofctl_def by (rule ovsprog_keeps) auto

lemma delflows_batch_keeps:
  "ofctl_ok H flows file \<Longrightarrow> closed_under flows L P \<Longrightarrow> keeps P (ovs_ofctl_delflows_batch H br ks)"
  unfolding ovs_ofctl_delflows_batch_def by (intro keeps_intro ovsprog_keeps [where L = L]) auto

lemma addflows_batch_keeps:
  assumes "ofctl_ok H flows file" and "closed_under flows L P" and "set xs \<subseteq> L" and "\<forall>x \<in> set xs. single_line x"
  shows "keeps P (ovs_ofctl_addflows_batch H br xs)"
  unfolding ovs_ofctl_addflows_batch_def
proof (intro keeps_intro ovsprog_keeps [OF assms(1,2)])
  fix c s assume "c \<in> set (aggregate_flows xs)"
  then obtain seg where seg: "seg \<in> set (flow_segs xs)" "c = join_with [newline] seg"
    by (auto simp: aggregate_flows_def)
  note b = flow_segs_bounds [OF seg(1)]
  have "split_on newline c = seg" unfolding seg(2) by (rule split_lines) (use b assms(4) in auto)
  then show "submitted (file s) ([''ovs-ofctl'', ''--timeout=5''] @
      [''add-flow'', ''-O'', OPENFLOW_VER, br, ''-'']) (Some c) \<subseteq> L"
    using b assms(3) by auto
qed

lemma one_by_one_keeps:
  "ofctl_ok H flows file \<Longrightarrow> closed_under flows L P \<Longrightarrow> set add \<subseteq> L \<Longrightarrow> keeps P (commit_one_by_one H add del)"
  unfolding commit_one_by_one_def
  by (intro keeps_intro del_flow_keeps [where L = L] add_flow_keeps [where L = L]) auto

lemma commit_flows_keeps:
  assumes "ofctl_ok H flows file" and "closed_under flows L P" and "set add \<subseteq> L" and "\<forall>x \<in> set add. single_line x"
  shows "keeps P (commit_flows H add del)"
  unfolding commit_flows_def
  by (intro keeps_intro one_by_one_keeps [OF assms(1,2)] delflows_batch_keeps [OF assms(1,2)]
      addflows_batch_keeps [OF assms(1,2)]) (use assms(3,4) in auto)

lemma delflows_batch_clears:
  assumes ok: "ofctl_ok H flows file" and lines: "\<forall>k \<in> set ks. single_line k"
    and r: "run_state (ovs_ofctl_delflows_batch H ''br-int'' ks) s = (Some u, s')" and "k \<in> set ks"
  shows "cleared flows L k s'"
proof -
  let ?f = "\<lambda>c. call_ovsprog H ''ovs-ofctl'' [''del-flows'', ''-O'', OPENFLOW_VER, ''br-int'', ''--strict'', ''-''] (Some c)"
  let ?Q = "\<lambda>c s. \<forall>seg \<in> set (flow_segs ks). c = join_with [newline] seg \<longrightarrow> (\<forall>k \<in> set seg. cleared flows L k s)"
  have "\<forall>c \<in> set (aggregate_flows ks). ?Q c s'"
  proof (rule each_ok_all)
    show "run_state (each_ok ?f (aggregate_flows ks)) s = (Some (), s')"
      using r by (simp add: ovs_ofctl_delflows_batch_def)
    fix c s0 s1 out assume "c \<in> set (aggregate_flows ks)" and run: "run_state (?f c) s0 = (Some out, s1)"
    obtain s2 out' where p: "run_state (popen H [''ovs-ofctl'', ''--timeout=5'', ''del-flows'', ''-O'', OPENFLOW_VER,
        ''br-int'', ''--strict'', ''-''] (Some c)) s2 = (Some out', s1)"
      using ovsprog_some [OF run] by auto
    show "?Q c s1"
    proof (intro ballI impI)
      fix seg k assume seg: "seg \<in> set (flow_segs ks)" "c = join_with [newline] seg" "k \<in> set seg"
      have "seg \<noteq> []" "\<forall>k \<in> set seg. single_line k" using flow_segs_bounds [OF seg(1)] lines by auto
      then have "\<not> del_hits k x" if "x \<in> flows s1" for x
        using ofctl_del_batch [OF ok _ _ p [unfolded seg(2)] seg(3) that] by blast
      then show "cleared flows L k s1" by (auto simp: cleared_def)
    qed
  next
    fix c d
    have "keeps (cleared flows L k) (?f d)" for k
      by (rule ovsprog_keeps [OF ok closed_cleared]) simp
    then show "keeps (?Q c) (?f d)" unfolding keeps_def by blast
  qed
  then show ?thesis using assms(4) in_flow_segs [of k ks] by (auto simp: aggregate_flows_def)
qed

lemma one_by_one_clears:
  assumes ok: "ofctl_ok H flows file" and del: "deletes_ok H" and "k \<in> set ks" and "set add \<subseteq> L"
  shows "cleared flows L k (snd (run_state (commit_one_by_one H add ks) s))"
proof -
  have "\<forall>k \<in> set ks. cleared flows L k (snd (run_state (count_ok (del_flow H) ks) s))"
  proof (rule count_ok_all)
    fix k s0 s1 out assume "run_state (del_flow H k) s0 = (Some out, s1)"
    from ovsprog_some [OF this [unfolded del_flow_def ovs_ofctl_def]]
    obtain s2 out' where p: "run_state (popen H [''ovs-ofctl'', ''--timeout=5'', ''del-flows'', ''br-int'', k,
        ''--strict''] None) s2 = (Some out', s1)" by auto
    then show "cleared flows L k s1" using ofctl_del_one [OF ok p] by (auto simp: cleared_def)
  qed (use del_flow_keeps [OF ok closed_cleared] del in \<open>auto simp: deletes_ok_def\<close>)
  moreover have "keeps (cleared flows L k) (count_ok (add_flow H) add)"
    by (intro keeps_intro add_flow_keeps [OF ok closed_cleared]) (use assms(4) in auto)
  ultimately show ?thesis
    using assms(3) by (auto simp: commit_one_by_one_def keeps_def split: prod.splits)
qed

lemma commit_flows_clears:
  assumes ok: "ofctl_ok H flows file" and del: "deletes_ok H" and "\<forall>x \<in> set add \<union> set ks. single_line x"
    and "k \<in> set ks"
  shows "cleared flows (set add) k (snd (run_state (commit_flows H add ks) s))"
proof -
  obtain r s1 where batch: "run_state (ovs_ofctl_delflows_batch H ''br-int'' ks) s = (r, s1)" by fastforce
  show ?thesis
  proof (cases r)
    case None
    then show ?thesis
      using assms(4) batch one_by_one_clears [OF ok del assms(4), of add "set add" s1]
      by (auto simp: commit_flows_def split: prod.splits)
  next
    case (Some u)
    let ?rest = "do { r' \<leftarrow> (if add = [] then ret (Some ()) else ovs_ofctl_addflows_batch H ''br-int'' add);
       (case r' of None \<Rightarrow> commit_one_by_one H add [] | Some _ \<Rightarrow> ret (length ks + length add)) }"
    have "cleared flows (set add) k s1"
      using delflows_batch_clears [OF ok _ _ assms(4)] assms(3) batch Some by auto
    moreover have "keeps (cleared flows (set add) k) ?rest"
      by (intro keeps_intro one_by_one_keeps [OF ok closed_cleared] addflows_batch_keeps [OF ok closed_cleared])
        (use assms(3) in auto)
    ultimately have "cleared flows (set add) k (snd (run_state ?rest s1))" by (simp add: keeps_def)
    moreover have "run_state (commit_flows H add ks) s = run_state ?rest s1"
      using assms(4) batch Some by (auto simp: commit_flows_def)
    ultimately show ?thesis by simp
  qed
qed

lemma commit_flows_bound:
  assumes ok: "ofctl_ok H flows file" and del: "deletes_ok H" and lines: "\<forall>x \<in> set add \<union> set ks. single_line x"
  shows "flows (snd (run_state (commit_flows H add ks) s)) \<subseteq>
    {x \<in> flows s. \<forall>k \<in> set ks. \<not> del_hits k x} \<union> set add"
proof -
  let ?s = "snd (run_state (commit_flows H add ks) s)"
  have "keeps (\<lambda>s'. flows s' \<subseteq> flows s \<union> set add) (commit_flows H add ks)"
    by (rule commit_flows_keeps [OF ok closed_subset [OF Un_upper2]]) (use lines in auto)
  then have "flows ?s \<subseteq> flows s \<union> set add" by (simp add: keeps_def)
  moreover have "\<forall>k \<in> set ks. cleared flows (set add) k ?s"
    using commit_flows_clears [OF ok del lines] by blast
  ultimately show ?thesis unfolding cleared_def by blast
qed

section \<open>commit_replaceflows\<close>

lemma retry_some_kept:
  assumes "keeps P m" and "P s" and "run_state (retry n m) s = (Some x, s')"
  obtains s0 where "P s0" "run_state m s0 = (Some x, s')"
proof -
  have "\<exists>s0. P s0 \<and> run_state m s0 = (Some x, s')" using assms(2,3)
  proof (induction n arbitrary: s)
    case (Suc n)
    obtain r s1 where r: "run_state m s = (r, s1)" by fastforce
    have "P s1" by (rule keepsD [OF assms(1) Suc.prems(1) r])
    then show ?case using Suc r by (cases r) auto
  qed simp
  then show ?thesis using that by blast
qed

lemma replaceflows_bound:
  assumes ok: "ofctl_ok H flows file" and xs: "xs \<noteq> []" "\<forall>x \<in> set xs. single_line x"
    and run: "run_state (commit_replaceflows H xs ''br-int'') s = (Some u, s')"
  shows "flows s' \<subseteq> set xs"
proof -
  obtain path s1 where path: "run_state (temp_path H) s = (path, s1)" by fastforce
  obtain w s2 where w: "run_state (write_file H path (join_with [newline] xs)) s1 = (w, s2)" by fastforce
  obtain r s3 where r: "run_state (ovs_ofctl H [''replace-flows'', ''-O'', OPENFLOW_VER, ''br-int'', path]) s2 = (r, s3)"
    by fastforce
  have w_ok: "w" and "r \<noteq> None" and s': "s' = snd (run_state (remove_file H path) s3)"
    using run by (auto simp: commit_replaceflows_def path w r split: if_splits option.splits prod.splits)
  then obtain out where out: "r = Some out" by blast
  let ?cmd = "[''ovs-ofctl'', ''--timeout=5''] @ [''replace-flows'', ''-O'', OPENFLOW_VER, ''br-int'', path]"
  let ?P = "\<lambda>s. file s path = join_with [newline] xs"
  have kept: "keeps ?P (call_popen H ?cmd None)"
    unfolding call_popen_def
  proof (intro keeps_intro)
    show "keeps ?P (popen H ?cmd None)"
      unfolding keeps_def using ofctl_files [OF ok] by (metis append_Cons prod.exhaust_sel)
  qed
  obtain s0 where s0: "?P s0" "run_state (call_popen H ?cmd None) s0 = (Some out, s3)"
    by (rule retry_some_kept [OF kept _ r [unfolded ovs_ofctl_def call_ovsprog_def out]])
      (use ofctl_write(2) [OF ok w] w_ok in simp)
  obtain out' where "run_state (popen H ?cmd None) s0 = (Some out', s3)"
    using s0(2) by (cases "run_state (popen H ?cmd None) s0") (auto simp: call_popen_def)
  then have "flows s3 \<subseteq> set (split_on newline (file s0 path))"
    using ofctl_replace [OF ok] by simp
  then show ?thesis
    unfolding s' using s0(1) split_lines [OF xs] ofctl_other_files(2) [OF ok] by simp
qed

end
