(* ===== verification/Flow_Ok.thy ===== *)
theory Flow_Ok imports Sync_Flows begin

text \<open>
  Every flow the rules derive can be written out: its match names known fields, and each of its
  actions has a template whose arguments it has. So \<open>convert_tuple2flow\<close> does not raise.
\<close>

section \<open>Terms\<close>

abbreviation match_ok :: "match_exp list \<Rightarrow> bool" where
  "match_ok \<equiv> list_all match_exp_ok"

abbreviation acts_ok :: "act list \<Rightarrow> bool" where
  "acts_ok \<equiv> list_all act_ok"

named_theorems ok_simps "terms that can be printed"

lemma match_terms_ok [ok_simps]:
  "match_ok match_none" "match_ok (datapath x)" "match_ok (in_port x)" "match_ok (reg_2 x)" "match_ok (reg_5 x)"
  "match_ok (reg_dst x)" "match_ok (reg_outport x)" "match_ok (reg_flag (PInt i))" "match_ok ip_proto"
  "match_ok (ip_dst x)" "match_ok (ip_src x)" "match_ok (ip_dst_prefix x y)" "match_ok (ip_src_prefix x y)"
  "match_ok (ip_ttl x)" "match_ok (eth_dst x)" "match_ok arp_proto" "match_ok (arp_tpa x)" "match_ok (arp_op x)"
  "match_ok icmp_proto" "match_ok (icmp_type x)" "match_ok (icmp_code x)"
  by (simp_all add: flow_defs match_exp_ok_def REG_MATCH_DICT_entries_def)

lemma act_terms_ok [ok_simps]:
  "acts_ok (resubmit_table t)" "acts_ok drop_act" "acts_ok (mod_nw_dst v)" "acts_ok (mod_nw_src v)"
  "acts_ok (mod_dl_src v)" "acts_ok (mod_dl_dst v)" "acts_ok (mod_nw_ttl v)" "acts_ok (note_act i)" "acts_ok dec_ttl"
  "acts_ok resubmit_next" "acts_ok upload_arp" "acts_ok upload_trace" "acts_ok upload_unknow_dst"
  "acts_ok (generate_arp t)" "acts_ok (snat v t)" "acts_ok (unsnat t)" "acts_ok (dnat v t)" "acts_ok (undnat t)"
  "acts_ok (output_port v)"
  by (simp_all add: flow_defs act_ok_simps plain_codes_def value_codes_def)

lemma act_reg_terms_ok [ok_simps]:
  "acts_ok (move r r') \<longleftrightarrow> reg_ok r \<and> reg_ok r'" "acts_ok (load v r) \<longleftrightarrow> reg_ok r"
  "acts_ok (output_reg r) \<longleftrightarrow> reg_ok r" "acts_ok (push r) \<longleftrightarrow> reg_ok r"
  "acts_ok (exchange r r') \<longleftrightarrow> reg_ok r \<and> reg_ok r'" "acts_ok (bundle_load r ns) \<longleftrightarrow> reg_ok r"
  by (simp_all add: flow_defs act_ok_simps plain_codes_def value_codes_def)

lemma reg_ok_NXM [ok_simps]:
  "reg_ok (NXM_Reg i) \<longleftrightarrow> i \<in> set (map fst REG_ACTION_DICT_entries)"
  "reg_ok (NXM_Reg_bits i a b) \<longleftrightarrow> i \<in> set (map fst REG_ACTION_DICT_entries)"
  by (simp_all add: reg_ok_def NXM_Reg_def NXM_Reg_bits_def)

section \<open>Rules\<close>

definition flow_ok :: "flow \<Rightarrow> bool" where
  "flow_ok fl \<longleftrightarrow> match_ok (fst (snd fl)) \<and> acts_ok (snd (snd fl))"

lemma flow_ok_simp [ok_simps]: "flow_ok (p, m, a) \<longleftrightarrow> match_ok m \<and> acts_ok a"
  by (simp add: flow_ok_def)

definition rule_ok :: "'a rule \<Rightarrow> bool" where
  "rule_ok R \<longleftrightarrow> (\<forall>x \<in> set R. flow_ok (snd (fst x)))"

named_theorems rule_ok_intro "rules for lists of flows"

lemma rule_ok_append [rule_ok_intro]: "rule_ok R \<Longrightarrow> rule_ok R' \<Longrightarrow> rule_ok (R @ R')"
  by (auto simp: rule_ok_def)

lemma rule_ok_bind [rule_ok_intro]: "(\<And>x. rule_ok (F x)) \<Longrightarrow> rule_ok (concat (map F xs))"
  by (auto simp: rule_ok_def)

lemma rule_ok_map [rule_ok_intro]: "(\<And>x. flow_ok (snd (fst (h x)))) \<Longrightarrow> rule_ok (map h xs)"
  by (auto simp: rule_ok_def)

lemma rule_ok_if [rule_ok_intro]: "(b \<Longrightarrow> rule_ok R) \<Longrightarrow> (\<not> b \<Longrightarrow> rule_ok R') \<Longrightarrow> rule_ok (if b then R else R')"
  by simp

lemma rule_ok_Nil [rule_ok_intro]: "rule_ok []"
  by (simp add: rule_ok_def)

lemma rule_ok_one [rule_ok_intro]: "flow_ok fl \<Longrightarrow> rule_ok [((r, fl), s)]"
  by (simp add: rule_ok_def)

lemma per_ls_ok [rule_ok_intro]: "flow_ok fl \<Longrightarrow> rule_ok (per_ls f fl)"
  by (auto simp: rule_ok_def per_ls_def)

lemma per_lr_ok [rule_ok_intro]: "flow_ok fl \<Longrightarrow> rule_ok (per_lr f fl)"
  by (auto simp: rule_ok_def per_lr_def)

lemma flow_ok_case [rule_ok_intro]:
  "flow_ok (snd (fst (h (fst x) (snd x)))) \<Longrightarrow> flow_ok (snd (fst (case x of (a, b) \<Rightarrow> h a b)))"
  by (simp add: split_beta)

lemmas ok_defs = ok_simps REG_ACTION_DICT_entries_def

lemma base_rules_ok [rule_ok_intro]:
  "rule_ok (convert_phy_logical f)" "rule_ok (arp_feedback_construct f)" "rule_ok (redirect_other_chassis f)"
  unfolding convert_phy_logical_def arp_feedback_construct_def redirect_other_chassis_def arp_feedback_action_def split_beta
  by (intro rule_ok_intro; simp add: ok_defs)+

lemma ls_rules_ok [rule_ok_intro]:
  "rule_ok (lsp_arp_controller options f)" "rule_ok (lsp_arp_response f)" "rule_ok (lsp_lookup_dst_port options f)"
  "rule_ok (lsp_output_dst_port options f)" "rule_ok (lsp_judge_loopback f)" "rule_ok (lsp_forward_packet f)"
  "rule_ok (lsp_pushout_packet f)"
  unfolding lsp_arp_controller_def lsp_arp_response_def lsp_lookup_dst_port_def lsp_lookup_nat_def lsp_lookup_local_def
    lsp_lookup_remote_def lsp_lookup_patchport_def lsp_output_dst_port_def lsp_judge_loopback_def
    lsp_forward_packet_def lsp_forward_local_def lsp_forward_router_def lsp_pushout_packet_def split_beta
  by (intro rule_ok_intro; simp add: ok_defs)+

lemma untunnel_ok [rule_ok_intro]: "rule_ok (lsp_untunnel_deliver options f)"
  unfolding lsp_untunnel_deliver_def split_beta
  by (auto split: bool.splits option.splits intro!: rule_ok_intro simp: ok_defs)

lemma nat_rules_ok [rule_ok_intro]:
  "rule_ok (lunsnat_xlate_stage1 f)" "rule_ok (lunsnat_xlate_stage2 f)" "rule_ok (ldnat_xlate_stage1 f)"
  "rule_ok (ldnat_xlate_stage2 f)" "rule_ok (lundnat_xlate_stage1 f)" "rule_ok (lundnat_xlate_stage2 f)"
  "rule_ok (lsnat_xlate_stage1 f)" "rule_ok (lsnat_xlate_stage2 f)"
  unfolding lunsnat_xlate_stage1_def lunsnat_xlate_stage2_def ldnat_xlate_stage1_def ldnat_xlate_stage2_def
    lundnat_xlate_stage1_def lundnat_xlate_stage2_def lsnat_xlate_stage1_def lsnat_xlate_stage2_def split_beta
  by (intro rule_ok_intro; simp add: ok_defs)+

lemma lr_rules_ok [rule_ok_intro]:
  "rule_ok (lrp_pkt_response options f)" "rule_ok (lrp_drop_unexpect f)" "rule_ok (lrp_ip_route options f)"
  "rule_ok (lrp_ecmp_judge options f)" "rule_ok (lrp_update_eth_dst f)"
  "rule_ok (lrp_handle_unknow_dst_pkt options f)" "rule_ok (lrp_forward_packet f)"
  unfolding lrp_pkt_response_def lrp_icmp_response_def lrp_drop_unexpect_def lrp_ip_route_def lrp_auto_route_def
    lrp_static_route_def ecmp_static_route_def lrp_ecmp_judge_def ecmp_static_route_judge_def ecmp_judge_route_def
    lrp_update_eth_dst_def lrp_handle_unknow_dst_pkt_def lrp_ask_arp_def lrp_unknow_fallback_def
    lrp_forward_packet_def split_beta
  by (intro rule_ok_intro; simp add: ok_defs)+

section \<open>Flows\<close>

definition lflow_ok :: "lflow \<Rightarrow> bool" where
  "lflow_ok fl = (case fl of (t, p, m, a) \<Rightarrow> match_ok m \<and> acts_ok a)"

definition lflows_ok :: "lflow rel \<Rightarrow> bool" where
  "lflows_ok r \<longleftrightarrow> (\<forall>x \<in> set r. lflow_ok (fst x))"

lemma lflows_ok_append [simp]: "lflows_ok (r @ r') \<longleftrightarrow> lflows_ok r \<and> lflows_ok r'"
  by (auto simp: lflows_ok_def)

lemma emit_ok [rule_ok_intro]:
  assumes "rule_ok R" and "\<And>r p m a. match_ok m \<Longrightarrow> acts_ok a \<Longrightarrow> lflow_ok (h (r, p, m, a))"
  shows "lflows_ok (emit h R)"
  using assms by (fastforce simp: lflows_ok_def emit_def rule_ok_def flow_ok_def)

lemma build_flows_ok: "lflows_ok (build_flows options f)"
  unfolding build_flows_def build_flows_lrp_def build_flows_lsp_def build_flows_phy_def build_flows_mid_def
    trace_pipeline_module_def lflows_ok_append list.map concat.simps append_Nil2
  by (intro conjI rule_ok_intro)
    (simp_all add: lflow_ok_def lr_flow_def ls_flow_def ls_trace_flow_def plain_flow_def ok_defs)

lemma build_const_flows_ok: "list_all lflow_ok build_const_flows"
  by (simp add: build_const_flows_def build_flows_drop_def build_const_phy_def build_const_lsp_def build_const_lrp_def
      build_const_mid_def trace_pipeline_start_def trace_pipeline_end_def trace_pipeline_module_def output_pkt_by_reg_def
      embed_metadata_def extract_metadata_def pipeline_forward_def redirect_other_chassis_const_def
      const_flow_def lflow_ok_def ok_defs)

lemma flow_text_total:
  assumes "h \<in> set hash_fns" and "lflow_ok fl"
  shows "\<exists>k. flow_key fl = Some k" and "\<exists>x. flow_text h fl = Some x"
proof -
  obtain t p m a where fl: "fl = (t, p, m, a)" by (cases fl)
  then have "\<forall>me \<in> set m. match_exp_ok me" "\<forall>x \<in> set a. act_ok x"
    using assms(2) by (simp_all add: lflow_ok_def list_all_iff)
  then obtain ms as where "convert_tuple2match m = Some ms" "convert_tuple2action h a t = Some as"
    using convert_tuple2match_total [of m] convert_tuple2action_total [OF assms(1), of a t] by blast
  then show "\<exists>k. flow_key fl = Some k" "\<exists>x. flow_text h fl = Some x" by (simp_all add: flow_text_def flow_key_def fl)
qed

lemma convert_tuple2flow_total:
  assumes "h \<in> set hash_fns" and "lflows_ok r"
  shows "\<exists>x. convert_tuple2flow h r = Some x"
  using assms(2)
proof (induction r)
  case (Cons p r)
  obtain fl s where p: "p = (fl, s)" by (cases p)
  then have "lflow_ok fl" "lflows_ok r" using Cons.prems by (simp_all add: lflows_ok_def)
  then obtain k x a d where "flow_key fl = Some k" "flow_text h fl = Some x" "convert_tuple2flow h r = Some (a, d)"
    using Cons.IH flow_text_total [OF assms(1)] by (metis prod.exhaust)
  then show ?case by (simp add: p)
qed simp

end
