(* ===== verification/Flow_Lines.thy ===== *)
theory Flow_Lines imports Commit_Flows Flow_Ok begin

text \<open>
  The text of a flow is a single line when no string in the flow has a newline: the batches of
  \<open>commit_ovs.py\<close> separate flows by newlines.
\<close>

section \<open>Values\<close>

definition value_line :: "pyval \<Rightarrow> bool" where
  "value_line v = (case v of PStr s \<Rightarrow> single_line s | _ \<Rightarrow> True)"

definition arg_line :: "aarg \<Rightarrow> bool" where
  "arg_line a = (case a of AV v \<Rightarrow> value_line v | AR r \<Rightarrow> True | AL ns \<Rightarrow> True)"

lemma single_line_simps [simp]:
  "single_line []" "single_line (c # cs) \<longleftrightarrow> c \<noteq> newline \<and> single_line cs"
  "single_line (x @ y) \<longleftrightarrow> single_line x \<and> single_line y"
  by (auto simp: single_line_def)

lemma digits_line: "2 \<le> b \<Longrightarrow> b \<le> 16 \<Longrightarrow> single_line (num_str b n)"
  unfolding single_line_def
proof
  assume b: "2 \<le> b" "b \<le> 16" and "newline \<in> set (num_str b n)"
  then obtain d where d: "d < b" "newline = digit_char d" using num_str_chars [of b newline n] by blast
  then have "48 \<le> (of_char newline :: nat)" using digit_char_ge [of d] b by (simp add: d(2))
  then show False by simp
qed

lemma number_lines [simp]: "single_line (nat_str n)" "single_line (int_str i)" "single_line (hex02 i)"
  by (simp_all add: nat_str_def int_str_def hex02_def hex_str_def digits_line)

lemma value_lines [simp]: "value_line PNone" "value_line (PInt i)" "value_line (PStr s) \<longleftrightarrow> single_line s"
  by (simp_all add: value_line_def)

lemma pystr_line [simp]: "value_line v \<Longrightarrow> single_line (pystr v)"
  by (cases v) (simp_all add: pystr_def)

lemma join_line: "single_line sep \<Longrightarrow> \<forall>x \<in> set xs. single_line x \<Longrightarrow> single_line (join_with sep xs)"
  by (induction sep xs rule: join_with.induct) auto

lemma drop_line: "single_line x \<Longrightarrow> single_line (drop n x)"
  by (auto simp: single_line_def dest: in_set_dropD)

lemma map_of_line: "list_all (\<lambda>(k, x). single_line x) xs \<Longrightarrow> map_of xs k = Some x \<Longrightarrow> single_line x"
  by (auto simp: list_all_iff dest!: map_of_SomeD)

section \<open>Matches\<close>

definition match_lines :: "match_exp list \<Rightarrow> bool" where
  "match_lines m \<longleftrightarrow> list_all (\<lambda>(t, ps). list_all value_line ps) m"

lemma REG_MATCH_line: "REG_MATCH_DICT t = Some x \<Longrightarrow> single_line x"
  unfolding REG_MATCH_DICT_def dict_literal_def
  by (erule map_of_line [rotated]) (simp add: REG_MATCH_DICT_entries_def)

lemma convert_exps_line:
  "convert_exps p fs m = Some xs \<Longrightarrow> match_lines m \<Longrightarrow> (\<And>v. p = Some v \<Longrightarrow> value_line v) \<Longrightarrow>
     \<forall>x \<in> set xs. single_line x"
proof (induction p fs m arbitrary: xs rule: convert_exps.induct)
  case (2 p fs t ps m)
  let ?p = "case ps of [] \<Rightarrow> p | x # _ \<Rightarrow> Some x"
  have p: "value_line v" if "?p = Some v" for v
    using 2(3,4) that by (auto simp: match_lines_def split: list.splits)
  obtain p' fs' name rest where
    f: "(if t = REG_FLAG_IDX then (case ?p of None \<Rightarrow> None | Some v \<Rightarrow>
           map_option (\<lambda>s. (Some (PStr s), fs @ [v])) (convert_flags (fs @ [v]))) else Some (?p, fs)) = Some (p', fs')"
    and n: "REG_MATCH_DICT t = Some name" "convert_exps p' fs' m = Some rest"
    and xs: "xs = (name @ (case (p', ps) of (Some v, [_]) \<Rightarrow> ''='' @ pystr v
        | (Some v, [_, w]) \<Rightarrow> ''='' @ pystr v @ ''/'' @ pystr w | _ \<Rightarrow> '''')) # rest"
    using 2(2) by (auto simp: Let_def split: option.splits)
  have p': "value_line v" if "p' = Some v" for v
    using f p that by (auto simp: convert_flags_def split: if_splits option.splits)
  have "\<forall>x \<in> set rest. single_line x"
    by (rule 2(1) [OF refl refl f refl n]) (use 2(3) p' in \<open>auto simp: match_lines_def\<close>)
  moreover have "single_line (case (p', ps) of (Some v, [_]) \<Rightarrow> ''='' @ pystr v
        | (Some v, [_, w]) \<Rightarrow> ''='' @ pystr v @ ''/'' @ pystr w | _ \<Rightarrow> '''')"
    using p' 2(3) by (auto simp: match_lines_def split: option.splits list.splits)
  ultimately show ?case using REG_MATCH_line [OF n(1)] by (simp add: xs)
qed simp

lemma match_text_line: "match_lines m \<Longrightarrow> convert_tuple2match m = Some x \<Longrightarrow> single_line x"
  by (auto simp: convert_tuple2match_def intro!: join_line dest: convert_exps_line)

section \<open>Actions\<close>

definition acts_lines :: "act list \<Rightarrow> bool" where
  "acts_lines a \<longleftrightarrow> list_all (\<lambda>(t, xs). list_all arg_line xs) a"

lemma REG_ACTION_line: "REG_ACTION_DICT t = Some x \<Longrightarrow> single_line x"
  unfolding REG_ACTION_DICT_def dict_literal_def
  by (erule map_of_line [rotated]) (simp add: REG_ACTION_DICT_entries_def)

lemma nxm_repr_line: "nxm_repr r = Some x \<Longrightarrow> single_line x"
  using REG_ACTION_line by (auto simp: nxm_repr_def split: option.splits)

lemma aarg_str_line: "arg_line a \<Longrightarrow> aarg_str a = Some x \<Longrightarrow> single_line x"
  by (cases a) (auto simp: aarg_str_def arg_line_def nxm_repr_line join_line)

lemma py_format_line:
  "py_format t args = Some x \<Longrightarrow> single_line t \<Longrightarrow> list_all arg_line args \<Longrightarrow> single_line x"
proof (induction t args arbitrary: x rule: py_format.induct)
  case (2 c cs args)
  note IH = 2(1-5)
  have c: "c \<noteq> newline" "single_line cs" "single_line (drop n cs)" for n using 2(7) drop_line by simp_all
  show ?case
    using 2(6,8) IH c
    by (auto simp del: py_format.simps simp: py_format.simps(2) [of c] aarg_hex_def
        split: if_split_asm list.split_asm option.split_asm aarg.split_asm pyval.split_asm dest: aarg_str_line)
qed simp

lemma hash_template_line: "single_line h \<Longrightarrow> single_line t \<Longrightarrow> single_line (hash_template t h)"
  by (auto simp: hash_template_def arg_line_def split: option.split elim!: py_format_line)

lemma template_line: "single_line h \<Longrightarrow> ACTION_STR_MAP h t = Some x \<Longrightarrow> single_line x"
  using hash_template_line unfolding ACTION_STR_MAP_def dict_literal_def
  by (elim map_of_line [rotated]) (simp add: ACTION_STR_entries_def)

lemma parse_action_tuple_line:
  "single_line h \<Longrightarrow> list_all arg_line (snd a) \<Longrightarrow> parse_action_tuple h a t = Some x \<Longrightarrow> single_line x"
  using template_line [of h]
  by (auto simp: parse_action_tuple_def join_ports_def join_line arg_line_def
      split: option.split_asm if_split_asm list.split_asm aarg.split_asm intro: py_format_line)

lemma parse_actions_line:
  "parse_actions h a t = Some xs \<Longrightarrow> single_line h \<Longrightarrow> acts_lines a \<Longrightarrow> \<forall>x \<in> set xs. single_line x"
proof (induction h a t arbitrary: xs rule: parse_actions.induct)
  case (2 h a as t)
  then obtain x ys where "parse_action_tuple h a t = Some x" "parse_actions h as t = Some ys" "xs = x # ys"
    by (auto split: option.split_asm)
  then show ?case using 2 parse_action_tuple_line [of h a t x] by (auto simp: acts_lines_def split_beta)
qed simp

lemma action_text_line: "single_line h \<Longrightarrow> acts_lines a \<Longrightarrow> convert_tuple2action h a t = Some x \<Longrightarrow> single_line x"
  by (auto simp: convert_tuple2action_def intro!: join_line dest: parse_actions_line)

section \<open>Flows\<close>

definition lflow_lines :: "lflow \<Rightarrow> bool" where
  "lflow_lines fl = (case fl of (t, p, m, a) \<Rightarrow> match_lines m \<and> acts_lines a)"

lemma flow_text_line:
  assumes "lflow_lines fl"
  shows "flow_key fl = Some k \<Longrightarrow> single_line k" and "single_line h \<Longrightarrow> flow_text h fl = Some x \<Longrightarrow> single_line x"
  using assms match_text_line action_text_line
  by (auto simp: lflow_lines_def flow_key_def flow_text_def split: option.splits prod.splits; blast)+

lemma convert_tuple2flow_lines:
  assumes "convert_tuple2flow h r = Some (adds, dels)" and "single_line h" and "\<forall>fl \<in> dom_rel r. lflow_lines fl"
  shows "list_all single_line adds" and "list_all single_line dels"
proof -
  note sets = convert_tuple2flow_sets [OF assms(1)]
  have "single_line x" if "x \<in> set adds" for x
    using convert_tuple2flow_texts(3) [OF assms(1) that] flow_text_line(2) [OF _ assms(2)] assms(3)
    by (fastforce simp: added_def dom_rel_def)
  then show "list_all single_line adds" by (simp add: list_all_iff)
  have "single_line k" if "k \<in> set dels" for k
  proof -
    have "Some k \<in> flow_key ` gone r" using sets that by blast
    then show ?thesis using flow_text_line(1) assms(3) by (fastforce simp: gone_def dom_rel_def)
  qed
  then show "list_all single_line dels" by (simp add: list_all_iff)
qed

lemma const_flows_lines: "list_all lflow_lines build_const_flows"
  by (simp add: build_const_flows_def build_flows_drop_def build_const_phy_def build_const_lsp_def build_const_lrp_def
      build_const_mid_def trace_pipeline_start_def trace_pipeline_end_def trace_pipeline_module_def output_pkt_by_reg_def
      embed_metadata_def extract_metadata_def pipeline_forward_def redirect_other_chassis_const_def
      const_flow_def lflow_lines_def match_lines_def acts_lines_def arg_line_def value_line_def flow_defs)

end
