(* ===== verification/Sync_Rounds.thy ===== *)
theory Sync_Rounds imports Tuplesync Flow_Lines begin

text \<open>
  The controller over many passes: whatever batches fail on the way, as long as single deletions do not,
  the bridge has no flow that does not hold in the zoo of the last sweep.
\<close>

section \<open>Commands that leave the flows alone\<close>

named_theorems vsctl_keeps "operations that run no ovs-ofctl command that adds flows"

definition vsctl_safe :: "'s host \<Rightarrow> ('s \<Rightarrow> bool) \<Rightarrow> bool" where
  "vsctl_safe H P \<longleftrightarrow> (\<forall>args. keeps P (ovs_vsctl H args))"

lemma vsctl_safe:
  assumes "ofctl_ok H flows file" and "closed_under flows L P"
  shows "vsctl_safe H P"
  unfolding vsctl_safe_def ovs_vsctl_def
proof
  fix args
  show "keeps P (call_ovsprog H ''ovs-vsctl'' args None)"
    by (rule ovsprog_keeps [OF assms]) (cases args; simp)
qed

lemma vsctl_keep [vsctl_keeps]: "vsctl_safe H P \<Longrightarrow> keeps P (ovs_vsctl H args)"
  by (simp add: vsctl_safe_def)

lemma get_property_keep [vsctl_keeps]:
  "vsctl_safe H P \<Longrightarrow> keeps P (ovs_get_iface_property H iface col)"
  unfolding ovs_get_iface_property_def by (intro keeps_intro vsctl_keeps)

lemma port_ops_keep [vsctl_keeps]:
  assumes "vsctl_safe H P"
  shows "keeps P (create_ovsport H br portname ty props)" "keeps P (delete_ovsport H portname)"
    "keeps P (is_br_exist H br)" "keeps P (is_ovsport_exist H portname)" "keeps P (get_tunnel_chassis_id H portname)"
    "keeps P (config_ovsport_bfd H portname config)"
  unfolding create_ovsport_def delete_ovsport_def is_br_exist_def is_ovsport_exist_def get_tunnel_chassis_id_def
    config_ovsport_bfd_def
  by (intro keeps_intro vsctl_keeps assms)+

lemma remove_tunnel_keep [vsctl_keeps]:
  assumes "vsctl_safe H P"
  shows "keeps P (remove_tunnel_by_name H portname)"
  unfolding remove_tunnel_by_name_def by (intro keeps_intro vsctl_keeps assms)

lemma tunnel_ops_keep [vsctl_keeps]:
  assumes "vsctl_safe H P"
  shows "keeps P (remove_tunnel_by_ip H ip)" "keeps P (create_tunnel H ip uuid br)"
    "keeps P (create_flowbased_tunnel H uuid br)" "keeps P (create_patchport H portname peer_br br)"
    "keeps P (delete_patchport H portname)"
  unfolding remove_tunnel_by_ip_def create_tunnel_def create_flowbased_tunnel_def create_patchport_def
    delete_patchport_def Let_def
  by (intro keeps_intro vsctl_keeps assms)+

section \<open>Lifting\<close>

text \<open>What a pass keeps: a predicate of the machine, the zoo, and whether the flows were installed.\<close>

definition ctl_inv :: "('s \<Rightarrow> bool) \<Rightarrow> zoo \<Rightarrow> bool \<Rightarrow> 's ctl \<Rightarrow> bool" where
  "ctl_inv P z b c \<longleftrightarrow> P (net (wmaster c)) \<and> ezoo c = z \<and> had_clean_ovs_flows c = b"

lemma keeps_on_host [keeps_intro]: "keeps P m \<Longrightarrow> keeps (ctl_inv P z b) (on_host m)"
  by (auto simp: keeps_def on_host_def on_lm_def on_net_def ctl_inv_def split: prod.splits)

lemma rebuild_tunnel_keep:
  assumes "vsctl_safe H P"
  shows "keeps (ctl_inv P z b) (rebuild_chassis_tunnel H configs)"
  unfolding rebuild_chassis_tunnel_def split_beta
  by (intro keeps_intro vsctl_keeps assms) (simp add: ctl_inv_def)

lemma config_bfd_keep:
  assumes "vsctl_safe H P"
  shows "keeps P (config_tunnel_bfd H configs)"
  unfolding config_tunnel_bfd_def split_beta by (intro keeps_intro vsctl_keeps assms)

lemma rebuild_patch_keep:
  assumes "vsctl_safe H P"
  shows "keeps P (rebuild_patchport H configs)"
  unfolding rebuild_patchport_def split_beta by (intro keeps_intro vsctl_keeps assms)

section \<open>The commit\<close>

definition flows_of :: "('s \<Rightarrow> string set) \<Rightarrow> 's ctl \<Rightarrow> string set" where
  "flows_of flows c = flows (net (wmaster c))"

definition arp_flows :: "string set" where
  "arp_flows = {x. \<exists>mac ip. x = gen_arp_ip_flow mac ip}"

lemma run_on_host:
  "run_state (on_host m) c =
     (fst (run_state m (net (wmaster c))),
      c\<lparr>wmaster := (wmaster c)\<lparr>net := snd (run_state m (net (wmaster c)))\<rparr>\<rparr>)"
  by (simp add: on_host_def on_lm_def on_net_def split: prod.splits)

lemma arp_lines_flows: "set (snd (arp_lines ls)) \<subseteq> arp_flows"
  by (induction ls) (auto simp: arp_flows_def split: list.splits option.splits prod.splits)

lemma commit_pass_later:
  assumes ok: "ofctl_ok H flows file" and del: "deletes_ok H" and "\<forall>x \<in> set add \<union> set ks. single_line x"
    and "had_clean_ovs_flows c" and run: "run_state (commit_pass H C add ks) c = (r, c')"
  shows "flows_of flows c' \<subseteq> {x \<in> flows_of flows c. \<forall>k \<in> set ks. \<not> del_hits k x} \<union> set add"
    and "ezoo c' = ezoo c" and "had_clean_ovs_flows c'"
proof -
  have c': "c' = snd (run_state (on_host (commit_flows H add ks)) c)"
    using run assms(4) by (simp add: commit_pass_def split: prod.splits)
  show "flows_of flows c' \<subseteq> {x \<in> flows_of flows c. \<forall>k \<in> set ks. \<not> del_hits k x} \<union> set add"
    using commit_flows_bound [OF ok del assms(3)] by (simp add: c' run_on_host flows_of_def)
  show "ezoo c' = ezoo c" "had_clean_ovs_flows c'" using assms(4) by (simp_all add: c' run_on_host)
qed

lemma commit_pass_first:
  assumes ok: "ofctl_ok H flows file" and add: "add \<noteq> []" "\<forall>x \<in> set add. single_line x"
    and arp: "\<forall>s. \<forall>x \<in> set (fst (run_state (get_ovs_arp_ip_mac_from_file H (mac_ip_bind_file C)) s)). single_line x"
    and "\<not> had_clean_ovs_flows c" and run: "run_state (commit_pass H C add ks) c = (Some u, c')"
  shows "flows_of flows c' \<subseteq> set add \<union> arp_flows" and "ezoo c' = ezoo c" and "had_clean_ovs_flows c'"
proof -
  let ?s = "net (wmaster c)"
  obtain macs s1 where macs: "run_state (get_ovs_arp_ip_mac_from_file H (mac_ip_bind_file C)) ?s = (macs, s1)" by fastforce
  obtain r s2 where rep: "run_state (commit_replaceflows H (add @ macs) ''br-int'') s1 = (r, s2)" by fastforce
  have c': "r = Some u" "c' = c\<lparr>had_clean_ovs_flows := True, wmaster := (wmaster c)\<lparr>net := s2\<rparr>\<rparr>"
    using run assms(5) by (auto simp: commit_pass_def State_Monad.update_def run_on_host macs rep)
  have "set macs \<subseteq> arp_flows"
    using macs arp_lines_flows
    by (auto simp: get_ovs_arp_ip_mac_from_file_def split: option.splits prod.splits bool.splits dest!: arg_cong [of _ _ snd];
        metis snd_conv subsetD)
  moreover have "flows s2 \<subseteq> set (add @ macs)"
    by (rule replaceflows_bound [OF ok _ _ rep [unfolded c'(1)]]) (use add spec [OF arp, of ?s] macs in auto)
  ultimately show "flows_of flows c' \<subseteq> set add \<union> arp_flows" by (auto simp: c' flows_of_def)
  show "ezoo c' = ezoo c" "had_clean_ovs_flows c'" by (simp_all add: c')
qed

section \<open>A pass\<close>

lemma added_append [simp]: "added (r @ r') = added r \<union> added r'"
  by (auto simp: added_def)

lemma gone_append [simp]: "gone (r @ r') = gone r \<union> gone r'"
  by (auto simp: gone_def)

lemma pass_parts:
  "added (pass_flows options b f) = added (build_flows options f) \<union> (if b then set build_const_flows else {})"
  "gone (pass_flows options b f) = gone (build_flows options f)"
  by (auto simp: pass_flows_def added_def gone_def)

lemma pass_flows_ok: "lflows_ok (pass_flows options b f)"
  using build_flows_ok build_const_flows_ok
  by (auto simp: pass_flows_def lflows_ok_def list_all_iff)

text \<open>
  A pass: swept, converted, committed, and then no more flows. Only the first commit may fail; the tunnels
  and ports that follow may raise.
\<close>

lemma commit_later_total: "had_clean_ovs_flows c \<Longrightarrow> fst (run_state (commit_pass H C add dels) c) = Some ()"
  by (simp add: commit_pass_def split: prod.split)

lemma update_ovs_side_run:
  assumes ok: "ofctl_ok H flows file" and run: "run_state (update_ovs_side H C) c = (res, c')"
    and first: "had_clean_ovs_flows c \<or> res \<noteq> None"
    and sweep: "sweep_zoo (ezoo c) = Some z" and hash: "HASH_FN (opts (ctl_env C)) \<in> set hash_fns"
  obtains adds dels add c1 where
    "convert_tuple2flow (HASH_FN (opts (ctl_env C)))
       (pass_flows (opts (ctl_env C)) (\<not> had_clean_ovs_flows c) (db (ezoo c))) = Some (adds, dels)"
    "set add = set adds"
    "run_state (commit_pass H C add dels) (c\<lparr>ezoo := z\<rparr>) = (Some (), c1)"
    "flows_of flows c' \<subseteq> flows_of flows c1" "ezoo c' = ezoo c1" "had_clean_ovs_flows c' = had_clean_ovs_flows c1"
proof -
  let ?o = "opts (ctl_env C)" and ?f = "db (ezoo c)"
  obtain adds dels where conv: "convert_tuple2flow (HASH_FN ?o) (pass_flows ?o (\<not> had_clean_ovs_flows c) ?f) = Some (adds, dels)"
    using convert_tuple2flow_total [OF hash pass_flows_ok] by (metis prod.exhaust)
  define add where "add = (if runtest C then sort adds else adds)"
  obtain r c1 where com: "run_state (commit_pass H C add dels) (c\<lparr>ezoo := z\<rparr>) = (r, c1)" by fastforce
  let ?rest = "case r of None \<Rightarrow> ret None | Some _ \<Rightarrow> do {
      r' \<leftarrow> rebuild_chassis_tunnel H (tunnel_port_oper ?f);
      (case r' of None \<Rightarrow> ret None | Some _ \<Rightarrow> do {
         on_host (config_tunnel_bfd H (ecmp_bfd_port ?o ?f));
         on_host (rebuild_patchport H (patchport_oper ?f));
         ret (Some ()) }) }"
  have rest: "run_state ?rest c1 = (res, c')"
    using run sweep conv com by (simp add: update_ovs_side_def Let_def on_zoo_def State_Monad.update_def add_def)
  have r: "r = Some ()"
  proof (cases "had_clean_ovs_flows c")
    case True
    then show ?thesis using commit_later_total [of "c\<lparr>ezoo := z\<rparr>" H C add dels] com by simp
  next
    case False
    then show ?thesis using rest first by (cases r) auto
  qed
  let ?P = "\<lambda>s. flows s \<subseteq> flows_of flows c1"
  have safe: "vsctl_safe H ?P" by (rule vsctl_safe [OF ok closed_subset [of "{}"]]) simp
  have "keeps (ctl_inv ?P (ezoo c1) (had_clean_ovs_flows c1)) ?rest"
    by (intro keeps_intro rebuild_tunnel_keep config_bfd_keep rebuild_patch_keep safe)
  moreover have "ctl_inv ?P (ezoo c1) (had_clean_ovs_flows c1) c1" by (simp add: ctl_inv_def flows_of_def)
  ultimately have "ctl_inv ?P (ezoo c1) (had_clean_ovs_flows c1) c'" using keepsD rest by fastforce
  then show ?thesis
    using that [OF conv _ com [unfolded r]] by (auto simp: add_def ctl_inv_def flows_of_def)
qed

section \<open>Many passes\<close>

text \<open>The flows that may be on the bridge when the last sweep left the zoo \<open>z\<close>.\<close>

definition wanted :: "options \<Rightarrow> zoo \<Rightarrow> string set" where
  "wanted options z =
     {x. \<exists>fl. flow_text (HASH_FN options) fl = Some x \<and>
        (fl \<in> full_flows options z \<or> fl \<in> set build_const_flows \<or> aggregated fl)}"

lemma wantedI:
  "flow_text (HASH_FN options) fl = Some x \<Longrightarrow>
     fl \<in> full_flows options z \<or> fl \<in> set build_const_flows \<or> aggregated fl \<Longrightarrow> x \<in> wanted options z"
  unfolding wanted_def by blast

text \<open>The texts of a pass, and of the addresses it reads from its file, are single lines.\<close>

definition pass_lines :: "ctl_conf \<Rightarrow> 's ctl \<Rightarrow> bool" where
  "pass_lines C c =
     (case convert_tuple2flow (HASH_FN (opts (ctl_env C)))
        (pass_flows (opts (ctl_env C)) (\<not> had_clean_ovs_flows c) (db (ezoo c))) of
        None \<Rightarrow> True
      | Some (adds, dels) \<Rightarrow> list_all single_line adds \<and> list_all single_line dels)"

definition conf_ok :: "ctl_conf \<Rightarrow> bool" where
  "conf_ok C \<longleftrightarrow> set_pop_ok (ctl_env C) \<and> HASH_FN (opts (ctl_env C)) \<in> set hash_fns"

definition arp_file_lines :: "'s host \<Rightarrow> ctl_conf \<Rightarrow> bool" where
  "arp_file_lines H C \<longleftrightarrow>
     (\<forall>s. \<forall>x \<in> set (fst (run_state (get_ovs_arp_ip_mac_from_file H (mac_ip_bind_file C)) s)). single_line x)"

lemma key_hits: "flow_text h fl = Some x \<Longrightarrow> flow_key fl = Some k \<Longrightarrow> del_hits k x"
  using flow_text_key by (fastforce simp: del_hits_def)

lemma const_flow_added:
  "convert_tuple2flow h (pass_flows options True f) = Some (adds, dels) \<Longrightarrow> adds \<noteq> []"
proof -
  assume conv: "convert_tuple2flow h (pass_flows options True f) = Some (adds, dels)"
  have "hd build_const_flows \<in> added (pass_flows options True f)"
    by (simp add: pass_parts build_const_flows_def build_flows_drop_def)
  then show "adds \<noteq> []" using convert_tuple2flow_texts(1) [OF conv] by fastforce
qed

text \<open>What is known of the zoo between two passes.\<close>

definition between :: "env \<Rightarrow> string list \<Rightarrow> zoo \<Rightarrow> zoo \<Rightarrow> bool" where
  "between env ids z0 z \<longleftrightarrow> rested env ids z0 \<and> (zoo_update env)\<^sup>*\<^sup>* z0 z"

lemma between_sweep: "between env ids z0 z \<Longrightarrow> sweep_zoo z = Some z' \<Longrightarrow> between env ids z' z'"
  by (auto simp: between_def intro: rested_round)

lemma added_wanted:
  assumes "set_pop_ok (ctl_env C)" and "between (ctl_env C) ids z0 z" and "sweep_zoo z = Some z'"
    and "convert_tuple2flow (HASH_FN (opts (ctl_env C))) (pass_flows (opts (ctl_env C)) b (db z)) = Some (adds, dels)"
  shows "set adds \<subseteq> wanted (opts (ctl_env C)) z'"
proof
  fix x assume x: "x \<in> set adds"
  note btw = assms(2) [unfolded between_def]
  note inv = rested_updates [OF assms(1) conjunct1 [OF btw] conjunct2 [OF btw]]
  note t = round_tracks(3) [OF inv rested_start(1-3) [OF assms(1) conjunct1 [OF btw]], of "opts (ctl_env C)"]
  obtain fl where fl: "fl \<in> added (pass_flows (opts (ctl_env C)) b (db z))"
      "flow_text (HASH_FN (opts (ctl_env C))) fl = Some x"
    using convert_tuple2flow_texts(3) [OF assms(4) x] by blast
  then have "fl \<in> full_flows (opts (ctl_env C)) z \<or> fl \<in> set build_const_flows \<or> aggregated fl"
    using t unfolding plain_parts pass_parts by (auto split: if_splits)
  then show "x \<in> wanted (opts (ctl_env C)) z'"
    by (intro wantedI [OF fl(2)]) (simp add: full_flows_sweep [OF inv assms(3)])
qed

lemma kept_wanted:
  assumes "set_pop_ok (ctl_env C)" and "between (ctl_env C) ids z0 z" and "sweep_zoo z = Some z'"
    and "convert_tuple2flow (HASH_FN (opts (ctl_env C))) (pass_flows (opts (ctl_env C)) b (db z)) = Some (adds, dels)"
    and "x \<in> wanted (opts (ctl_env C)) z0" and "\<forall>k \<in> set dels. \<not> del_hits k x"
  shows "x \<in> wanted (opts (ctl_env C)) z'"
proof -
  let ?o = "opts (ctl_env C)"
  note btw = assms(2) [unfolded between_def]
  note inv = rested_updates [OF assms(1) conjunct1 [OF btw] conjunct2 [OF btw]]
  note t = round_tracks(1) [OF inv rested_start(1-3) [OF assms(1) conjunct1 [OF btw]], of ?o]
  obtain fl where fl: "flow_text (HASH_FN ?o) fl = Some x"
      "fl \<in> full_flows ?o z0 \<or> fl \<in> set build_const_flows \<or> aggregated fl"
    using assms(5) unfolding wanted_def by blast
  have "fl \<in> full_flows ?o z" if "fl \<in> full_flows ?o z0"
  proof (rule ccontr)
    assume "fl \<notin> full_flows ?o z"
    then have "fl \<in> gone (pass_flows ?o b (db z))" using t that unfolding plain_parts pass_parts by blast
    then show False using convert_tuple2flow_texts(2) [OF assms(4)] key_hits [OF fl(1)] assms(6) by blast
  qed
  then show ?thesis
    using fl(2) by (intro wantedI [OF fl(1)]) (auto simp only: full_flows_sweep [OF inv assms(3)])
qed

lemma between_sweeps: "set_pop_ok env \<Longrightarrow> between env ids z0 z \<Longrightarrow> \<exists>z'. sweep_zoo z = Some z'"
  using rested_updates [of env ids z0 z] sweep_zoo_ok [of z] unfolding between_def round_inv_def by metis

text \<open>The two kinds of passes.\<close>

lemma first_pass:
  assumes conf: "conf_ok C" and ok: "ofctl_ok H flows file" and arp: "arp_file_lines H C"
    and btw: "between (ctl_env C) ids z0 (ezoo c)" and fresh: "\<not> had_clean_ovs_flows c" and lines: "pass_lines C c"
    and run: "run_state (update_ovs_side H C) c = (Some (), c')"
  shows "between (ctl_env C) ids (ezoo c') (ezoo c')" and "had_clean_ovs_flows c'"
    and "flows_of flows c' \<subseteq> wanted (opts (ctl_env C)) (ezoo c') \<union> arp_flows"
proof -
  note pop = conjunct1 [OF conf [unfolded conf_ok_def]] and hash = conjunct2 [OF conf [unfolded conf_ok_def]]
  obtain z where z: "sweep_zoo (ezoo c) = Some z" using between_sweeps [OF pop btw] by blast
  obtain adds dels add c1 where conv: "convert_tuple2flow (HASH_FN (opts (ctl_env C)))
         (pass_flows (opts (ctl_env C)) (\<not> had_clean_ovs_flows c) (db (ezoo c))) = Some (adds, dels)"
      and add: "set add = set adds" and com: "run_state (commit_pass H C add dels) (c\<lparr>ezoo := z\<rparr>) = (Some (), c1)"
      and c': "flows_of flows c' \<subseteq> flows_of flows c1" "ezoo c' = ezoo c1" "had_clean_ovs_flows c' = had_clean_ovs_flows c1"
    by (rule update_ovs_side_run [OF ok run _ z hash]) simp
  have "adds \<noteq> []" using const_flow_added conv fresh by simp
  then have "add \<noteq> []" "\<forall>x \<in> set add. single_line x"
    using conv add lines by (auto simp: pass_lines_def list_all_iff)
  note com = commit_pass_first [OF ok this arp [unfolded arp_file_lines_def] _ com]
  have c1: "flows_of flows c1 \<subseteq> set add \<union> arp_flows" "ezoo c1 = z" "had_clean_ovs_flows c1"
    using com fresh by (simp_all add: flows_of_def)
  show "between (ctl_env C) ids (ezoo c') (ezoo c')" "had_clean_ovs_flows c'"
    using c'(2,3) c1(2,3) between_sweep [OF btw z] by simp_all
  show "flows_of flows c' \<subseteq> wanted (opts (ctl_env C)) (ezoo c') \<union> arp_flows"
    using c' c1 added_wanted [OF pop btw z conv] add by auto
qed

lemma later_pass:
  assumes conf: "conf_ok C" and ok: "ofctl_ok H flows file" and del: "deletes_ok H"
    and btw: "between (ctl_env C) ids z0 (ezoo c)" and hc: "had_clean_ovs_flows c" and lines: "pass_lines C c"
    and old: "flows_of flows c \<subseteq> wanted (opts (ctl_env C)) z0 \<union> arp_flows"
    and run: "run_state (update_ovs_side H C) c = (res, c')"
  shows "between (ctl_env C) ids (ezoo c') (ezoo c')" and "had_clean_ovs_flows c'"
    and "flows_of flows c' \<subseteq> wanted (opts (ctl_env C)) (ezoo c') \<union> arp_flows"
proof -
  note pop = conjunct1 [OF conf [unfolded conf_ok_def]] and hash = conjunct2 [OF conf [unfolded conf_ok_def]]
  obtain z where z: "sweep_zoo (ezoo c) = Some z" using between_sweeps [OF pop btw] by blast
  obtain adds dels add c1 where conv: "convert_tuple2flow (HASH_FN (opts (ctl_env C)))
         (pass_flows (opts (ctl_env C)) (\<not> had_clean_ovs_flows c) (db (ezoo c))) = Some (adds, dels)"
      and add: "set add = set adds" and com: "run_state (commit_pass H C add dels) (c\<lparr>ezoo := z\<rparr>) = (Some (), c1)"
      and c': "flows_of flows c' \<subseteq> flows_of flows c1" "ezoo c' = ezoo c1" "had_clean_ovs_flows c' = had_clean_ovs_flows c1"
    by (rule update_ovs_side_run [OF ok run _ z hash]) (simp add: hc)
  have "\<forall>x \<in> set add \<union> set dels. single_line x"
    using conv add lines by (auto simp: pass_lines_def list_all_iff)
  note com = commit_pass_later [OF ok del this _ com]
  have c1: "flows_of flows c1 \<subseteq> {x \<in> flows_of flows c. \<forall>k \<in> set dels. \<not> del_hits k x} \<union> set add"
      "ezoo c1 = z" "had_clean_ovs_flows c1"
    using com hc by (simp_all add: flows_of_def)
  have "x \<in> wanted (opts (ctl_env C)) z \<union> arp_flows" if "x \<in> flows_of flows c1" for x
  proof (cases "x \<in> set adds")
    case True
    then show ?thesis using added_wanted [OF pop btw z conv] by blast
  next
    case False
    then have "x \<in> flows_of flows c" "\<forall>k \<in> set dels. \<not> del_hits k x" using that c1(1) add by auto
    then show ?thesis using kept_wanted [OF pop btw z conv] old by blast
  qed
  then show "flows_of flows c' \<subseteq> wanted (opts (ctl_env C)) (ezoo c') \<union> arp_flows" using c' c1 by auto
  show "between (ctl_env C) ids (ezoo c') (ezoo c')" "had_clean_ovs_flows c'"
    using c'(2,3) c1(2,3) between_sweep [OF btw z] by simp_all
qed

end
