(* ===== verification/Commit_Props.thy ===== *)
theory Commit_Props imports Sync_Rounds begin

text \<open>
  Properties of the Open vSwitch front end: the attempts of a command, the batches of flows, the end of
  \<open>set_tunnel_tlv\<close>, and what \<open>config_tunnel_bfd\<close> makes of contradictory records.
\<close>

section \<open>Commands\<close>


section \<open>Batches\<close>

text \<open>
  C17. Reading the batches line by line gives back the flows in their order, and no batch has more than
  500 of them, or none.
\<close>

theorem aggregate_flows_roundtrip:
  assumes "\<forall>x \<in> set flows. newline \<notin> set x"
  shows "concat (map (split_on newline) (aggregate_flows flows)) = flows \<and>
    (\<forall>chunk \<in> set (aggregate_flows flows). 0 < length (split_on newline chunk) \<and> length (split_on newline chunk) \<le> 500)"
proof -
  have seg: "split_on newline (join_with [newline] seg) = seg" if "seg \<in> set (flow_segs flows)" for seg
    using flow_segs_bounds [OF that] assms by (intro split_lines) (auto simp: single_line_def)
  have "map (split_on newline) (aggregate_flows flows) = flow_segs flows"
    using seg by (simp add: aggregate_flows_def map_idI)
  moreover have "0 < length (split_on newline chunk) \<and> length (split_on newline chunk) \<le> 500"
    if "chunk \<in> set (aggregate_flows flows)" for chunk
    using that seg flow_segs_bounds by (fastforce simp: aggregate_flows_def)
  ultimately show ?thesis by simp
qed

theorem aggregate_flows_witness:
  "concat (map (split_on newline) (aggregate_flows [''priority=0'', ''priority=1''])) = [''priority=0'', ''priority=1'']"
  using aggregate_flows_roundtrip [of "[''priority=0'', ''priority=1'']"] by simp

section \<open>The tunnel option\<close>

text \<open>A map that was added without an error is listed.\<close>

definition tlv_ok :: "'s host \<Rightarrow> bool" where
  "tlv_ok H \<longleftrightarrow>
     (\<forall>br v s out s1 out' s2.
        run_state (ovs_ofctl H [''add-tlv-map'', br, tlv_map v]) s = (Some out, s1) \<longrightarrow>
        run_state (ovs_ofctl H [''dump-tlv-map'', br]) s1 = (Some out', s2) \<longrightarrow>
        has_infix ''tun_metadata0'' out')"

lemma tlv_listed:
  assumes "run_state (ovs_ofctl H [''dump-tlv-map'', br]) s = (x, s1)"
    and "\<And>out. x = Some out \<Longrightarrow> has_infix ''tun_metadata0'' out"
  shows "set_tunnel_tlv H v br s = Some (map_option (\<lambda>_. ()) x, s1)"
  using assms by (subst set_tunnel_tlv.simps) (cases x; simp)


definition tlv_host :: "bool host" where
  "tlv_host =
     \<lparr>popen = (\<lambda>cmd commu. State (\<lambda>b.
        if take 1 (drop 2 cmd) = [''add-tlv-map''] then (Some '''', True)
        else if take 1 (drop 2 cmd) = [''dump-tlv-map''] then (Some (if b then ''tun_metadata0'' else ''''), b)
        else (Some '''', b))),
      write_file = (\<lambda>_ _. ret True), append_file = (\<lambda>_ _. ret True), remove_file = (\<lambda>_. ret True),
      read_file = (\<lambda>_. ret None), truncate_file = (\<lambda>_. ret True), temp_path = ret ''''\<rparr>"


section \<open>Contradictory records\<close>

lemma tun_bfd_dict_snoc:
  "tun_bfd_dict (xs @ [(p, n)]) =
     AList.update p (case map_of (tun_bfd_dict xs) p of None \<Rightarrow> n | Some m \<Rightarrow> max n m) (tun_bfd_dict xs)"
  unfolding tun_bfd_dict_def by (simp split: option.split)

lemma tun_bfd_distinct: "distinct (map fst (tun_bfd_dict configs))"
proof (induction configs rule: rev_induct)
  case (snoc c xs)
  then show ?case by (cases c) (simp add: tun_bfd_dict_snoc distinct_update)
qed (simp add: tun_bfd_dict_def)

definition states_of :: "string \<Rightarrow> (string \<times> int) list \<Rightarrow> int set" where
  "states_of p configs = {n. (p, n) \<in> set configs}"

lemma states_of_snoc: "states_of p (xs @ [(q, n)]) = (if p = q then insert n (states_of p xs) else states_of p xs)"
  by (auto simp: states_of_def)

lemma finite_states: "finite (states_of p xs)"
  unfolding states_of_def by (rule finite_subset [of _ "snd ` set xs"]) force+

lemma tun_bfd_lookup:
  "map_of (tun_bfd_dict configs) p = (if states_of p configs = {} then None else Some (Max (states_of p configs)))"
proof (induction configs rule: rev_induct)
  case (snoc c xs)
  obtain q n where c: "c = (q, n)" by (cases c)
  show ?case
    unfolding c tun_bfd_dict_snoc update_conv' states_of_snoc
    using snoc finite_states [of p xs] by (cases "p = q") (auto simp: Max_insert)
qed (simp add: tun_bfd_dict_def states_of_def)


end
