(* ===== verification/State_Update.thy ===== *)
theory State_Update imports Tuplesync begin

text \<open>
  \<open>lcp/state_update.py\<close>: the messages of the packet controller. It reports addresses learned by ARP,
  traced packets, and packets to destinations the controller has not been asked for yet. The thread that
  reads them is in \<open>Threads\<close>.
\<close>

section \<open>State\<close>

text \<open>The controller and \<open>process_arp.arp_dict\<close>, the addresses already installed.\<close>

record 's agent =
  main :: "'s ctl"
  arp_dict :: "(int \<times> string) list"

definition on_main :: "('s ctl, 'a) state \<Rightarrow> ('s agent, 'a) state" where
  "on_main m = State (\<lambda>a. case run_state m (main a) of (x, c) \<Rightarrow> (x, a\<lparr>main := c\<rparr>))"

text \<open>\<open>htonl\<close> accepts 32 bits only.\<close>

definition int_to_ip :: "int \<Rightarrow> string option" where
  "int_to_ip ip_int = (if 0 \<le> ip_int \<and> ip_int < 2 ^ 32 then Some (inet_ntoa (nat ip_int)) else None)"

definition nth_opt :: "'a list \<Rightarrow> nat \<Rightarrow> 'a option" where
  "nth_opt xs n = (if n < length xs then Some (xs ! n) else None)"

definition int_at :: "string list \<Rightarrow> nat \<Rightarrow> int option" where
  "int_at seg n = Option.bind (nth_opt seg n) py_int"

text \<open>A number that \<open>int_to_ip\<close> accepts.\<close>

definition ip_at :: "string list \<Rightarrow> nat \<Rightarrow> int option" where
  "ip_at seg n =
     (case int_at seg n of
        None \<Rightarrow> None
      | Some ip_int \<Rightarrow> if int_to_ip ip_int = None then None else Some ip_int)"

section \<open>Messages\<close>

definition process_arp :: "'s host \<Rightarrow> ctl_conf \<Rightarrow> string list \<Rightarrow> ('s agent, unit) prog" where
  "process_arp H C arp_msg_seg =
     (case (int_at arp_msg_seg 1, nth_opt arp_msg_seg 2, ip_at arp_msg_seg 3) of
        (Some dp, Some mac_addr, Some ip_int) \<Rightarrow> do {
          a \<leftarrow> State_Monad.get;
          (if map_of (arp_dict a) ip_int = Some mac_addr then ret (Some ())
           else do {
             r \<leftarrow> on_main (on_host (update_ovs_arp_ip_mac H C mac_addr ip_int));
             (case r of
                None \<Rightarrow> ret None
              | Some _ \<Rightarrow> do {
                  State_Monad.update (\<lambda>a. a\<lparr>arp_dict := AList.update ip_int mac_addr (arp_dict a)\<rparr>);
                  ret (Some ()) }) }) }
      | _ \<Rightarrow> ret None)"

definition ofport_is :: "int \<Rightarrow> entity \<Rightarrow> bool" where
  "ofport_is ofport e = (case body e of BOvsport _ r \<Rightarrow> OVSPORT_OFPORT r = ofport | _ \<Rightarrow> False)"

definition iface_of :: "entity \<Rightarrow> string" where
  "iface_of e = (case body e of BOvsport _ r \<Rightarrow> OVSPORT_IFACE_ID r | _ \<Rightarrow> [])"

definition parse_ofport2iface :: "zoo \<Rightarrow> int \<Rightarrow> string" where
  "parse_ofport2iface z ofport =
     (if ofport = 0xffff then ''<INVALID_PORT>''
      else if ofport = 0 then ''<UNK_PORT>''
      else (case filter (\<lambda>(_, e). ofport_is ofport e) (entity_set z OVSPORT_CHASSIS) of
              [] \<Rightarrow> ''<UNK_PORT>''
            | (_, e) # _ \<Rightarrow> iface_of e))"

text \<open>The eight numbers of a trace message.\<close>

record trace_msg =
  tr_table_id :: int
  tr_datapath_id :: int
  tr_cmd_id :: int
  tr_src_port_id :: int
  tr_dst_port_id :: int
  tr_tun_src :: int
  tr_seq_n :: int
  tr_ofport :: int

definition parse_trace :: "string list \<Rightarrow> trace_msg option" where
  "parse_trace seg =
     (case those (map (int_at seg) [1..<9]) of
        Some [table, dp, cmd, src, dst, tun, seq, port] \<Rightarrow>
          Some \<lparr>tr_table_id = table, tr_datapath_id = dp, tr_cmd_id = cmd div 2 ^ 16, tr_src_port_id = src,
                tr_dst_port_id = dst, tr_tun_src = tun, tr_seq_n = seq, tr_ofport = port\<rparr>
      | _ \<Rightarrow> None)"

definition trace_key :: "trace_msg \<Rightarrow> string \<Rightarrow> string" where
  "trace_key m chassis_id =
     ''cmd_result/'' @ int_str (tr_cmd_id m) @ ''/'' @ int_str (tr_seq_n m) @ ''/'' @ chassis_id"

definition trace_value :: "trace_msg \<Rightarrow> string \<Rightarrow> string" where
  "trace_value m iface_id =
     ''cmd_type=pkt_trace,table_id='' @ int_str (tr_table_id m) @ '',datapath_id='' @ int_str (tr_datapath_id m) @
     '',src_port_id='' @ int_str (tr_src_port_id m) @ '',dst_port_id='' @ int_str (tr_dst_port_id m) @
     '',tun_src='' @ int_str (tr_tun_src m) @ '',output_iface_id='' @ iface_id"

definition process_trace :: "'s etcd \<Rightarrow> ctl_conf \<Rightarrow> string list \<Rightarrow> ('s agent, unit) prog" where
  "process_trace E C trace_msg_seg =
     (case parse_trace trace_msg_seg of
        None \<Rightarrow> ret None
      | Some m \<Rightarrow> do {
          a \<leftarrow> State_Monad.get;
          on_main (on_lm (lease_communicate E (lm_cfg C) (trace_key m (system_id (ctl_env C)))
            (trace_value m (parse_ofport2iface (ezoo (main a)) (tr_ofport m))) 30));
          ret (Some ()) })"

text \<open>
  A packet to an address nobody asked for yet: the ports with the address and their chassis are touched,
  and when there is a chassis the flows are computed at once.
\<close>

definition lsps_with_ip :: "int \<Rightarrow> (string \<times> entity) list \<Rightarrow> string list option" where
  "lsps_with_ip ip_int lsp_portset =
     Some (map fst (filter (\<lambda>(_, e). case body e of BLsp r \<Rightarrow> int (LSP_IP_INT r) = ip_int | _ \<Rightarrow> False) lsp_portset))"

definition chassis_of :: "zoo \<Rightarrow> string \<Rightarrow> string option" where
  "chassis_of z key = (case map_of (entity_set z LSP) key of
     Some e \<Rightarrow> (case body e of BLsp r \<Rightarrow> LSP_CHASSIS_UUID r | _ \<Rightarrow> None) | None \<Rightarrow> None)"

definition touch_chassis :: "string option \<Rightarrow> zoo \<Rightarrow> nat \<times> zoo" where
  "touch_chassis ch z =
     (case ch of
        None \<Rightarrow> (0, z)
      | Some uuid \<Rightarrow>
          (case touch_entity CHASSIS (\<lambda>chassis_set. Some (if map_of chassis_set uuid \<noteq> None then [uuid] else [])) z of
             (array, z') \<Rightarrow> (length array, z')))"

fun touch_all_chassis :: "string option list \<Rightarrow> zoo \<Rightarrow> nat \<times> zoo" where
  "touch_all_chassis [] z = (0, z)"
| "touch_all_chassis (ch # chs) z =
     (case touch_chassis ch z of (n, z1) \<Rightarrow> (case touch_all_chassis chs z1 of (m, z2) \<Rightarrow> (n + m, z2)))"

definition touch_unknow_dst :: "int \<Rightarrow> zoo \<Rightarrow> nat \<times> zoo" where
  "touch_unknow_dst ip_int z =
     (case touch_entity LSP (lsps_with_ip ip_int) z of
        (lsp_keys, z1) \<Rightarrow> touch_all_chassis (map (chassis_of z1) lsp_keys) z1)"

definition process_unknow_dst :: "'s host \<Rightarrow> ctl_conf \<Rightarrow> string list \<Rightarrow> ('s agent, unit) prog" where
  "process_unknow_dst H C seg =
     (case (int_at seg 1, ip_at seg 2) of
        (Some dp, Some ip_int) \<Rightarrow> do {
          a \<leftarrow> State_Monad.get;
          let (cnt, z) = touch_unknow_dst ip_int (ezoo (main a));
          on_main (on_zoo (\<lambda>_. z));
          (if cnt \<noteq> 0 then on_main (update_ovs_side H C) else ret (Some ())) }
      | _ \<Rightarrow> ret None)"

text \<open>An exception of one message is caught, and the next is processed.\<close>

definition process_cmd :: "'s host \<Rightarrow> 's etcd \<Rightarrow> ctl_conf \<Rightarrow> string \<Rightarrow> ('s agent, unit) state" where
  "process_cmd H E C cmd =
     (let segment = split_on CHR '','' cmd in
      case segment of
        [] \<Rightarrow> ret ()
      | opcode # _ \<Rightarrow>
          if opcode = ''arp'' then do { process_arp H C segment; ret () }
          else if opcode = ''trace'' then do { process_trace E C segment; ret () }
          else if opcode = ''unknow_dst'' then do { process_unknow_dst H C segment; ret () }
          else ret ())"

definition parse_pkt_controller_msg :: "'s host \<Rightarrow> 's etcd \<Rightarrow> ctl_conf \<Rightarrow> string \<Rightarrow> ('s agent, unit) state" where
  "parse_pkt_controller_msg H E C msg =
     for_each (\<lambda>cmd. if cmd = '''' then ret () else process_cmd H E C cmd) (split_on CHR '';'' msg)"

end
