(* ===== verification/Ovsdb.thy ===== *)
theory Ovsdb imports Commit_Ovs Zoo begin

text \<open>
  \<open>lcp/ovsdbman.py\<close>: decoding what the database of Open vSwitch sends, and \<open>update_ovsport\<close> of
  \<open>lcp/commit_ovs.py\<close>, which keeps the ports of the zoo as the database has them. The socket and the
  turns of its thread are in \<open>Ovsdb_Conn\<close>.
\<close>

section \<open>JSON\<close>

datatype json = JNull | JBool bool | JInt int | JStr string | JList "json list" | JObj "(string \<times> json) list"

text \<open>\<open>dict.get\<close>: absent and null are the same to the caller.\<close>

definition jget :: "(string \<times> json) list \<Rightarrow> string \<Rightarrow> json" where
  "jget obj key = (case map_of obj key of None \<Rightarrow> JNull | Some v \<Rightarrow> v)"

text \<open>
  \<open>parse_mul_json\<close>: the objects a response starts with, one after the other, up to the first that the
  decoder refuses. \<open>raw_decode\<close> is the decoder of the standard library: an object and where it ends.
\<close>

partial_function (option) parse_mul_json :: "(string \<Rightarrow> (json \<times> nat) option) \<Rightarrow> string \<Rightarrow> json list option" where
  "parse_mul_json raw_decode s =
     (case raw_decode s of
        None \<Rightarrow> Some []
      | Some (element, position) \<Rightarrow>
          do { rest \<leftarrow> parse_mul_json raw_decode (drop position s); Some (element # rest) })"

section \<open>Records of interfaces\<close>

text \<open>
  \<open>parse_map\<close>: a map is the list of \<open>'map'\<close> and its pairs. The outer \<open>None\<close> is an exception. The keys and
  values of \<open>external_ids\<close> are strings by the schema of the database; others are not represented.
\<close>

fun string_pair :: "json \<Rightarrow> (string \<times> string) option" where
  "string_pair (JList (JStr k # JStr v # _)) = Some (k, v)"
| "string_pair _ = None"

fun parse_map :: "json \<Rightarrow> (string \<times> string) list option option" where
  "parse_map (JList (tag # rest)) =
     (if tag \<noteq> JStr ''map'' then Some None
      else (case rest of
              JList entries # _ \<Rightarrow>
                map_option (\<lambda>kvs. Some (fold (\<lambda>(k, v). AList.update k v) kvs [])) (those (map string_pair entries))
            | _ \<Rightarrow> None))"
| "parse_map _ = None"

record iface =
  op_type :: string
  if_ofport :: int
  port_name :: string
  external_ids :: "(string \<times> string) list option"
  port_type :: json

fun json_int :: "json \<Rightarrow> int option" where
  "json_int (JInt i) = Some i"
| "json_int (JBool b) = Some (if b then 1 else 0)"
| "json_int (JStr s) = py_int s"
| "json_int _ = None"

text \<open>\<open>str\<close> of the name, which is a string by the schema.\<close>

fun json_str :: "json \<Rightarrow> string option" where
  "json_str (JStr s) = Some s"
| "json_str _ = None"

definition parse_iface_record :: "json \<Rightarrow> string \<Rightarrow> iface option" where
  "parse_iface_record record_json ty =
     (case record_json of
        JObj r \<Rightarrow>
          (case (map_of r ''ofport'', map_of r ''name'', map_of r ''external_ids'', map_of r ''type'') of
             (Some p, Some n, Some ids, Some t) \<Rightarrow>
               (case (json_int p, json_str n, parse_map ids) of
                  (Some ofport, Some name, Some eids) \<Rightarrow>
                    Some \<lparr>op_type = ty, if_ofport = ofport, port_name = name, external_ids = eids, port_type = t\<rparr>
                | _ \<Rightarrow> None)
           | _ \<Rightarrow> None)
      | _ \<Rightarrow> None)"

definition opt_list :: "'a option \<Rightarrow> 'a list" where
  "opt_list x = (case x of None \<Rightarrow> [] | Some y \<Rightarrow> [y])"

text \<open>The records of one row: the old one before the new one, what is absent left out.\<close>

definition row_records :: "json \<Rightarrow> iface list option" where
  "row_records row =
     (case row of
        JObj r \<Rightarrow> Some (opt_list (parse_iface_record (jget r ''old'') ''old'') @
                       opt_list (parse_iface_record (jget r ''new'') ''new''))
      | _ \<Rightarrow> None)"

definition iface_monitor_parse :: "json \<Rightarrow> iface list option" where
  "iface_monitor_parse data =
     (case data of
        JObj d \<Rightarrow>
          (case map_of d ''Interface'' of
             Some (JObj ifaces) \<Rightarrow> map_option concat (those (map (\<lambda>(_, row). row_records row) ifaces))
           | _ \<Rightarrow> None)
      | _ \<Rightarrow> None)"

section \<open>Ports of the zoo\<close>

text \<open>
  \<open>update_ovsport\<close>. The result tells whether it ended without an exception; the version of the zoo may
  have been raised before one.
\<close>

definition port_key :: "(string \<times> string) list \<Rightarrow> (string \<times> bool) option" where
  "port_key ids =
     (case map_of ids ''iface-id'' of
        Some uuid \<Rightarrow> Some (uuid, False)
      | None \<Rightarrow> map_option (\<lambda>uuid. (uuid, True)) (map_of ids ''chassis-id''))"

definition update_ovsport :: "env \<Rightarrow> iface \<Rightarrow> zoo \<Rightarrow> bool \<times> zoo" where
  "update_ovsport env r z =
     (if op_type r \<notin> set [''new'', ''initial'', ''delete'', ''old'', ''insert''] then (True, z)
      else (case external_ids r of
              None \<Rightarrow> (True, z)
            | Some ids \<Rightarrow>
                (let z1 = (if port_type r = JStr ''internal'' then update_version_force z else z) in
                 case port_key ids of
                   None \<Rightarrow> (True, z1)
                 | Some (uuid, is_remote) \<Rightarrow>
                     if op_type r \<in> set [''old'', ''delete'']
                     then (True, move_entity2sink (if is_remote then OVSPORT_CHASSIS else OVSPORT) (port_name r) z1)
                     else if if_ofport r < 0 then (True, z1)
                     else (case add_entity env (P_ovsport (port_name r) uuid (if_ofport r) is_remote) z1 of
                             None \<Rightarrow> (False, z1)
                           | Some z2 \<Rightarrow> (True, z2)))))"

fun update_ovsports :: "env \<Rightarrow> iface list \<Rightarrow> zoo \<Rightarrow> zoo" where
  "update_ovsports env [] z = z"
| "update_ovsports env (r # rs) z =
     (case update_ovsport env r z of (True, z') \<Rightarrow> update_ovsports env rs z' | (False, z') \<Rightarrow> z')"

text \<open>\<open>ovsdb_resp_handle\<close> around \<open>handle_interface_update\<close>; an exception leaves the zoo as it is then.\<close>

definition update_data :: "(string \<times> json) list \<Rightarrow> json option" where
  "update_data resp =
     (if jget resp ''error'' \<noteq> JNull then None
      else if jget resp ''result'' \<noteq> JNull then Some (jget resp ''result'')
      else if jget resp ''method'' = JStr ''update''
        then (case jget resp ''params'' of JList (JNull # data # _) \<Rightarrow> Some data | _ \<Rightarrow> None)
      else None)"

definition handle_interface_update :: "env \<Rightarrow> (string \<times> json) list \<Rightarrow> zoo \<Rightarrow> zoo" where
  "handle_interface_update env resp z =
     (case update_data resp of
        None \<Rightarrow> z
      | Some data \<Rightarrow>
          (case iface_monitor_parse data of
             None \<Rightarrow> z
           | Some iface_records \<Rightarrow> update_ovsports env iface_records z))"

section \<open>The connection\<close>

text \<open>
  Which handler a response goes to: by its id, where an update has none. \<open>None\<close> in the last position: no
  response is due.
\<close>

datatype ovsdb_handler = Echo_feedback | Echo_skip | Iface_update

record ovsdb_man =
  handlers :: "(json \<times> ovsdb_handler) list"
  sync_time :: int
  monitors :: "string list"

definition init_ovsdb_man :: "int \<Rightarrow> ovsdb_man" where
  "init_ovsdb_man now =
     \<lparr>handlers = [(JStr ''echo'', Echo_feedback), (JStr ''echo_feedback'', Echo_skip)], sync_time = now, monitors = []\<rparr>"

definition monitor_interfaces :: "string \<Rightarrow> ovsdb_man \<Rightarrow> ovsdb_man" where
  "monitor_interfaces randstr m =
     (let monitor_id = ''monitor_Interface_'' @ randstr in
      m\<lparr>monitors := List.insert monitor_id (monitors m),
        handlers := AList.update (JStr monitor_id) Iface_update (AList.update JNull Iface_update (handlers m))\<rparr>)"

text \<open>One response; the result tells whether an echo is to be sent.\<close>

definition ovsdb_response :: "env \<Rightarrow> int \<Rightarrow> json \<Rightarrow> ovsdb_man \<times> zoo \<Rightarrow> bool \<times> ovsdb_man \<times> zoo" where
  "ovsdb_response env now resp s =
     (case s of (m, z) \<Rightarrow>
        (case resp of
           JObj r \<Rightarrow>
             (case map_of r ''id'' of
                None \<Rightarrow> (False, m, z)
              | Some rid \<Rightarrow>
                  (case map_of (handlers m) rid of
                     None \<Rightarrow> (False, m, z)
                   | Some Echo_feedback \<Rightarrow> (True, m, z)
                   | Some Echo_skip \<Rightarrow> (False, m\<lparr>sync_time := now\<rparr>, z)
                   | Some Iface_update \<Rightarrow> (False, m, handle_interface_update env r z)))
         | _ \<Rightarrow> (False, m, z)))"

text \<open>
  \<open>_check_sync\<close> when the socket is silent: an echo after three seconds, a new connection after ten. The
  result is whether an echo is sent and whether the connection is rebuilt.
\<close>

definition check_sync :: "int \<Rightarrow> ovsdb_man \<Rightarrow> bool \<times> bool" where
  "check_sync now m = (now - sync_time m > 3, now - sync_time m \<ge> 10)"

end
