(* ===== verification/Zoo_Clients.thy ===== *)
theory Zoo_Clients imports State_Update Ovsdb Zoo_Inv begin

text \<open>
  What the rest of the controller asks of the zoo. The readers of etcd, the monitor of the OVSDB and the
  thread of the packet controller change the zoo only by its operations; so whatever relation between an earlier and a
  later zoo the operations establish, they establish as well.
\<close>

section \<open>The interface\<close>

locale zoo_change =
  fixes R :: "zoo \<Rightarrow> zoo \<Rightarrow> bool" and env :: env
  assumes change_refl: "R z z"
    and change_trans: "R z z1 \<Longrightarrow> R z1 z2 \<Longrightarrow> R z z2"
    and change_add: "add_entity env p z = Some z1 \<Longrightarrow> R z z1"
    and change_convert: "R z (convert_pool2entity env t pool z)"
    and change_move: "R z (move_entity2sink t key z)"
    and change_move_pool: "R z (move_entity2sink_by_pool t pool z)"
    and change_move_all: "R z (move_all_entity2sink exclude z)"
    and change_force: "R z (update_version_force z)"
begin

lemma client_fold: "(\<And>x z. R z (f x z)) \<Longrightarrow> R z (fold f xs z)"
  by (induction xs arbitrary: z) (auto intro: change_refl change_trans)

text \<open>The configuration.\<close>

lemma client_update_entity: "R z (update_entity env add_pool del_pool z)"
proof -
  have "R z (fold (\<lambda>t z. case map_of dp (etype_name t) of
      None \<Rightarrow> z | Some p \<Rightarrow> move_entity2sink_by_pool t p z) ts z)" for dp ts z
    by (rule client_fold) (simp add: change_refl change_move_pool split: option.split)
  moreover have "R z (fold (\<lambda>t z. case map_of ap (etype_name t) of
      None \<Rightarrow> z | Some p \<Rightarrow> convert_pool2entity env t p z) ts z)" for ap ts z
    by (rule client_fold) (simp add: change_refl change_convert split: option.split)
  ultimately show ?thesis
    unfolding update_entity_def Let_def by (simp add: change_refl split: option.split) (blast intro: change_trans)
qed

lemma client_on_zoo: "(\<And>z. R z (f z)) \<Longrightarrow> keeps (\<lambda>c. R z0 (ezoo c) \<and> P (prev_zoo_ver c)) (on_zoo f)"
  by (auto simp: keeps_def on_zoo_def State_Monad.update_def intro: change_trans)

lemma client_elsewhere:
  "keeps (\<lambda>c. R z0 (ezoo c) \<and> P (prev_zoo_ver c)) (on_lm m)" "keeps (\<lambda>c. R z0 (ezoo c) \<and> P (prev_zoo_ver c)) (on_host m')"
  by (auto simp: keeps_def on_host_def on_lm_def split: prod.splits)

lemma client_read_pass:
  assumes "ctl_env C = env"
  shows "keeps (\<lambda>c. R z0 (ezoo c) \<and> P (prev_zoo_ver c)) (read_pass H E C)"
  unfolding read_pass_def update_entity_from_remote_def Let_def split_beta assms
  by (intro keeps_intro client_elsewhere client_on_zoo client_update_entity change_move_all) simp_all

text \<open>The ports of the switch.\<close>

lemma client_ovsport: "R z (snd (update_ovsport env r z))"
proof (cases "external_ids r")
  case (Some ids)
  define z1 where "z1 = (if port_type r = JStr ''internal'' then update_version_force z else z)"
  have z1: "R z z1" by (simp add: z1_def change_force change_refl)
  have "R z1 (snd (case port_key ids of
      None \<Rightarrow> (True, z1)
    | Some (uuid, is_remote) \<Rightarrow>
        if op_type r \<in> set [''old'', ''delete'']
        then (True, move_entity2sink (if is_remote then OVSPORT_CHASSIS else OVSPORT) (port_name r) z1)
        else if if_ofport r < 0 then (True, z1)
        else (case add_entity env (P_ovsport (port_name r) uuid (if_ofport r) is_remote) z1 of
                None \<Rightarrow> (False, z1) | Some z2 \<Rightarrow> (True, z2))))"
    by (simp add: change_move change_add change_refl split: option.split prod.split)
  from change_trans [OF z1 this] show ?thesis
    by (simp add: update_ovsport_def Let_def Some z1_def [symmetric] change_refl)
qed (simp add: update_ovsport_def change_refl)

lemma client_interface_update: "R z (handle_interface_update env resp z)"
proof -
  have "R z (update_ovsports env rs z)" for rs
  proof (induction rs arbitrary: z)
    case (Cons r rs)
    show ?case
      using client_ovsport [of z r] Cons change_trans by (auto split: prod.split bool.split)
  qed (simp add: change_refl)
  then show ?thesis by (simp add: handle_interface_update_def change_refl split: option.split)
qed

lemma client_ovsdb_response: "R z (snd (snd (ovsdb_response env now resp (m, z))))"
  by (auto simp: ovsdb_response_def client_interface_update change_refl
      split: json.split option.split ovsdb_handler.split)

end

text \<open>The packet controller touches entities: their facts appear without a new version of the zoo.\<close>

locale zoo_touching = zoo_change +
  assumes change_touch: "R z (snd (touch_entity t fn z))"
begin

lemma client_touch_chassis: "R z (snd (touch_chassis ch z))"
  using change_touch by (auto simp: touch_chassis_def change_refl split: option.split prod.split) (metis snd_conv)

lemma client_touch_all: "R z (snd (touch_all_chassis chs z))"
proof (induction chs arbitrary: z)
  case (Cons ch chs)
  then show ?case
    using client_touch_chassis [of z ch] by (auto split: prod.split) (metis change_trans snd_conv)
qed (simp add: change_refl)

lemma client_touch_unknow: "R z (snd (touch_unknow_dst ip z))"
proof -
  obtain ks z1 where t: "touch_entity LSP (lsps_with_ip ip) z = (ks, z1)" by fastforce
  then have "R z z1" using change_touch [of z LSP "lsps_with_ip ip"] by simp
  then show ?thesis
    using client_touch_all [of z1] by (simp add: touch_unknow_dst_def t) (blast intro: change_trans)
qed

end

section \<open>What the operations establish\<close>

text \<open>Every later zoo is reached by the updates the reachable zoos are made of.\<close>

interpretation updates: zoo_touching "(zoo_update env)\<^sup>*\<^sup>*" env for env
  by unfold_locales (auto intro: rtranclp_trans zoo_update.intros)

text \<open>The version tells whether anything has changed: but not of what was touched.\<close>

interpretation still: zoo_change quiet env for env
  by unfold_locales
    (auto intro: quiet_trans quiet_add quiet_convert quiet_move quiet_move_pool quiet_move_all simp: quiet_force)

text \<open>The invariant of the zoo is kept.\<close>

interpretation valid: zoo_touching "\<lambda>z z'. set_pop_ok env \<and> zoo_inv z \<longrightarrow> zoo_inv z'" env for env
  by unfold_locales (auto intro: zoo_update_inv zoo_update.intros)

end
