(* ===== verification/Controller.thy ===== *)
theory Controller imports Sync_Rounds Zoo_Clients begin

text \<open>
  The controller as a whole: the three threads that change it, one step at a time. Whatever they do, and
  whichever commands fail, the flows on the bridge are bounded by the zoo of the last sweep.
\<close>

section \<open>etcd and the bridge are apart\<close>

definition etcd_apart :: "'s etcd \<Rightarrow> ('s \<Rightarrow> string set) \<Rightarrow> bool" where
  "etcd_apart E flows \<longleftrightarrow>
     (\<forall>F p. keeps (\<lambda>s. flows s = F) (etcd_get_prefix E p)) \<and>
     (\<forall>F k v l. keeps (\<lambda>s. flows s = F) (etcd_put E k v l)) \<and>
     (\<forall>F n. keeps (\<lambda>s. flows s = F) (etcd_lease E n)) \<and>
     (\<forall>F k. keeps (\<lambda>s. flows s = F) (etcd_delete E k)) \<and>
     (\<forall>F k r. keeps (\<lambda>s. flows s = F) (etcd_add_watch E k r)) \<and>
     (\<forall>F n. keeps (\<lambda>s. flows s = F) (etcd_cancel_watch E n)) \<and>
     (\<forall>F. keeps (\<lambda>s. flows s = F) (etcd_members E)) \<and>
     (\<forall>F. keeps (\<lambda>s. flows s = F) (etcd_clock E))"

definition lm_apart :: "('s \<Rightarrow> string set) \<Rightarrow> ('s watch_master, 'a) state \<Rightarrow> bool" where
  "lm_apart flows m \<longleftrightarrow> (\<forall>F. keeps (\<lambda>w. flows (net w) = F) m)"

lemma lm_apart_intro [keeps_intro]: "lm_apart flows m \<Longrightarrow> keeps (\<lambda>w. flows (net w) = F) m"
  by (simp add: lm_apart_def)

lemma keeps_on_net: "(\<And>F. keeps (\<lambda>s. flows s = F) m) \<Longrightarrow> lm_apart flows (on_net m)"
  by (simp add: lm_apart_def keeps_def on_net_def split: prod.split) (metis snd_conv)

lemma etcd_on_net:
  assumes "etcd_apart E flows"
  shows "lm_apart flows (on_net (etcd_get_prefix E p))" "lm_apart flows (on_net (etcd_put E k v l))"
    "lm_apart flows (on_net (etcd_lease E n))" "lm_apart flows (on_net (etcd_add_watch E k r))"
    "lm_apart flows (on_net (etcd_cancel_watch E n))" "lm_apart flows (on_net (etcd_members E))"
    "lm_apart flows (on_net (etcd_clock E))"
  using assms by (auto simp: etcd_apart_def intro!: keeps_on_net)

lemma lm_update_apart: "(\<And>w. net (f w) = net w) \<Longrightarrow> lm_apart flows (State_Monad.update f)"
  by (simp add: lm_apart_def keeps_def State_Monad.update_def)

lemma disable_net [simp]: "net (disable_all_watches w) = net w" "net (init_entity_pool w) = net w"
  by (simp_all add: disable_all_watches_def init_entity_pool_def)

named_theorems apart "operations of the etcd client that leave the bridge alone"

lemma apart_simple [apart]:
  "lm_apart flows (ret x)" "lm_apart flows State_Monad.get"
  by (simp_all add: lm_apart_def keeps_def)

lemma apart_bind [apart]: "lm_apart flows m \<Longrightarrow> (\<And>x. lm_apart flows (f x)) \<Longrightarrow> lm_apart flows (State_Monad.bind m f)"
  by (simp add: lm_apart_def keeps_bind)

lemma apart_option [apart]:
  "(r = None \<Longrightarrow> lm_apart flows m) \<Longrightarrow> (\<And>x. r = Some x \<Longrightarrow> lm_apart flows (f x)) \<Longrightarrow>
     lm_apart flows (case r of None \<Rightarrow> m | Some x \<Rightarrow> f x)"
  by (cases r) simp_all

lemma apart_if [apart]: "lm_apart flows m \<Longrightarrow> lm_apart flows m' \<Longrightarrow> lm_apart flows (if b then m else m')"
  by simp

lemma apart_count [apart]: "(\<And>x. lm_apart flows (f x)) \<Longrightarrow> lm_apart flows (count_ok f xs)"
  by (simp add: lm_apart_def keeps_count_ok)

lemma apart_operate:
  "lm_apart flows (on_net m) \<Longrightarrow> lm_apart flows (etcd_operate m)"
  unfolding etcd_operate_def split_beta by (intro apart lm_update_apart) simp_all

lemma add_watch_apart [apart]:
  assumes "etcd_apart E flows" and "\<And>w. net (init_f w) = net w"
  shows "lm_apart flows (add_watch E C key revision init_f)"
proof -
  have "lm_apart flows (start_watch E k revision init_f)" for k
    unfolding start_watch_def
    by (intro apart apart_operate etcd_on_net lm_update_apart assms) simp
  then show ?thesis
    unfolding add_watch_def Let_def
    by (intro apart etcd_on_net assms(1)) (auto split: prod.split bool.split intro!: apart etcd_on_net assms(1))
qed

lemma etcd_ops_apart [apart]:
  assumes "etcd_apart E flows"
  shows "lm_apart flows (read_remote_kvdata E C)" "lm_apart flows (put_entity_view_batch E C kvs)"
    "lm_apart flows (update_chassis E C ip)" "lm_apart flows (lease_communicate E C key val ttl)"
  unfolding read_remote_kvdata_def read_remote_entire_kvdata_def read_remote_incremental_kvdata_def
    run_default_watch_def avoid_dummy_connection_def put_entity_view_batch_def update_chassis_def put_entity_view_def
    lease_communicate_def lm_lease_def lm_put_def Let_def split_beta
  by (intro apart apart_operate etcd_on_net lm_update_apart assms; simp)+

section \<open>Calm steps\<close>

text \<open>Steps that update the zoo, do not sweep it, and add no flow but those of addresses.\<close>

definition calm :: "env \<Rightarrow> ('s \<Rightarrow> string set) \<Rightarrow> 's ctl \<Rightarrow> 's ctl \<Rightarrow> bool" where
  "calm env flows c c' \<longleftrightarrow>
     (zoo_update env)\<^sup>*\<^sup>* (ezoo c) (ezoo c') \<and> had_clean_ovs_flows c' = had_clean_ovs_flows c \<and>
     flows_of flows c' \<subseteq> flows_of flows c \<union> arp_flows"

definition calmly :: "env \<Rightarrow> ('s \<Rightarrow> string set) \<Rightarrow> ('s ctl, 'a) state \<Rightarrow> bool" where
  "calmly env flows m \<longleftrightarrow> (\<forall>c. calm env flows c (snd (run_state m c)))"

lemma calm_refl: "calm env flows c c"
  by (simp add: calm_def)

lemma calm_trans: "calm env flows c c1 \<Longrightarrow> calm env flows c1 c2 \<Longrightarrow> calm env flows c c2"
  by (auto simp: calm_def)

named_theorems calm_intro "rules for calm steps"

lemma calmly_simple [calm_intro]: "calmly env flows (ret x)" "calmly env flows State_Monad.get"
  by (simp_all add: calmly_def calm_refl)

lemma calmly_bind [calm_intro]:
  assumes "calmly env flows m" and "\<And>x. calmly env flows (f x)"
  shows "calmly env flows (State_Monad.bind m f)"
  unfolding calmly_def
proof
  fix c
  obtain x c1 where m: "run_state m c = (x, c1)" by fastforce
  have "calm env flows c c1" using assms(1) m by (auto simp: calmly_def dest!: spec [of _ c])
  moreover have "calm env flows c1 (snd (run_state (f x) c1))" using assms(2) by (simp add: calmly_def)
  ultimately show "calm env flows c (snd (run_state (State_Monad.bind m f) c))"
    using calm_trans by (simp add: m)
qed

lemma calmly_option [calm_intro]:
  "(r = None \<Longrightarrow> calmly env flows m) \<Longrightarrow> (\<And>x. r = Some x \<Longrightarrow> calmly env flows (f x)) \<Longrightarrow>
     calmly env flows (case r of None \<Rightarrow> m | Some x \<Rightarrow> f x)"
  by (cases r) simp_all

lemma calmly_if [calm_intro]: "calmly env flows m \<Longrightarrow> calmly env flows m' \<Longrightarrow> calmly env flows (if b then m else m')"
  by simp

lemma calmly_on_zoo: "(\<And>z. (zoo_update env)\<^sup>*\<^sup>* z (f z)) \<Longrightarrow> calmly env flows (on_zoo f)"
  by (simp add: calmly_def calm_def on_zoo_def State_Monad.update_def flows_of_def)

lemma calmly_on_lm [calm_intro]: "lm_apart flows m \<Longrightarrow> calmly env flows (on_lm m)"
  unfolding calmly_def
proof
  fix c :: "'a ctl" assume m: "lm_apart flows m"
  have flows: "flows (net (snd (run_state m (wmaster c)))) = flows (net (wmaster c))"
    using m unfolding lm_apart_def keeps_def by blast
  obtain x w where w: "run_state m (wmaster c) = (x, w)" by fastforce
  show "calm env flows c (snd (run_state (on_lm m) c))"
    using flows by (simp add: calm_def on_lm_def flows_of_def w)
qed

lemma calmly_on_host: "(\<And>F. keeps (\<lambda>s. flows s \<subseteq> F \<union> arp_flows) m) \<Longrightarrow> calmly env flows (on_host m)"
  unfolding calmly_def
proof
  fix c :: "'a ctl" assume m: "\<And>F. keeps (\<lambda>s. flows s \<subseteq> F \<union> arp_flows) m"
  have "flows (snd (run_state m (net (wmaster c)))) \<subseteq> flows (net (wmaster c)) \<union> arp_flows"
    using m [of "flows (net (wmaster c))"] by (auto simp: keeps_def)
  then show "calm env flows c (snd (run_state (on_host m) c))"
    by (simp add: calm_def run_on_host flows_of_def)
qed

lemma calmly_update:
  "(\<And>c. ezoo (f c) = ezoo c \<and> had_clean_ovs_flows (f c) = had_clean_ovs_flows c \<and> wmaster (f c) = wmaster c) \<Longrightarrow>
     calmly env flows (State_Monad.update f)"
  by (simp add: calmly_def calm_def State_Monad.update_def flows_of_def)

section \<open>The operations\<close>

lemma ofctl_keeps_subset:
  assumes "ofctl_ok H flows file" and "\<And>s. submitted (file s) ([prog, ''--timeout=5''] @ args) commu \<subseteq> arp_flows"
  shows "keeps (\<lambda>s. flows s \<subseteq> F \<union> arp_flows) (call_ovsprog H prog args commu)"
  by (rule ovsprog_keeps [OF assms(1) closed_subset [of arp_flows] assms(2)]) simp

lemma pushed_cmd_calm:
  assumes "ofctl_ok H flows file"
  shows "calmly env flows (on_host (execute_pushed_cmd H cmd_set z))"
proof (rule calmly_on_host)
  fix F
  have "keeps (\<lambda>s. flows s \<subseteq> F \<union> arp_flows) (inject_pkt_to_ovsport H cmd_id packet ofport)" for cmd_id packet ofport
    unfolding inject_pkt_to_ovsport_def ovs_ofctl_def by (intro keeps_intro ofctl_keeps_subset [OF assms]) simp
  then show "keeps (\<lambda>s. flows s \<subseteq> F \<union> arp_flows) (execute_pushed_cmd H cmd_set z)"
    unfolding execute_pushed_cmd_def execute_pushed_cmd_inject_pkt_def split_beta
    by (intro keeps_intro) (auto split: option.split body.split intro!: keeps_intro)
qed

lemma read_pass_calm:
  assumes "ofctl_ok H flows file" and "etcd_apart E flows"
  shows "calmly (ctl_env C) flows (read_pass H E C)"
  unfolding read_pass_def update_entity_from_remote_def Let_def split_beta
  by (intro calm_intro calmly_on_zoo updates.client_update_entity updates.change_move_all calmly_update apart
      pushed_cmd_calm [OF assms(1)] assms(2)) simp_all

lemma need_recompute_calm [calm_intro]: "calmly env flows need_recompute"
  unfolding need_recompute_def by (intro calm_intro calmly_update) simp

lemma register_chassis_calm: "etcd_apart E flows \<Longrightarrow> calmly env flows (register_chassis E C)"
  unfolding register_chassis_def by (intro calm_intro calmly_update apart) simp_all

lemma arp_update_calm:
  assumes "ofctl_ok H flows file" and "single_line mac"
  shows "calmly env flows (on_host (update_ovs_arp_ip_mac H C mac ip))"
proof (rule calmly_on_host)
  fix F
  have "gen_arp_ip_flow mac ip \<in> arp_flows" "single_line (gen_arp_ip_flow mac ip)"
    using assms(2) by (auto simp: arp_flows_def gen_arp_ip_flow_def)
  then have "keeps (\<lambda>s. flows s \<subseteq> F \<union> arp_flows) (commit_flows H [gen_arp_ip_flow mac ip] [])"
    by (intro commit_flows_keeps [OF assms(1) closed_subset [of arp_flows]]) auto
  moreover have "keeps (\<lambda>s. flows s \<subseteq> F \<union> arp_flows) (append_file H path t)" for path t
    using ofctl_other_files(1) [OF assms(1)] by (simp add: keeps_def)
  ultimately show "keeps (\<lambda>s. flows s \<subseteq> F \<union> arp_flows) (update_ovs_arp_ip_mac H C mac ip)"
    unfolding update_ovs_arp_ip_mac_def by (intro keeps_intro)
qed

section \<open>Passes\<close>

text \<open>
  What is known between the steps: before the first pass, updates of the empty zoo; after it, the zoo of
  the last sweep, updates since, and the flows it justifies.
\<close>

definition ctl_ok :: "ctl_conf \<Rightarrow> ('s \<Rightarrow> string set) \<Rightarrow> string list \<Rightarrow> 's ctl \<Rightarrow> bool" where
  "ctl_ok C flows ids c \<longleftrightarrow>
     (if had_clean_ovs_flows c
      then \<exists>z0. between (ctl_env C) ids z0 (ezoo c) \<and>
             flows_of flows c \<subseteq> wanted (opts (ctl_env C)) z0 \<union> arp_flows
      else between (ctl_env C) ids (init_zoo ids) (ezoo c))"

lemma calm_ok: "ctl_ok C flows ids c \<Longrightarrow> calm (ctl_env C) flows c c' \<Longrightarrow> ctl_ok C flows ids c'"
proof -
  assume ok: "ctl_ok C flows ids c" and calm: "calm (ctl_env C) flows c c'"
  have "between (ctl_env C) ids z0 (ezoo c')" if "between (ctl_env C) ids z0 (ezoo c)" for z0
    using that calm by (auto simp: between_def calm_def)
  then show ?thesis
    using ok calm unfolding ctl_ok_def calm_def by (cases "had_clean_ovs_flows c"; auto; blast)
qed

lemma keeps_installed [keeps_intro]: "keeps had_clean_ovs_flows (on_host m)"
  by (auto simp: keeps_def on_host_def on_lm_def on_net_def split: prod.splits)

lemma pass_installs:
  assumes "conf_ok C" and "between (ctl_env C) ids z0 (ezoo c)"
  shows "had_clean_ovs_flows (snd (run_state (update_ovs_side H C) c))"
proof -
  let ?o = "opts (ctl_env C)" and ?f = "db (ezoo c)"
  obtain z where z: "sweep_zoo (ezoo c) = Some z"
    using between_sweeps [OF conjunct1 [OF assms(1) [unfolded conf_ok_def]] assms(2)] by blast
  obtain adds dels where conv: "convert_tuple2flow (HASH_FN ?o) (pass_flows ?o (\<not> had_clean_ovs_flows c) ?f) = Some (adds, dels)"
    using convert_tuple2flow_total [OF _ pass_flows_ok] assms(1) by (metis conf_ok_def prod.exhaust)
  define add where "add = (if runtest C then sort adds else adds)"
  have com: "had_clean_ovs_flows (snd (run_state (commit_pass H C add dels) c0))" for c0 :: "'a ctl"
    by (auto simp: commit_pass_def State_Monad.update_def run_on_host split: prod.split)
  obtain r c1 where c1: "run_state (commit_pass H C add dels) (c\<lparr>ezoo := z\<rparr>) = (r, c1)" by fastforce
  have "keeps had_clean_ovs_flows (case r of None \<Rightarrow> ret None | Some _ \<Rightarrow> do {
      r' \<leftarrow> rebuild_chassis_tunnel H (tunnel_port_oper ?f);
      (case r' of None \<Rightarrow> ret None | Some _ \<Rightarrow> do {
         on_host (config_tunnel_bfd H (ecmp_bfd_port ?o ?f));
         on_host (rebuild_patchport H (patchport_oper ?f));
         ret (Some ()) }) })"
    unfolding rebuild_chassis_tunnel_def by (intro keeps_intro) simp
  moreover have "had_clean_ovs_flows c1" using com [of "c\<lparr>ezoo := z\<rparr>"] by (simp add: c1)
  ultimately show ?thesis
    by (simp add: update_ovs_side_def Let_def z conv on_zoo_def State_Monad.update_def add_def [symmetric] c1 keeps_def)
qed

lemma side_ok:
  assumes "conf_ok C" and "ofctl_ok H flows file" and "deletes_ok H" and "arp_file_lines H C"
    and "ctl_ok C flows ids c" and "pass_lines C c" and run: "run_state (update_ovs_side H C) c = (res, c')"
    and "had_clean_ovs_flows c' \<Longrightarrow> had_clean_ovs_flows c \<or> res \<noteq> None"
  shows "ctl_ok C flows ids c'"
proof (cases "had_clean_ovs_flows c")
  case True
  then obtain z0 where "between (ctl_env C) ids z0 (ezoo c)"
      "flows_of flows c \<subseteq> wanted (opts (ctl_env C)) z0 \<union> arp_flows" using assms(5) by (auto simp: ctl_ok_def)
  from later_pass [OF assms(1-3) this(1) True assms(6) this(2) run] show ?thesis by (auto simp: ctl_ok_def)
next
  case False
  then have btw: "between (ctl_env C) ids (init_zoo ids) (ezoo c)" using assms(5) by (simp add: ctl_ok_def)
  have "res = Some ()" using pass_installs [OF assms(1) btw, of H] run assms(8) False by (cases res) auto
  from first_pass [OF assms(1,2,4) btw False assms(6) run [unfolded this]] show ?thesis by (auto simp: ctl_ok_def)
qed

lemma pass_lines_cong:
  "ezoo c' = ezoo c \<Longrightarrow> had_clean_ovs_flows c' = had_clean_ovs_flows c \<Longrightarrow> pass_lines C c' = pass_lines C c"
  by (simp add: pass_lines_def)

lemma view_pass_ok:
  assumes "conf_ok C" and "ofctl_ok H flows file" and "deletes_ok H" and "arp_file_lines H C" and "etcd_apart E flows"
    and "ctl_ok C flows ids c" and lines: "pass_lines C (snd (run_state (read_pass H E C) c))"
    and run: "run_state (logical_view_pass H E C) c = (res, c')"
    and first: "had_clean_ovs_flows c' \<Longrightarrow> had_clean_ovs_flows c \<or> res \<noteq> None"
  shows "ctl_ok C flows ids c'"
proof -
  obtain cnt c1 where c1: "run_state (read_pass H E C) c = (cnt, c1)" by fastforce
  have calm1: "calm (ctl_env C) flows c c1"
    using spec [OF read_pass_calm [OF assms(2,5), of C, unfolded calmly_def], of c] by (simp add: c1)
  obtain b c2 where c2: "run_state need_recompute c1 = (b, c2)" by fastforce
  have calm2: "calm (ctl_env C) flows c1 c2" and same: "ezoo c2 = ezoo c1" "had_clean_ovs_flows c2 = had_clean_ovs_flows c1"
    using c2 by (auto simp: need_recompute_def State_Monad.update_def calm_def flows_of_def)
  have ok2: "ctl_ok C flows ids c2" using assms(6) calm1 calm2 by (blast intro: calm_ok)
  show ?thesis
  proof (cases "cnt = None \<or> \<not> b")
    case True
    then have "c' = c1 \<or> c' = c2" using run c1 c2 by (auto simp: logical_view_pass_def split: option.splits)
    then show ?thesis using ok2 calm1 assms(6) calm_ok by blast
  next
    case False
    then obtain n0 where n0: "cnt = Some n0" and b by auto
    obtain r c3 where c3: "run_state (update_ovs_side H C) c2 = (r, c3)" by fastforce
    have tail: "run_state (case r of None \<Rightarrow> ret None
        | Some _ \<Rightarrow> do { n \<leftarrow> register_chassis E C; ret (Some (n0 + n)) }) c3 = (res, c')"
      using run c1 c2 c3 n0 \<open>b\<close> by (simp add: logical_view_pass_def)
    have "calmly (ctl_env C) flows (case r of None \<Rightarrow> ret None
        | Some _ \<Rightarrow> do { n \<leftarrow> register_chassis E C; ret (Some (n0 + n)) })"
      by (intro calm_intro register_chassis_calm assms(5))
    then have calm3: "calm (ctl_env C) flows c3 c'" using tail by (auto simp: calmly_def dest: spec [of _ c3])
    have "res = None" if "r = None" using tail that by simp
    moreover have "had_clean_ovs_flows c2 = had_clean_ovs_flows c" "had_clean_ovs_flows c' = had_clean_ovs_flows c3"
      using calm1 calm2 calm3 by (simp_all add: calm_def)
    ultimately have "had_clean_ovs_flows c2 \<or> r \<noteq> None" if "had_clean_ovs_flows c3"
      using first that by (cases r) auto
    moreover have "pass_lines C c2" using lines c1 pass_lines_cong [OF same] by simp
    ultimately have "ctl_ok C flows ids c3" by (intro side_ok [OF assms(1-4) ok2 _ c3])
    then show ?thesis using calm3 by (rule calm_ok)
  qed
qed

section \<open>The steps of the three threads\<close>

text \<open>
  The thread of OVSDB updates the zoo, the thread of the packet controller handles a message, the main
  thread makes a pass; an exception of a step ends it and nothing else. Two things are required: the texts
  of a pass are single lines, and the commit of the very first pass succeeds.
\<close>

definition first_commit_ok :: "'s ctl \<Rightarrow> 'a option \<Rightarrow> 's ctl \<Rightarrow> bool" where
  "first_commit_ok c r c' \<longleftrightarrow> (had_clean_ovs_flows c' \<longrightarrow> had_clean_ovs_flows c \<or> r \<noteq> None)"

definition msg_lines :: "ctl_conf \<Rightarrow> 's agent \<Rightarrow> string list \<Rightarrow> bool" where
  "msg_lines C a seg \<longleftrightarrow>
     list_all single_line seg \<and>
     (case ip_at seg 2 of
        None \<Rightarrow> True
      | Some ip \<Rightarrow> pass_lines C ((main a)\<lparr>ezoo := snd (touch_unknow_dst ip (ezoo (main a)))\<rparr>))"

inductive agent_run :: "'s host \<Rightarrow> 's etcd \<Rightarrow> ctl_conf \<Rightarrow> string list \<Rightarrow> 's agent \<Rightarrow> bool" for H E C ids where
  agent_start: "agent_run H E C ids \<lparr>main = init_ctl ids s, arp_dict = []\<rparr>"
| agent_iface: "agent_run H E C ids a \<Longrightarrow>
    agent_run H E C ids (a\<lparr>main := (main a)\<lparr>ezoo := handle_interface_update (ctl_env C) resp (ezoo (main a))\<rparr>\<rparr>)"
| agent_arp: "agent_run H E C ids a \<Longrightarrow> run_state (process_arp H C seg) a = (r, a') \<Longrightarrow> msg_lines C a seg \<Longrightarrow>
    agent_run H E C ids a'"
| agent_trace: "agent_run H E C ids a \<Longrightarrow> run_state (process_trace E C seg) a = (r, a') \<Longrightarrow> agent_run H E C ids a'"
| agent_unknow: "agent_run H E C ids a \<Longrightarrow> run_state (process_unknow_dst H C seg) a = (r, a') \<Longrightarrow> msg_lines C a seg \<Longrightarrow>
    first_commit_ok (main a) r (main a') \<Longrightarrow> agent_run H E C ids a'"
| agent_pass: "agent_run H E C ids a \<Longrightarrow> run_state (logical_view_pass H E C) (main a) = (res, c') \<Longrightarrow>
    pass_lines C (snd (run_state (read_pass H E C) (main a))) \<Longrightarrow> first_commit_ok (main a) res c' \<Longrightarrow>
    agent_run H E C ids (a\<lparr>main := c'\<rparr>)"

lemma run_on_main: "run_state (on_main m) a = (fst (run_state m (main a)), a\<lparr>main := snd (run_state m (main a))\<rparr>)"
  by (simp add: on_main_def split: prod.split)

lemma arp_step:
  assumes "ofctl_ok H flows file" and "list_all single_line seg" and "run_state (process_arp H C seg) a = (r, a')"
  shows "calm env flows (main a) (main a')"
proof (cases "\<exists>dp mac ip. int_at seg 1 = Some dp \<and> nth_opt seg 2 = Some mac \<and>
    ip_at seg 3 = Some ip")
  case True
  then obtain dp mac ip where p: "int_at seg 1 = Some dp" "nth_opt seg 2 = Some mac"
      "ip_at seg 3 = Some ip" by blast
  have "single_line mac" using p(2) assms(2) by (auto simp: nth_opt_def list_all_length split: if_splits)
  note calm = spec [OF arp_update_calm [OF assms(1) this, unfolded calmly_def], of env "main a" C ip]
  have "main a' = main a \<or> main a' = snd (run_state (on_host (update_ovs_arp_ip_mac H C mac ip)) (main a))"
    using assms(3) unfolding process_arp_def p
    by (auto simp: run_on_main State_Monad.update_def split: if_splits option.splits)
  then show ?thesis using calm calm_refl by metis
next
  case False
  then have "main a' = main a"
    using assms(3) by (auto simp: process_arp_def split: option.splits)
  then show ?thesis by (simp add: calm_refl)
qed

lemma trace_step:
  assumes "etcd_apart E flows" and "run_state (process_trace E C seg) a = (r, a')"
  shows "calm env flows (main a) (main a')"
proof (cases "parse_trace seg")
  case (Some m)
  have "calmly env flows (on_lm (lease_communicate E (lm_cfg C) key val 30))" for key val
    by (intro calm_intro apart assms(1))
  then show ?thesis using assms(2) by (auto simp: process_trace_def Some run_on_main calmly_def)
qed (use assms(2) calm_refl in \<open>auto simp: process_trace_def\<close>)

lemma unknow_step:
  assumes "conf_ok C" and "ofctl_ok H flows file" and "deletes_ok H" and "arp_file_lines H C"
    and ok: "ctl_ok C flows ids (main a)" and lines: "msg_lines C a seg"
    and run: "run_state (process_unknow_dst H C seg) a = (r, a')" and first: "first_commit_ok (main a) r (main a')"
  shows "ctl_ok C flows ids (main a')"
proof (cases "\<exists>dp ip. int_at seg 1 = Some dp \<and> ip_at seg 2 = Some ip")
  case True
  then obtain dp ip where p: "int_at seg 1 = Some dp" "ip_at seg 2 = Some ip" by blast
  obtain cnt z where t: "touch_unknow_dst ip (ezoo (main a)) = (cnt, z)" by fastforce
  let ?c = "(main a)\<lparr>ezoo := z\<rparr>"
  have "calm (ctl_env C) flows (main a) ?c"
    using updates.client_touch_unknow [of "ctl_env C" "ezoo (main a)" ip] by (simp add: t calm_def flows_of_def)
  then have ok1: "ctl_ok C flows ids ?c" using ok calm_ok by blast
  have res: "(r, main a') = (if cnt \<noteq> 0 then run_state (update_ovs_side H C) ?c else (Some (), ?c))"
    using run unfolding process_unknow_dst_def p
    by (auto simp: t Let_def run_on_main on_zoo_def State_Monad.update_def split: if_splits)
  show ?thesis
  proof (cases "cnt = 0")
    case False
    have lines1: "pass_lines C ?c" using lines p(2) by (simp add: msg_lines_def t)
    show ?thesis
      by (rule side_ok [OF assms(1-4) ok1 lines1]) (use res False first in \<open>auto simp: first_commit_ok_def\<close>)
  qed (use res ok1 in simp)
next
  case False
  then have "main a' = main a"
    using run by (auto simp: process_unknow_dst_def split: option.splits)
  then show ?thesis using ok by simp
qed

lemma agent_run_ok:
  assumes "conf_ok C" and "ofctl_ok H flows file" and "deletes_ok H" and "arp_file_lines H C" and "etcd_apart E flows"
    and "agent_run H E C ids a"
  shows "ctl_ok C flows ids (main a)"
  using assms(6)
proof induction
  case (agent_start s)
  then show ?case by (simp add: ctl_ok_def init_ctl_def between_def rested_init)
next
  case (agent_iface a resp)
  have "calm (ctl_env C) flows (main a) ((main a)\<lparr>ezoo := handle_interface_update (ctl_env C) resp (ezoo (main a))\<rparr>)"
    using updates.client_interface_update by (simp add: calm_def flows_of_def)
  then show ?case using agent_iface calm_ok by fastforce
next
  case (agent_arp a seg r a')
  then show ?case using arp_step [OF assms(2)] calm_ok by (fastforce simp: msg_lines_def)
next
  case (agent_trace a seg r a')
  then show ?case using trace_step [OF assms(5)] calm_ok by blast
next
  case (agent_unknow a seg r a')
  show ?case by (rule unknow_step [OF assms(1-4) agent_unknow.IH agent_unknow.hyps(3,2,4)])
next
  case (agent_pass a res c')
  then show ?case
    using view_pass_ok [OF assms(1-5) agent_pass.IH agent_pass.hyps(3,2)] by (simp add: first_commit_ok_def)
qed

end
