(* ===== verification/Demo_Host.thy ===== *)
theory Demo_Host imports Controller begin

text \<open>
  A concrete machine on which the contract of ovs-ofctl holds: its bridge is a list of flow texts, its
  files an association list. It shows that the hypotheses on the machine can hold, and the runs on it
  are computed.
\<close>

record demo =
  br_flows :: "string list"
  files :: "(string \<times> string) list"

definition demo_file :: "demo \<Rightarrow> string \<Rightarrow> string" where
  "demo_file s path = (case map_of (files s) path of None \<Rightarrow> '''' | Some x \<Rightarrow> x)"

definition demo_lines :: "string \<Rightarrow> string list" where
  "demo_lines t = (let ls = split_on newline t in if last ls = [] then butlast ls else ls)"

definition survives :: "string list \<Rightarrow> string \<Rightarrow> bool" where
  "survives keys x \<longleftrightarrow> \<not> list_ex (\<lambda>k. take (length (k @ '',actions='')) x = k @ '',actions='') keys"

fun demo_ofctl :: "string list \<Rightarrow> string option \<Rightarrow> demo \<Rightarrow> string list" where
  "demo_ofctl (prog # timeout # op # args) commu s =
     (if prog \<noteq> ''ovs-ofctl'' then br_flows s
      else if op = ''add-flow'' then
        br_flows s @ (case commu of Some t \<Rightarrow> split_on newline t | None \<Rightarrow> [last args])
      else if op = ''replace-flows'' then split_on newline (demo_file s (last args))
      else if op = ''del-flows'' then
        filter (survives (case commu of Some t \<Rightarrow> split_on newline t | None \<Rightarrow> take 1 (drop 1 args))) (br_flows s)
      else br_flows s)"
| "demo_ofctl _ _ s = br_flows s"

definition demo_host :: "demo host" where
  "demo_host =
     \<lparr>popen = (\<lambda>cmd commu. State (\<lambda>s. (Some '''', s\<lparr>br_flows := demo_ofctl cmd commu s\<rparr>))),
      write_file = (\<lambda>path t. State (\<lambda>s. (True, s\<lparr>files := AList.update path t (files s)\<rparr>))),
      append_file = (\<lambda>path t. State (\<lambda>s. (True, s\<lparr>files := AList.update path (demo_file s path @ t) (files s)\<rparr>))),
      remove_file = (\<lambda>path. State (\<lambda>s. (True, s\<lparr>files := AList.delete path (files s)\<rparr>))),
      read_file = (\<lambda>path. State (\<lambda>s. (map_option demo_lines (map_of (files s) path), s))),
      truncate_file = (\<lambda>path. State (\<lambda>s. (True, s\<lparr>files := AList.update path '''' (files s)\<rparr>))),
      temp_path = ret ''/tmp/flows''\<rparr>"

definition demo_flows :: "demo \<Rightarrow> string set" where
  "demo_flows s = set (br_flows s)"

lemma survives_hits: "survives keys x \<Longrightarrow> k \<in> set keys \<Longrightarrow> \<not> del_hits k x"
  by (auto simp: survives_def del_hits_def list_ex_iff del: length_append)

lemma demo_ofctl_ok: "ofctl_ok demo_host demo_flows demo_file"
proof -
  have grows: "set (demo_ofctl cmd commu s) \<subseteq> set (br_flows s) \<union> submitted (demo_file s) cmd commu" for cmd commu s
    by (cases "(cmd, commu, s)" rule: demo_ofctl.cases) (auto split: option.splits)
  have same_files: "demo_file (s\<lparr>br_flows := xs\<rparr>) = demo_file s" for s xs
    by (simp add: demo_file_def fun_eq_iff)
  show ?thesis
    unfolding ofctl_ok_def
    by (auto simp: demo_host_def demo_flows_def same_files split_lines survives_hits demo_file_def update_conv'
        dest!: subsetD [OF grows])
qed

lemma demo_deletes_ok: "deletes_ok demo_host"
  by (auto simp: deletes_ok_def del_flow_def ovs_ofctl_def call_ovsprog_def call_popen_def demo_host_def numeral_3_eq_3)

definition demo_conf :: ctl_conf where
  "demo_conf = \<lparr>ctl_env = demo_env, consume_ip = ''192.168.0.1'', runtest = False,
     mac_ip_bind_file = ''/tmp/mac_ip_bind'',
     lm_cfg = \<lparr>lm_system_id = Some ''hv1'', prefix_path = ''tupleNet/''\<rparr>\<rparr>"

text \<open>An etcd that is empty and never fails.\<close>

definition demo_etcd :: "demo etcd" where
  "demo_etcd =
     \<lparr>etcd_get_prefix = (\<lambda>p. ret (Some [], False)), etcd_put = (\<lambda>k v l. ret (Some (), False)),
      etcd_lease = (\<lambda>n. ret (Some 1, False)), etcd_delete = (\<lambda>k. ret (Some 0)),
      etcd_add_watch = (\<lambda>k r. ret (Some 1, False)), etcd_cancel_watch = (\<lambda>n. ret (Some ())),
      etcd_members = ret False, etcd_clock = ret 0\<rparr>"

lemma demo_etcd_apart: "etcd_apart demo_etcd flows"
  by (simp add: etcd_apart_def demo_etcd_def keeps_return)

lemma demo_conf_ok: "conf_ok demo_conf"
  by (simp add: conf_ok_def demo_conf_def demo_env_pop) (simp add: demo_env_def hash_fns_def)

text \<open>The first step: the database reports the local port of the bridge, which raises the version.\<close>

definition demo_resp :: "(string \<times> json) list" where
  "demo_resp =
     [(''result'', JObj [(''Interface'', JObj [(''row'', JObj [(''new'',
        JObj [(''ofport'', JInt 1), (''name'', JStr ''br-int''), (''external_ids'', JList [JStr ''map'', JList []]),
              (''type'', JStr ''internal'')])])])])]"

lemma demo_resp_effect: "handle_interface_update env demo_resp z = update_version_force z"
  by (simp add: handle_interface_update_def update_data_def demo_resp_def jget_def iface_monitor_parse_def
      row_records_def opt_list_def parse_iface_record_def update_ovsport_def port_key_def)

definition demo_zoo0 :: zoo where
  "demo_zoo0 = update_version_force (init_zoo [''hv1''])"

lemma demo_zoo0_sel [simp]: "db demo_zoo0 = db (init_zoo [''hv1''])" "zoo_ver demo_zoo0 = 1" "entity_set demo_zoo0 t = []"
  by (simp_all add: demo_zoo0_def update_version_force_def init_zoo_def)

definition demo_begin :: "demo ctl" where
  "demo_begin = (init_ctl [''hv1''] \<lparr>br_flows = [''priority=0''], files = []\<rparr>)\<lparr>ezoo := demo_zoo0\<rparr>"

definition demo_start :: "demo ctl" where
  "demo_start = snd (run_state (read_pass demo_host demo_etcd demo_conf) demo_begin)"

lemmas demo_read_defs = read_pass_def update_entity_from_remote_def read_remote_kvdata_def
  read_remote_entire_kvdata_def on_lm_def on_net_def etcd_operate_def demo_etcd_def demo_begin_def init_ctl_def
  init_watch_master_def State_Monad.update_def Let_def run_default_watch_def add_watch_def start_watch_def
  demo_conf_def revise_lsp_chassis_def generate_lsp_kv_def update_lsp_chassis_def on_zoo_def update_entity_def
  dispatch_pool_def init_entity_pool_def logical_entity_types_def

lemma demo_read: "run_state (read_pass demo_host demo_etcd demo_conf) demo_begin = (Some 0, demo_start)"
proof -
  have "fst (run_state (read_pass demo_host demo_etcd demo_conf) demo_begin) = Some 0"
    by (simp add: demo_read_defs)
  then show ?thesis by (simp add: demo_start_def prod_eq_iff)
qed

definition demo_pass :: "unit option \<times> demo ctl" where
  "demo_pass = run_state (update_ovs_side demo_host demo_conf) (demo_start\<lparr>prev_zoo_ver := 1\<rparr>)"

lemma demo_start_zoo:
  "build_flows (opts demo_env) (db (init_zoo [''hv1''])) = []"
  "ecmp_bfd_port (opts demo_env) (db (init_zoo [''hv1''])) = []"
  "patchport_oper (db (init_zoo [''hv1''])) = []"
  by code_simp+

lemma demo_start_sweep: "\<exists>z. sweep_zoo demo_zoo0 = Some z"
  unfolding option.distinct not_None_eq [symmetric] by code_simp

lemma demo_start_tunnels:
  "tunnel_port_oper (db (init_zoo [''hv1''])) = [('''', ''flow_base_tunnel'', 0)]"
  "tunnel_port_delete_exist (db (init_zoo [''hv1''])) = []"
  by code_simp+

lemma demo_ovsprog [simp]:
  "run_state (call_ovsprog demo_host prog args commu) s =
     (Some '''', s\<lparr>br_flows := demo_ofctl (prog # ''--timeout=5'' # args) commu s\<rparr>)"
  by (simp add: call_ovsprog_def call_popen_def demo_host_def numeral_3_eq_3 py_strip_def)

lemma demo_files [simp]:
  "run_state (write_file demo_host path t) s = (True, s\<lparr>files := AList.update path t (files s)\<rparr>)"
  "run_state (remove_file demo_host path) s = (True, s\<lparr>files := AList.delete path (files s)\<rparr>)"
  "run_state (read_file demo_host path) s = (map_option demo_lines (map_of (files s) path), s)"
  "run_state (temp_path demo_host) s = (''/tmp/flows'', s)"
  by (simp_all add: demo_host_def)

lemma split_on_parts: "p \<in> set (split_on c x) \<Longrightarrow> c \<notin> set p \<and> set p \<subseteq> set x"
proof (induction x arbitrary: p)
  case (Cons a x)
  then show ?case by (cases "split_on c x") (fastforce split: if_splits)+
qed simp

lemma demo_lines_single: "l \<in> set (demo_lines t) \<Longrightarrow> single_line l"
  by (auto simp: demo_lines_def Let_def single_line_def split: if_splits dest!: in_set_butlastD split_on_parts)

lemma arp_lines_single: "\<forall>l \<in> set ls. single_line l \<Longrightarrow> \<forall>x \<in> set (snd (arp_lines ls)). single_line x"
proof (induction ls)
  case (Cons l ls)
  have parts: "single_line p" if "p \<in> set (split_on CHR '','' l)" for p
    using split_on_parts [OF that] Cons.prems by (auto simp: single_line_def)
  show ?case
    using Cons parts by (auto simp: gen_arp_ip_flow_def split: list.splits option.splits prod.splits)
qed simp

lemma demo_arp: "\<forall>s. \<forall>x \<in> set (fst (run_state (get_ovs_arp_ip_mac_from_file demo_host path) s)). single_line x"
proof (intro allI ballI)
  fix s x assume "x \<in> set (fst (run_state (get_ovs_arp_ip_mac_from_file demo_host path) s))"
  then obtain t where "x \<in> set (snd (arp_lines (demo_lines t)))"
    by (auto simp: get_ovs_arp_ip_mac_from_file_def split: option.splits prod.splits bool.splits;
        metis snd_conv)
  then show "single_line x" using arp_lines_single demo_lines_single by blast
qed

lemma demo_pass_flows: "pass_flows (opts demo_env) True (db (init_zoo [''hv1''])) = map (\<lambda>fl. (fl, 1)) build_const_flows"
  by (simp add: pass_flows_def demo_start_zoo)

lemma demo_start_sel [simp]:
  "ezoo demo_start = demo_zoo0" "had_clean_ovs_flows demo_start = False" "ctl_env demo_conf = demo_env"
  "net (wmaster demo_start) = \<lparr>br_flows = [''priority=0''], files = []\<rparr>" "had_clean_tunnel_ports demo_start = False"
  "prev_zoo_ver demo_start = 0"
  by (simp_all add: demo_start_def demo_read_defs)

lemma demo_pass_lines: "pass_lines demo_conf demo_start"
proof -
  let ?r = "pass_flows (opts demo_env) True (db (init_zoo [''hv1'']))"
  have "\<forall>fl \<in> dom_rel ?r. lflow_lines fl"
    using const_flows_lines by (auto simp: demo_pass_flows dom_rel_def list_all_iff)
  moreover have "single_line (HASH_FN (opts demo_env))" by (simp add: demo_env_def)
  ultimately show ?thesis
    unfolding pass_lines_def using convert_tuple2flow_lines [of "HASH_FN (opts demo_env)" ?r]
    by (simp split: option.split prod.split)
qed

lemma demo_pass_ok: "fst demo_pass = Some ()"
proof -
  obtain z where z: "sweep_zoo demo_zoo0 = Some z" using demo_start_sweep by blast
  have "HASH_FN (opts demo_env) \<in> set hash_fns" by (simp add: demo_env_def hash_fns_def)
  then obtain adds dels where
    "convert_tuple2flow (HASH_FN (opts demo_env)) (pass_flows (opts demo_env) True (db (init_zoo [''hv1'']))) =
       Some (adds, dels)"
    using convert_tuple2flow_total [OF _ pass_flows_ok] by (metis prod.exhaust)
  then show ?thesis
    by (simp add: demo_pass_def update_ovs_side_def Let_def z on_zoo_def State_Monad.update_def commit_pass_def
        run_on_host get_ovs_arp_ip_mac_from_file_def commit_replaceflows_def rebuild_chassis_tunnel_def
        demo_start_zoo demo_start_tunnels config_tunnel_bfd_def tun_bfd_dict_def rebuild_patchport_def
        create_flowbased_tunnel_def remove_tunnel_by_name_def is_ovsport_exist_def ovs_get_iface_property_def
        create_ovsport_def delete_ovsport_def ovs_vsctl_def ovs_ofctl_def
        split: prod.split option.split bool.split)
qed

text \<open>The second step: a pass of the main thread.\<close>

definition demo_view :: "nat option \<times> demo ctl" where
  "demo_view = run_state (logical_view_pass demo_host demo_etcd demo_conf) demo_begin"

lemma demo_view_ok: "fst demo_view \<noteq> None" "had_clean_ovs_flows (snd demo_view)"
proof -
  obtain c where c: "demo_pass = (Some (), c)" using demo_pass_ok by (metis prod.collapse)
  obtain n c' where n: "run_state (register_chassis demo_etcd demo_conf) c = (n, c')" by fastforce
  have view: "demo_view = (Some n, c')"
    using c n by (simp add: demo_view_def logical_view_pass_def demo_read need_recompute_def State_Monad.update_def
        demo_pass_def)
  have "between (ctl_env demo_conf) [''hv1''] (init_zoo [''hv1'']) (ezoo (demo_start\<lparr>prev_zoo_ver := 1\<rparr>))"
    by (auto simp: between_def demo_zoo0_def intro: rested_init step_force)
  from pass_installs [OF demo_conf_ok this, of demo_host] have "had_clean_ovs_flows c"
    using c by (simp add: demo_pass_def)
  moreover have "calm demo_env demo_flows c c'"
    using register_chassis_calm [OF demo_etcd_apart, of demo_env demo_flows demo_conf, unfolded calmly_def, rule_format, of c]
    by (simp add: n)
  ultimately show "fst demo_view \<noteq> None" "had_clean_ovs_flows (snd demo_view)" by (simp_all add: view calm_def)
qed

definition demo_agent :: "demo agent" where
  "demo_agent = \<lparr>main = snd demo_view, arp_dict = []\<rparr>"

lemma demo_agent_run: "agent_run demo_host demo_etcd demo_conf [''hv1''] demo_agent"
proof -
  let ?s = "\<lparr>br_flows = [''priority=0''], files = []\<rparr> :: demo"
  have "agent_run demo_host demo_etcd demo_conf [''hv1''] \<lparr>main = demo_begin, arp_dict = []\<rparr>"
    using agent_iface [OF agent_start [of demo_host demo_etcd demo_conf "[''hv1'']" ?s], of demo_resp]
    by (simp add: demo_resp_effect demo_begin_def demo_zoo0_def init_ctl_def)
  from agent_pass [OF this, of "fst demo_view" "snd demo_view"] show ?thesis
    using demo_view_ok demo_pass_lines by (simp add: demo_view_def demo_agent_def demo_read first_commit_ok_def)
qed

end
