(* ===== verification/Link_Window.thy ===== *)
theory Link_Window imports Link_Master begin

text \<open>
  The aggregation of watch events between two reads: what the pools say of the store is what the
  events did to it, but for keys that are put and deleted again within the window.
\<close>

section \<open>The store behind the events\<close>

type_synonym store = "string \<Rightarrow> value_set option"

fun is_change :: "watch_event \<Rightarrow> bool" where
  "is_change (Put_event key val revision) = True"
| "is_change (Delete_event key revision) = True"
| "is_change e = False"

fun store_event :: "watch_event \<Rightarrow> store \<Rightarrow> store" where
  "store_event (Put_event key val revision) m =
     (case parse_key key of None \<Rightarrow> m | Some kt \<Rightarrow> m(key \<mapsto> pool_entry kt (parse_value val)))"
| "store_event (Delete_event key revision) m =
     (case parse_key key of None \<Rightarrow> m | Some kt \<Rightarrow> m(key := None))"
| "store_event e m = m"

text \<open>What a reader makes of the pools: remove, then add.\<close>

definition apply_pools :: "pool \<Rightarrow> pool \<Rightarrow> store \<Rightarrow> store" where
  "apply_pools add del m =
     (\<lambda>k. case map_of add k of Some v \<Rightarrow> Some v | None \<Rightarrow> if map_of del k \<noteq> None then None else m k)"

fun event_key :: "watch_event \<Rightarrow> string option" where
  "event_key (Put_event key val revision) = Some key"
| "event_key (Delete_event key revision) = Some key"
| "event_key e = None"

definition events_on :: "string \<Rightarrow> watch_event list \<Rightarrow> watch_event list" where
  "events_on k evs = filter (\<lambda>e. event_key e = Some k) evs"

text \<open>The last event on the key deletes it, and the one before put it.\<close>

definition put_and_deleted :: "string \<Rightarrow> watch_event list \<Rightarrow> bool" where
  "put_and_deleted k evs \<longleftrightarrow>
     (case rev (events_on k evs) of
        Delete_event _ _ # Put_event _ _ _ # _ \<Rightarrow> True
      | _ \<Rightarrow> False)"

section \<open>The pools of a window\<close>

definition pools_ok :: "string \<Rightarrow> watch_event list \<Rightarrow> pool \<Rightarrow> pool \<Rightarrow> bool" where
  "pools_ok k evs add del \<longleftrightarrow>
     (case rev (events_on k evs) of
        [] \<Rightarrow> map_of add k = None \<and> map_of del k = None
      | Put_event _ val _ # _ \<Rightarrow>
          map_of add k = Some (pool_entry (the (parse_key k)) (parse_value val)) \<and> map_of del k = None
      | _ \<Rightarrow> map_of add k = None \<and> (map_of del k = None \<longleftrightarrow> put_and_deleted k evs))"

lemma pools_ok_cong:
  assumes "events_on k evs' = events_on k evs" and "map_of add' k = map_of add k" and "map_of del' k = map_of del k"
  shows "pools_ok k evs' add' del' = pools_ok k evs add del"
proof -
  have pd: "put_and_deleted k evs' = put_and_deleted k evs" by (simp only: put_and_deleted_def assms(1))
  show ?thesis unfolding pools_ok_def assms pd by (rule refl)
qed

lemma events_on_snoc:
  "events_on k (evs @ [e]) = (if event_key e = Some k then events_on k evs @ [e] else events_on k evs)"
  by (simp add: events_on_def)

definition window :: "'s watch_master \<Rightarrow> pool \<Rightarrow> pool \<Rightarrow> bool" where
  "window w add del \<longleftrightarrow>
     \<not> watch_canceled w \<and> entity_add_pool w = Some add \<and> entity_del_pool w = Some del"

lemma window_event:
  assumes "window w add del" and "is_change e"
    and "\<And>k. parse_key k \<noteq> None \<Longrightarrow> pools_ok k evs add del"
    and "\<And>k. parse_key k = None \<Longrightarrow> map_of add k = None \<and> map_of del k = None"
  shows "\<exists>add' del'. window (watch_callback e w) add' del' \<and>
    (\<forall>k. parse_key k \<noteq> None \<longrightarrow> pools_ok k (evs @ [e]) add' del') \<and>
    (\<forall>k. parse_key k = None \<longrightarrow> map_of add' k = None \<and> map_of del' k = None)"
proof -
  obtain key where key: "event_key e = Some key" using assms(2) by (cases e) auto
  show ?thesis
  proof (cases "parse_key key")
    case None
    then have "window (watch_callback e w) add del"
      using assms(1) key by (cases e) (auto simp: window_def)
    moreover have "pools_ok k (evs @ [e]) add del" if "parse_key k \<noteq> None" for k
    proof -
      have "events_on k (evs @ [e]) = events_on k evs" using that None key by (auto simp: events_on_snoc)
      then show ?thesis using assms(3) [OF that] pools_ok_cong by blast
    qed
    ultimately show ?thesis using assms(4) by blast
  next
    case (Some kt)
    let ?ps = "case e of Put_event _ val _ \<Rightarrow> put_pools key (pool_entry kt (parse_value val)) (add, del)
      | _ \<Rightarrow> delete_pools key kt (add, del)"
    obtain add' del' where ps: "?ps = (add', del')" by fastforce
    have w': "window (watch_callback e w) add' del'"
      using assms(1,2) key Some ps by (cases e) (auto simp: window_def on_pools_def)
    have other: "map_of add' k = map_of add k \<and> map_of del' k = map_of del k" if "k \<noteq> key" for k
      using that ps assms(2)
      by (cases e) (auto simp: put_pools_def delete_pools_def update_conv' delete_conv' split: if_splits)
    have "pools_ok k (evs @ [e]) add' del'" if k: "parse_key k \<noteq> None" for k
    proof (cases "k = key")
      case False
      then have "events_on k (evs @ [e]) = events_on k evs" using key by (simp add: events_on_snoc)
      then show ?thesis using assms(3) [OF k] other [OF False] pools_ok_cong by metis
    next
      case True
      then have on: "rev (events_on k (evs @ [e])) = e # rev (events_on k evs)"
        using key by (simp add: events_on_snoc)
      have ok: "pools_ok k evs add del" by (rule assms(3) [OF k])
      have keys: "\<forall>x \<in> set (events_on k evs). event_key x = Some k" by (simp add: events_on_def)
      show ?thesis
      proof (cases e)
        case (Put_event key' val revision)
        then show ?thesis
          using on ps True Some key
          by (auto simp: pools_ok_def put_pools_def update_conv' delete_conv')
      next
        case (Delete_event key' revision)
        show ?thesis
          using on ps True Some key ok Delete_event keys
          by (auto simp: pools_ok_def put_and_deleted_def delete_pools_def update_conv' delete_conv'
              split: list.splits watch_event.splits if_splits)
      qed (use assms(2) in simp_all)
    qed
    moreover have "map_of add' k = None \<and> map_of del' k = None" if "parse_key k = None" for k
      using other [of k] assms(4) [OF that] that Some by fastforce
    ultimately show ?thesis using w' by blast
  qed
qed

lemma window_events:
  assumes "window w [] []" and "\<forall>e \<in> set evs. is_change e"
  shows "\<exists>add del. window (fold watch_callback evs w) add del \<and>
    (\<forall>k. parse_key k \<noteq> None \<longrightarrow> pools_ok k evs add del) \<and>
    (\<forall>k. parse_key k = None \<longrightarrow> map_of add k = None \<and> map_of del k = None)"
  using assms(2)
proof (induction evs rule: rev_induct)
  case Nil
  then show ?case using assms(1) by (intro exI [of _ "[]"]) (simp add: pools_ok_def events_on_def)
next
  case (snoc e evs)
  then obtain add del where "window (fold watch_callback evs w) add del"
    "\<forall>k. parse_key k \<noteq> None \<longrightarrow> pools_ok k evs add del"
    "\<forall>k. parse_key k = None \<longrightarrow> map_of add k = None \<and> map_of del k = None" by auto
  then show ?case using window_event [of "fold watch_callback evs w" add del e evs] snoc.prems by simp
qed

lemma store_events_other:
  "\<forall>e \<in> set evs. event_key e \<noteq> Some k \<Longrightarrow> fold store_event evs m k = m k"
proof (induction evs arbitrary: m)
  case (Cons e evs)
  have "store_event e m k = m k" using Cons.prems by (cases e) (auto split: option.splits)
  then show ?case using Cons by simp
qed simp

lemma store_events:
  "fold store_event evs m k =
     (if parse_key k = None then m k
      else case rev (events_on k evs) of
             [] \<Rightarrow> m k
           | Put_event _ val _ # _ \<Rightarrow> Some (pool_entry (the (parse_key k)) (parse_value val))
           | _ \<Rightarrow> None)"
proof (induction evs rule: rev_induct)
  case (snoc e evs)
  show ?case
  proof (cases "event_key e = Some k")
    case True
    then show ?thesis using snoc by (cases e) (auto simp: events_on_snoc split: option.splits)
  next
    case False
    then have "store_event e m' k = m' k" for m' by (cases e) (auto split: option.splits)
    then show ?thesis using snoc False by (simp add: events_on_snoc)
  qed
qed (simp add: events_on_def)

text \<open>
  C4. Between two reads the pools are the net effect of the events: removing the one and adding the other
  gives every key the value the events left it with, except that a key which is put and then deleted
  keeps the value it had before the window, if it had one.
\<close>

theorem window_replays_events:
  assumes "\<not> watch_canceled w" and "entity_add_pool w = Some []" and "entity_del_pool w = Some []"
    and "\<forall>e \<in> set evs. is_change e"
  shows "\<exists>add del. entity_add_pool (fold watch_callback evs w) = Some add \<and>
    entity_del_pool (fold watch_callback evs w) = Some del \<and>
    (\<forall>k. apply_pools add del m k =
       (if put_and_deleted k evs then m k else fold store_event evs m k))"
proof -
  obtain add del where w: "window (fold watch_callback evs w) add del"
    and known: "\<And>k. parse_key k \<noteq> None \<Longrightarrow> pools_ok k evs add del"
    and unknown: "\<And>k. parse_key k = None \<Longrightarrow> map_of add k = None \<and> map_of del k = None"
    using window_events [of w evs] assms by (auto simp: window_def)
  have "apply_pools add del m k = (if put_and_deleted k evs then m k else fold store_event evs m k)" for k
  proof (cases "parse_key k = None")
    case True
    then show ?thesis using unknown by (simp add: apply_pools_def store_events)
  next
    case False
    then show ?thesis
      using known [OF False]
      by (auto simp: apply_pools_def store_events pools_ok_def put_and_deleted_def
          split: list.splits watch_event.splits)
  qed
  then show ?thesis using w by (auto simp: window_def)
qed

definition demo_watch :: "nat watch_master" where
  "demo_watch = init_entity_pool ((init_watch_master 0)\<lparr>watch_canceled := False\<rparr>)"

definition demo_events :: "watch_event list" where
  "demo_events =
     [Put_event ''tupleNet/entity_view/LS/a'' ''id=1'' 5, Delete_event ''tupleNet/entity_view/LS/b'' 6,
      Put_event ''tupleNet/entity_view/LS/b'' ''id=2'' 7, Delete_event ''tupleNet/entity_view/LS/a'' 8]"

theorem window_replays_events_witness:
  "\<exists>add del. entity_add_pool (fold watch_callback demo_events demo_watch) = Some add \<and>
    entity_del_pool (fold watch_callback demo_events demo_watch) = Some del \<and>
    (\<forall>k. apply_pools add del Map.empty k =
       (if put_and_deleted k demo_events then None else fold store_event demo_events Map.empty k))"
  using window_replays_events [of demo_watch demo_events Map.empty]
  by (simp add: demo_watch_def demo_events_def init_watch_master_def init_entity_pool_def)

end
