(* ===== verification/Pipeline.thy ===== *)
theory Pipeline imports Sync_Sound begin

text \<open>
  The order of the OpenFlow tables: where a flow sends a packet next. But for the two places where a
  packet crosses a link between a switch and a router, and the one where a packet without a local port is
  looked up again for redirection, it always goes forward, so the switch never runs in circles.
\<close>

section \<open>Jumps\<close>

text \<open>
  The tables a packet may be in next, from an action of a flow of table \<open>t\<close>: resubmission, connection
  tracking, and the table in which a generated ARP request continues.
\<close>

definition jumps :: "nat \<Rightarrow> act \<Rightarrow> nat list" where
  "jumps t x =
     (case x of (code, args) \<Rightarrow>
        if code = Action_resubmit_next then [t + 1]
        else if code \<in> set [Action_resubmit_table, Action_unsnat, Action_undnat, Action_generate_arp] then
          (case args of AV (PInt i) # _ \<Rightarrow> [nat i] | _ \<Rightarrow> [])
        else if code \<in> set [Action_snat, Action_dnat] then
          (case args of _ # AV (PInt i) # _ \<Rightarrow> [nat i] | _ \<Rightarrow> [])
        else [])"

definition stages :: "nat list" where
  "stages =
     [TABLE_CONVERT_PHY_LOGICAL, TABLE_EXTRACT_METADATA, TABLE_PIPELINE_FORWARD,
      TABLE_LSP_TRACE_INGRESS_IN, TABLE_LSP_INGRESS_PROCESS_EXT_LOGIC, TABLE_THIRD_PARTY] @
     [TABLE_LSP_INGRESS_ARP_CONTROLLER..<TABLE_LSP_TRACE_INGRESS_OUT + 1] @
     [TABLE_LSP_TRACE_EGRESS_IN..<TABLE_LSP_TRACE_EGRESS_OUT + 1] @
     [TABLE_LRP_TRACE_INGRESS_IN..<TABLE_LRP_TRACE_INGRESS_OUT + 1] @
     [TABLE_LRP_TRACE_EGRESS_IN..<TABLE_LRP_TRACE_EGRESS_OUT + 1] @
     [TABLE_ARP_FEEDBACK_CONSTRUCT, TABLE_SEARCH_IP_MAC, TABLE_REDIRECT_CHASSIS, TABLE_EMBED2_METADATA,
      TABLE_OUTPUT_PKT, TABLE_DROP_PACKET]"

definition stage :: "nat \<Rightarrow> nat" where
  "stage t = length (takeWhile (\<lambda>u. u \<noteq> t) stages)"

text \<open>From a switch to a router, from a router to a switch, and to the lookup for redirection.\<close>

definition back_jumps :: "(nat \<times> nat) list" where
  "back_jumps =
     [(TABLE_LSP_TRACE_EGRESS_OUT, TABLE_LRP_TRACE_INGRESS_IN), (TABLE_LRP_TRACE_EGRESS_OUT, TABLE_LSP_TRACE_INGRESS_IN),
      (TABLE_LSP_EGRESS_FORWARD_PACKET, TABLE_LSP_INGRESS_LOOKUP_DST_PORT)]"

definition jump_ok :: "nat \<Rightarrow> nat \<Rightarrow> bool" where
  "jump_ok t u \<longleftrightarrow> u \<in> set stages \<and> (stage t < stage u \<or> (t, u) \<in> set back_jumps)"

definition acts_at :: "nat \<Rightarrow> act list \<Rightarrow> bool" where
  "acts_at t a \<longleftrightarrow> (\<forall>x \<in> set a. \<forall>u \<in> set (jumps t x). jump_ok t u)"

lemma acts_at_append [simp]: "acts_at t (a @ b) \<longleftrightarrow> acts_at t a \<and> acts_at t b"
  by (auto simp: acts_at_def)

named_theorems at_simps "where an action leads"

lemma acts_at_terms [at_simps]:
  "acts_at t (resubmit_table u) \<longleftrightarrow> jump_ok t u" "acts_at t resubmit_next \<longleftrightarrow> jump_ok t (t + 1)"
  "acts_at t (unsnat u) \<longleftrightarrow> jump_ok t u" "acts_at t (undnat u) \<longleftrightarrow> jump_ok t u" "acts_at t (generate_arp u) \<longleftrightarrow> jump_ok t u"
  "acts_at t (snat v u) \<longleftrightarrow> jump_ok t u" "acts_at t (dnat v u) \<longleftrightarrow> jump_ok t u"
  "acts_at t drop_act" "acts_at t (mod_nw_dst v)" "acts_at t (mod_nw_src v)" "acts_at t (mod_dl_src v)"
  "acts_at t (mod_dl_dst v)" "acts_at t (mod_nw_ttl v)" "acts_at t (note_act i)" "acts_at t dec_ttl"
  "acts_at t upload_arp" "acts_at t upload_trace" "acts_at t upload_unknow_dst" "acts_at t (output_port v)"
  "acts_at t (move r r')" "acts_at t (load v r)" "acts_at t (output_reg r)" "acts_at t (push r)"
  "acts_at t (exchange r r')" "acts_at t (bundle_load r ns)" "acts_at t []"
  by (simp_all add: acts_at_def flow_defs jumps_def)

lemma stages_eval: "stages = [0, 98, 99, 1, 2, 201, 3, 4, 5, 6, 7, 20, 21, 22, 23, 30, 31, 32, 33, 34, 35, 36, 37, 38, 39,
    50, 51, 52, 53, 54, 55, 56, 57, 58, 96, 100, 95, 97, 94, 101]"
  by (simp add: stages_def upt_conv_Cons)

lemmas jump_eval = jump_ok_def stage_def stages_eval back_jumps_def

section \<open>Rules\<close>

definition rule_at :: "nat \<Rightarrow> 'a rule \<Rightarrow> bool" where
  "rule_at t R \<longleftrightarrow> (\<forall>x \<in> set R. acts_at t (snd (snd (snd (fst x)))))"

named_theorems rule_at_intro "rules for the flows of a table"

lemma rule_at_append [rule_at_intro]: "rule_at t R \<Longrightarrow> rule_at t R' \<Longrightarrow> rule_at t (R @ R')"
  by (auto simp: rule_at_def)

lemma rule_at_bind [rule_at_intro]: "(\<And>x. rule_at t (F x)) \<Longrightarrow> rule_at t (concat (map F xs))"
  by (auto simp: rule_at_def)

lemma rule_at_map [rule_at_intro]: "(\<And>x. acts_at t (snd (snd (snd (fst (h x)))))) \<Longrightarrow> rule_at t (map h xs)"
  by (auto simp: rule_at_def)

lemma rule_at_if [rule_at_intro]: "(b \<Longrightarrow> rule_at t R) \<Longrightarrow> (\<not> b \<Longrightarrow> rule_at t R') \<Longrightarrow> rule_at t (if b then R else R')"
  by simp

lemma rule_at_base [rule_at_intro]:
  "rule_at t []" "acts_at t a \<Longrightarrow> rule_at t [((r, p, m, a), s)]"
  "acts_at t a \<Longrightarrow> rule_at t (per_ls f (p, m, a))" "acts_at t a \<Longrightarrow> rule_at t (per_lr f (p, m, a))"
  by (auto simp: rule_at_def per_ls_def per_lr_def)

lemma acts_at_case [rule_at_intro]:
  "acts_at t (snd (snd (snd (fst (h (fst x) (snd x)))))) \<Longrightarrow> acts_at t (snd (snd (snd (fst (case x of (a, b) \<Rightarrow> h a b)))))"
  by (simp add: split_beta)

lemma base_rules_at [rule_at_intro]:
  "rule_at TABLE_CONVERT_PHY_LOGICAL (convert_phy_logical f)" "rule_at TABLE_ARP_FEEDBACK_CONSTRUCT (arp_feedback_construct f)"
  "rule_at TABLE_REDIRECT_CHASSIS (redirect_other_chassis f)"
  unfolding convert_phy_logical_def arp_feedback_construct_def redirect_other_chassis_def arp_feedback_action_def split_beta
  by (intro rule_at_intro; simp add: at_simps jump_eval)+

lemma ls_rules_at [rule_at_intro]:
  "rule_at TABLE_LSP_INGRESS_ARP_CONTROLLER (lsp_arp_controller options f)"
  "rule_at TABLE_LSP_INGRESS_ARP_RESPONSE (lsp_arp_response f)"
  "rule_at TABLE_LSP_INGRESS_LOOKUP_DST_PORT (lsp_lookup_dst_port options f)"
  "rule_at TABLE_LSP_INGRESS_OUTPUT_DST_PORT (lsp_output_dst_port options f)"
  "rule_at TABLE_LSP_EGRESS_JUDGE_LOOPBACK (lsp_judge_loopback f)"
  "rule_at TABLE_LSP_EGRESS_FORWARD_PACKET (lsp_forward_packet f)"
  "rule_at TABLE_LSP_EGRESS_PUSHOUT (lsp_pushout_packet f)"
  unfolding lsp_arp_controller_def lsp_arp_response_def lsp_lookup_dst_port_def lsp_lookup_nat_def lsp_lookup_local_def
    lsp_lookup_remote_def lsp_lookup_patchport_def lsp_output_dst_port_def lsp_judge_loopback_def
    lsp_forward_packet_def lsp_forward_local_def lsp_forward_router_def lsp_pushout_packet_def split_beta
  by (intro rule_at_intro; simp add: at_simps jump_eval)+

lemma untunnel_at [rule_at_intro]: "rule_at TABLE_LSP_INGRESS_UNTUNNEL (lsp_untunnel_deliver options f)"
  unfolding lsp_untunnel_deliver_def split_beta
  by (auto split: bool.splits option.splits intro!: rule_at_intro simp: at_simps jump_eval)

lemma nat_rules_at [rule_at_intro]:
  "rule_at TABLE_LRP_INGRESS_UNSNAT_STAGE1 (lunsnat_xlate_stage1 f)"
  "rule_at TABLE_LRP_INGRESS_UNSNAT_STAGE2 (lunsnat_xlate_stage2 f)"
  "rule_at TABLE_LRP_INGRESS_DNAT_STAGE1 (ldnat_xlate_stage1 f)" "rule_at TABLE_LRP_INGRESS_DNAT_STAGE2 (ldnat_xlate_stage2 f)"
  "rule_at TABLE_LRP_EGRESS_UNDNAT_STAGE1 (lundnat_xlate_stage1 f)"
  "rule_at TABLE_LRP_EGRESS_UNDNAT_STAGE2 (lundnat_xlate_stage2 f)"
  "rule_at TABLE_LRP_EGRESS_SNAT_STAGE1 (lsnat_xlate_stage1 f)" "rule_at TABLE_LRP_EGRESS_SNAT_STAGE2 (lsnat_xlate_stage2 f)"
  unfolding lunsnat_xlate_stage1_def lunsnat_xlate_stage2_def ldnat_xlate_stage1_def ldnat_xlate_stage2_def
    lundnat_xlate_stage1_def lundnat_xlate_stage2_def lsnat_xlate_stage1_def lsnat_xlate_stage2_def split_beta
  by (intro rule_at_intro; simp add: at_simps jump_eval)+

lemma lr_rules_at [rule_at_intro]:
  "rule_at TABLE_LRP_INGRESS_PKT_RESPONSE (lrp_pkt_response options f)"
  "rule_at TABLE_LRP_INGRESS_DROP_UNEXPECT (lrp_drop_unexpect f)" "rule_at TABLE_LRP_INGRESS_IP_ROUTE (lrp_ip_route options f)"
  "rule_at TABLE_LRP_INGRESS_ECMP (lrp_ecmp_judge options f)"
  "rule_at TABLE_LRP_EGRESS_UPDATE_ETH_DST (lrp_update_eth_dst f)"
  "rule_at TABLE_LRP_EGRESS_HANDLE_UNK_PKT (lrp_handle_unknow_dst_pkt options f)"
  "rule_at TABLE_LRP_EGRESS_FORWARD_PACKET (lrp_forward_packet f)"
  unfolding lrp_pkt_response_def lrp_icmp_response_def lrp_drop_unexpect_def lrp_ip_route_def lrp_auto_route_def
    lrp_static_route_def ecmp_static_route_def lrp_ecmp_judge_def ecmp_static_route_judge_def ecmp_judge_route_def
    lrp_update_eth_dst_def lrp_handle_unknow_dst_pkt_def lrp_ask_arp_def lrp_unknow_fallback_def
    lrp_forward_packet_def split_beta
  by (intro rule_at_intro; simp add: at_simps jump_eval)+

section \<open>Flows\<close>

definition lflow_at :: "lflow \<Rightarrow> bool" where
  "lflow_at fl = (case fl of (t, p, m, a) \<Rightarrow> acts_at t a)"

definition lflows_at :: "lflow rel \<Rightarrow> bool" where
  "lflows_at r \<longleftrightarrow> (\<forall>x \<in> set r. lflow_at (fst x))"

lemma lflows_at_append [simp]: "lflows_at (r @ r') \<longleftrightarrow> lflows_at r \<and> lflows_at r'"
  by (auto simp: lflows_at_def)

lemma emit_at [rule_at_intro]:
  assumes "rule_at t R" and "\<And>r p m a. acts_at t a \<Longrightarrow> lflow_at (h (r, p, m, a))"
  shows "lflows_at (emit h R)"
  using assms by (fastforce simp: lflows_at_def emit_def rule_at_def)

lemma build_flows_at: "lflows_at (build_flows options f)"
  unfolding build_flows_def build_flows_lrp_def build_flows_lsp_def build_flows_phy_def build_flows_mid_def
    trace_pipeline_module_def lflows_at_append list.map concat.simps append_Nil2
  by (intro conjI emit_at; (rule rule_at_intro)?)
    (simp_all add: lflow_at_def lr_flow_def ls_flow_def ls_trace_flow_def plain_flow_def at_simps)

lemma const_flows_at: "list_all lflow_at build_const_flows"
  by (simp add: build_const_flows_def build_flows_drop_def build_const_phy_def build_const_lsp_def build_const_lrp_def
      build_const_mid_def trace_pipeline_start_def trace_pipeline_end_def trace_pipeline_module_def output_pkt_by_reg_def
      embed_metadata_def extract_metadata_def pipeline_forward_def redirect_other_chassis_const_def
      const_flow_def lflow_at_def at_simps jump_eval)

section \<open>No circles\<close>

text \<open>
  C6. Wherever an action of any flow sends a packet, a dynamic or a constant one, is a table of the
  pipeline that comes later, but for the step from a switch to a router, from a router to a switch, and
  the second lookup of a packet that is to be redirected: no packet circles in the switch otherwise.
\<close>

theorem flows_go_forward:
  assumes "(t, p, m, a) \<in> fst ` set (build_flows options f) \<union> set build_const_flows" and "x \<in> set a" and "u \<in> set (jumps t x)"
  shows "u \<in> set stages \<and>
    (stage t < stage u \<or>
     (t, u) \<in> {(TABLE_LSP_TRACE_EGRESS_OUT, TABLE_LRP_TRACE_INGRESS_IN), (TABLE_LRP_TRACE_EGRESS_OUT, TABLE_LSP_TRACE_INGRESS_IN),
       (TABLE_LSP_EGRESS_FORWARD_PACKET, TABLE_LSP_INGRESS_LOOKUP_DST_PORT)})"
proof -
  have "lflow_at (t, p, m, a)"
    using assms(1) build_flows_at [of options f] const_flows_at by (fastforce simp: lflows_at_def list_all_iff)
  then have "jump_ok t u" using assms(2,3) by (auto simp: lflow_at_def acts_at_def)
  then show ?thesis by (simp add: jump_ok_def back_jumps_def)
qed

theorem flows_go_forward_witness:
  "TABLE_THIRD_PARTY \<in> set stages \<and>
   (stage TABLE_LSP_INGRESS_PROCESS_EXT_LOGIC < stage TABLE_THIRD_PARTY \<or>
    (TABLE_LSP_INGRESS_PROCESS_EXT_LOGIC, TABLE_THIRD_PARTY) \<in>
      {(TABLE_LSP_TRACE_EGRESS_OUT, TABLE_LRP_TRACE_INGRESS_IN), (TABLE_LRP_TRACE_EGRESS_OUT, TABLE_LSP_TRACE_INGRESS_IN),
       (TABLE_LSP_EGRESS_FORWARD_PACKET, TABLE_LSP_INGRESS_LOOKUP_DST_PORT)})"
  by (rule flows_go_forward [where p = 0 and m = match_none and a = "resubmit_table TABLE_THIRD_PARTY @ note_of ''process_third_logic''"
        and x = "(Action_resubmit_table, [AV (pnat TABLE_THIRD_PARTY)])" and options = "opts demo_env" and f = "db (init_zoo [''hv1''])"])
    (simp_all add: build_const_flows_def build_const_lsp_def flow_defs jumps_def)

section \<open>What is looked up is delivered\<close>

lemma ls_flow_in:
  "x \<in> set R \<Longrightarrow> x = ((ls, p, m, a), s) \<Longrightarrow> ((t, p, datapath (LS_ID ls) @ m, a @ note_of n), s) \<in> set (emit (ls_flow t n) R)"
  by (force simp: emit_def ls_flow_def)

lemma lr_flow_in:
  "((lr, p, m, a), s) \<in> set R \<Longrightarrow> ((t, p, datapath (PInt (LR_ID lr)) @ m, a @ note_of n), s) \<in> set (emit (lr_flow t n) R)"
  by (force simp: emit_def lr_flow_def)

lemma emit_table: "((t', y), s) \<in> set (emit (ls_flow t n) R) \<Longrightarrow> t' = t"
  by (auto simp: emit_def ls_flow_def)

lemma lookup_flows:
  assumes "((TABLE_LSP_INGRESS_LOOKUP_DST_PORT, p, m, a), s) \<in> set (build_flows options f)"
  shows "\<exists>ls m' a'. ((ls, p, m', a'), s) \<in> set (lsp_lookup_dst_port options f) \<and> m = datapath (LS_ID ls) @ m' \<and>
    a = a' @ note_of ''lsp_lookup_dst_port''"
  using assms
  by (auto simp: build_flows_def build_flows_lrp_def build_flows_lsp_def build_flows_phy_def build_flows_mid_def
      emit_def lr_flow_def ls_flow_def plain_flow_def ls_trace_flow_def trace_pipeline_module_def)

lemma forward_flows:
  "set (emit (ls_flow TABLE_LSP_EGRESS_FORWARD_PACKET ''lsp_forward_packet'') (lsp_forward_packet f)) \<subseteq> set (build_flows options f)"
  by (auto simp: build_flows_def build_flows_lsp_def)

lemma lookup_priority:
  assumes "((ls, 4, m, a), s) \<in> set (lsp_lookup_dst_port options f)"
  shows "((ls, 4, m, a), s) \<in> set (lsp_lookup_local f)"
  using assms
  by (auto simp: lsp_lookup_dst_port_def lsp_lookup_nat_def lsp_lookup_remote_def lsp_lookup_patchport_def per_ls_def
      split: if_splits)

lemma local_lsp_cases:
  assumes "((lsp, ls), s) \<in> set (local_lsp f)"
  shows "(\<exists>ofport. (((lsp, ofport), ls), s) \<in> set (local_bond_lsp f)) \<or> (\<exists>lrp lr. ((lsp, ls, lrp, lr), s) \<in> set (lsp_link_lrp f))"
  using assms by (auto simp: local_lsp_def)


text \<open>A port of a switch on this host, bound to the OVS port 3.\<close>

definition demo_port_facts :: facts where
  "demo_port_facts =
     (init_facts [''hv1''])\<lparr>ls_array := [\<lparr>LS_UUID = ''sw'', LS_ID = PInt 7, LS_State = 1\<rparr>],
       lsp_array := [\<lparr>LSP_UUID = ''p1'', LSP_IP = ''10.1.0.2'', LSP_IP_INT = 167837698, LSP_MAC = ''f2:01:0a:01:00:02'',
         LSP_MAC_INT = 266086276726786, LSP_CHASSIS_UUID = Some ''hv1'', LSP_LS_UUID = ''sw'', LSP_PEER = None,
         LSP_PORTID = 2, LSP_State = 1\<rparr>],
       ovsport := [\<lparr>OVSPORT_NAME = ''tap1'', OVSPORT_IFACE_ID = ''p1'', OVSPORT_OFPORT = 3, OVSPORT_State = 1\<rparr>]\<rparr>"

definition demo_lookup_actions :: "act list" where
  "demo_lookup_actions = (load (pnat 2) (NXM_Reg REG_DST_IDX) @ resubmit_next) @ note_of ''lsp_lookup_dst_port''"

lemma demo_lookup_flow:
  "((TABLE_LSP_INGRESS_LOOKUP_DST_PORT, 4, datapath (PInt 7) @ eth_dst (PStr ''f2:01:0a:01:00:02''), demo_lookup_actions), 3)
     \<in> set (build_flows (opts demo_env) demo_port_facts)"
proof -
  let ?ls = "\<lparr>LS_UUID = ''sw'', LS_ID = PInt 7, LS_State = 1\<rparr>"
  have "((?ls, 4, eth_dst (PStr ''f2:01:0a:01:00:02''), load (pnat 2) (NXM_Reg REG_DST_IDX) @ resubmit_next), 3)
      \<in> set (lsp_lookup_dst_port (opts demo_env) demo_port_facts)"
    by (simp add: lsp_lookup_dst_port_def lsp_lookup_local_def local_lsp_def local_bond_lsp_def demo_port_facts_def init_facts_def)
  from ls_flow_in [OF this refl, of TABLE_LSP_INGRESS_LOOKUP_DST_PORT "''lsp_lookup_dst_port''"] show ?thesis
    by (simp add: build_flows_def build_flows_lsp_def demo_lookup_actions_def)
qed


section \<open>No packet falls off a table\<close>

text \<open>A rule with a flow for every packet of this row, of a low priority.\<close>

definition has_default :: "'a \<Rightarrow> int \<Rightarrow> 'a rule \<Rightarrow> bool" where
  "has_default x s R \<longleftrightarrow> (\<exists>p a. p \<le> 2 \<and> ((x, p, match_none, a), s) \<in> set R)"

named_theorems default_intro "where the default of a rule is"

lemma default_append [default_intro]: "has_default x s R \<Longrightarrow> has_default x s (R' @ R)"
  by (auto simp: has_default_def)

lemma default_if [default_intro]: "has_default x s R \<Longrightarrow> has_default x s R' \<Longrightarrow> has_default x s (if b then R else R')"
  by simp

lemma default_per_ls [default_intro]:
  assumes "p \<le> 2" and "ls \<in> set (ls_array f)" and "LS_State ls \<noteq> 0"
  shows "has_default ls (LS_State ls) (per_ls f (p, match_none, a))"
  using assms unfolding has_default_def per_ls_def by (intro exI [of _ p] exI [of _ a]) auto

lemma default_per_lr [default_intro]:
  assumes "p \<le> 2" and "(lr, s) \<in> set (lr_array f)" and "s \<noteq> 0"
  shows "has_default lr s (per_lr f (p, match_none, a))"
  using assms unfolding has_default_def per_lr_def by (intro exI [of _ p] exI [of _ a]) force

lemma ls_defaults:
  assumes "ls \<in> set (ls_array f)" and "LS_State ls \<noteq> 0"
  shows "has_default ls (LS_State ls) (lsp_untunnel_deliver options f)"
    "has_default ls (LS_State ls) (lsp_arp_controller options f)" "has_default ls (LS_State ls) (lsp_arp_response f)"
    "has_default ls (LS_State ls) (lsp_lookup_dst_port options f)" "has_default ls (LS_State ls) (lsp_output_dst_port options f)"
    "has_default ls (LS_State ls) (lsp_judge_loopback f)" "has_default ls (LS_State ls) (lsp_pushout_packet f)"
  unfolding lsp_untunnel_deliver_def lsp_arp_controller_def lsp_arp_response_def lsp_lookup_dst_port_def
    lsp_output_dst_port_def lsp_judge_loopback_def lsp_pushout_packet_def
  by (intro default_intro assms; simp)+

lemma lr_defaults:
  assumes "(lr, s) \<in> set (lr_array f)" and "s \<noteq> 0"
  shows "has_default lr s (lunsnat_xlate_stage1 f)" "has_default lr s (lunsnat_xlate_stage2 f)"
    "has_default lr s (ldnat_xlate_stage1 f)" "has_default lr s (ldnat_xlate_stage2 f)"
    "has_default lr s (lrp_ip_route options f)" "has_default lr s (lrp_ecmp_judge options f)"
    "has_default lr s (lrp_update_eth_dst f)" "has_default lr s (lundnat_xlate_stage1 f)"
    "has_default lr s (lundnat_xlate_stage2 f)" "has_default lr s (lsnat_xlate_stage1 f)"
    "has_default lr s (lsnat_xlate_stage2 f)" "has_default lr s (lrp_handle_unknow_dst_pkt options f)"
  unfolding lunsnat_xlate_stage1_def lunsnat_xlate_stage2_def ldnat_xlate_stage1_def ldnat_xlate_stage2_def lrp_ip_route_def
    lrp_ecmp_judge_def ecmp_static_route_judge_def lrp_update_eth_dst_def lundnat_xlate_stage1_def
    lundnat_xlate_stage2_def lsnat_xlate_stage1_def lsnat_xlate_stage2_def lrp_handle_unknow_dst_pkt_def
  by (intro default_intro assms; simp)+

text \<open>The tables in which every packet of a switch, or of a router, is to be matched.\<close>

definition switch_tables :: "nat list" where
  "switch_tables =
     [TABLE_LSP_INGRESS_UNTUNNEL, TABLE_LSP_INGRESS_ARP_CONTROLLER, TABLE_LSP_INGRESS_ARP_RESPONSE,
      TABLE_LSP_INGRESS_LOOKUP_DST_PORT, TABLE_LSP_INGRESS_OUTPUT_DST_PORT, TABLE_LSP_EGRESS_JUDGE_LOOPBACK,
      TABLE_LSP_EGRESS_PUSHOUT]"

definition router_tables :: "nat list" where
  "router_tables =
     [TABLE_LRP_INGRESS_UNSNAT_STAGE1, TABLE_LRP_INGRESS_UNSNAT_STAGE2, TABLE_LRP_INGRESS_DNAT_STAGE1,
      TABLE_LRP_INGRESS_DNAT_STAGE2, TABLE_LRP_INGRESS_IP_ROUTE, TABLE_LRP_INGRESS_ECMP, TABLE_LRP_EGRESS_UPDATE_ETH_DST,
      TABLE_LRP_EGRESS_UNDNAT_STAGE1, TABLE_LRP_EGRESS_UNDNAT_STAGE2, TABLE_LRP_EGRESS_SNAT_STAGE1,
      TABLE_LRP_EGRESS_SNAT_STAGE2, TABLE_LRP_EGRESS_HANDLE_UNK_PKT]"

definition catch_all :: "nat \<Rightarrow> pyval \<Rightarrow> int \<Rightarrow> lflow rel \<Rightarrow> bool" where
  "catch_all t dp s r \<longleftrightarrow> (\<exists>p a. p \<le> 2 \<and> ((t, p, datapath dp @ match_none, a), s) \<in> set r)"

lemma catch_all_ls: "has_default ls s R \<Longrightarrow> catch_all t (LS_ID ls) s (emit (ls_flow t n) R)"
  unfolding has_default_def catch_all_def using ls_flow_in [OF _ refl, where m = match_none] by blast

lemma catch_all_lr: "has_default lr s R \<Longrightarrow> catch_all t (PInt (LR_ID lr)) s (emit (lr_flow t n) R)"
  unfolding has_default_def catch_all_def using lr_flow_in [where m = match_none] by blast

lemma catch_all_append: "catch_all t dp s r \<or> catch_all t dp s r' \<Longrightarrow> catch_all t dp s (r @ r')"
  by (auto simp: catch_all_def)


definition demo_router_facts :: facts where
  "demo_router_facts =
     (init_facts [''hv1''])\<lparr>ls_array := [\<lparr>LS_UUID = ''sw'', LS_ID = PInt 7, LS_State = 1\<rparr>],
       u_lr_array := [\<lparr>LR_UUID = ''r'', LR_CHASSIS_UUID = None, LR_ID = 8, LR_State = -1\<rparr>]\<rparr>"


end
