(* ===== verification/Priorities.thy ===== *)
theory Priorities imports Demo_Host begin

text \<open>
  Priorities. In every reachable zoo they fit the 16 bits OpenFlow has for them, and of two routes the one
  with the longer prefix wins, whatever kinds of route they are.
\<close>

section \<open>Rows\<close>

definition rows_bounded :: "facts \<Rightarrow> bool" where
  "rows_bounded f \<longleftrightarrow>
     (\<forall>lrp \<in> set (lrp_array f). LRP_PREFIX lrp \<le> 32 \<and> LRP_ILK_IDX lrp < 64) \<and>
     (\<forall>route \<in> set (lroute_array f). LSR_PREFIX route \<le> 32 \<and> LSR_ILK_IDX route < 64)"

lemma reachable_rows_bounded:
  assumes "set_pop_ok env" and "zoo_reachable env ids z"
  shows "rows_bounded (db z)"
proof -
  note ok = fact_row_ok [OF zoo_reachable_inv [OF assms]]
  show ?thesis unfolding rows_bounded_def
  proof (intro conjI ballI)
    fix lrp
    assume "lrp \<in> set (lrp_array (db z))"
    then have "BLrp lrp \<in> fact_set (db z)" by (simp add: fact_set_def)
    from ok [OF this] show "LRP_PREFIX lrp \<le> 32" "LRP_ILK_IDX lrp < 64" by (simp_all add: row_ok_def)
  next
    fix route
    assume "route \<in> set (lroute_array (db z))"
    then have "BLsr route \<in> fact_set (db z)" by (simp add: fact_set_def)
    from ok [OF this] show "LSR_PREFIX route \<le> 32" "LSR_ILK_IDX route < 64" by (simp_all add: row_ok_def)
  qed
qed

lemma link_row: "((lsp, ls, lrp, lr), s) \<in> set (lsp_link_lrp f) \<Longrightarrow> lrp \<in> set (lrp_array f)"
  by (auto simp: lsp_link_lrp_def)

section \<open>Route priorities\<close>

text \<open>The priorities of a prefix length: prefix, kind of route and index are digits of one number.\<close>

definition prefix_band :: "nat \<Rightarrow> int \<Rightarrow> bool" where
  "prefix_band n p \<longleftrightarrow> int n * 1024 \<le> p \<and> p < (int n + 1) * 1024"

lemma cal_priority_band: "level < 16 \<Longrightarrow> i < 64 \<Longrightarrow> prefix_band n (cal_priority n level i)"
  by (simp add: prefix_band_def cal_priority_def push_bit_eq_mult)

definition pri_ok :: "int \<Rightarrow> bool" where
  "pri_ok p \<longleftrightarrow> 0 \<le> p \<and> p < 2 ^ 16 - 10"

lemma band_ok: "prefix_band n p \<Longrightarrow> n \<le> 32 \<Longrightarrow> pri_ok p"
  by (simp add: prefix_band_def pri_ok_def)

definition route_shape :: "int \<Rightarrow> match_exp list \<Rightarrow> bool" where
  "route_shape p m \<longleftrightarrow>
     (\<exists>m1 ip n. n \<le> 32 \<and> prefix_band n p \<and> m = m1 @ ip_proto @ ip_dst_prefix (PStr ip) (pnat n) \<and>
        (m1 = [] \<or> (\<exists>i. m1 = reg_outport (PInt i))))"

lemma route_shape_intro:
  assumes "n \<le> 32" and "level < 16" and "i < 64"
  shows "route_shape (cal_priority n level i) (ip_proto @ ip_dst_prefix (PStr ip) (pnat n))"
    and "route_shape (cal_priority n level i) (reg_outport (PInt port) @ ip_proto @ ip_dst_prefix (PStr ip) (pnat n))"
  unfolding route_shape_def using cal_priority_band [OF assms(2,3)] assms(1) by blast+

definition route_rule :: "lr_row rule \<Rightarrow> bool" where
  "route_rule R \<longleftrightarrow> (\<forall>((lr, p, m, a), s) \<in> set R. route_shape p m)"

lemma auto_route_rule:
  assumes "rows_bounded f"
  shows "route_rule (lrp_auto_route f)"
  using assms unfolding route_rule_def lrp_auto_route_def rows_bounded_def
  by (auto intro!: route_shape_intro dest: link_row)

lemma static_route_row:
  "((route, lr, lrp), s) \<in> set (static_route_changed options f) \<Longrightarrow> route \<in> set (lroute_array f)"
  by (auto simp: static_route_changed_def static_route_patch_def static_route_hop_def split: if_splits)

lemma static_route_rule:
  assumes "rows_bounded f"
  shows "route_rule (lrp_static_route options f)"
  using assms unfolding route_rule_def lrp_static_route_def rows_bounded_def
  by (auto intro!: route_shape_intro dest: static_route_row)

lemma tuple_by_key: "(k, ys) \<in> set (tuple_by xs) \<Longrightarrow> \<exists>y z. (k, y, z) \<in> set xs"
  by (fastforce simp: tuple_by_def)

lemma ecmp_key_row:
  assumes "((uuid_lr, ip, n, s, label), ofports) \<in> set (ecmp_aggregate_outport f @ ecmp_aggregate_outport_readd f)"
  shows "\<exists>route \<in> set (lroute_array f). n = LSR_PREFIX route"
  using assms unfolding ecmp_aggregate_outport_def ecmp_adding_def ecmp_deleting_def ecmp_aggregate_outport_readd_def
  by (auto dest!: tuple_by_key)

lemma ecmp_route_rule:
  assumes "rows_bounded f"
  shows "route_rule (ecmp_static_route f)"
  unfolding route_rule_def
proof (clarify)
  fix lr p m a s
  assume "((lr, p, m, a), s) \<in> set (ecmp_static_route f)"
  then obtain uuid_lr ip n s' label ofports
    where k: "((uuid_lr, ip, n, s', label), ofports) \<in> set (ecmp_aggregate_outport f @ ecmp_aggregate_outport_readd f)"
      and p: "p = cal_priority n 2 0" and m: "m = ip_proto @ ip_dst_prefix (PStr ip) (pnat n)"
    unfolding ecmp_static_route_def by (auto; blast)
  have "n \<le> 32" using ecmp_key_row [OF k] assms by (auto simp: rows_bounded_def)
  then show "route_shape p m" unfolding p m by (rule route_shape_intro(1)) simp_all
qed

lemma ecmp_judge_rule:
  assumes "rows_bounded f"
  shows "route_rule (ecmp_judge_route f)"
  using assms unfolding route_rule_def ecmp_judge_route_def rows_bounded_def
  by (auto intro!: route_shape_intro)

section \<open>All priorities\<close>

definition rule_pri :: "'a rule \<Rightarrow> bool" where
  "rule_pri R \<longleftrightarrow> (\<forall>x \<in> set R. pri_ok (fst (snd (fst x))))"

named_theorems rule_pri_intro "rules whose priorities fit"

lemma rule_pri_append [rule_pri_intro]: "rule_pri R \<Longrightarrow> rule_pri R' \<Longrightarrow> rule_pri (R @ R')"
  by (auto simp: rule_pri_def)

lemma rule_pri_bind [rule_pri_intro]: "(\<And>x. rule_pri (F x)) \<Longrightarrow> rule_pri (concat (map F xs))"
  by (auto simp: rule_pri_def)

lemma rule_pri_map [rule_pri_intro]: "(\<And>x. pri_ok (fst (snd (fst (h x))))) \<Longrightarrow> rule_pri (map h xs)"
  by (auto simp: rule_pri_def)

lemma rule_pri_if [rule_pri_intro]: "rule_pri R \<Longrightarrow> rule_pri R' \<Longrightarrow> rule_pri (if b then R else R')"
  by simp

lemma rule_pri_base [rule_pri_intro]:
  "rule_pri []" "pri_ok p \<Longrightarrow> rule_pri [((r, p, m, a), s)]"
  "pri_ok p \<Longrightarrow> rule_pri (per_ls f (p, m, a))" "pri_ok p \<Longrightarrow> rule_pri (per_lr f (p, m, a))"
  by (auto simp: rule_pri_def per_ls_def per_lr_def)

lemma route_rule_pri: "route_rule R \<Longrightarrow> rule_pri R"
  unfolding route_rule_def rule_pri_def route_shape_def using band_ok by fastforce

lemma base_rules_pri [rule_pri_intro]:
  "rule_pri (convert_phy_logical f)" "rule_pri (arp_feedback_construct f)" "rule_pri (redirect_other_chassis f)"
  unfolding convert_phy_logical_def arp_feedback_construct_def redirect_other_chassis_def split_beta
  by (intro rule_pri_intro; simp add: pri_ok_def)+

lemma ls_rules_pri [rule_pri_intro]:
  "rule_pri (lsp_arp_controller options f)" "rule_pri (lsp_arp_response f)" "rule_pri (lsp_lookup_dst_port options f)"
  "rule_pri (lsp_output_dst_port options f)" "rule_pri (lsp_judge_loopback f)" "rule_pri (lsp_forward_packet f)"
  "rule_pri (lsp_pushout_packet f)"
  unfolding lsp_arp_controller_def lsp_arp_response_def lsp_lookup_dst_port_def lsp_lookup_nat_def lsp_lookup_local_def
    lsp_lookup_remote_def lsp_lookup_patchport_def lsp_output_dst_port_def lsp_judge_loopback_def
    lsp_forward_packet_def lsp_forward_local_def lsp_forward_router_def lsp_pushout_packet_def split_beta
  by (intro rule_pri_intro; simp add: pri_ok_def)+

lemma lrp_ls_row: "((ls, lrp), s) \<in> set (lsp_lrp_ls_changed f) \<Longrightarrow> lrp \<in> set (lrp_array f)"
  by (auto simp: lsp_lrp_ls_changed_def dest: link_row)

lemma untunnel_pri [rule_pri_intro]:
  assumes "rows_bounded f"
  shows "rule_pri (lsp_untunnel_deliver options f)"
proof -
  have "pri_ok (cal_priority (LRP_PREFIX lrp) 2 (LRP_ILK_IDX lrp))" if "((ls, lrp), s) \<in> set (lsp_lrp_ls_changed f)" for ls lrp s
    using lrp_ls_row [OF that] assms
    by (intro band_ok [where n = "LRP_PREFIX lrp"] cal_priority_band) (auto simp: rows_bounded_def)
  then have "rule_pri [((ls, cal_priority (LRP_PREFIX lrp) 2 (LRP_ILK_IDX lrp),
      ip_proto @ ip_dst_prefix (PStr (LRP_IP lrp)) (pnat (LRP_PREFIX lrp)), resubmit_next), s).
      ((ls, lrp), s) \<leftarrow> lsp_lrp_ls_changed f]"
    by (auto simp: rule_pri_def)
  then show ?thesis unfolding lsp_untunnel_deliver_def
    by (auto split: bool.splits option.splits intro!: rule_pri_intro simp: pri_ok_def)
qed

text \<open>The prefix of a NAT is not clamped when it is read: the priority of SNAT is the prefix and one.\<close>

definition nat_bounded :: "facts \<Rightarrow> bool" where
  "nat_bounded f \<longleftrightarrow> (\<forall>lnat \<in> set (lnat_array f). 0 \<le> LNAT_PREFIX lnat \<and> LNAT_PREFIX lnat \<le> 32)"

lemma lnat_row: "((lnat, lr), s) \<in> set (lnat_of xt f) \<Longrightarrow> lnat \<in> set (lnat_array f)"
  by (auto simp: lnat_of_def lnat_data_def)

lemma prefix_pri:
  assumes "nat_bounded f"
  shows "rule_pri (concat (map (\<lambda>prod.
    if snd prod \<noteq> 0 then [((snd (fst prod), LNAT_PREFIX (fst (fst prod)) + 1, m prod, a prod), snd prod)] else []) (lnat_of xt f)))"
  using assms by (auto simp: rule_pri_def nat_bounded_def pri_ok_def dest!: lnat_row)

lemma nat_rules_pri [rule_pri_intro]:
  "rule_pri (lunsnat_xlate_stage1 f)" "rule_pri (lunsnat_xlate_stage2 f)" "rule_pri (ldnat_xlate_stage2 f)"
  "rule_pri (lundnat_xlate_stage1 f)" "rule_pri (lundnat_xlate_stage2 f)" "rule_pri (lsnat_xlate_stage2 f)"
  unfolding lunsnat_xlate_stage1_def lunsnat_xlate_stage2_def ldnat_xlate_stage2_def
    lundnat_xlate_stage1_def lundnat_xlate_stage2_def lsnat_xlate_stage2_def split_beta
  by (intro rule_pri_intro; simp add: pri_ok_def)+

lemma dnat_pri [rule_pri_intro]: "rule_pri (ldnat_xlate_stage1 f)"
  by (auto simp: rule_pri_def ldnat_xlate_stage1_def per_lr_def pri_ok_def)

lemma snat_pri [rule_pri_intro]:
  assumes "nat_bounded f"
  shows "rule_pri (lsnat_xlate_stage1 f)"
  unfolding lsnat_xlate_stage1_def split_beta
  by (intro rule_pri_append prefix_pri assms rule_pri_intro) (simp add: pri_ok_def)

lemma lr_rules_pri [rule_pri_intro]:
  "rule_pri (lrp_pkt_response options f)" "rule_pri (lrp_drop_unexpect f)" "rule_pri (lrp_update_eth_dst f)"
  "rule_pri (lrp_handle_unknow_dst_pkt options f)" "rule_pri (lrp_forward_packet f)"
  unfolding lrp_pkt_response_def lrp_icmp_response_def lrp_drop_unexpect_def lrp_update_eth_dst_def
    lrp_handle_unknow_dst_pkt_def lrp_ask_arp_def lrp_unknow_fallback_def lrp_forward_packet_def split_beta
  by (intro rule_pri_intro; simp add: pri_ok_def)+

lemma route_tables_pri [rule_pri_intro]:
  assumes "rows_bounded f"
  shows "rule_pri (lrp_ip_route options f)" "rule_pri (lrp_ecmp_judge options f)"
  unfolding lrp_ip_route_def lrp_ecmp_judge_def ecmp_static_route_judge_def
  by (intro rule_pri_intro route_rule_pri auto_route_rule static_route_rule ecmp_route_rule ecmp_judge_rule assms;
      simp add: pri_ok_def)+

definition lflows_pri :: "lflow rel \<Rightarrow> bool" where
  "lflows_pri r \<longleftrightarrow> (\<forall>x \<in> set r. 0 \<le> fst (snd (fst x)) \<and> fst (snd (fst x)) < 2 ^ 16)"

lemma lflows_pri_append [simp]: "lflows_pri (r @ r') \<longleftrightarrow> lflows_pri r \<and> lflows_pri r'"
  by (auto simp: lflows_pri_def)

lemma emit_pri:
  assumes "rule_pri R" and "\<And>r p m a. pri_ok p \<Longrightarrow> 0 \<le> fst (snd (h (r, p, m, a))) \<and> fst (snd (h (r, p, m, a))) < 2 ^ 16"
  shows "lflows_pri (emit h R)"
  using assms by (fastforce simp: lflows_pri_def emit_def rule_pri_def)

lemma build_flows_pri:
  assumes "rows_bounded f" and "nat_bounded f"
  shows "lflows_pri (build_flows options f)"
  unfolding build_flows_def build_flows_lrp_def build_flows_lsp_def build_flows_phy_def build_flows_mid_def
    trace_pipeline_module_def lflows_pri_append list.map concat.simps append_Nil2
  by (intro conjI emit_pri; (rule rule_pri_intro)?; (rule assms)?)
    (simp_all add: lr_flow_def ls_flow_def ls_trace_flow_def plain_flow_def pri_ok_def)

lemma const_flows_pri: "list_all (\<lambda>x. 0 \<le> fst (snd x) \<and> fst (snd x) < 2 ^ 16) build_const_flows"
  by (simp add: build_const_flows_def build_flows_drop_def build_const_phy_def build_const_lsp_def build_const_lrp_def
      build_const_mid_def trace_pipeline_start_def trace_pipeline_end_def trace_pipeline_module_def output_pkt_by_reg_def
      embed_metadata_def extract_metadata_def pipeline_forward_def redirect_other_chassis_const_def const_flow_def)

text \<open>
  C10. In every reachable zoo the priority of every flow, those of routes included which are computed from
  prefix and index, fits the 16 bits that OpenFlow has for it, as long as the prefixes of NAT entries, which
  the constructor does not clamp, are prefixes.
\<close>

theorem priorities_fit:
  assumes "set_pop_ok env" and "zoo_reachable env ids z" and "nat_bounded (db z)"
    and "(t, p, m, a) \<in> fst ` set (build_flows options (db z)) \<union> set build_const_flows"
  shows "0 \<le> p \<and> p < 2 ^ 16"
  using assms(4) build_flows_pri [OF reachable_rows_bounded [OF assms(1,2)] assms(3), of options] const_flows_pri
  by (fastforce simp: lflows_pri_def list_all_iff)

lemma demo_nat: "nat_bounded (db (init_zoo [''hv1'']))"
  by (simp add: nat_bounded_def init_zoo_def init_facts_def)

theorem priorities_fit_witness: "0 \<le> (0 :: int) \<and> (0 :: int) < 2 ^ 16"
  by (rule priorities_fit [OF demo_env_pop reach_init demo_nat,
        where t = TABLE_DROP_PACKET and m = match_none and a = drop_act and options = "opts demo_env"])
    (simp add: build_const_flows_def build_flows_drop_def)

section \<open>Longest prefix first\<close>

lemma route_flows:
  assumes "((TABLE_LRP_INGRESS_IP_ROUTE, p, m, a), s) \<in> set (build_flows options f)"
  shows "\<exists>lr m' a'. ((lr, p, m', a'), s) \<in> set (lrp_ip_route options f) \<and> m = datapath (PInt (LR_ID lr)) @ m'"
  using assms
  by (auto simp: build_flows_def build_flows_lrp_def build_flows_lsp_def build_flows_phy_def build_flows_mid_def
      emit_def lr_flow_def ls_flow_def plain_flow_def ls_trace_flow_def trace_pipeline_module_def)

lemma route_band:
  assumes "rows_bounded f" and "((lr, p, ip_proto @ ip_dst_prefix (PStr ip) (pnat n), a), s) \<in> set (lrp_ip_route options f)"
  shows "prefix_band n p"
proof -
  have "route_rule (lrp_auto_route f)" "route_rule (lrp_static_route options f)" "route_rule (ecmp_static_route f)"
    using assms(1) by (rule auto_route_rule static_route_rule ecmp_route_rule)+
  then have "route_shape p (ip_proto @ ip_dst_prefix (PStr ip) (pnat n))"
    using assms(2) by (auto simp: lrp_ip_route_def route_rule_def per_lr_def flow_defs split: if_splits)
  then show ?thesis by (auto simp: route_shape_def flow_defs)
qed

text \<open>
  C9. Of two routes of a routing table, connected, static or bundled, the one with the longer prefix has the
  higher priority, so a packet takes the most specific route that matches it.
\<close>

theorem longest_prefix_first:
  assumes "set_pop_ok env" and "zoo_reachable env ids z" and "n < n'"
    and "((TABLE_LRP_INGRESS_IP_ROUTE, p, datapath d @ ip_proto @ ip_dst_prefix (PStr ip) (pnat n), a), s)
      \<in> set (build_flows options (db z))"
    and "((TABLE_LRP_INGRESS_IP_ROUTE, p', datapath d' @ ip_proto @ ip_dst_prefix (PStr ip') (pnat n'), a'), s')
      \<in> set (build_flows options (db z))"
  shows "p < p'"
proof -
  note ok = reachable_rows_bounded [OF assms(1,2)]
  have "prefix_band n p" using route_flows [OF assms(4)] route_band [OF ok] by (fastforce simp: flow_defs)
  moreover have "prefix_band n' p'" using route_flows [OF assms(5)] route_band [OF ok] by (fastforce simp: flow_defs)
  ultimately have p: "p < (int n + 1) * 1024" "int n' * 1024 \<le> p'" by (simp_all add: prefix_band_def)
  have "int n + 1 \<le> int n'" using assms(3) by simp
  then have "(int n + 1) * 1024 \<le> int n' * 1024" by simp
  then show ?thesis using p by linarith
qed

text \<open>A router with a port of prefix 16 on one switch and one of prefix 24 on another.\<close>

definition demo_routed :: zoo where
  "demo_routed =
     fold (\<lambda>(t, pool). convert_pool2entity demo_env t pool)
       [(LS, [(''LS/s1'', [(''id'', ''1'')]), (''LS/s2'', [(''id'', ''2'')])]),
        (LR, [(''LR/r'', [(''id'', ''8'')])]),
        (LRP, [(''LR/r/lrp/a'', [(''ip'', ''10.1.0.1''), (''prefix'', ''16''), (''mac'', ''f2:01:0a:01:00:01''), (''peer'', ''pa'')]),
               (''LR/r/lrp/b'', [(''ip'', ''10.1.1.1''), (''prefix'', ''24''), (''mac'', ''f2:01:0a:01:01:01''), (''peer'', ''pb'')])]),
        (LSP, [(''LS/s1/lsp/pa'', [(''ip'', ''10.1.0.1''), (''mac'', ''f2:01:0a:01:00:01''), (''peer'', ''a'')]),
               (''LS/s2/lsp/pb'', [(''ip'', ''10.1.1.1''), (''mac'', ''f2:01:0a:01:01:01''), (''peer'', ''b'')])])]
       (init_zoo [''hv1''])"

lemma demo_routed_reachable: "zoo_reachable demo_env [''hv1''] demo_routed"
  unfolding demo_routed_def
  by (rule fold_inv) (auto intro: convert_reachable reach_init split: prod.splits)

lemma demo_routed_links:
  "map (\<lambda>((lr, p, m, a), s). (LR_ID lr, p, m)) (lrp_auto_route (db demo_routed)) =
     [(8, 24576, ip_proto @ ip_dst_prefix (PStr ''10.1.1.1'') (PInt 24)),
      (8, 16384, ip_proto @ ip_dst_prefix (PStr ''10.1.0.1'') (PInt 16))]"
  by code_simp

lemma demo_routed_flow:
  assumes "(8, p, m) \<in> set (map (\<lambda>((lr, p, m, a), s). (LR_ID lr, p, m)) (lrp_auto_route (db demo_routed)))"
  shows "\<exists>a s. ((TABLE_LRP_INGRESS_IP_ROUTE, p, datapath (PInt 8) @ m, a), s) \<in> set (build_flows (opts demo_env) (db demo_routed))"
proof -
  obtain lr a s where r: "((lr, p, m, a), s) \<in> set (lrp_auto_route (db demo_routed))" and i: "LR_ID lr = 8"
    using assms by auto
  from r have "((lr, p, m, a), s) \<in> set (lrp_ip_route (opts demo_env) (db demo_routed))" by (simp add: lrp_ip_route_def)
  then have "((TABLE_LRP_INGRESS_IP_ROUTE, p, datapath (PInt (LR_ID lr)) @ m, a @ note_of ''lrp_ip_route''), s)
      \<in> set (emit (lr_flow TABLE_LRP_INGRESS_IP_ROUTE ''lrp_ip_route'') (lrp_ip_route (opts demo_env) (db demo_routed)))"
    by (force simp: emit_def lr_flow_def)
  then show ?thesis unfolding build_flows_def build_flows_lrp_def i by auto
qed

theorem longest_prefix_witness:
  "\<exists>p p' a a' s s'.
    ((TABLE_LRP_INGRESS_IP_ROUTE, p, datapath (PInt 8) @ ip_proto @ ip_dst_prefix (PStr ''10.1.0.1'') (pnat 16), a), s)
      \<in> set (build_flows (opts demo_env) (db demo_routed)) \<and>
    ((TABLE_LRP_INGRESS_IP_ROUTE, p', datapath (PInt 8) @ ip_proto @ ip_dst_prefix (PStr ''10.1.1.1'') (pnat 24), a'), s')
      \<in> set (build_flows (opts demo_env) (db demo_routed)) \<and> p < p'"
proof -
  let ?m = "ip_proto @ ip_dst_prefix (PStr ''10.1.0.1'') (pnat 16)" and ?m' = "ip_proto @ ip_dst_prefix (PStr ''10.1.1.1'') (pnat 24)"
  have "(8, 16384, ?m) \<in> set (map (\<lambda>((lr, p, m, a), s). (LR_ID lr, p, m)) (lrp_auto_route (db demo_routed)))"
      "(8, 24576, ?m') \<in> set (map (\<lambda>((lr, p, m, a), s). (LR_ID lr, p, m)) (lrp_auto_route (db demo_routed)))"
    unfolding demo_routed_links by simp_all
  then obtain a s a' s' where fl:
    "((TABLE_LRP_INGRESS_IP_ROUTE, 16384, datapath (PInt 8) @ ?m, a), s) \<in> set (build_flows (opts demo_env) (db demo_routed))"
    "((TABLE_LRP_INGRESS_IP_ROUTE, 24576, datapath (PInt 8) @ ?m', a'), s') \<in> set (build_flows (opts demo_env) (db demo_routed))"
    using demo_routed_flow by meson
  have "(16384 :: int) < 24576" by (rule longest_prefix_first [OF demo_env_pop demo_routed_reachable _ fl]) simp
  then show ?thesis using fl by blast
qed

end
