(* ===== verification/Addresses.thy ===== *)
theory Addresses imports Zoo_Inv begin

text \<open>
  The numbers of addresses: \<open>ip2int\<close> accepts exactly the canonical dotted quads, and the MAC that is made
  from a NAT address determines that address.
\<close>

section \<open>Dotted quads\<close>

text \<open>The four bytes of a 32-bit number.\<close>

lemma four_bytes:
  fixes n :: nat
  shows "n < 2 ^ 32 \<Longrightarrow>
    n div 2 ^ 24 mod 256 * 2 ^ 24 + n div 2 ^ 16 mod 256 * 2 ^ 16 + n div 2 ^ 8 mod 256 * 2 ^ 8 + n mod 256 = n"
proof -
  assume "n < 2 ^ 32"
  have top: "n div 2 ^ 24 mod 256 = n div 2 ^ 24" using \<open>n < 2 ^ 32\<close> by (simp add: less_mult_imp_div_less)
  have steps: "n = n div 256 * 256 + n mod 256" "n div 256 = n div 65536 * 256 + n div 256 mod 256"
      "n div 65536 = n div 16777216 * 256 + n div 65536 mod 256"
    using div_mult_mod_eq [of n 256] div_mult_mod_eq [of "n div 256" 256] div_mult_mod_eq [of "n div 65536" 256]
    by (simp_all add: div_mult2_eq [symmetric])
  have "n = n div 16777216 * 16777216 + n div 65536 mod 256 * 65536 + n div 256 mod 256 * 256 + n mod 256"
    using steps by linarith
  then show ?thesis using top by simp
qed

lemma split_inet_ntoa:
  "split_on CHR ''.'' (inet_ntoa n) =
     map nat_str [n div 2 ^ 24 mod 256, n div 2 ^ 16 mod 256, n div 2 ^ 8 mod 256, n mod 256]"
  unfolding inet_ntoa_def by (rule split_on_join) auto

lemma hd_num_str: "hd (num_str 10 n) = CHR ''0'' \<Longrightarrow> n = 0"
proof (induction n rule: less_induct)
  case (less n)
  show ?case
  proof (cases "n < 10")
    case True
    then have "num_str 10 n = [digit_char n]" by (subst num_str.simps) simp
    then have "digit_char n = digit_char 0" using less.prems by (simp add: digit_char_def)
    then show ?thesis using digit_val_char [of n] digit_val_char [of 0] True by simp
  next
    case False
    then have "num_str 10 n = num_str 10 (n div 10) @ [digit_char (n mod 10)]" by (subst num_str.simps) simp
    then have "hd (num_str 10 (n div 10)) = CHR ''0''" using less.prems by (simp add: hd_append)
    then have "n div 10 = 0" using less.IH [of "n div 10"] False by simp
    then show ?thesis using False by simp
  qed
qed

lemma c_number_nat_str: "c_number (nat_str n) = Some n"
proof (cases "n = 0")
  case True
  have "nat_str 0 = ''0''" unfolding nat_str_def by (subst num_str.simps) (simp add: digit_char_def)
  then show ?thesis using True by (simp add: c_number_def num_val_def digit_val_def)
next
  case False
  then have "hd (nat_str n) \<noteq> CHR ''0''" using hd_num_str [of n] by (auto simp: nat_str_def)
  moreover obtain c cs where "nat_str n = c # cs" by (cases "nat_str n") auto
  ultimately show ?thesis using num_val_nat_str [of n] by (simp add: c_number_def)
qed

lemma inet_ntoa_no_space: "takeWhile (\<lambda>c. \<not> is_space c) (inet_ntoa n) = inet_ntoa n"
proof -
  have "\<not> list_ex is_space (nat_str k)" for k using nat_str_plain(2) by (auto simp: list_ex_iff)
  moreover have "\<not> is_space (CHR ''.'')" by (simp add: is_space_def)
  ultimately have "\<not> list_ex is_space (inet_ntoa n)" by (simp add: inet_ntoa_def)
  then show ?thesis by (simp add: list_ex_iff takeWhile_eq_all_conv)
qed

lemma inet_aton_ntoa: "n < 2 ^ 32 \<Longrightarrow> inet_aton (inet_ntoa n) = Some n"
  using four_bytes [of n] by (simp add: inet_aton_def inet_ntoa_no_space split_inet_ntoa c_number_nat_str quad_val_def)

lemma quad_val_bound: "quad_val xs = Some n \<Longrightarrow> n < 2 ^ 32"
  by (auto simp: quad_val_def split: list.splits if_splits)

interpretation quad: codec inet_ntoa inet_aton "\<lambda>n. n < 2 ^ 32"
  by unfold_locales (rule inet_aton_ntoa)

lemma inet_aton_bound: "inet_aton s = Some n \<Longrightarrow> n < 2 ^ 32"
  using quad_val_bound by (auto simp: inet_aton_def bind_eq_Some_conv)

text \<open>
  C23. \<open>ip2int\<close> accepts a text exactly when it is the dotted quad that \<open>inet_ntoa\<close> writes for a 32-bit
  number, and returns that number: it is the inverse of \<open>inet_ntoa\<close>, so no two texts name one address.
\<close>

theorem ip2int_inverse: "ip2int ip = Some n \<longleftrightarrow> n < 2 ^ 32 \<and> ip = inet_ntoa n"
proof
  assume "ip2int ip = Some n"
  then show "n < 2 ^ 32 \<and> ip = inet_ntoa n"
    using inet_aton_bound by (auto simp: ip2int_def split: option.splits if_splits)
next
  assume "n < 2 ^ 32 \<and> ip = inet_ntoa n"
  then show "ip2int ip = Some n" by (auto simp: ip2int_def inet_aton_ntoa)
qed

lemma ip2int_bound: "ip2int ip = Some n \<Longrightarrow> n < 2 ^ 32"
  using inet_aton_bound by (auto simp: ip2int_def split: option.splits if_splits)

section \<open>MAC addresses of NAT\<close>

lemma hex_byte:
  assumes "b < 256"
  shows "hex02 (int b) = [digit_char (b div 16), digit_char (b mod 16)]"
proof (cases "b < 16")
  case True
  then have "num_str 16 b = [digit_char b]" by (subst num_str.simps) simp
  then show ?thesis using True by (simp add: hex02_def hex_str_def digit_char_def)
next
  case False
  have "num_str 16 (b div 16) = [digit_char (b div 16)]"
    using assms by (subst num_str.simps) (simp add: less_mult_imp_div_less)
  then have "num_str 16 b = [digit_char (b div 16), digit_char (b mod 16)]"
    using False by (subst num_str.simps) simp
  then show ?thesis using False by (simp add: hex02_def hex_str_def)
qed

lemma digits_val_byte:
  assumes "b < 256"
  shows "digits_val 16 acc (hex02 (int b) @ t) = digits_val 16 (acc * 256 + b) t"
proof -
  have "b div 16 < 16" "b mod 16 < 16" using assms by (simp_all add: less_mult_imp_div_less)
  moreover have "(acc * 16 + b div 16) * 16 + b mod 16 = acc * 256 + b"
    using div_mult_mod_eq [of b 16] by simp
  ultimately show ?thesis by (simp add: hex_byte [OF assms] digit_val_char add.commute mult.commute)
qed

lemma hex_byte_filter:
  assumes "b < 256"
  shows "filter (\<lambda>c. c \<notin> set '':.- '') (hex02 (int b)) = hex02 (int b)"
proof -
  have "b div 16 < 16" using assms by (simp add: less_mult_imp_div_less)
  then show ?thesis using digit_char_plain(1) [of "b div 16"] digit_char_plain(1) [of "b mod 16"] by (simp add: hex_byte [OF assms])
qed

lemma gen_mac_number:
  assumes "n < 2 ^ 32"
  shows "mac2int (gen_mac_by_ip n) = Some (0xf201 * 2 ^ 32 + n)"
proof -
  define h where "h b = hex02 (int b)" for b
  define a b c d where "a = n div 2 ^ 24 mod 256" "b = n div 2 ^ 16 mod 256" "c = n div 2 ^ 8 mod 256" "d = n mod 256"
  note bytes = a_b_c_d_def
  have small: "a < 256" "b < 256" "c < 256" "d < 256" by (simp_all add: bytes)
  have "filter (\<lambda>c. c \<notin> set '':.- '') ''f2:01:'' = ''f201''" "filter (\<lambda>c. c \<notin> set '':.- '') '':'' = []" by simp_all
  then have f: "filter (\<lambda>c. c \<notin> set '':.- '') (gen_mac_by_ip n) = ''f201'' @ h a @ h b @ h c @ h d"
    unfolding gen_mac_by_ip_def filter_append bytes [symmetric] h_def using small by (simp only: hex_byte_filter append_Nil)
  have l: "last (h d) = digit_char (d mod 16)" "h d \<noteq> []" using small(4) by (simp_all add: h_def hex_byte)
  have s: "py_strip (''f201'' @ h a @ h b @ h c @ h d) = ''f201'' @ h a @ h b @ h c @ h d"
    using l digit_char_plain(2) [of "d mod 16"] by (intro py_strip_plain) (simp_all add: is_space_def)
  have "digits_val 16 0 (''f201'' @ h a @ h b @ h c @ h d) = digits_val 16 0xf201 (h a @ h b @ h c @ h d)"
    by (simp add: digit_val_def)
  also have "\<dots> = digits_val 16 0xf201 (h a @ h b @ h c @ h d @ [])" by simp
  also have "\<dots> = digits_val 16 (((0xf201 * 256 + a) * 256 + b) * 256 + c) (h d @ [])"
    unfolding h_def digits_val_byte [OF small(1)] digits_val_byte [OF small(2)] digits_val_byte [OF small(3)] by (rule refl)
  also have "\<dots> = Some ((((0xf201 * 256 + a) * 256 + b) * 256 + c) * 256 + d)"
    unfolding h_def digits_val_byte [OF small(4)] by (rule digits_val.simps)
  also have "(((0xf201 * 256 + a) * 256 + b) * 256 + c) * 256 + d = 0xf201 * 2 ^ 32 + n"
    using four_bytes [OF assms] unfolding bytes [symmetric] by simp
  finally show ?thesis
    unfolding mac2int_def f py_int16_def s by (simp add: signed_val_def hex_body_def num_val_def)
qed

interpretation nat_mac: reader gen_mac_by_ip mac2int "\<lambda>n. 0xf201 * 2 ^ 32 + n" "\<lambda>n. n < 2 ^ 32"
  by unfold_locales (rule gen_mac_number)

text \<open>
  C24. The MAC under which a switch answers for a NAT address is \<open>f2:01\<close> followed by the address: its number
  is that of the prefix and the address, and two addresses never share a MAC.
\<close>

theorem nat_macs_distinct:
  assumes "n < 2 ^ 32" and "m < 2 ^ 32"
  shows "mac2int (gen_mac_by_ip n) = Some (0xf201 * 2 ^ 32 + n) \<and> (gen_mac_by_ip n = gen_mac_by_ip m \<longleftrightarrow> n = m)"
  using nat_mac.decode_encode [OF assms(1)] nat_mac.same_meaning [OF assms] by auto

theorem nat_macs_witness:
  "mac2int (gen_mac_by_ip 167837698) = Some (0xf201 * 2 ^ 32 + 167837698) \<and>
   (gen_mac_by_ip 167837698 = gen_mac_by_ip 167837699 \<longleftrightarrow> (167837698 :: nat) = 167837699)"
  by (rule nat_macs_distinct) simp_all

end
