(* ===== verification/Packet.thy ===== *)
theory Packet imports Entities begin

text \<open>
  The packets that \<open>tools/pkt-trace.py\<close> injects: \<open>cal_checksum\<close> and \<open>_construct_icmp\<close>. A byte string of
  \<open>struct\<close> is a list of numbers below 256.
\<close>

section \<open>struct\<close>

text \<open>\<open>pack("!H", n)\<close> and \<open>pack("!L", n)\<close> of numbers in range, \<open>unpack("!10H", s)\<close>, and \<open>pack("6B", ...)\<close>, which raises.\<close>

definition pack_H :: "nat \<Rightarrow> nat list" where
  "pack_H n = [n div 256 mod 256, n mod 256]"

definition pack_L :: "nat \<Rightarrow> nat list" where
  "pack_L n = [n div 2 ^ 24 mod 256, n div 2 ^ 16 mod 256, n div 2 ^ 8 mod 256, n mod 256]"

fun unpack_H :: "nat list \<Rightarrow> nat list" where
  "unpack_H (a # b # xs) = (a * 256 + b) # unpack_H xs"
| "unpack_H _ = []"

definition pack_B :: "int \<Rightarrow> nat option" where
  "pack_B i = (if 0 \<le> i \<and> i < 256 then Some (nat i) else None)"

section \<open>The checksum of a header\<close>

definition add_carry :: "nat \<Rightarrow> nat \<Rightarrow> nat" where
  "add_carry sum_num h =
     (let sum_num = sum_num + h in if sum_num > 0xffff then sum_num mod 0x10000 + 1 else sum_num)"

text \<open>\<open>"{:0>16b}".format(n)\<close>, and \<open>int(s, 2)\<close> of it with every digit flipped.\<close>

definition bin16 :: "nat \<Rightarrow> bool list" where
  "bin16 n = map (\<lambda>i. n div 2 ^ (15 - i) mod 2 = 1) [0..<16]"

definition int_base2 :: "bool list \<Rightarrow> nat" where
  "int_base2 bs = fold (\<lambda>b n. 2 * n + of_bool b) bs 0"

definition cal_checksum :: "nat list \<Rightarrow> nat list" where
  "cal_checksum header =
     (let sum_num = fold (\<lambda>h s. add_carry s h) (unpack_H header) 0
      in pack_H (int_base2 (map Not (bin16 sum_num))))"

section \<open>ICMP packets\<close>

text \<open>The first six parts of a MAC as bytes: fewer of them, or one that is no byte, raises.\<close>

definition mac_bytes :: "string \<Rightarrow> nat list option" where
  "mac_bytes mac =
     (let parts = split_on CHR '':'' mac in
      if length parts < 6 then None
      else those (map (\<lambda>x. Option.bind (py_int16 x) pack_B) (take 6 parts)))"

definition eth_header :: "nat list \<Rightarrow> nat list \<Rightarrow> nat list" where
  "eth_header src_mac dst_mac = dst_mac @ src_mac @ pack_H 0x0800"

definition l3_head :: "nat list" where
  "l3_head = [0x45, 0, 0, 0x54, 0, 0, 0x40, 0, 9, 1]"

definition ip_header :: "nat \<Rightarrow> nat \<Rightarrow> nat list" where
  "ip_header src_ip dst_ip =
     (let ip_checksum = cal_checksum (l3_head @ [0, 0] @ pack_L src_ip @ pack_L dst_ip)
      in l3_head @ ip_checksum @ pack_L src_ip @ pack_L dst_ip)"

definition icmp_payload :: "nat \<Rightarrow> nat list" where
  "icmp_payload icmp_type =
     pack_H icmp_type @ pack_H 0x8510 @ pack_H 0x5fbf @ pack_H 1 @ [1] @ [2..<57]"

definition icmp_type_of :: "string \<Rightarrow> nat option" where
  "icmp_type_of ty = (if ty = ''request'' then Some 0x0800 else if ty = ''reply'' then Some 0 else None)"

definition icmp_packet :: "nat list \<Rightarrow> nat list \<Rightarrow> nat \<Rightarrow> nat \<Rightarrow> nat \<Rightarrow> nat list" where
  "icmp_packet src_mac dst_mac src_ip dst_ip icmp_type =
     eth_header src_mac dst_mac @ ip_header src_ip dst_ip @ icmp_payload icmp_type"

definition hex_bytes :: "nat list \<Rightarrow> string" where
  "hex_bytes bs = concat (map (\<lambda>i. hex02 (int i)) bs)"

definition construct_icmp :: "string \<Rightarrow> string \<Rightarrow> string \<Rightarrow> string \<Rightarrow> string \<Rightarrow> string option" where
  "construct_icmp src_mac dst_mac src_ip dst_ip ty =
     (case (mac_bytes src_mac, mac_bytes dst_mac, inet_aton src_ip, inet_aton dst_ip, icmp_type_of ty) of
        (Some sm, Some dm, Some si, Some di, Some t) \<Rightarrow> Some (hex_bytes (icmp_packet sm dm si di t))
      | _ \<Rightarrow> None)"

definition construct_icmp_request :: "string \<Rightarrow> string \<Rightarrow> string \<Rightarrow> string \<Rightarrow> string option" where
  "construct_icmp_request src_mac dst_mac src_ip dst_ip = construct_icmp src_mac dst_mac src_ip dst_ip ''request''"

definition construct_icmp_reply :: "string \<Rightarrow> string \<Rightarrow> string \<Rightarrow> string \<Rightarrow> string option" where
  "construct_icmp_reply src_mac dst_mac src_ip dst_ip = construct_icmp src_mac dst_mac src_ip dst_ip ''reply''"

end
