(* ===== verification/Packet_Props.thy ===== *)
theory Packet_Props imports Packet Addresses begin

text \<open>
  The packets are well formed: the checksum is the one of the internet protocols, a receiver that adds the
  header up accepts it, and the fields are read back from the text.
\<close>

section \<open>The one's complement sum\<close>

definition sum16 :: "nat list \<Rightarrow> nat" where
  "sum16 hs = fold (\<lambda>h s. add_carry s h) hs 0"

lemma add_carry_eq:
  assumes "s \<le> 65535" and "h \<le> 65535"
  shows "add_carry s h = (if s + h > 65535 then s + h - 65535 else s + h)"
proof -
  have "(s + h) mod 65536 = s + h - 65536" if "s + h > 65535" using that assms by (simp add: mod_if)
  then show ?thesis unfolding add_carry_def Let_def by auto
qed

lemma add_carry_range:
  assumes "s \<le> 65535" and "h \<le> 65535"
  shows "add_carry s h \<le> 65535" and "0 < s + h \<Longrightarrow> 0 < add_carry s h" and "add_carry s h mod 65535 = (s + h) mod 65535"
  unfolding add_carry_eq [OF assms] using assms by (auto simp: le_mod_geq)

lemma fold_carry:
  assumes "\<forall>h \<in> set hs. h \<le> 65535" and "s \<le> 65535"
  shows "fold (\<lambda>h s. add_carry s h) hs s \<le> 65535 \<and>
    fold (\<lambda>h s. add_carry s h) hs s mod 65535 = (s + sum_list hs) mod 65535 \<and>
    (0 < s + sum_list hs \<longrightarrow> 0 < fold (\<lambda>h s. add_carry s h) hs s)"
  using assms
proof (induction hs arbitrary: s)
  case (Cons h hs)
  have h: "h \<le> 65535" using Cons.prems by simp
  note c = add_carry_range [OF Cons.prems(2) h]
  note IH = Cons.IH [OF _ c(1)]
  have "(add_carry s h + sum_list hs) mod 65535 = (s + (h + sum_list hs)) mod 65535"
    using mod_add_cong [OF c(3), of "sum_list hs" "sum_list hs"] by (simp add: add.assoc)
  then show ?case using IH Cons.prems(1) c(2) by (cases "s + h = 0") (auto simp: add_carry_def)
qed simp

lemma sum16_range:
  assumes "\<forall>h \<in> set hs. h \<le> 65535"
  shows "sum16 hs \<le> 65535" and "sum16 hs mod 65535 = sum_list hs mod 65535" and "0 < sum_list hs \<Longrightarrow> 0 < sum16 hs"
  using fold_carry [OF assms, of 0] by (simp_all add: sum16_def)

text \<open>Flipping the binary digits of a 16-bit number subtracts it from \<open>0xffff\<close>.\<close>

lemma int_base2_append: "fold (\<lambda>b n. 2 * n + of_bool b) bs a = a * 2 ^ length bs + (int_base2 bs :: nat)"
proof (induction bs arbitrary: a rule: rev_induct)
  case (snoc b bs)
  show ?case using snoc [of a] snoc [of 0] by (simp add: int_base2_def algebra_simps)
qed (simp add: int_base2_def)

lemma flip_bits: "int_base2 (map Not bs) + int_base2 bs + 1 = 2 ^ length bs"
proof (induction bs rule: rev_induct)
  case (snoc b bs)
  then show ?case by (cases b) (simp_all add: int_base2_def algebra_simps)
qed (simp add: int_base2_def)

lemma bits_value: "int_base2 (map (\<lambda>i. n div 2 ^ (k - 1 - i) mod 2 = 1) [0..<k]) = n mod 2 ^ k"
proof (induction k arbitrary: n)
  case (Suc k)
  let ?f = "\<lambda>m k i. m div 2 ^ (k - 1 - i) mod 2 = (1 :: nat)"
  have "map (?f n (Suc k)) [0..<Suc k] = map (?f (n div 2) k) [0..<k] @ [n mod 2 = 1]"
    by (auto simp: Suc_diff_Suc simp flip: power_Suc div_mult2_eq)
  moreover have "int_base2 (bs @ [b]) = 2 * int_base2 bs + of_bool b" for bs b by (simp add: int_base2_def)
  ultimately have "int_base2 (map (?f n (Suc k)) [0..<Suc k]) = 2 * ((n div 2) mod 2 ^ k) + of_bool (n mod 2 = 1)"
    using Suc.IH [of "n div 2"] by (simp only:)
  also have "\<dots> = n mod 2 ^ Suc k"
    using mod_mult2_eq [of n 2 "2 ^ k"] by (auto simp: of_bool_def mod_2_eq_odd)
  finally show ?case by simp
qed (simp add: int_base2_def)

lemma complement16:
  assumes "n \<le> 65535"
  shows "int_base2 (map Not (bin16 n)) = 65535 - n"
proof -
  have "int_base2 (bin16 n) = n"
    using bits_value [of n 16] assms by (simp add: bin16_def del: upt_Suc)
  moreover have "length (bin16 n) = 16" by (simp add: bin16_def)
  ultimately show ?thesis using flip_bits [of "bin16 n"] by simp
qed

section \<open>The header\<close>

lemma pack_H_value: "(n :: nat) \<le> 65535 \<Longrightarrow> n div 256 mod 256 * 256 + n mod 256 = n"
  using div_mult_mod_eq [of n 256] by (simp add: less_mult_imp_div_less)

lemma pack_lengths [simp]: "length (pack_H n) = 2" "length (pack_L n) = 4"
  by (simp_all add: pack_H_def pack_L_def)

lemma word_of_bytes: "a mod 256 * 256 + b mod 256 \<le> (65535 :: nat)"
proof -
  have "a mod 256 < 256" "b mod 256 < 256" by simp_all
  then show ?thesis by linarith
qed

text \<open>The ten words of a header with the word \<open>c\<close> in the place of the checksum.\<close>

definition addr_words :: "nat \<Rightarrow> nat list" where
  "addr_words n = [n div 2 ^ 24 mod 256 * 256 + n div 2 ^ 16 mod 256, n div 2 ^ 8 mod 256 * 256 + n mod 256]"

lemma addr_words_small: "h \<in> set (addr_words n) \<Longrightarrow> h \<le> 65535"
  unfolding addr_words_def using word_of_bytes by auto

lemma unpack_address: "unpack_H (pack_L n @ xs) = addr_words n @ unpack_H xs"
  by (simp add: pack_L_def addr_words_def)

lemma unpack_word: "c \<le> 65535 \<Longrightarrow> unpack_H (pack_H c @ xs) = c # unpack_H xs"
  using pack_H_value by (simp add: pack_H_def)

lemma header_words:
  assumes "c \<le> 65535"
  shows "unpack_H (l3_head @ pack_H c @ pack_L si @ pack_L di) =
    [0x4500, 0x54, 0, 0x4000, 0x901, c] @ addr_words si @ addr_words di"
proof -
  have "unpack_H (l3_head @ xs) = [0x4500, 0x54, 0, 0x4000, 0x901] @ unpack_H xs" for xs by (simp add: l3_head_def)
  moreover have "unpack_H (pack_L di) = addr_words di" using unpack_address [of di "[]"] by simp
  ultimately show ?thesis by (simp add: unpack_word [OF assms] unpack_address)
qed

lemma ip_header_sum: "sum16 (unpack_H (ip_header si di)) = 0xffff"
proof -
  define hs where "hs c = unpack_H (l3_head @ pack_H c @ pack_L si @ pack_L di)" for c
  define c where "c = 65535 - sum16 (hs 0)"
  have c: "c \<le> 65535" by (simp add: c_def)
  have small: "\<forall>h \<in> set (hs c). h \<le> 65535" if "c \<le> 65535" for c
    using that addr_words_small unfolding hs_def header_words [OF that] by auto
  have "[0, 0] = pack_H 0" by (simp add: pack_H_def)
  then have "cal_checksum (l3_head @ [0, 0] @ pack_L si @ pack_L di) = pack_H c"
    using sum16_range(1) [OF small [of 0]] by (simp add: cal_checksum_def Let_def complement16 c_def hs_def flip: sum16_def)
  then have hdr: "unpack_H (ip_header si di) = hs c" by (simp add: ip_header_def hs_def)
  have sums: "sum_list (hs c) = sum_list (hs 0) + c"
    unfolding hs_def header_words [OF c] header_words [OF zero_le] by simp
  have "sum16 (hs c) mod 65535 = sum_list (hs c) mod 65535" by (rule sum16_range(2) [OF small [OF c]])
  also have "\<dots> = (sum16 (hs 0) + c) mod 65535"
    unfolding sums by (rule mod_add_cong) (simp_all only: sum16_range(2) [OF small [OF zero_le]])
  also have "sum16 (hs 0) + c = 65535" using sum16_range(1) [OF small [of 0]] by (simp add: c_def)
  finally have "sum16 (hs c) mod 65535 = 0" by simp
  moreover have "0 < sum16 (hs c)"
    by (rule sum16_range(3) [OF small [OF c]]) (unfold hs_def header_words [OF c], simp)
  moreover have "sum16 (hs c) \<le> 65535" by (rule sum16_range(1) [OF small [OF c]])
  ultimately show ?thesis unfolding hdr by (cases "sum16 (hs c) = 65535") simp_all
qed

section \<open>The packet\<close>

lemma those_length: "those xs = Some ys \<Longrightarrow> length ys = length xs"
  by (induction xs arbitrary: ys) (auto split: option.splits)

lemma those_all: "those xs = Some ys \<Longrightarrow> y \<in> set ys \<Longrightarrow> Some y \<in> set xs"
  by (induction xs arbitrary: ys) (auto split: option.splits)

lemma mac_bytes_six:
  assumes "mac_bytes mac = Some bs"
  shows "length bs = 6" and "\<forall>b \<in> set bs. b < 256"
proof -
  let ?parts = "split_on CHR '':'' mac"
  have m: "6 \<le> length ?parts" "those (map (\<lambda>x. Option.bind (py_int16 x) pack_B) (take 6 ?parts)) = Some bs"
    using assms by (auto simp: mac_bytes_def Let_def split: if_splits)
  show "length bs = 6" using those_length [OF m(2)] m(1) by simp
  show "\<forall>b \<in> set bs. b < 256"
  proof
    fix b
    assume "b \<in> set bs"
    then obtain x where "Option.bind (py_int16 x) pack_B = Some b" using those_all [OF m(2)] by fastforce
    then show "b < 256" by (auto simp: pack_B_def bind_eq_Some_conv split: if_splits)
  qed
qed

definition bytes_ok :: "nat list \<Rightarrow> bool" where
  "bytes_ok bs \<longleftrightarrow> (\<forall>b \<in> set bs. b < 256)"

lemma bytes_ok_simps [simp]:
  "bytes_ok (xs @ ys) \<longleftrightarrow> bytes_ok xs \<and> bytes_ok ys" "bytes_ok (pack_H n)" "bytes_ok (pack_L n)"
  by (auto simp: bytes_ok_def pack_H_def pack_L_def)

lemma hex_bytes_length: "bytes_ok bs \<Longrightarrow> length (hex_bytes bs) = 2 * length bs"
  by (induction bs) (simp_all add: hex_bytes_def bytes_ok_def hex_byte)

lemma checksum_bytes [simp]: "length (cal_checksum bs) = 2" "bytes_ok (cal_checksum bs)"
  by (simp_all add: cal_checksum_def Let_def)

lemma ip_header_bytes [simp]: "length (ip_header si di) = 20" "bytes_ok (ip_header si di)"
proof -
  have "length l3_head = 10" "bytes_ok l3_head" by (simp_all add: l3_head_def bytes_ok_def)
  then show "length (ip_header si di) = 20" "bytes_ok (ip_header si di)" by (simp_all add: ip_header_def Let_def)
qed

lemma icmp_bytes [simp]: "length (icmp_payload t) = 64" "bytes_ok (icmp_payload t)"
proof -
  have "bytes_ok ([1] @ [2..<57])" by (auto simp: bytes_ok_def)
  then show "length (icmp_payload t) = 64" "bytes_ok (icmp_payload t)" by (simp_all add: icmp_payload_def)
qed

lemma icmp_sums: "sum16 (unpack_H (icmp_payload 0x0800)) = 0xffff" "sum16 (unpack_H (icmp_payload 0)) = 0xf7ff"
  by (simp_all add: icmp_payload_def pack_H_def upt_conv_Cons sum16_def add_carry_def)

lemma icmp_checksum_request:
  "icmp_type_of ty = Some t \<Longrightarrow> sum16 (unpack_H (icmp_payload t)) = 0xffff \<longleftrightarrow> ty = ''request''"
  using icmp_sums by (auto simp: icmp_type_of_def split: if_splits)

text \<open>
  C25. A packet that is constructed has 98 bytes. The MACs, the addresses and the type of the frame are read back
  from their places, and the checksum of the IP header is the one a receiver accepts: the one's complement
  sum over the header is \<open>0xffff\<close>. That of the ICMP part is right for a request only.
\<close>

theorem icmp_packet_fields:
  assumes "construct_icmp src_mac dst_mac src_ip dst_ip ty = Some hex"
  shows "\<exists>bs sm dm si di.
    hex = hex_bytes bs \<and> length hex = 196 \<and> length bs = 98 \<and>
    mac_bytes dst_mac = Some dm \<and> take 6 bs = dm \<and> mac_bytes src_mac = Some sm \<and> take 6 (drop 6 bs) = sm \<and>
    take 2 (drop 12 bs) = pack_H 0x0800 \<and> inet_aton src_ip = Some si \<and> take 4 (drop 26 bs) = pack_L si \<and>
    inet_aton dst_ip = Some di \<and> take 4 (drop 30 bs) = pack_L di \<and>
    sum16 (unpack_H (take 20 (drop 14 bs))) = 0xffff \<and> (sum16 (unpack_H (drop 34 bs)) = 0xffff \<longleftrightarrow> ty = ''request'')"
proof -
  obtain sm dm si di t where parts: "mac_bytes src_mac = Some sm" "mac_bytes dst_mac = Some dm"
      "inet_aton src_ip = Some si" "inet_aton dst_ip = Some di" "icmp_type_of ty = Some t"
    and hex: "hex = hex_bytes (icmp_packet sm dm si di t)"
    using assms by (auto simp: construct_icmp_def split: option.splits)
  let ?bs = "icmp_packet sm dm si di t"
  have len: "length sm = 6" "length dm = 6" and ok: "bytes_ok sm" "bytes_ok dm"
    using parts(1,2) mac_bytes_six by (auto simp: bytes_ok_def)
  have bs: "?bs = dm @ sm @ pack_H 0x0800 @ ip_header si di @ icmp_payload t" by (simp add: icmp_packet_def eth_header_def)
  have "length l3_head = 10" by (simp add: l3_head_def)
  then have addr: "take 4 (drop 12 (ip_header si di)) = pack_L si" "take 4 (drop 16 (ip_header si di)) = pack_L di"
    by (simp_all add: ip_header_def Let_def)
  have "bytes_ok ?bs" "length ?bs = 98" using len ok by (simp_all add: bs)
  then have "length hex = 196" "length ?bs = 98" using hex by (simp_all add: hex_bytes_length)
  moreover have "take 6 ?bs = dm" "take 6 (drop 6 ?bs) = sm" "take 2 (drop 12 ?bs) = pack_H 0x0800"
      "take 20 (drop 14 ?bs) = ip_header si di" "drop 34 ?bs = icmp_payload t"
      "take 4 (drop 26 ?bs) = pack_L si" "take 4 (drop 30 ?bs) = pack_L di"
    using len addr by (simp_all add: bs)
  ultimately show ?thesis
    using parts hex ip_header_sum icmp_checksum_request [OF parts(5)] by (intro exI [of _ ?bs] exI conjI) simp_all
qed

theorem icmp_packet_fields_witness:
  "\<exists>hex. construct_icmp ''00:00:06:08:06:01'' ''00:00:06:08:06:02'' ''10.10.1.2'' ''10.10.1.3'' ''request'' = Some hex \<and>
     length hex = 196"
proof -
  have "mac_bytes ''00:00:06:08:06:01'' \<noteq> None" "mac_bytes ''00:00:06:08:06:02'' \<noteq> None" by code_simp+
  moreover have "inet_aton ''10.10.1.2'' \<noteq> None" "inet_aton ''10.10.1.3'' \<noteq> None" by code_simp+
  ultimately obtain hex where hex: "construct_icmp ''00:00:06:08:06:01'' ''00:00:06:08:06:02'' ''10.10.1.2'' ''10.10.1.3''
      ''request'' = Some hex"
    by (auto simp: construct_icmp_def icmp_type_of_def)
  from icmp_packet_fields [OF this] hex show ?thesis by blast
qed

end
