(* ===== verification/Pkt_Trace.thy ===== *)
theory Pkt_Trace imports Link_Master Packet Flow_Common "HOL-Library.Word" begin

text \<open>
  \<open>tools/pkt-trace.py\<close>: the entities of etcd as objects, the injection of a packet through etcd, the
  decoding of what the pipelines report, and the random check of a network. Its threads are run one after
  the other in the order they are started. The command line is the configuration it is turned into.
\<close>

section \<open>Objects\<close>

text \<open>
  A \<open>TPObject\<close> is the dictionary of its attributes; an attribute it does not have is \<open>None\<close>. The order of a
  dictionary of Python 2 is not fixed; here it is that of the insertions.
\<close>

type_synonym tp_object = "(string \<times> string) list"

definition new_tp_object :: "string \<Rightarrow> value_set \<Rightarrow> tp_object" where
  "new_tp_object nm properties = fold (\<lambda>(k, v) d. AList.update k v d) properties [(''name'', nm)]"

abbreviation attr :: "tp_object \<Rightarrow> string \<Rightarrow> string option" where
  "attr obj \<equiv> map_of obj"

definition name_of :: "tp_object \<Rightarrow> string" where
  "name_of obj = (case attr obj ''name'' of Some n \<Rightarrow> n | None \<Rightarrow> [])"

definition tp_str :: "tp_object \<Rightarrow> string" where
  "tp_str obj = name_of obj @ '':'' @ concat (map (\<lambda>(k, v). k @ ''='' @ v @ '', '') obj)"

type_synonym tp_zoo = "(string \<times> (string \<times> tp_object) list) list"

definition group_of :: "tp_zoo \<Rightarrow> string \<Rightarrow> (string \<times> tp_object) list" where
  "group_of z etype = (case map_of z etype of Some g \<Rightarrow> g | None \<Rightarrow> [])"

text \<open>\<open>update_entity_data\<close>. \<open>None\<close>: an entity is to be removed that is not there, or a path is too short.\<close>

fun pop_entities :: "string list \<Rightarrow> (string \<times> tp_object) list \<Rightarrow> (string \<times> tp_object) list option" where
  "pop_entities [] g = Some g"
| "pop_entities (path # paths) g =
     (let key = last (split_on CHR ''/'' path) in
      if map_of g key = None then None else pop_entities paths (AList.delete key g))"

fun delete_pool :: "dis_pool \<Rightarrow> tp_zoo \<Rightarrow> tp_zoo option" where
  "delete_pool [] z = Some z"
| "delete_pool ((etype, entities) # pool) z =
     (case map_of z etype of
        None \<Rightarrow> delete_pool pool z
      | Some g \<Rightarrow>
          (case pop_entities (map fst entities) g of
             None \<Rightarrow> None
           | Some g' \<Rightarrow> delete_pool pool (AList.update etype g' z)))"

definition typed_object :: "string \<Rightarrow> value_set \<Rightarrow> string \<Rightarrow> string \<Rightarrow> tp_object" where
  "typed_object key entity ty parent =
     AList.update ''parent'' parent (AList.update ''type'' ty (new_tp_object key entity))"

fun put_entities :: "pool \<Rightarrow> (string \<times> tp_object) list \<Rightarrow> (string \<times> tp_object) list option" where
  "put_entities [] g = Some g"
| "put_entities ((k, entity) # es) g =
     (case rev (split_on CHR ''/'' k) of
        key # ty # parent # _ \<Rightarrow> put_entities es (AList.update key (typed_object key entity ty parent) g)
      | _ \<Rightarrow> None)"

fun add_pools :: "dis_pool \<Rightarrow> tp_zoo \<Rightarrow> tp_zoo option" where
  "add_pools [] z = Some z"
| "add_pools ((etype, entities) # pool) z =
     (case put_entities entities (group_of z etype) of
        None \<Rightarrow> None
      | Some g \<Rightarrow> add_pools pool (AList.update etype g z))"

definition update_entity_data :: "dis_pool option \<Rightarrow> dis_pool option \<Rightarrow> tp_zoo \<Rightarrow> tp_zoo option" where
  "update_entity_data add_pool del_pool z =
     Option.bind (case del_pool of None \<Rightarrow> Some z | Some p \<Rightarrow> delete_pool p z)
       (\<lambda>z. case add_pool of None \<Rightarrow> Some z | Some p \<Rightarrow> add_pools p z)"

section \<open>The tool\<close>

text \<open>\<open>wmaster\<close> is made when it is first needed; \<open>cmd_id\<close> is the static variable of \<open>etcd_config_pkt_trace\<close>.\<close>

record 's tracer =
  tp_master :: "'s watch_master"
  tp_entities :: tp_zoo
  cmd_id :: "16 word"

definition init_tracer :: "'s \<Rightarrow> 's tracer" where
  "init_tracer s = \<lparr>tp_master = init_watch_master s, tp_entities = [], cmd_id = 0\<rparr>"

definition on_master :: "('s watch_master, 'a) state \<Rightarrow> ('s tracer, 'a) state" where
  "on_master m = State (\<lambda>t. case run_state m (tp_master t) of (x, w) \<Rightarrow> (x, t\<lparr>tp_master := w\<rparr>))"

definition sync_etcd_data :: "'s etcd \<Rightarrow> lm_conf \<Rightarrow> ('s tracer, unit) prog" where
  "sync_etcd_data E C = do {
     data \<leftarrow> on_master (read_remote_kvdata E C);
     t \<leftarrow> State_Monad.get;
     (case data of
        None \<Rightarrow> ret None
      | Some (data_type, add_pool, del_pool) \<Rightarrow>
          (case update_entity_data add_pool del_pool (tp_entities t) of
             None \<Rightarrow> ret None
           | Some z \<Rightarrow> do { State_Monad.update (\<lambda>t. t\<lparr>tp_entities := z\<rparr>); ret (Some ()) })) }"

section \<open>Injecting a packet\<close>

text \<open>\<open>find_chassis_by_port\<close>: the left value is the key whose lookup raised.\<close>

definition group_or_raise :: "tp_zoo \<Rightarrow> string \<Rightarrow> string + (string \<times> tp_object) list" where
  "group_or_raise z etype = (case map_of z etype of None \<Rightarrow> Inl etype | Some g \<Rightarrow> Inr g)"

definition find_chassis_by_port :: "tp_zoo \<Rightarrow> string \<Rightarrow> string + string option" where
  "find_chassis_by_port z lport =
     (case group_or_raise z ''lsp'' of
        Inl e \<Rightarrow> Inl e
      | Inr lsps \<Rightarrow>
          (case map_of lsps lport of
             None \<Rightarrow> Inr None
           | Some lsp \<Rightarrow>
               (case group_or_raise z ''chassis'' of
                  Inl e \<Rightarrow> Inl e
                | Inr chs \<Rightarrow> Inr (map_option name_of (Option.bind (attr lsp ''chassis'') (map_of chs))))))"

text \<open>The commands of a process are told apart by 16 bits; \<open>now\<close> is \<open>int(time.time() * 100)\<close>.\<close>

definition next_cmd_id :: "int \<Rightarrow> 16 word \<Rightarrow> 16 word" where
  "next_cmd_id now i = (if i = 0 then word_of_int now else i + 1)"

definition inject_key :: "string \<Rightarrow> 16 word \<Rightarrow> string" where
  "inject_key chassis_id i = ''push/'' @ chassis_id @ ''/cmd/'' @ nat_str (unat i)"

definition inject_value :: "string \<Rightarrow> string \<Rightarrow> string" where
  "inject_value packet lport = ''cmd=pkt_trace,packet='' @ packet @ '',port='' @ lport"

definition etcd_config_pkt_trace :: "'s etcd \<Rightarrow> lm_conf \<Rightarrow> int \<Rightarrow> string \<Rightarrow> string \<Rightarrow> ('s tracer, string + 16 word) state" where
  "etcd_config_pkt_trace E C now lport packet = do {
     t \<leftarrow> State_Monad.get;
     (case find_chassis_by_port (tp_entities t) lport of
        Inl key \<Rightarrow> ret (Inl ([CHR 0x27] @ key @ [CHR 0x27]))
      | Inr None \<Rightarrow> ret (Inl (''cannot found logical port '' @ lport @ '' pin on a chassis''))
      | Inr (Some chassis_id) \<Rightarrow> do {
          let i = next_cmd_id now (cmd_id t);
          State_Monad.update (\<lambda>t. t\<lparr>cmd_id := i\<rparr>);
          on_master (lease_communicate E C (inject_key chassis_id i) (inject_value packet lport) 10);
          ret (Inr i) }) }"

section \<open>Reading the trace\<close>

record trace_hop =
  hop_table_id :: string
  hop_datapath_id :: string
  hop_src_port_id :: string
  hop_dst_port_id :: string
  hop_tun_src :: string
  hop_iface_id :: string
  hop_chassis_id :: string

text \<open>\<open>socket.inet_ntoa(struct.pack('I', socket.htonl(ip_int)))\<close>, which raises out of 32 bits.\<close>

definition tun_src_text :: "string \<Rightarrow> string option" where
  "tun_src_text pval =
     (case py_int pval of
        None \<Rightarrow> None
      | Some i \<Rightarrow> if 0 \<le> i \<and> i < 2 ^ 32 then Some (inet_ntoa (nat i)) else None)"

text \<open>
  \<open>parse_trace_path\<close>: the last value of each property. A property that is not of the form \<open>name=value\<close>, a
  malformed \<open>tun_src\<close>, or a property that is missing raises.
\<close>

fun trace_properties :: "string list \<Rightarrow> value_set \<Rightarrow> value_set option" where
  "trace_properties [] d = Some d"
| "trace_properties (p # ps) d =
     (case split_on CHR ''='' p of
        [pname, pval] \<Rightarrow>
          if pname = ''tun_src'' then
            (case tun_src_text pval of None \<Rightarrow> None | Some ip \<Rightarrow> trace_properties ps (AList.update pname ip d))
          else trace_properties ps (AList.update pname pval d)
      | _ \<Rightarrow> None)"

definition parse_trace_path :: "string \<Rightarrow> string \<Rightarrow> trace_hop option" where
  "parse_trace_path chassis_id trace_path =
     (case trace_properties (split_on CHR '','' trace_path) [] of
        None \<Rightarrow> None
      | Some d \<Rightarrow>
          (case those (map (map_of d) [''table_id'', ''datapath_id'', ''src_port_id'', ''dst_port_id'', ''tun_src'',
                         ''output_iface_id'']) of
             Some [table, dp, src, dst, tun, iface] \<Rightarrow>
               Some \<lparr>hop_table_id = table, hop_datapath_id = dp, hop_src_port_id = src, hop_dst_port_id = dst,
                     hop_tun_src = tun, hop_iface_id = iface, hop_chassis_id = chassis_id\<rparr>
           | _ \<Rightarrow> None))"

text \<open>The chassis, the value and the sequence number of a result, from its key.\<close>

definition result_entry :: "string \<times> string \<times> int \<Rightarrow> (string \<times> string \<times> int) option" where
  "result_entry x =
     (case x of (val, key, revision) \<Rightarrow>
        (case rev (split_on CHR ''/'' key) of
           chassis_id # seq_n # _ \<Rightarrow> map_option (\<lambda>n. (chassis_id, val, n)) (py_int seq_n)
         | _ \<Rightarrow> None))"

text \<open>
  A packet that leaves a router has already got the datapath of the next pipeline: the hop is shown with the
  datapath of the hop before it, which may itself have been replaced.
\<close>

fun fix_datapaths :: "trace_hop option \<Rightarrow> trace_hop list \<Rightarrow> trace_hop list option" where
  "fix_datapaths prev [] = Some []"
| "fix_datapaths prev (hop # hops) =
     (case py_int (hop_table_id hop) of
        None \<Rightarrow> None
      | Some table \<Rightarrow>
          (let hop' = (case prev of
                         Some p \<Rightarrow>
                           if table = int TABLE_LRP_TRACE_EGRESS_OUT
                           then hop\<lparr>hop_datapath_id := hop_datapath_id p\<rparr> else hop
                       | None \<Rightarrow> hop)
           in map_option (\<lambda>rest. hop' # rest) (fix_datapaths (Some hop') hops)))"

definition trace_hops :: "(string \<times> string \<times> int) list \<Rightarrow> trace_hop list option" where
  "trace_hops ret_data =
     Option.bind (those (map result_entry ret_data)) (\<lambda>trace_info.
       Option.bind (those (map (\<lambda>(chassis_id, path, _). parse_trace_path chassis_id path)
                            (sort_key (\<lambda>(_, _, n). n) trace_info)))
         (fix_datapaths None))"

definition result_prefix :: "16 word \<Rightarrow> string" where
  "result_prefix i = ''communicate/cmd_result/'' @ nat_str (unat i) @ ''/''"

definition etcd_read_cmd_result :: "'s etcd \<Rightarrow> lm_conf \<Rightarrow> 16 word \<Rightarrow> ('s tracer, trace_hop list) prog" where
  "etcd_read_cmd_result E C i = do {
     ret_data \<leftarrow> on_master (etcd_operate (etcd_get_prefix E (prefix_path C @ result_prefix i)));
     ret (Option.bind ret_data trace_hops) }"

section \<open>Names for numbers\<close>

definition find_datapath_by_id :: "tp_zoo \<Rightarrow> string \<Rightarrow> tp_object option option" where
  "find_datapath_by_id z datapath_id =
     (let found = (\<lambda>g. find (\<lambda>x. attr x ''id'' = Some datapath_id) (map snd g)) in
      case map_of z ''LS'' of
        None \<Rightarrow> None
      | Some g \<Rightarrow>
          (case found g of
             Some ls \<Rightarrow> Some (Some ls)
           | None \<Rightarrow> map_option found (map_of z ''LR'')))"

abbreviation UNKNOW_SYMBOL :: string where
  "UNKNOW_SYMBOL \<equiv> ''<UNKNOW>''"

text \<open>The first port of the datapath whose address ends in these 16 bits; an address that is none raises.\<close>

fun port_with_id :: "string \<Rightarrow> string \<Rightarrow> tp_object list \<Rightarrow> string option" where
  "port_with_id datapath port_id [] = Some UNKNOW_SYMBOL"
| "port_with_id datapath port_id (port # ports) =
     (if attr port ''parent'' \<noteq> Some datapath then port_with_id datapath port_id ports
      else (case Option.bind (attr port ''ip'') inet_aton of
              None \<Rightarrow> None
            | Some ip_int \<Rightarrow>
                if nat_str (ip_int mod 2 ^ 16) = port_id then Some (name_of port)
                else port_with_id datapath port_id ports))"

definition find_port_by_id :: "tp_zoo \<Rightarrow> tp_object \<Rightarrow> string \<Rightarrow> string option" where
  "find_port_by_id z dp port_id =
     (if port_id = ''0'' then Some UNKNOW_SYMBOL
      else if attr dp ''type'' = Some ''LS'' then
        Option.bind (map_of z ''lsp'') (\<lambda>g. port_with_id (name_of dp) port_id (map snd g))
      else if attr dp ''type'' = Some ''LR'' then
        Option.bind (map_of z ''lrp'') (\<lambda>g. port_with_id (name_of dp) port_id (map snd g))
      else None)"

definition stage_name :: "string \<Rightarrow> string option" where
  "stage_name table_id =
     Option.bind (py_int table_id) (\<lambda>t. if 0 \<le> t then table_note_dict (nat t) else None)"

definition trace_text :: "tp_object \<Rightarrow> string \<Rightarrow> string \<Rightarrow> string \<Rightarrow> trace_hop \<Rightarrow> string" where
  "trace_text dp src dst stage hop =
     ''type:'' @ pystr (opt_val (attr dp ''type'')) @ '',pipeline:'' @ name_of dp @ '',from:'' @ src @ '',to:'' @ dst @
     '',stage:'' @ stage @ '',chassis:'' @ hop_chassis_id hop @ '',output_iface_id:'' @ hop_iface_id hop"

definition show_hop :: "tp_zoo \<Rightarrow> trace_hop \<Rightarrow> string option" where
  "show_hop z hop =
     (case find_datapath_by_id z (hop_datapath_id hop) of
        None \<Rightarrow> None
      | Some None \<Rightarrow> Some ''<ERROR>''
      | Some (Some dp) \<Rightarrow>
          (case (find_port_by_id z dp (hop_src_port_id hop), find_port_by_id z dp (hop_dst_port_id hop),
                 stage_name (hop_table_id hop)) of
             (Some src, Some dst, Some stage) \<Rightarrow> Some (trace_text dp src dst stage hop)
           | _ \<Rightarrow> None))"

text \<open>
  \<open>run_pkt_trace\<close>: what the injection raises is the result; the results are read after \<open>WAIT_TRACE_TIMEOUT\<close>,
  and what that raises is raised.
\<close>

definition run_pkt_trace :: "'s etcd \<Rightarrow> lm_conf \<Rightarrow> int \<Rightarrow> string \<Rightarrow> string \<Rightarrow> ('s tracer, string list) prog" where
  "run_pkt_trace E C now lport packet = do {
     r \<leftarrow> etcd_config_pkt_trace E C now lport packet;
     (case r of
        Inl err \<Rightarrow> ret (Some [err])
      | Inr i \<Rightarrow> do {
          hops \<leftarrow> etcd_read_cmd_result E C i;
          t \<leftarrow> State_Monad.get;
          ret (Option.bind hops (\<lambda>hops.
                 map_option (\<lambda>traces. if traces = [] then [''error no traces''] else traces)
                   (those (map (show_hop (tp_entities t)) hops)))) }) }"

fun run_pkt_trace_async :: "'s etcd \<Rightarrow> lm_conf \<Rightarrow> int \<Rightarrow> (string \<times> string) list \<Rightarrow> ('s tracer, string list list) prog" where
  "run_pkt_trace_async E C now [] = ret (Some [])"
| "run_pkt_trace_async E C now ((inject_port, packet) # rest) = do {
     r \<leftarrow> run_pkt_trace E C now inject_port packet;
     rs \<leftarrow> run_pkt_trace_async E C now rest;
     ret (case (r, rs) of (Some x, Some xs) \<Rightarrow> Some (x # xs) | _ \<Rightarrow> None) }"

section \<open>The check of a network\<close>

datatype target = Target_port tp_object | Target_ip string

definition target_str :: "target \<Rightarrow> string" where
  "target_str tg = (case tg of Target_port obj \<Rightarrow> tp_str obj | Target_ip ip \<Rightarrow> ip)"

fun active_lsps :: "tp_zoo \<Rightarrow> string list \<Rightarrow> tp_object list \<Rightarrow> tp_object list option" where
  "active_lsps z ls_names [] = Some []"
| "active_lsps z ls_names (lsp # lsps) =
     (case (attr lsp ''chassis'', attr lsp ''parent'') of
        (Some ch, Some parent) \<Rightarrow>
          if parent \<notin> set ls_names then active_lsps z ls_names lsps
          else (case map_of z ''chassis'' of
                  None \<Rightarrow> None
                | Some chs \<Rightarrow>
                    if map_of chs ch = None then active_lsps z ls_names lsps
                    else map_option (\<lambda>rest. lsp # rest) (active_lsps z ls_names lsps))
      | _ \<Rightarrow> active_lsps z ls_names lsps)"

definition find_all_active_lsp_by_ls :: "tp_zoo \<Rightarrow> string list \<Rightarrow> tp_object list option" where
  "find_all_active_lsp_by_ls z ls_names =
     Option.bind (map_of z ''lsp'') (\<lambda>lsps. active_lsps z ls_names (map snd lsps))"

text \<open>
  The pairs are drawn until there are enough different ones. \<open>random.choice\<close> is a list of draws, each the
  indices of a source and a target; \<open>None\<close> when it is used up before.
\<close>

fun draw_pairs :: "tp_object list \<Rightarrow> target list \<Rightarrow> int \<Rightarrow> (nat \<times> nat) list \<Rightarrow>
    (string \<times> tp_object \<times> target) list \<Rightarrow> (string \<times> tp_object \<times> target) list option" where
  "draw_pairs srcs targets batch_n [] pairs = (if int (length pairs) < batch_n then None else Some pairs)"
| "draw_pairs srcs targets batch_n ((i, j) # draws) pairs =
     (if int (length pairs) < batch_n then
        (let src = srcs ! (i mod length srcs); tg = targets ! (j mod length targets);
             k = tp_str src @ target_str tg
         in draw_pairs srcs targets batch_n draws
              (if map_of pairs k \<noteq> None then pairs else pairs @ [(k, src, tg)]))
      else Some pairs)"

definition batch_size :: "nat \<Rightarrow> nat \<Rightarrow> int \<Rightarrow> int" where
  "batch_size n_lsp n_ip batch_n = min (int n_lsp * (int n_lsp + int n_ip - 1)) batch_n"

definition select_random_src_target :: "tp_zoo \<Rightarrow> string list \<Rightarrow> string list \<Rightarrow> int \<Rightarrow> (nat \<times> nat) list \<Rightarrow>
    (string \<times> tp_object \<times> target) list option" where
  "select_random_src_target z ls_names target_ips batch_n draws =
     Option.bind (find_all_active_lsp_by_ls z ls_names) (\<lambda>lsps.
       draw_pairs lsps (map Target_port lsps @ map Target_ip target_ips)
         (batch_size (length lsps) (length target_ips) batch_n) draws [])"

text \<open>The MAC of a port of the switch that has a peer.\<close>

definition get_gw_mac :: "tp_zoo \<Rightarrow> string option \<Rightarrow> string option" where
  "get_gw_mac z lsname =
     Option.bind (find (\<lambda>lsp. attr lsp ''peer'' \<noteq> None \<and> attr lsp ''parent'' = lsname) (map snd (group_of z ''lsp'')))
       (\<lambda>lsp. attr lsp ''mac'')"

text \<open>A MAC or an address that is \<open>None\<close> raises when the packet is made.\<close>

definition convert_src_target2pkt :: "tp_zoo \<Rightarrow> tp_object \<Rightarrow> target \<Rightarrow> string option" where
  "convert_src_target2pkt z src_lsp tg =
     (let gw_mac = get_gw_mac z (attr src_lsp ''parent'');
          (target_mac, target_ip) =
            (case tg of
               Target_port obj \<Rightarrow>
                 (if attr obj ''parent'' = attr src_lsp ''parent'' then attr obj ''mac'' else gw_mac, attr obj ''ip'')
             | Target_ip ip \<Rightarrow> (gw_mac, Some ip))
      in case (attr src_lsp ''mac'', target_mac, attr src_lsp ''ip'', target_ip) of
           (Some sm, Some dm, Some si, Some di) \<Rightarrow> construct_icmp_reply sm dm si di
         | _ \<Rightarrow> None)"

text \<open>\<open>_find_incorrect_trace\<close>: whatever cannot be read off the last line is incorrect.\<close>

definition reached :: "tp_zoo \<Rightarrow> string list \<Rightarrow> target \<Rightarrow> bool" where
  "reached z traces expect_target =
     (case drop 3 (split_on CHR '','' (last traces)) of
        [] \<Rightarrow> False
      | field # _ \<Rightarrow>
          (let to_iface_id = last (split_on CHR '':'' field) in
           case expect_target of
             Target_port obj \<Rightarrow> to_iface_id = name_of obj
           | Target_ip ip \<Rightarrow>
               (case map_of (group_of z ''lsp'') to_iface_id of
                  None \<Rightarrow> False
                | Some lsp \<Rightarrow> attr lsp ''ip'' = Some ip)))"

definition find_incorrect_trace :: "tp_zoo \<Rightarrow> string list list \<Rightarrow> target list \<Rightarrow> (string list \<times> target) list" where
  "find_incorrect_trace z result expect_target_list =
     filter (\<lambda>(traces, tg). \<not> reached z traces tg) (zip result expect_target_list)"

definition detect_once :: "'s etcd \<Rightarrow> lm_conf \<Rightarrow> int \<Rightarrow> string list \<Rightarrow> string list \<Rightarrow> int \<Rightarrow> (nat \<times> nat) list \<Rightarrow>
    ('s tracer, (string list \<times> target) list) prog" where
  "detect_once E C now ls_names target_ips batch_n draws = do {
     t \<leftarrow> State_Monad.get;
     (case Option.bind (select_random_src_target (tp_entities t) ls_names target_ips batch_n draws) (\<lambda>pairs.
             those (map (\<lambda>(k, src, tg).
               map_option (\<lambda>packet. (name_of src, packet, tg)) (convert_src_target2pkt (tp_entities t) src tg)) pairs)) of
        None \<Rightarrow> ret None
      | Some jobs \<Rightarrow> do {
          result \<leftarrow> run_pkt_trace_async E C now (map (\<lambda>(port, packet, tg). (port, packet)) jobs);
          t \<leftarrow> State_Monad.get;
          ret (map_option (\<lambda>result. find_incorrect_trace (tp_entities t) result (map (\<lambda>(port, packet, tg). tg) jobs))
                 result) }) }"

text \<open>
  The argument of \<open>--auto_detect\<close>: what is an address is a target, everything else the name of a switch.
  \<open>batch_env\<close> is the variable \<open>BATCH_NUM\<close>.
\<close>

abbreviation THREAD_POOL_MAX_N :: int where
  "THREAD_POOL_MAX_N \<equiv> 100"

definition batch_num :: "string option \<Rightarrow> int" where
  "batch_num batch_env =
     min THREAD_POOL_MAX_N (case Option.bind batch_env py_int of Some n \<Rightarrow> n | None \<Rightarrow> THREAD_POOL_MAX_N div 10)"

definition detect_segments :: "string \<Rightarrow> string list \<times> string list" where
  "detect_segments auto_detect =
     (let segments = split_on CHR '','' auto_detect
      in (filter (\<lambda>s. inet_aton s = None) segments, filter (\<lambda>s. inet_aton s \<noteq> None) segments))"

text \<open>The rounds, each with its time and draws, up to the first with an incorrect trace.\<close>

fun detect_rounds :: "'s etcd \<Rightarrow> lm_conf \<Rightarrow> string list \<Rightarrow> string list \<Rightarrow> int \<Rightarrow> (int \<times> (nat \<times> nat) list) list \<Rightarrow>
    ('s tracer, (string list \<times> target) list) prog" where
  "detect_rounds E C ls_names target_ips batch_n [] = ret (Some [])"
| "detect_rounds E C ls_names target_ips batch_n ((now, draws) # rounds) = do {
     r \<leftarrow> detect_once E C now ls_names target_ips batch_n draws;
     (case r of
        None \<Rightarrow> ret None
      | Some (x # xs) \<Rightarrow> ret (Some (x # xs))
      | Some [] \<Rightarrow> do {
          s \<leftarrow> sync_etcd_data E C;
          (case s of None \<Rightarrow> ret None | Some _ \<Rightarrow> detect_rounds E C ls_names target_ips batch_n rounds) }) }"

definition auto_detect_network :: "'s etcd \<Rightarrow> lm_conf \<Rightarrow> string option \<Rightarrow> string \<Rightarrow> (int \<times> (nat \<times> nat) list) list \<Rightarrow>
    ('s tracer, (string list \<times> target) list) prog" where
  "auto_detect_network E C batch_env auto_detect rounds =
     (case detect_segments auto_detect of
        (ls_names, target_ips) \<Rightarrow> detect_rounds E C ls_names target_ips (batch_num batch_env) rounds)"

section \<open>Configuration\<close>

text \<open>
  \<open>config_sanity_check\<close> on the sections of the file: the endpoints, the prefix and the time to wait, then
  either what is to be detected or the packets to be injected. An option that is missing raises.
\<close>

type_synonym config = "(string \<times> (string \<times> string) list) list"

definition cfg_get :: "config \<Rightarrow> string \<Rightarrow> string \<Rightarrow> string option" where
  "cfg_get config sec key = Option.bind (map_of config sec) (\<lambda>opts. map_of opts key)"

definition inject_info :: "config \<Rightarrow> string \<Rightarrow> (string \<times> string) option" where
  "inject_info config sec =
     Option.bind (cfg_get config sec ''port'') (\<lambda>port.
       map_option (\<lambda>packet. (port, packet))
         (case cfg_get config sec ''header'' of
            Some header \<Rightarrow> Some header
          | None \<Rightarrow>
              (case (cfg_get config sec ''src_mac'', cfg_get config sec ''dst_mac'', cfg_get config sec ''src_ip'',
                     cfg_get config sec ''dst_ip'') of
                 (Some sm, Some dm, Some si, Some di) \<Rightarrow> construct_icmp_request sm dm si di
               | _ \<Rightarrow> None)))"

definition config_sanity_check :: "config \<Rightarrow>
    (((string \<times> string) list \<times> string \<times> int) \<times> string \<times> (string \<times> string) list option) option" where
  "config_sanity_check config =
     (case (Option.bind (cfg_get config ''basic'' ''endpoints'') sanity_etcdhost, cfg_get config ''basic'' ''prefix'',
            Option.bind (cfg_get config ''basic'' ''wait_time'') py_int) of
        (Some endpoints, Some prefix, Some wait_time) \<Rightarrow>
          if prefix = [] \<or> last prefix \<noteq> CHR ''/'' then None
          else (let auto_detect = (case cfg_get config ''basic'' ''auto_detect'' of None \<Rightarrow> [] | Some x \<Rightarrow> x) in
                if auto_detect \<noteq> [] then Some ((endpoints, prefix, wait_time), auto_detect, None)
                else map_option (\<lambda>infos. ((endpoints, prefix, wait_time), auto_detect, Some infos))
                       (those (map (inject_info config) (filter (\<lambda>s. s \<noteq> ''basic'') (map fst config)))))
      | _ \<Rightarrow> None)"

section \<open>Notes of flows (ovs-decode-note.py)\<close>

text \<open>The part of a string before the first occurrence of another one, and the part after the last.\<close>

fun before_first :: "string \<Rightarrow> string \<Rightarrow> string option" where
  "before_first sep [] = (if sep = [] then Some [] else None)"
| "before_first sep (c # s) =
     (if take (length sep) (c # s) = sep then Some [] else map_option (\<lambda>p. c # p) (before_first sep s))"

fun after_last :: "string \<Rightarrow> string \<Rightarrow> string option" where
  "after_last sep [] = (if sep = [] then Some [] else None)"
| "after_last sep (c # s) =
     (case after_last sep s of
        Some r \<Rightarrow> Some r
      | None \<Rightarrow> if take (length sep) (c # s) = sep then Some (drop (length sep) (c # s)) else None)"

definition get_flow_note_idx :: "string \<Rightarrow> int option option" where
  "get_flow_note_idx flow =
     (if before_first ''note'' flow = None then Some None
      else (let rest = (case after_last ''note:'' flow of Some r \<Rightarrow> r | None \<Rightarrow> flow)
            in map_option Some (py_int16 (''0x'' @ hd (split_on CHR ''.'' rest)))))"

text \<open>One line; \<open>None\<close>: the index is no number, or none of a note.\<close>

definition decode_line :: "string \<Rightarrow> string option" where
  "decode_line flow =
     (case get_flow_note_idx flow of
        None \<Rightarrow> None
      | Some None \<Rightarrow> Some (''cannot decode flow:'' @ flow)
      | Some (Some idx) \<Rightarrow>
          map_option (\<lambda>n. (case before_first ''note'' flow of Some p \<Rightarrow> p | None \<Rightarrow> flow) @ ''note:annotation('' @ n @ '')'')
            (flows_idx2note idx))"

end
