(* ===== verification/Trace_Props.thy ===== *)
theory Trace_Props imports Pkt_Trace "HOL-Library.Sublist" State_Update Addresses begin

text \<open>
  The packet tracer and the controller speak through etcd: a command that \<open>pkt-trace.py\<close> writes is the one
  the controller of the chassis executes, and the reports that the controllers write are read back as the
  hops of the packet.
\<close>

section \<open>The command\<close>

lemma bind_unit: "State_Monad.bind m (\<lambda>_. ret ()) = m"
  by (rule state_ext) (simp split: prod.splits)

definition inject_path :: "string \<Rightarrow> string \<Rightarrow> 16 word \<Rightarrow> string" where
  "inject_path dir ch i = dir @ ''/'' @ PREFIX_PATH_COMMUNICATE @ inject_key ch i"

lemma inject_path_split:
  "\<exists>pre. split_on CHR ''/'' (inject_path dir ch i) = pre @ [''cmd'', nat_str (unat i)]"
proof -
  have "split_on CHR ''/'' (inject_path dir ch i) =
      split_on CHR ''/'' (dir @ ''/communicate/push/'' @ ch) @ [''cmd'', nat_str (unat i)]"
    using split_on_sep [of "CHR ''/''" "dir @ ''/communicate/push/'' @ ch" "''cmd/'' @ nat_str (unat i)"]
      split_on_append [of "CHR ''/''" "''cmd''" "nat_str (unat i)"]
    by (simp add: inject_path_def inject_key_def)
  then show ?thesis by blast
qed

lemma inject_value_parse:
  assumes "CHR '','' \<notin> set packet" and "CHR '','' \<notin> set lport"
  shows "parse_value (inject_value packet lport) = [(''cmd'', ''pkt_trace''), (''packet'', packet), (''port'', lport)]"
proof -
  have "split_on CHR '','' (inject_value packet lport) = [''cmd=pkt_trace'', ''packet='' @ packet, ''port='' @ lport]"
    using split_on_append [of "CHR '',''" "''cmd=pkt_trace''"] split_on_append [of "CHR '',''" "''packet='' @ packet"]
      split_on_no_sep [of "CHR '',''" "''port='' @ lport"] assms
    by (simp add: inject_value_def del: split_on.simps)
  then show ?thesis
    using split_once_append [of "CHR ''=''" "''cmd''" "''pkt_trace''"] split_once_append [of "CHR ''=''" "''packet''" packet]
      split_once_append [of "CHR ''=''" "''port''" lport]
    by (simp add: parse_value_def)
qed


section \<open>The reports\<close>

text \<open>A report: the message, the chassis it comes from and the interface the packet leaves by.\<close>

type_synonym report = "trace_msg \<times> string \<times> string"

definition report_entry :: "string \<Rightarrow> report \<times> int \<Rightarrow> string \<times> string \<times> int" where
  "report_entry dir x = (case x of ((m, ch, iface), revision) \<Rightarrow>
     (trace_value m iface, dir @ ''/'' @ PREFIX_PATH_COMMUNICATE @ trace_key m ch, revision))"

definition report_hop :: "report \<Rightarrow> trace_hop" where
  "report_hop x = (case x of (m, ch, iface) \<Rightarrow>
     \<lparr>hop_table_id = int_str (tr_table_id m), hop_datapath_id = int_str (tr_datapath_id m),
      hop_src_port_id = int_str (tr_src_port_id m), hop_dst_port_id = int_str (tr_dst_port_id m),
      hop_tun_src = inet_ntoa (nat (tr_tun_src m)), hop_iface_id = iface, hop_chassis_id = ch\<rparr>)"

definition report_ok :: "report \<Rightarrow> bool" where
  "report_ok x = (case x of (m, ch, iface) \<Rightarrow>
     0 \<le> tr_tun_src m \<and> tr_tun_src m < 2 ^ 32 \<and> CHR ''/'' \<notin> set ch \<and>
     CHR '','' \<notin> set iface \<and> CHR ''='' \<notin> set iface)"

abbreviation report_seq :: "report \<Rightarrow> int" where
  "report_seq x \<equiv> tr_seq_n (fst x)"

lemma report_key_read:
  assumes "report_ok (m, ch, iface)"
  shows "result_entry (report_entry dir ((m, ch, iface), revision)) = Some (ch, trace_value m iface, tr_seq_n m)"
proof -
  have ch: "CHR ''/'' \<notin> set ch" using assms by (simp add: report_ok_def)
  let ?front = "dir @ ''/communicate/cmd_result/'' @ int_str (tr_cmd_id m)"
  have "split_on CHR ''/'' (dir @ ''/'' @ PREFIX_PATH_COMMUNICATE @ trace_key m ch) =
      split_on CHR ''/'' ?front @ [int_str (tr_seq_n m), ch]"
    using split_on_sep [of "CHR ''/''" ?front "int_str (tr_seq_n m) @ ''/'' @ ch"] ch by (simp add: trace_key_def)
  then show ?thesis by (simp add: result_entry_def report_entry_def)
qed

lemma trace_value_split:
  assumes "report_ok (m, ch, iface)"
  shows "split_on CHR '','' (trace_value m iface) =
    [''cmd_type=pkt_trace'', ''table_id='' @ int_str (tr_table_id m), ''datapath_id='' @ int_str (tr_datapath_id m),
     ''src_port_id='' @ int_str (tr_src_port_id m), ''dst_port_id='' @ int_str (tr_dst_port_id m),
     ''tun_src='' @ int_str (tr_tun_src m), ''output_iface_id='' @ iface]"
proof -
  have "CHR '','' \<notin> set iface" using assms by (simp add: report_ok_def)
  then show ?thesis
    using split_on_append [of "CHR '',''" "''cmd_type=pkt_trace''"]
      split_on_append [of "CHR '',''" "''table_id='' @ int_str (tr_table_id m)"]
      split_on_append [of "CHR '',''" "''datapath_id='' @ int_str (tr_datapath_id m)"]
      split_on_append [of "CHR '',''" "''src_port_id='' @ int_str (tr_src_port_id m)"]
      split_on_append [of "CHR '',''" "''dst_port_id='' @ int_str (tr_dst_port_id m)"]
      split_on_append [of "CHR '',''" "''tun_src='' @ int_str (tr_tun_src m)"]
      split_on_no_sep [of "CHR '',''" "''output_iface_id='' @ iface"]
    by (simp add: trace_value_def del: split_on.simps)
qed

lemma report_value_read:
  assumes "report_ok (m, ch, iface)"
  shows "parse_trace_path ch (trace_value m iface) = Some (report_hop (m, ch, iface))"
proof -
  have iface: "CHR ''='' \<notin> set iface" and tun: "0 \<le> tr_tun_src m" "tr_tun_src m < 2 ^ 32"
    using assms by (simp_all add: report_ok_def)
  have kv: "split_on CHR ''='' (k @ CHR ''='' # v) = [k, v]" if "CHR ''='' \<notin> set k" "CHR ''='' \<notin> set v" for k v
    using that by simp
  show ?thesis
    using kv [of "''cmd_type''" "''pkt_trace''"] kv [of "''table_id''" "int_str (tr_table_id m)"]
      kv [of "''datapath_id''" "int_str (tr_datapath_id m)"] kv [of "''src_port_id''" "int_str (tr_src_port_id m)"]
      kv [of "''dst_port_id''" "int_str (tr_dst_port_id m)"] kv [of "''tun_src''" "int_str (tr_tun_src m)"]
      kv [of "''output_iface_id''" iface] iface tun
    unfolding parse_trace_path_def trace_value_split [OF assms]
    by (simp add: tun_src_text_def report_hop_def del: split_on.simps)
qed

text \<open>The key says which chassis reports and when, the value what it saw.\<close>

definition report_seen :: "report \<Rightarrow> string \<times> string \<times> int" where
  "report_seen x = (case x of (m, ch, iface) \<Rightarrow> (ch, trace_value m iface, tr_seq_n m))"

interpretation report_key: reader "report_entry dir" result_entry "\<lambda>y. report_seen (fst y)" "\<lambda>y. report_ok (fst y)" for dir
  by unfold_locales (auto simp: report_seen_def report_key_read)

interpretation report_value: reader report_seen "\<lambda>(ch, path, _). parse_trace_path ch path" report_hop report_ok
  by unfold_locales (auto simp: report_seen_def report_value_read)

lemma insort_key_map_on: "insort_key f (g x) (map g xs) = map g (insort_key (\<lambda>x. f (g x)) x xs)"
  by (induction xs) simp_all

lemma sort_key_map_on: "sort_key f (map g xs) = map g (sort_key (\<lambda>x. f (g x)) xs)"
  by (induction xs) (simp_all add: insort_key_map_on)

lemma sort_key_order:
  fixes f :: "'a \<Rightarrow> 'b :: linorder"
  assumes "sorted_wrt (<) (map f xs)" and "mset ys = mset xs"
  shows "sort_key f ys = xs"
proof (rule sort_key_inj_key_eq [OF assms(2)])
  have "set ys = set xs" using assms(2) by (metis set_mset_mset)
  then show "inj_on f (set ys)" using assms(1) by (simp add: strict_sorted_iff distinct_map)
  show "sorted (map f xs)" using assms(1) by (simp add: strict_sorted_iff)
qed

text \<open>
  C27. The reports of a packet are read back in the order it passed them, in whatever order etcd returns
  them and with whatever revisions: every key is under the prefix the tracer reads, and the hops are those
  the reports were made of, before the datapath of the routers' last table is put right.
\<close>

theorem reports_read_back:
  assumes "sorted_wrt (<) (map report_seq xs)" and "list_all report_ok xs"
    and "list_all (\<lambda>x. tr_cmd_id (fst x) = int (unat i)) xs" and "mset (map fst ys) = mset xs"
  shows "trace_hops (map (report_entry dir) ys) = fix_datapaths None (map report_hop xs) \<and>
    list_all (\<lambda>(val, key, revision). Sublist.prefix (dir @ ''/'' @ result_prefix i) key) (map (report_entry dir) ys)"
proof -
  have sets: "fst ` set ys = set xs" using assms(4) by (metis set_map set_mset_mset)
  have "list_all (\<lambda>y. report_ok (fst y)) ys" using sets assms(2) by (auto simp: list_all_iff)
  then have read: "those (map result_entry (map (report_entry dir) ys)) = Some (map (\<lambda>y. report_seen (fst y)) ys)"
    by (rule report_key.decode_all)
  have seen: "map (\<lambda>y. report_seen (fst y)) ys = map report_seen (map fst ys)" by simp
  have "(\<lambda>x. case report_seen x of (_, _, n) \<Rightarrow> n) = report_seq" by (auto simp: report_seen_def)
  moreover have "sort_key report_seq (map fst ys) = xs" by (rule sort_key_order) (use assms(1,4) in auto)
  ultimately have "sort_key (\<lambda>(_, _, n). n) (map report_seen (map fst ys)) = map report_seen xs"
    by (simp only: sort_key_map_on)
  then have "trace_hops (map (report_entry dir) ys) = fix_datapaths None (map report_hop xs)"
    by (simp only: trace_hops_def read seen bind.simps report_value.decode_all [OF assms(2)])
  moreover have "Sublist.prefix (dir @ ''/'' @ result_prefix i) (fst (snd (report_entry dir y)))" if "y \<in> set ys" for y
  proof -
    have "tr_cmd_id (fst (fst y)) = int (unat i)" using that sets assms(3) by (auto simp: list_all_iff)
    then show ?thesis
      by (simp add: report_entry_def result_prefix_def trace_key_def int_str_def split_beta)
  qed
  ultimately show ?thesis by (auto simp: list_all_iff split_beta)
qed

definition demo_report :: "int \<Rightarrow> int \<Rightarrow> string \<Rightarrow> report" where
  "demo_report table seq ch =
     (\<lparr>tr_table_id = table, tr_datapath_id = 3, tr_cmd_id = 9, tr_src_port_id = 2, tr_dst_port_id = 0,
       tr_tun_src = 0xAC140009, tr_seq_n = seq, tr_ofport = 0\<rparr>, ch, ''eth0'')"

definition demo_reports :: "(report \<times> int) list" where
  "demo_reports = [(demo_report 13 5 ''hv2'', 71), (demo_report 2 1 ''hv1'', 70)]"

theorem reports_read_back_witness:
  "trace_hops (map (report_entry ''tupleNet'') demo_reports) =
     fix_datapaths None (map report_hop [demo_report 2 1 ''hv1'', demo_report 13 5 ''hv2''])"
proof -
  have "list_all report_ok [demo_report 2 1 ''hv1'', demo_report 13 5 ''hv2'']"
    by (simp add: report_ok_def demo_report_def)
  then show ?thesis
    using reports_read_back [of "[demo_report 2 1 ''hv1'', demo_report 13 5 ''hv2'']" 9 demo_reports "''tupleNet''"]
    by (simp add: demo_reports_def demo_report_def)
qed


section \<open>Drawing the pairs\<close>

definition draw_key :: "tp_object list \<Rightarrow> target list \<Rightarrow> nat \<times> nat \<Rightarrow> string" where
  "draw_key srcs targets d = tp_str (srcs ! (fst d mod length srcs)) @ target_str (targets ! (snd d mod length targets))"

definition drawn :: "tp_object list \<Rightarrow> target list \<Rightarrow> (string \<times> tp_object \<times> target) list \<Rightarrow> bool" where
  "drawn srcs targets pairs \<longleftrightarrow>
     distinct (map fst pairs) \<and>
     (\<forall>(k, src, tg) \<in> set pairs. src \<in> set srcs \<and> tg \<in> set targets \<and> k = tp_str src @ target_str tg)"

lemma drawn_step:
  assumes "drawn srcs targets pairs" and "srcs \<noteq> []" and "targets \<noteq> []" and "map_of pairs (draw_key srcs targets d) = None"
  shows "drawn srcs targets (pairs @ [(draw_key srcs targets d, srcs ! (fst d mod length srcs),
    targets ! (snd d mod length targets))])"
  using assms by (auto simp: drawn_def draw_key_def map_of_eq_None_iff)

lemma draw_pairs_result:
  assumes "drawn srcs targets pairs" and "int (length pairs) \<le> max 0 n" and "srcs \<noteq> []" and "targets \<noteq> []"
    and "n \<le> int (card (fst ` set pairs \<union> draw_key srcs targets ` set draws))"
  shows "\<exists>r. draw_pairs srcs targets n draws pairs = Some r \<and> int (length r) = max 0 n \<and> drawn srcs targets r"
  using assms
proof (induction draws arbitrary: pairs)
  case Nil
  have "length pairs = card (fst ` set pairs)"
    using Nil.prems(1) distinct_card [of "map fst pairs"] by (simp add: drawn_def)
  then show ?case using Nil.prems by auto
next
  case (Cons d draws)
  show ?case
  proof (cases "int (length pairs) < n")
    case False
    then show ?thesis using Cons.prems(1,2) by (cases d) auto
  next
    case True
    show ?thesis
    proof (cases "map_of pairs (draw_key srcs targets d)")
      case (Some x)
      then have "draw_key srcs targets d \<in> fst ` set pairs" by (auto dest: map_of_SomeD intro: rev_image_eqI)
      then have "fst ` set pairs \<union> draw_key srcs targets ` set (d # draws) =
          fst ` set pairs \<union> draw_key srcs targets ` set draws" by auto
      then have "n \<le> int (card (fst ` set pairs \<union> draw_key srcs targets ` set draws))" using Cons.prems(5) by simp
      from Cons.IH [OF Cons.prems(1,2,3,4) this] show ?thesis
        using True Some by (cases d) (simp add: draw_key_def Let_def)
    next
      case None
      let ?p = "(draw_key srcs targets d, srcs ! (fst d mod length srcs), targets ! (snd d mod length targets))"
      have "n \<le> int (card (fst ` set (pairs @ [?p]) \<union> draw_key srcs targets ` set draws))"
        using Cons.prems(5) by simp
      from Cons.IH [OF drawn_step [OF Cons.prems(1,3,4) None] _ Cons.prems(3,4) this] show ?thesis
        using True None by (cases d) (simp add: draw_key_def Let_def)
    qed
  qed
qed

text \<open>
  C28. The loop that draws the pairs to be checked ends as soon as the draws have named as many pairs as are
  asked for, and returns exactly that many, all different, each of a source and a target of the lists. A
  source may be drawn with itself, contrary to the comment.
\<close>

theorem draws_give_pairs:
  assumes "srcs \<noteq> []" and "targets \<noteq> []" and "0 \<le> n" and "n \<le> int (card (draw_key srcs targets ` set draws))"
  shows "\<exists>pairs. draw_pairs srcs targets n draws [] = Some pairs \<and> int (length pairs) = n \<and> distinct (map fst pairs) \<and>
    list_all (\<lambda>(k, src, tg). src \<in> set srcs \<and> tg \<in> set targets \<and> k = tp_str src @ target_str tg) pairs"
proof -
  have "drawn srcs targets []" by (simp add: drawn_def)
  from draw_pairs_result [OF this _ assms(1,2), of n draws] assms(3,4) show ?thesis
    by (auto simp: drawn_def list_all_iff)
qed

definition demo_port :: "string \<Rightarrow> tp_object" where
  "demo_port nm = new_tp_object nm [(''ip'', ''10.0.0.1'')]"

theorem draws_give_pairs_witness:
  "\<exists>pairs. draw_pairs [demo_port ''a'', demo_port ''b''] [Target_port (demo_port ''a''), Target_ip ''10.0.0.9''] 2
      [(0, 0), (0, 0), (3, 1)] [] = Some pairs \<and> int (length pairs) = 2"
proof -
  have "card (draw_key [demo_port ''a'', demo_port ''b''] [Target_port (demo_port ''a''), Target_ip ''10.0.0.9''] `
      set [(0, 0), (0, 0), (3, 1)]) = 2"
    by (simp add: draw_key_def demo_port_def new_tp_object_def tp_str_def name_of_def target_str_def)
  then show ?thesis
    using draws_give_pairs [of "[demo_port ''a'', demo_port ''b'']" "[Target_port (demo_port ''a''), Target_ip ''10.0.0.9'']" 2
        "[(0, 0), (0, 0), (3, 1)]"] by auto
qed

section \<open>Notes\<close>

lemma before_first_note:
  "before_first ''note'' p = None \<Longrightarrow> before_first ''note'' (p @ ''note'' @ r) = Some p"
proof (induction p)
  case (Cons c p)
  then have "before_first ''note'' p = None" and here: "take 4 (c # p) \<noteq> ''note''"
    by (simp_all add: numeral_eq_Suc split: if_splits)
  then have "before_first ''note'' (p @ ''note'' @ r) = Some p" using Cons.IH by simp
  moreover have "take 4 (c # p @ ''note'' @ r) \<noteq> ''note''"
  proof (cases p)
    case Nil
    then show ?thesis by simp
  next
    case c1: (Cons c1 p1)
    show ?thesis
    proof (cases p1)
      case Nil
      then show ?thesis using c1 by simp
    next
      case c2: (Cons c2 p2)
      then show ?thesis using c1 here by (cases p2) auto
    qed
  qed
  ultimately show ?case by (simp add: numeral_eq_Suc)
qed simp

lemma after_last_append: "after_last sep s = Some t \<Longrightarrow> after_last sep (p @ s) = Some t"
  by (induction p) simp_all

lemma py_int16_byte:
  assumes "b < 256"
  shows "py_int16 (''0x'' @ hex02 (int b)) = Some (int b)"
proof -
  have b: "b div 16 < 16" "b mod 16 < 16" using assms by (simp_all add: less_mult_imp_div_less)
  have "py_strip (''0x'' @ hex02 (int b)) = ''0x'' @ hex02 (int b)"
    using digit_char_plain [OF b(1)] digit_char_plain [OF b(2)] by (intro py_strip_plain) (simp_all add: hex_byte [OF assms] is_space_def)
  moreover have "num_val 16 (hex02 (int b)) = Some b"
    using digits_val_byte [OF assms, of 0 "[]"] by (simp add: num_val_def hex_byte [OF assms])
  ultimately show ?thesis by (simp add: py_int16_def signed_val_def hex_body_def)
qed

lemma hex02_no_dot:
  assumes "b < 256"
  shows "CHR ''.'' \<notin> set (hex02 (int b))"
proof -
  have "b div 16 < 16" "b mod 16 < 16" using assms by (simp_all add: less_mult_imp_div_less)
  then show ?thesis using digit_char_plain [of "b div 16"] digit_char_plain [of "b mod 16"] by (auto simp: hex_byte [OF assms])
qed



end
