(* ===== verification/Edge_Operate.thy ===== *)
theory Edge_Operate imports Commit_Ovs Link_Master begin

text \<open>
  \<open>tools/edge-operate.py\<close>: planning and running the \<open>tpctl\<close> commands that add an edge node to the network
  or remove one. The instances of the Datalog classes are lists; where the tool takes the first answer of a
  query it is the first in their order, which nothing fixes.
\<close>

section \<open>Entities\<close>

record e_lsp =
  elsp_uuid :: string
  elsp_ip :: string
  elsp_mac :: string
  elsp_parent :: string
  elsp_chassis :: "string option"
  elsp_peer :: "string option"

record e_lrp =
  elrp_uuid :: string
  elrp_ip :: string
  elrp_prefix :: int
  elrp_mac :: string
  elrp_parent :: string
  elrp_chassis :: "string option"
  elrp_peer :: "string option"

record e_lsr =
  elsr_uuid :: string
  elsr_ip :: string
  elsr_prefix :: int
  elsr_next_hop :: string
  elsr_outport :: string
  elsr_parent :: string

record e_chassis =
  ech_uuid :: string
  ech_ip :: string
  ech_tick :: string

text \<open>A switch is its uuid, a router its uuid and the chassis it is pinned on.\<close>

record edge_db =
  switches :: "string list"
  routers :: "(string \<times> string option) list"
  lsports :: "e_lsp list"
  lrports :: "e_lrp list"
  static_routes :: "e_lsr list"
  chassis_list :: "e_chassis list"

definition empty_db :: edge_db where
  "empty_db = \<lparr>switches = [], routers = [], lsports = [], lrports = [], static_routes = [], chassis_list = []\<rparr>"

text \<open>\<open>update_entity\<close>. A value that is missing, a prefix that is no number, or a path without a parent raises.\<close>

definition entity_id :: "string \<Rightarrow> string" where
  "entity_id path = last (split_on CHR ''/'' path)"

definition parent_of :: "string \<Rightarrow> string option" where
  "parent_of path = (case rev (split_on CHR ''/'' path) of _ # _ # parent # _ \<Rightarrow> Some parent | _ \<Rightarrow> None)"

definition read_lsp :: "string \<times> value_set \<Rightarrow> e_lsp option" where
  "read_lsp x =
     (case x of (path, vs) \<Rightarrow>
        (case (parent_of path, map_of vs ''ip'', map_of vs ''mac'') of
           (Some parent, Some ip, Some mac) \<Rightarrow>
             Some \<lparr>elsp_uuid = entity_id path, elsp_ip = ip, elsp_mac = mac, elsp_parent = parent,
                   elsp_chassis = map_of vs ''chassis'', elsp_peer = map_of vs ''peer''\<rparr>
         | _ \<Rightarrow> None))"

definition read_lrp :: "string \<times> value_set \<Rightarrow> e_lrp option" where
  "read_lrp x =
     (case x of (path, vs) \<Rightarrow>
        (case (parent_of path, map_of vs ''ip'', Option.bind (map_of vs ''prefix'') py_int, map_of vs ''mac'') of
           (Some parent, Some ip, Some prefix, Some mac) \<Rightarrow>
             Some \<lparr>elrp_uuid = entity_id path, elrp_ip = ip, elrp_prefix = prefix, elrp_mac = mac, elrp_parent = parent,
                   elrp_chassis = map_of vs ''chassis'', elrp_peer = map_of vs ''peer''\<rparr>
         | _ \<Rightarrow> None))"

definition read_lsr :: "string \<times> value_set \<Rightarrow> e_lsr option" where
  "read_lsr x =
     (case x of (path, vs) \<Rightarrow>
        (case (parent_of path, map_of vs ''ip'', Option.bind (map_of vs ''prefix'') py_int, map_of vs ''next_hop'',
               map_of vs ''outport'') of
           (Some parent, Some ip, Some prefix, Some next_hop, Some outport) \<Rightarrow>
             Some \<lparr>elsr_uuid = entity_id path, elsr_ip = ip, elsr_prefix = prefix, elsr_next_hop = next_hop,
                   elsr_outport = outport, elsr_parent = parent\<rparr>
         | _ \<Rightarrow> None))"

definition read_chassis :: "string \<times> value_set \<Rightarrow> e_chassis option" where
  "read_chassis x =
     (case x of (path, vs) \<Rightarrow>
        (case (parent_of path, map_of vs ''ip'', map_of vs ''tick'') of
           (Some parent, Some ip, Some tick) \<Rightarrow> Some \<lparr>ech_uuid = entity_id path, ech_ip = ip, ech_tick = tick\<rparr>
         | _ \<Rightarrow> None))"

definition pool_of :: "dis_pool \<Rightarrow> string \<Rightarrow> pool" where
  "pool_of ap etype = (case map_of ap etype of Some p \<Rightarrow> p | None \<Rightarrow> [])"

definition update_entity_list :: "dis_pool \<Rightarrow> edge_db \<Rightarrow> edge_db option" where
  "update_entity_list ap d =
     (case (those (map read_lsp (pool_of ap ''lsp'')), those (map read_lrp (pool_of ap ''lrp'')),
            those (map read_lsr (pool_of ap ''lsr'')), those (map read_chassis (pool_of ap ''chassis''))) of
        (Some ps, Some qs, Some rs, Some cs) \<Rightarrow>
          Some \<lparr>switches = switches d @ map (\<lambda>(path, vs). entity_id path) (pool_of ap ''LS''),
                routers = routers d @ map (\<lambda>(path, vs). (entity_id path, map_of vs ''chassis'')) (pool_of ap ''LR''),
                lsports = lsports d @ ps, lrports = lrports d @ qs, static_routes = static_routes d @ rs,
                chassis_list = chassis_list d @ cs\<rparr>
      | _ \<Rightarrow> None)"

text \<open>\<open>sync_etcd_data\<close>: nothing read raises.\<close>

definition sync_edge_data :: "'s etcd \<Rightarrow> lm_conf \<Rightarrow> ('s watch_master, edge_db) prog" where
  "sync_edge_data E C = do {
     data \<leftarrow> read_remote_kvdata E C;
     ret (case data of
            Some (_, Some ap, _) \<Rightarrow> update_entity_list ap empty_db
          | _ \<Rightarrow> None) }"

section \<open>Queries\<close>

datatype tool_error = TPToolErr string | Python_error

type_synonym 'a tool = "tool_error + 'a"

definition and_try :: "'a tool \<Rightarrow> ('a \<Rightarrow> 'b tool) \<Rightarrow> 'b tool" where
  "and_try r f = (case r of Inl e \<Rightarrow> Inl e | Inr x \<Rightarrow> f x)"

definition datalog_lr_central :: "edge_db \<Rightarrow> string tool" where
  "datalog_lr_central d =
     (case routers d of [(uuid, chassis)] \<Rightarrow> Inr uuid | _ \<Rightarrow> Inl (TPToolErr ''failed to know central LR''))"

fun datalog_check_port_occupied_ip :: "edge_db \<Rightarrow> string list \<Rightarrow> unit tool" where
  "datalog_check_port_occupied_ip d [] = Inr ()"
| "datalog_check_port_occupied_ip d (ip # ips) =
     (if list_ex (\<lambda>p. elsp_ip p = ip) (lsports d) then Inl (TPToolErr (''ip '' @ ip @ '' was occupied by other lsp''))
      else if list_ex (\<lambda>p. elrp_ip p = ip) (lrports d) then Inl (TPToolErr (''ip '' @ ip @ '' was occupied by other lrp''))
      else datalog_check_port_occupied_ip d ips)"

definition datalog_check_chassis_exist :: "edge_db \<Rightarrow> string \<Rightarrow> unit tool" where
  "datalog_check_chassis_exist d sys_id =
     (if length (filter (\<lambda>c. ech_uuid c = sys_id) (chassis_list d)) \<noteq> 1
      then Inl (TPToolErr (''chassis '' @ sys_id @ '' is not registed in etcd'')) else Inr ())"

definition datalog_check_chassis_is_edge :: "edge_db \<Rightarrow> string \<Rightarrow> unit tool" where
  "datalog_check_chassis_is_edge d sys_id =
     (if filter (\<lambda>(uuid, ch). ch = Some sys_id) (routers d) = []
      then Inl (TPToolErr (''chassis '' @ sys_id @ '' is an edge already'')) else Inr ())"

definition uuids :: "edge_db \<Rightarrow> string list" where
  "uuids d =
     switches d @ map fst (routers d) @ map elsp_uuid (lsports d) @ map elrp_uuid (lrports d) @ map elsr_uuid (static_routes d)"

definition datalog_is_entity_exist :: "edge_db \<Rightarrow> string \<Rightarrow> bool" where
  "datalog_is_entity_exist d uuid \<longleftrightarrow> uuid \<in> set (uuids d)"

definition dl_LS_has_patchport :: "edge_db \<Rightarrow> string list" where
  "dl_LS_has_patchport d =
     [ls. lsp \<leftarrow> lsports d, elsp_ip lsp = ''255.255.255.255'', ls \<leftarrow> switches d, ls = elsp_parent lsp]"

definition dl_edge_LR_peer_LS :: "edge_db \<Rightarrow> ((string \<times> string option) \<times> e_lrp \<times> string \<times> e_lsp) list" where
  "dl_edge_LR_peer_LS d =
     [(lr, lrp, ls, lsp).
        lr \<leftarrow> routers d, snd lr \<noteq> None,
        lrp \<leftarrow> lrports d, fst lr = elrp_parent lrp,
        lsp \<leftarrow> lsports d, elsp_peer lsp = Some (elrp_uuid lrp),
        ls \<leftarrow> switches d, elsp_parent lsp = ls]"

definition dl_edge_LR_peer_LR :: "edge_db \<Rightarrow>
    ((string \<times> string option) \<times> e_lrp \<times> (string \<times> string option) \<times> e_lrp) list" where
  "dl_edge_LR_peer_LR d =
     [(lr, lrp, lr1, lrp1).
        (lr, lrp, ls, lsp) \<leftarrow> dl_edge_LR_peer_LS d,
        lsp1 \<leftarrow> lsports d, elsp_parent lsp1 = ls,
        lrp1 \<leftarrow> lrports d, elsp_peer lsp1 = Some (elrp_uuid lrp1) \<and> elrp_peer lrp1 = Some (elsp_uuid lsp1),
        lr1 \<leftarrow> routers d, fst lr1 = elrp_parent lrp1 \<and> lr \<noteq> lr1]"

record ecmp_road =
  LS_OUT :: string
  LSP_OUT_TO_EDGE :: e_lsp
  LRP_EDGE_TO_OUT :: e_lrp
  LR_EDGE :: "string \<times> string option"
  LRP_EDGE_TO_INNER :: e_lrp
  LSP_INNER_TO_EDGE :: e_lsp
  LS_INNER :: string
  LRP_CEN_TO_INNER :: e_lrp
  LR_CEN :: "string \<times> string option"
  LSR_VIRT :: e_lsr
  LSR_OUT :: e_lsr
  LSR_EDGE :: e_lsr

definition routes_via :: "edge_db \<Rightarrow> string \<Rightarrow> string \<Rightarrow> e_lsr list" where
  "routes_via d lr lrp = filter (\<lambda>r. elsr_parent r = lr \<and> elsr_outport r = lrp) (static_routes d)"

definition dl_ecmp_road :: "edge_db \<Rightarrow> ecmp_road list" where
  "dl_ecmp_road d =
     remdups [\<lparr>LS_OUT = ls_out, LSP_OUT_TO_EDGE = lsp_out, LRP_EDGE_TO_OUT = lrp_out, LR_EDGE = edge, LRP_EDGE_TO_INNER = lrp_inner,
       LSP_INNER_TO_EDGE = lsp_inner, LS_INNER = ls_inner, LRP_CEN_TO_INNER = lrp_cen, LR_CEN = cen, LSR_VIRT = virt,
       LSR_OUT = out, LSR_EDGE = to_edge\<rparr>.
        (edge, lrp_out, ls_out, lsp_out) \<leftarrow> dl_edge_LR_peer_LS d, ls_out \<in> set (dl_LS_has_patchport d),
        (edge1, lrp_inner, ls_inner, lsp_inner) \<leftarrow> dl_edge_LR_peer_LS d, edge1 = edge \<and> ls_out \<noteq> ls_inner,
        (edge2, lrp2, cen, lrp_cen) \<leftarrow> dl_edge_LR_peer_LR d, edge2 = edge \<and> lrp2 = lrp_inner,
        virt \<leftarrow> routes_via d (fst edge) (elrp_uuid lrp_inner),
        out \<leftarrow> routes_via d (fst edge) (elrp_uuid lrp_out),
        to_edge \<leftarrow> routes_via d (fst cen) (elrp_uuid lrp_cen)]"

section \<open>Commands\<close>

definition entity_name :: "string \<Rightarrow> string \<Rightarrow> nat \<Rightarrow> string" where
  "entity_name etype prefix_name i = ''tp_'' @ etype @ ''_'' @ prefix_name @ nat_str i"

text \<open>The loop ends at the first number whose name is free.\<close>

partial_function (option) name_from :: "edge_db \<Rightarrow> string \<Rightarrow> string \<Rightarrow> nat \<Rightarrow> string option" where
  "name_from d etype prefix_name i =
     (if datalog_is_entity_exist d (entity_name etype prefix_name i) then name_from d etype prefix_name (i + 1)
      else Some (entity_name etype prefix_name i))"

definition new_entity_name :: "edge_db \<Rightarrow> string \<Rightarrow> string \<Rightarrow> string option" where
  "new_entity_name d etype prefix_name = name_from d etype prefix_name 1"

definition cmd_new_link :: "string \<Rightarrow> string \<Rightarrow> string \<Rightarrow> string \<Rightarrow> string" where
  "cmd_new_link lr_name ls_name ip prefix = ''tpctl lr link '' @ lr_name @ '' '' @ ls_name @ '' '' @ ip @ ''/'' @ prefix"

definition cmd_new_lsr :: "string \<Rightarrow> string \<Rightarrow> string \<Rightarrow> string \<Rightarrow> string \<Rightarrow> string" where
  "cmd_new_lsr lr_name ip prefix next_hop outport =
     (let lsr_name = lr_name @ ''_'' @ ip @ ''-'' @ prefix @ ''_to_'' @ next_hop @ ''_'' @ outport
      in ''tpctl lsr add '' @ lr_name @ '' '' @ lsr_name @ '' '' @ ip @ ''/'' @ prefix @ '' '' @ next_hop @ '' '' @ outport)"

definition cmd_new_patchport :: "string \<Rightarrow> string \<Rightarrow> string \<Rightarrow> string \<Rightarrow> string" where
  "cmd_new_patchport ls_name portname chassis peer_br =
     ''tpctl patchport add '' @ ls_name @ '' '' @ portname @ '' '' @ chassis @ '' '' @ peer_br"

definition cmd_del_patchport :: "string \<Rightarrow> string \<Rightarrow> string" where
  "cmd_del_patchport ls_name portname = ''tpctl lsp add '' @ ls_name @ '' '' @ portname"

definition cmd_new_ls :: "string \<Rightarrow> string" where
  "cmd_new_ls ls_name = ''tpctl ls add '' @ ls_name"

definition cmd_del_ls :: "string \<Rightarrow> string" where
  "cmd_del_ls ls_name = ''tpctl ls del '' @ ls_name @ '' -r''"

definition cmd_new_lr :: "string \<Rightarrow> string option \<Rightarrow> string" where
  "cmd_new_lr lr_name chassis =
     (case chassis of None \<Rightarrow> ''tpctl lr add '' @ lr_name | Some ch \<Rightarrow> ''tpctl lr add '' @ lr_name @ '' '' @ ch)"

definition cmd_del_lr :: "string \<Rightarrow> string" where
  "cmd_del_lr lr_name = ''tpctl lr del '' @ lr_name @ '' -r''"

definition cmd_del_lrp :: "string \<Rightarrow> string \<Rightarrow> string" where
  "cmd_del_lrp lr_name lrp_name = ''tpctl lrp del '' @ lr_name @ '' '' @ lrp_name"

definition cmd_del_lsr :: "string \<Rightarrow> string \<Rightarrow> string" where
  "cmd_del_lsr lr_name lsr_name = ''tpctl lsr del '' @ lr_name @ '' '' @ lsr_name"

text \<open>
  \<open>_gen_lrp_property\<close>: the highest free address of the network, its first and last address left out. A
  prefix that is none makes a shift raise.
\<close>

fun free_below :: "edge_db \<Rightarrow> nat \<Rightarrow> nat \<Rightarrow> string option" where
  "free_below d min_ip_int 0 = None"
| "free_below d min_ip_int (Suc k) =
     (let ip = inet_ntoa (min_ip_int + Suc k) in
      case datalog_check_port_occupied_ip d [ip] of
        Inl _ \<Rightarrow> free_below d min_ip_int k
      | Inr _ \<Rightarrow> Some ip)"

definition gen_lrp_property :: "edge_db \<Rightarrow> nat \<Rightarrow> int \<Rightarrow> string tool" where
  "gen_lrp_property d ip_int prefix =
     (if prefix < 0 \<or> prefix > 32 then Inl Python_error
      else (let mprefix = nat (32 - prefix);
                min_ip_int = push_bit mprefix (drop_bit mprefix ip_int);
                max_ip_int = min_ip_int + drop_bit (nat prefix) 0xffffffff
            in case free_below d min_ip_int (max_ip_int - 1 - min_ip_int) of
                 Some ip \<Rightarrow> Inr ip
               | None \<Rightarrow> Inl (TPToolErr ''cannot found a lrp due to ip confict'')))"

section \<open>Running commands\<close>

record edge_conf =
  TUPLENET_DIR :: string
  ETCD_ENDPOINT :: string
  edge_system_id :: string
  HOST_BR_PHY :: string

text \<open>\<open>str.split()\<close>: the words between blanks.\<close>

fun words :: "string \<Rightarrow> string list" where
  "words [] = []"
| "words (c # s) =
     (if is_space c then words s
      else (case s of
              [] \<Rightarrow> [[c]]
            | x # _ \<Rightarrow> if is_space x then [c] # words s
                      else (case words s of [] \<Rightarrow> [[c]] | w # ws \<Rightarrow> (c # w) # ws)))"

definition tpctl_words :: "edge_conf \<Rightarrow> string \<Rightarrow> string list" where
  "tpctl_words K cmd =
     (let ws = words cmd
      in take 1 ws @ [''--endpoints='' @ ETCD_ENDPOINT K, ''--prefix='' @ TUPLENET_DIR K] @ drop 1 ws)"

definition tpctl_execute :: "'s host \<Rightarrow> edge_conf \<Rightarrow> string list \<Rightarrow> ('s, unit) prog" where
  "tpctl_execute H K cmd_list =
     each_ok (\<lambda>cmd. call_popen H (tpctl_words K cmd) (Some (''yes'' @ [CHR 0x0A]))) cmd_list"

text \<open>The pauses between the groups are left out.\<close>

definition ecmp_execute_cmds :: "'s host \<Rightarrow> edge_conf \<Rightarrow> string list \<Rightarrow> string option \<Rightarrow> string option \<Rightarrow> ('s, unit) prog" where
  "ecmp_execute_cmds H K cmds cmd_first cmd_final = do {
     r1 \<leftarrow> (case cmd_first of None \<Rightarrow> ret (Some ()) | Some c \<Rightarrow> tpctl_execute H K [c]);
     (case r1 of
        None \<Rightarrow> ret None
      | Some _ \<Rightarrow> do {
          r2 \<leftarrow> tpctl_execute H K cmds;
          (case r2 of
             None \<Rightarrow> ret None
           | Some _ \<Rightarrow> (case cmd_final of None \<Rightarrow> ret (Some ()) | Some c \<Rightarrow> tpctl_execute H K [c])) }) }"

section \<open>Adding an edge\<close>

definition port_to :: "string \<Rightarrow> string \<Rightarrow> string" where
  "port_to lr_name ls_name = lr_name @ ''_to_'' @ ls_name"

text \<open>
  \<open>_init_ecmp_road\<close> up to the question: the commands, in order. A name is always found; the addresses and
  prefixes are texts.
\<close>

definition road_cmds :: "edge_conf \<Rightarrow> edge_db \<Rightarrow> string \<Rightarrow> string \<times> string \<Rightarrow> string \<times> string \<Rightarrow> string \<times> string \<Rightarrow>
    string \<times> string \<Rightarrow> string \<times> string \<Rightarrow> string \<Rightarrow> string list tool" where
  "road_cmds K d central_lr vip virt out inner edge_net ext_gw =
     (case (new_entity_name d ''LS'' ''outside'', new_entity_name d ''LR'' ''edge'', new_entity_name d ''LS'' ''m'') of
        (Some out_ls, Some edge_lr, Some inner_ls) \<Rightarrow>
          (case (new_entity_name d ''lsp'' (out_ls @ ''-patchport''), inet_aton (fst inner), py_int (snd inner)) of
             (Some patchport, Some ip_int, Some inner_prefix) \<Rightarrow>
               and_try (gen_lrp_property d ip_int inner_prefix) (\<lambda>central_lr_ip.
                 if central_lr_ip = fst inner then Inl Python_error
                 else Inr
                   [cmd_new_ls out_ls, cmd_new_lr edge_lr (Some (edge_system_id K)), cmd_new_ls inner_ls,
                    cmd_new_patchport out_ls patchport (edge_system_id K) (HOST_BR_PHY K),
                    cmd_new_link edge_lr out_ls (fst vip) (snd vip),
                    cmd_new_link edge_lr inner_ls (fst inner) (snd inner),
                    cmd_new_link central_lr inner_ls central_lr_ip (snd inner),
                    cmd_new_lsr edge_lr (fst out) (snd out) ext_gw (port_to edge_lr out_ls),
                    cmd_new_lsr edge_lr (fst virt) (snd virt) central_lr_ip (port_to edge_lr inner_ls),
                    cmd_new_lsr central_lr (fst edge_net) (snd edge_net) (fst inner) (port_to central_lr inner_ls)])
           | _ \<Rightarrow> Inl Python_error)
      | _ \<Rightarrow> Inl Python_error)"

text \<open>The answer to the question decides; with \<open>should_wait\<close> the last command is run on its own.\<close>

definition lift_tool :: "('s, unit) prog \<Rightarrow> ('s, unit tool) state" where
  "lift_tool m = do { r \<leftarrow> m; ret (case r of None \<Rightarrow> Inl Python_error | Some _ \<Rightarrow> Inr ()) }"

definition run_plan :: "'s host \<Rightarrow> edge_conf \<Rightarrow> string \<Rightarrow> string list tool \<Rightarrow> (string list \<Rightarrow> ('s, unit) prog) \<Rightarrow>
    ('s, unit tool) state" where
  "run_plan H K answer plan run =
     (case plan of
        Inl e \<Rightarrow> ret (Inl e)
      | Inr cmds \<Rightarrow> if answer = ''yes'' then lift_tool (run cmds) else ret (Inr ()))"

definition init_road :: "'s host \<Rightarrow> edge_conf \<Rightarrow> string \<Rightarrow> bool \<Rightarrow> string list tool \<Rightarrow> ('s, unit tool) state" where
  "init_road H K answer should_wait plan =
     run_plan H K answer plan (\<lambda>cmds.
       if should_wait then ecmp_execute_cmds H K (butlast cmds) None (Some (last cmds))
       else ecmp_execute_cmds H K cmds None None)"

definition init_plan :: "edge_conf \<Rightarrow> edge_db \<Rightarrow> string \<times> string \<Rightarrow> string \<times> string \<Rightarrow> string \<times> string \<Rightarrow> string \<Rightarrow>
    string list tool" where
  "init_plan K d vip virt inner ext_gw =
     and_try (datalog_check_port_occupied_ip d [fst vip, fst inner, ext_gw]) (\<lambda>_.
       and_try (datalog_lr_central d) (\<lambda>central_lr.
         road_cmds K d central_lr vip virt (''0.0.0.0'', ''0'') inner (''0.0.0.0'', ''0'') ext_gw))"

text \<open>
  \<open>add_ecmp_road\<close>. It reads the address of the inner network from the variable \<open>LRP\<close>, which its own query
  does not bind: \<open>inner_port\<close> is whatever pyDatalog has left in it, if anything.
\<close>

definition add_plan :: "edge_conf \<Rightarrow> edge_db \<Rightarrow> e_lrp option \<Rightarrow> string \<times> string \<Rightarrow> string list tool" where
  "add_plan K d inner_port vip =
     and_try (datalog_check_port_occupied_ip d [fst vip]) (\<lambda>_.
       case (dl_ecmp_road d, inner_port) of
         ([], _) \<Rightarrow> Inl (TPToolErr ''failed to found exist ecmp road'')
       | (_, None) \<Rightarrow> Inl Python_error
       | (road # _, Some lrp) \<Rightarrow>
           road_cmds K d (fst (LR_CEN road)) vip
             (elsr_ip (LSR_VIRT road), int_str (elsr_prefix (LSR_VIRT road)))
             (elsr_ip (LSR_OUT road), int_str (elsr_prefix (LSR_OUT road)))
             (elrp_ip lrp, int_str (elrp_prefix lrp))
             (elsr_ip (LSR_EDGE road), int_str (elsr_prefix (LSR_EDGE road)))
             (elsr_next_hop (LSR_OUT road)))"

section \<open>Removing an edge\<close>

definition remove_cmds :: "ecmp_road \<Rightarrow> string list" where
  "remove_cmds road =
     [cmd_del_lrp (fst (LR_CEN road)) (elrp_uuid (LRP_CEN_TO_INNER road)),
      cmd_del_lsr (fst (LR_CEN road)) (elsr_uuid (LSR_EDGE road)),
      cmd_del_lr (fst (LR_EDGE road)), cmd_del_ls (LS_INNER road), cmd_del_ls (LS_OUT road)]"

text \<open>Whether to wait, and the commands: unless it is the only road, the first command is run on its own.\<close>

definition remove_plan :: "edge_db \<Rightarrow> string \<Rightarrow> (bool \<times> string list) tool" where
  "remove_plan d vip =
     (case find (\<lambda>road. elrp_ip (LRP_EDGE_TO_OUT road) = vip) (dl_ecmp_road d) of
        None \<Rightarrow> Inl (TPToolErr (''failed to search ecmp path by using vip:'' @ vip))
      | Some road \<Rightarrow> Inr (length (dl_ecmp_road d) \<noteq> 1, remove_cmds road))"

definition remove_road :: "'s host \<Rightarrow> edge_conf \<Rightarrow> string \<Rightarrow> (bool \<times> string list) tool \<Rightarrow> ('s, unit tool) state" where
  "remove_road H K answer plan =
     (case plan of
        Inl e \<Rightarrow> ret (Inl e)
      | Inr (should_wait, cmds) \<Rightarrow>
          run_plan H K answer (Inr cmds) (\<lambda>cmds.
            if should_wait then ecmp_execute_cmds H K (tl cmds) (Some (hd cmds)) None
            else ecmp_execute_cmds H K cmds None None))"

section \<open>Options\<close>

record edge_options =
  eo_op :: string
  eo_vip :: "string option"
  eo_virt :: string
  eo_inner :: string
  eo_ext_gw :: string
  eo_phy_br :: string

text \<open>The two parts of an address with its prefix, each well formed.\<close>

definition cidr :: "string \<Rightarrow> (string \<times> string) option" where
  "cidr s =
     (case split_on CHR ''/'' s of
        [ip, prefix] \<Rightarrow> if inet_aton ip \<noteq> None \<and> py_int prefix \<noteq> None then Some (ip, prefix) else None
      | _ \<Rightarrow> None)"

definition sanity_check_options :: "edge_options \<Rightarrow> bool" where
  "sanity_check_options eo \<longleftrightarrow>
     eo_op eo \<in> set [''add'', ''init'', ''remove''] \<and>
     Option.bind (eo_vip eo) cidr \<noteq> None \<and>
     (eo_op eo = ''init'' \<longrightarrow>
        cidr (eo_virt eo) \<noteq> None \<and>
        (case cidr (eo_inner eo) of
           None \<Rightarrow> False
         | Some (ip, prefix) \<Rightarrow> (case py_int prefix of Some n \<Rightarrow> n \<ge> 2 | None \<Rightarrow> False)) \<and>
        inet_aton (eo_ext_gw eo) \<noteq> None)"

text \<open>\<open>check_env\<close>: the id of the host, with the checks; a \<open>remove\<close> needs none but that \<open>tpctl\<close> works.\<close>

definition check_host :: "'s host \<Rightarrow> edge_options \<Rightarrow> edge_db \<Rightarrow> string \<Rightarrow> ('s, unit tool) state" where
  "check_host H eo d sys_id =
     (if eo_op eo \<noteq> ''init'' \<and> eo_op eo \<noteq> ''add'' then ret (Inr ())
      else if sys_id = [] then ret (Inl (TPToolErr ''failed to get ovs system-id''))
      else (case datalog_check_chassis_exist d sys_id of
              Inl e \<Rightarrow> ret (Inl e)
            | Inr _ \<Rightarrow>
                if eo_phy_br eo = ''br-int'' then ret (Inl (TPToolErr ''phy_br should not be a tuplenet bridge''))
                else do {
                  r \<leftarrow> ovs_vsctl H [''get'', ''bridge'', eo_phy_br eo, ''datapath_id''];
                  ret (case r of
                         None \<Rightarrow> Inl (TPToolErr (''please check if we have ovs bridge '' @ eo_phy_br eo))
                       | Some _ \<Rightarrow> Inr ()) }))"

definition check_env :: "'s host \<Rightarrow> edge_conf \<Rightarrow> edge_options \<Rightarrow> edge_db \<Rightarrow> ('s, string tool) state" where
  "check_env H K eo d = do {
     sid \<leftarrow> ovs_system_id H;
     (case sid of
        None \<Rightarrow> ret (Inl Python_error)
      | Some sys_id \<Rightarrow> do {
          r \<leftarrow> check_host H eo d sys_id;
          (case r of
             Inl e \<Rightarrow> ret (Inl e)
           | Inr _ \<Rightarrow> do {
               r' \<leftarrow> tpctl_execute H K [''tpctl --help'', ''tpctl lr show''];
               ret (case r' of None \<Rightarrow> Inl Python_error | Some _ \<Rightarrow> Inr sys_id) }) }) }"

text \<open>
  \<open>main\<close>, after the options were found sane. \<open>answer\<close> is what the operator types. The result is the status the
  process ends with: a \<open>TPToolErr\<close> of the operation is reported, everything else, those of the checks too, is
  not caught.
\<close>

definition vip_parts :: "edge_options \<Rightarrow> string \<times> string" where
  "vip_parts eo = (case Option.bind (eo_vip eo) cidr of Some x \<Rightarrow> x | None \<Rightarrow> ([], []))"

definition edge_operation :: "'s host \<Rightarrow> edge_conf \<Rightarrow> edge_options \<Rightarrow> edge_db \<Rightarrow> e_lrp option \<Rightarrow> string \<Rightarrow>
    ('s, unit tool) state" where
  "edge_operation H K eo d inner_port answer =
     (if eo_op eo = ''add'' then init_road H K answer True (add_plan K d inner_port (vip_parts eo))
      else if eo_op eo = ''remove'' then remove_road H K answer (remove_plan d (fst (vip_parts eo)))
      else if eo_op eo = ''init'' then
        (case (cidr (eo_virt eo), cidr (eo_inner eo)) of
           (Some virt, Some inner) \<Rightarrow>
             init_road H K answer False (init_plan K d (vip_parts eo) virt inner (eo_ext_gw eo))
         | _ \<Rightarrow> ret (Inl Python_error))
      else ret (Inr ()))"

definition edge_main :: "'s host \<Rightarrow> edge_conf \<Rightarrow> edge_options \<Rightarrow> edge_db \<Rightarrow> e_lrp option \<Rightarrow> string \<Rightarrow> ('s, int) state" where
  "edge_main H K eo d inner_port answer = do {
     r \<leftarrow> check_env H K eo d;
     (case r of
        Inl e \<Rightarrow> ret 1
      | Inr sys_id \<Rightarrow> do {
          r' \<leftarrow> edge_operation H (K\<lparr>edge_system_id := sys_id\<rparr>) eo d inner_port answer;
          ret (case r' of Inr _ \<Rightarrow> 0 | Inl (TPToolErr _) \<Rightarrow> -1 | Inl Python_error \<Rightarrow> 1) }) }"

end
