(* ===== verification/Edge_Props.thy ===== *)
theory Edge_Props imports Edge_Operate Addresses begin

text \<open>
  What the planning of an edge guarantees: its names are fresh, the address of the central router is a free
  host of the inner network, and the commands run in an order in which the network keeps a road.
\<close>

section \<open>Names\<close>

lemma entity_name_inject: "entity_name t p i = entity_name t p j \<longleftrightarrow> i = j"
  by (simp add: entity_name_def)

lemma name_from_ends:
  assumes "\<not> datalog_is_entity_exist d (entity_name t p (i + n))"
  shows "\<exists>k. name_from d t p i = Some (entity_name t p (i + k)) \<and> k \<le> n \<and>
    \<not> datalog_is_entity_exist d (entity_name t p (i + k)) \<and> (\<forall>j < k. datalog_is_entity_exist d (entity_name t p (i + j)))"
  using assms
proof (induction n arbitrary: i)
  case 0
  then show ?case by (intro exI [of _ 0]) (simp add: name_from.simps)
next
  case (Suc n)
  show ?case
  proof (cases "datalog_is_entity_exist d (entity_name t p i)")
    case False
    then show ?thesis by (intro exI [of _ 0]) (simp add: name_from.simps)
  next
    case True
    from Suc.IH [of "i + 1"] Suc.prems obtain k where k: "name_from d t p (i + 1) = Some (entity_name t p (i + 1 + k))"
        "k \<le> n" "\<not> datalog_is_entity_exist d (entity_name t p (i + 1 + k))"
        "\<forall>j < k. datalog_is_entity_exist d (entity_name t p (i + 1 + j))" by auto
    have "datalog_is_entity_exist d (entity_name t p (i + j))" if "j < Suc k" for j
      using that k(4) True by (cases j) auto
    then show ?thesis using k True by (intro exI [of _ "Suc k"]) (subst name_from.simps, simp)
  qed
qed

lemma free_name:
  "\<exists>i. 1 \<le> i \<and> i \<le> length (uuids d) + 1 \<and> \<not> datalog_is_entity_exist d (entity_name t p i)"
proof (rule ccontr)
  assume "\<not> ?thesis"
  then have "entity_name t p ` {1..length (uuids d) + 1} \<subseteq> set (uuids d)"
    by (auto simp: datalog_is_entity_exist_def)
  moreover have "inj_on (entity_name t p) {1..length (uuids d) + 1}"
    by (simp add: inj_on_def entity_name_inject)
  ultimately have "length (uuids d) + 1 \<le> card (set (uuids d))"
    using card_inj_on_le [of "entity_name t p" "{1..length (uuids d) + 1}" "set (uuids d)"] by simp
  then show False using card_length [of "uuids d"] by simp
qed

lemma name_found:
  obtains i where "new_entity_name d t p = Some (entity_name t p i)" and "1 \<le> i" and "i \<le> length (uuids d) + 1"
    and "entity_name t p i \<notin> set (uuids d)" and "\<forall>j. 1 \<le> j \<and> j < i \<longrightarrow> entity_name t p j \<in> set (uuids d)"
proof -
  obtain m where m: "1 \<le> m" "m \<le> length (uuids d) + 1" "\<not> datalog_is_entity_exist d (entity_name t p m)"
    using free_name by blast
  then have "\<not> datalog_is_entity_exist d (entity_name t p (1 + (m - 1)))" by simp
  from name_from_ends [OF this] obtain k where k: "name_from d t p 1 = Some (entity_name t p (1 + k))" "k \<le> m - 1"
      "\<not> datalog_is_entity_exist d (entity_name t p (1 + k))"
      and below: "\<forall>j < k. datalog_is_entity_exist d (entity_name t p (1 + j))" by blast
  have "entity_name t p j \<in> set (uuids d)" if "1 \<le> j" "j < 1 + k" for j
    using below [rule_format, of "j - 1"] that by (simp add: datalog_is_entity_exist_def)
  then show ?thesis
    using that [of "1 + k"] k m(2) by (simp add: new_entity_name_def datalog_is_entity_exist_def)
qed

text \<open>
  C30. The search for a name ends, after at most one step more than there are entities: the name is that of
  no entity and has the first number of which this is so.
\<close>

theorem entity_names_are_fresh:
  "\<exists>i name. new_entity_name d t p = Some name \<and> name = entity_name t p i \<and> 1 \<le> i \<and> i \<le> length (uuids d) + 1 \<and>
    name \<notin> set (uuids d) \<and> entity_name t p ` {1..<i} \<subseteq> set (uuids d)"
proof -
  obtain i where "new_entity_name d t p = Some (entity_name t p i)" "1 \<le> i" "i \<le> length (uuids d) + 1"
      "entity_name t p i \<notin> set (uuids d)" "\<forall>j. 1 \<le> j \<and> j < i \<longrightarrow> entity_name t p j \<in> set (uuids d)"
    by (rule name_found)
  then show ?thesis by (intro exI [of _ i] exI [of _ "entity_name t p i"]) auto
qed

section \<open>The address of the central router\<close>

abbreviation occupied :: "edge_db \<Rightarrow> string \<Rightarrow> bool" where
  "occupied d ip \<equiv> ip \<in> elsp_ip ` set (lsports d) \<or> ip \<in> elrp_ip ` set (lrports d)"

lemma check_one: "datalog_check_port_occupied_ip d [ip] = Inr () \<longleftrightarrow> \<not> occupied d ip"
  by (auto simp: list_ex_iff)

lemma free_below_some:
  "free_below d lo n = Some ip \<Longrightarrow>
     \<exists>k. 1 \<le> k \<and> k \<le> n \<and> ip = inet_ntoa (lo + k) \<and> \<not> occupied d ip \<and> (\<forall>j. k < j \<and> j \<le> n \<longrightarrow> occupied d (inet_ntoa (lo + j)))"
proof (induction n)
  case (Suc n)
  show ?case
  proof (cases "occupied d (inet_ntoa (lo + Suc n))")
    case True
    then have "datalog_check_port_occupied_ip d [inet_ntoa (lo + Suc n)] \<noteq> Inr ()" by (simp only: check_one) simp
    then have "free_below d lo n = Some ip"
      using Suc.prems by (auto simp: Let_def split: sum.splits simp del: datalog_check_port_occupied_ip.simps)
    from Suc.IH [OF this] obtain k where k: "1 \<le> k" "k \<le> n" "ip = inet_ntoa (lo + k)" "\<not> occupied d ip"
        "\<forall>j. k < j \<and> j \<le> n \<longrightarrow> occupied d (inet_ntoa (lo + j))" by blast
    then show ?thesis using True by (intro exI [of _ k]) (auto simp: le_Suc_eq)
  next
    case False
    then have "datalog_check_port_occupied_ip d [inet_ntoa (lo + Suc n)] = Inr ()" by (simp only: check_one) simp
    then have "ip = inet_ntoa (lo + Suc n)"
      using Suc.prems by (simp add: Let_def del: datalog_check_port_occupied_ip.simps)
    then show ?thesis using False by (intro exI [of _ "Suc n"]) auto
  qed
qed simp

lemma free_below_none:
  "free_below d lo n = None \<Longrightarrow> 1 \<le> k \<Longrightarrow> k \<le> n \<Longrightarrow> occupied d (inet_ntoa (lo + k))"
proof (induction n)
  case (Suc n)
  have "datalog_check_port_occupied_ip d [inet_ntoa (lo + Suc n)] \<noteq> Inr ()"
    using Suc.prems(1) by (auto simp: Let_def simp del: datalog_check_port_occupied_ip.simps)
  then have "occupied d (inet_ntoa (lo + Suc n))" by (simp only: check_one) simp
  moreover have "free_below d lo n = None"
    using Suc.prems(1) by (auto simp: Let_def split: sum.splits simp del: datalog_check_port_occupied_ip.simps)
  ultimately show ?case using Suc by (auto simp: le_Suc_eq)
qed simp

lemma ones_shifted:
  assumes "p \<le> 32"
  shows "drop_bit p (0xffffffff :: nat) = 2 ^ (32 - p) - 1"
proof -
  have one: "(2 :: nat) ^ (32 - p) * 2 ^ p = 2 ^ 32" using assms by (simp flip: power_add)
  have "(2 ^ (32 - p) - 1) * 2 ^ p \<le> (0xffffffff :: nat)"
  proof -
    have "(2 ^ (32 - p) - 1) * 2 ^ p = 2 ^ 32 - (2 :: nat) ^ p" using one by (simp add: diff_mult_distrib)
    also have "\<dots> \<le> 2 ^ 32 - 1" by (rule diff_le_mono2) simp
    finally show ?thesis by simp
  qed
  moreover have "(0xffffffff :: nat) < Suc (2 ^ (32 - p) - 1) * 2 ^ p" using one by simp
  ultimately show ?thesis unfolding drop_bit_eq_div by (intro div_nat_eqI) (simp_all add: mult.commute)
qed

lemma network_size:
  assumes "m \<le> 32" and "ip_int < (2 :: nat) ^ 32"
  shows "ip_int div 2 ^ m * 2 ^ m + (2 ^ m - 1) < 2 ^ 32"
proof -
  have "ip_int div 2 ^ m < 2 ^ (32 - m)"
    using assms by (intro less_mult_imp_div_less) (simp flip: power_add)
  then have "Suc (ip_int div 2 ^ m) * 2 ^ m \<le> 2 ^ (32 - m) * 2 ^ m" by (intro mult_right_mono) simp_all
  also have "\<dots> = (2 :: nat) ^ 32" using assms(1) by (simp flip: power_add)
  finally have "ip_int div 2 ^ m * 2 ^ m + 2 ^ m \<le> 2 ^ 32" by simp
  moreover have "(0 :: nat) < 2 ^ m" by simp
  ultimately show ?thesis by linarith
qed

text \<open>
  C31. The address of the central router's port is a host of the inner network, neither its first nor its
  last address, that no port has, and every higher host of the network is taken. There is none only when
  all hosts are taken.
\<close>

theorem central_address_is_free_host:
  assumes "ip_int < 2 ^ 32" and "0 \<le> prefix" and "prefix \<le> 32"
    and "m = nat (32 - prefix)" and "lo = ip_int div 2 ^ m * 2 ^ m" and "hi = lo + (2 ^ m - 1)"
  shows "case gen_lrp_property d ip_int prefix of
      Inr a \<Rightarrow> \<exists>k. inet_aton a = Some k \<and> a = inet_ntoa k \<and> lo < k \<and> k < hi \<and> k div 2 ^ m = ip_int div 2 ^ m \<and>
        \<not> occupied d a \<and> (\<forall>j. k < j \<and> j < hi \<longrightarrow> occupied d (inet_ntoa j))
    | Inl e \<Rightarrow> e = TPToolErr ''cannot found a lrp due to ip confict'' \<and> (\<forall>j. lo < j \<and> j < hi \<longrightarrow> occupied d (inet_ntoa j))"
proof -
  have m: "m \<le> 32" "nat prefix \<le> 32" "32 - nat prefix = m" using assms(2-4) by auto
  have hi: "hi < 2 ^ 32" using network_size [OF m(1) assms(1)] assms(5,6) by simp
  let ?r = "free_below d lo (hi - 1 - lo)"
  have gen: "gen_lrp_property d ip_int prefix =
      (case ?r of Some ip \<Rightarrow> Inr ip | None \<Rightarrow> Inl (TPToolErr ''cannot found a lrp due to ip confict''))"
    using assms ones_shifted [OF m(2)] m(3) by (simp add: gen_lrp_property_def Let_def push_bit_eq_mult drop_bit_eq_div)
  show ?thesis
  proof (cases ?r)
    case None
    have "occupied d (inet_ntoa j)" if "lo < j" "j < hi" for j
      using free_below_none [OF None, of "j - lo"] that by simp
    then show ?thesis unfolding gen None by simp
  next
    case (Some a)
    from free_below_some [OF this] obtain k where k: "1 \<le> k" "k \<le> hi - 1 - lo" "a = inet_ntoa (lo + k)" "\<not> occupied d a"
        and above: "\<forall>j. k < j \<and> j \<le> hi - 1 - lo \<longrightarrow> occupied d (inet_ntoa (lo + j))" by blast
    have range: "lo < lo + k" "lo + k < hi" using k(1,2) assms(6) by auto
    have "(lo + k) div 2 ^ m = ip_int div 2 ^ m"
      using range(2) assms(5,6) by (intro div_nat_eqI) auto
    moreover have "occupied d (inet_ntoa j)" if "lo + k < j" "j < hi" for j
    proof -
      have "k < j - lo" "j - lo \<le> hi - 1 - lo" "lo + (j - lo) = j" using that by auto
      then show ?thesis using above by metis
    qed
    moreover have "inet_aton a = Some (lo + k)" using k(3) range(2) hi by (simp add: inet_aton_ntoa)
    ultimately show ?thesis using k(3,4) range unfolding gen Some by auto
  qed
qed

theorem central_address_is_free_host_witness:
  "\<exists>a k. gen_lrp_property empty_db 0x64405864 24 = Inr a \<and> inet_aton a = Some k \<and> 0x64405800 < k \<and> k < 0x644058ff"
proof -
  have c: "case gen_lrp_property empty_db 0x64405864 24 of
      Inr a \<Rightarrow> \<exists>k. inet_aton a = Some k \<and> a = inet_ntoa k \<and> 0x64405800 < k \<and> k < 0x644058ff \<and> k div 2 ^ 8 = 0x64405864 div 2 ^ 8 \<and>
        \<not> occupied empty_db a \<and> (\<forall>j. k < j \<and> j < 0x644058ff \<longrightarrow> occupied empty_db (inet_ntoa j))
    | Inl e \<Rightarrow> e = TPToolErr ''cannot found a lrp due to ip confict'' \<and>
        (\<forall>j. 0x64405800 < j \<and> j < 0x644058ff \<longrightarrow> occupied empty_db (inet_ntoa j))"
    by (rule central_address_is_free_host) simp_all
  show ?thesis
  proof (cases "gen_lrp_property empty_db 0x64405864 24")
    case (Inl e)
    then have "occupied empty_db (inet_ntoa 0x64405801)" using c by simp
    then show ?thesis by (simp add: empty_db_def)
  next
    case (Inr a)
    then show ?thesis using c by auto
  qed
qed

section \<open>The order of a plan\<close>

text \<open>
  What a command refers to and what it creates, from its words: a link of a router with a switch makes the
  port of the router by the name that the plan uses.
\<close>

definition needs :: "string list \<Rightarrow> string list" where
  "needs ws =
     (let what = take 2 (drop 1 ws) in
      if what = [''lr'', ''link''] then [ws ! 3, ws ! 4]
      else if what = [''patchport'', ''add''] then [ws ! 3]
      else if what = [''lsr'', ''add''] then [ws ! 3, ws ! 7]
      else [])"

definition gives :: "string list \<Rightarrow> string list" where
  "gives ws =
     (let what = take 2 (drop 1 ws) in
      if what = [''ls'', ''add''] \<or> what = [''lr'', ''add''] then [ws ! 3]
      else if what = [''lr'', ''link''] then [port_to (ws ! 3) (ws ! 4)]
      else [])"

fun in_order :: "string set \<Rightarrow> string list list \<Rightarrow> bool" where
  "in_order known [] \<longleftrightarrow> True"
| "in_order known (c # cs) \<longleftrightarrow> set (needs c) \<subseteq> known \<and> in_order (known \<union> set (gives c)) cs"

definition token :: "string \<Rightarrow> bool" where
  "token w \<longleftrightarrow> w \<noteq> [] \<and> list_all (\<lambda>c. \<not> is_space c) w"

lemma words_single: "token w \<Longrightarrow> words w = [w]"
proof (induction w)
  case (Cons c w)
  then show ?case by (cases w) (simp_all add: token_def)
qed (simp add: token_def)

lemma words_more: "token w \<Longrightarrow> words (w @ CHR '' '' # r) = w # words r"
proof (induction w)
  case (Cons c w)
  have blank: "is_space (CHR '' '')" by (simp add: is_space_def)
  show ?case
  proof (cases w)
    case Nil
    then show ?thesis using Cons.prems blank by (simp add: token_def)
  next
    case (Cons x xs)
    then show ?thesis using Cons.IH Cons.prems by (simp add: token_def)
  qed
qed (simp add: token_def)

lemma token_append: "token v \<Longrightarrow> token w \<Longrightarrow> token (v @ w)"
  by (simp add: token_def)

lemma token_glue: "token v \<Longrightarrow> token w \<Longrightarrow> \<not> is_space c \<Longrightarrow> token (v @ c # w)"
  by (simp add: token_def)

lemma token_nat [simp]: "token (nat_str n)"
  using nat_str_plain(2) by (auto simp: token_def list_all_iff)

lemma token_name: "token t \<Longrightarrow> token p \<Longrightarrow> token (entity_name t p i)"
  using token_nat [of i] by (simp add: entity_name_def token_def is_space_def)

lemma token_address: "token (inet_ntoa n)"
  using inet_ntoa_no_space [of n] by (simp add: token_def list_all_iff takeWhile_eq_all_conv) (simp add: inet_ntoa_def)

lemma words_join: "ws \<noteq> [] \<Longrightarrow> list_all token ws \<Longrightarrow> words (join_with '' '' ws) = ws"
proof (induction "'' ''" ws rule: join_with.induct)
  case (3 x y zs)
  then show ?case using words_more [of x "join_with '' '' (y # zs)"] by (simp del: words.simps)
qed (simp_all add: words_single del: words.simps)

lemma token_literals:
  "token ''tpctl''" "token ''lr''" "token ''ls''" "token ''link''" "token ''add''" "token ''lsr''" "token ''patchport''"
  by (simp_all add: token_def is_space_def)

lemma token_cidr: "token ip \<Longrightarrow> token prefix \<Longrightarrow> token (ip @ ''/'' @ prefix)"
  using token_glue [of ip prefix "CHR ''/''"] by (simp add: is_space_def)

lemma token_port: "token lr \<Longrightarrow> token ls \<Longrightarrow> token (port_to lr ls)"
  by (simp add: port_to_def token_def is_space_def)

lemma words_link:
  "token lr \<Longrightarrow> token ls \<Longrightarrow> token ip \<Longrightarrow> token prefix \<Longrightarrow>
     words (cmd_new_link lr ls ip prefix) = [''tpctl'', ''lr'', ''link'', lr, ls, ip @ ''/'' @ prefix]"
  using words_join [of "[''tpctl'', ''lr'', ''link'', lr, ls, ip @ ''/'' @ prefix]"] token_literals token_cidr
  by (simp add: cmd_new_link_def del: words.simps)

lemma words_add:
  "token name \<Longrightarrow> words (cmd_new_ls name) = [''tpctl'', ''ls'', ''add'', name]"
  "token name \<Longrightarrow> token ch \<Longrightarrow> words (cmd_new_lr name (Some ch)) = [''tpctl'', ''lr'', ''add'', name, ch]"
  using words_join [of "[''tpctl'', ''ls'', ''add'', name]"] words_join [of "[''tpctl'', ''lr'', ''add'', name, ch]"] token_literals
  by (simp_all add: cmd_new_ls_def cmd_new_lr_def del: words.simps)

lemma words_patchport:
  "token ls \<Longrightarrow> token port \<Longrightarrow> token ch \<Longrightarrow> token br \<Longrightarrow>
     words (cmd_new_patchport ls port ch br) = [''tpctl'', ''patchport'', ''add'', ls, port, ch, br]"
  using words_join [of "[''tpctl'', ''patchport'', ''add'', ls, port, ch, br]"] token_literals
  by (simp add: cmd_new_patchport_def del: words.simps)

definition lsr_name :: "string \<Rightarrow> string \<Rightarrow> string \<Rightarrow> string \<Rightarrow> string \<Rightarrow> string" where
  "lsr_name lr ip prefix nh port = lr @ ''_'' @ ip @ ''-'' @ prefix @ ''_to_'' @ nh @ ''_'' @ port"

lemma words_lsr:
  assumes "token lr" "token ip" "token prefix" "token nh" "token port"
  shows "words (cmd_new_lsr lr ip prefix nh port) =
    [''tpctl'', ''lsr'', ''add'', lr, lsr_name lr ip prefix nh port, ip @ ''/'' @ prefix, nh, port]"
proof -
  have "token (lsr_name lr ip prefix nh port)" using assms by (simp add: lsr_name_def token_def is_space_def)
  then show ?thesis
    using words_join [of "[''tpctl'', ''lsr'', ''add'', lr, lsr_name lr ip prefix nh port, ip @ ''/'' @ prefix, nh, port]"]
      token_literals token_cidr assms
    by (simp add: cmd_new_lsr_def lsr_name_def del: words.simps)
qed

definition created :: "string list \<Rightarrow> string list" where
  "created cmds =
     map (\<lambda>c. words c ! 3) (filter (\<lambda>c. take 2 (drop 1 (words c)) \<in> {[''ls'', ''add''], [''lr'', ''add'']}) cmds)"

lemma gen_token: "gen_lrp_property d ip_int prefix = Inr a \<Longrightarrow> token a"
  using free_below_some token_address
  by (fastforce simp: gen_lrp_property_def Let_def split: if_splits option.splits)

lemma new_names:
  assumes "token t" and "token p" and "new_entity_name d t p = Some name"
  obtains i where "name = entity_name t p i" and "token name" and "name \<notin> set (uuids d)"
proof -
  obtain i where "new_entity_name d t p = Some (entity_name t p i)" "entity_name t p i \<notin> set (uuids d)"
    by (rule name_found)
  then show thesis using that token_name [OF assms(1,2)] assms(3) by simp
qed

lemma in_order_plan:
  assumes "list_all token [central, out_ls, edge_lr, inner_ls, patchport, a, sid, br, ip1, pr1, ip2, pr2, ip3, pr3, ip4, pr4, ip5, pr5, gw]"
    and "central \<noteq> edge_lr"
  shows "in_order {central} (map words
      [cmd_new_ls out_ls, cmd_new_lr edge_lr (Some sid), cmd_new_ls inner_ls, cmd_new_patchport out_ls patchport sid br,
       cmd_new_link edge_lr out_ls ip1 pr1, cmd_new_link edge_lr inner_ls ip2 pr2, cmd_new_link central inner_ls a pr2,
       cmd_new_lsr edge_lr ip3 pr3 gw (port_to edge_lr out_ls), cmd_new_lsr edge_lr ip4 pr4 a (port_to edge_lr inner_ls),
       cmd_new_lsr central ip5 pr5 ip2 (port_to central inner_ls)])"
  using assms
  by (simp add: words_add words_patchport words_link words_lsr token_port needs_def gives_def Let_def del: words.simps)

text \<open>
  C32. A plan for a new road can be run from the front: every command refers only to the central router and
  to what an earlier command creates. The names it creates are new and different, and the route of the central
  router over the new road is the last command: nothing before it sends packets there.
\<close>

theorem plans_run_in_order:
  assumes "road_cmds K d central vip virt out inner edge_net gw = Inr cmds" and "central \<in> set (uuids d)"
    and "list_all token [central, edge_system_id K, HOST_BR_PHY K, fst vip, snd vip, fst virt, snd virt, fst out, snd out,
      fst inner, snd inner, fst edge_net, snd edge_net, gw]"
  shows "in_order {central} (map words cmds) \<and> distinct (created cmds) \<and> set (created cmds) \<inter> set (uuids d) = {} \<and>
    (\<exists>front inner_ls. cmds = front @ [cmd_new_lsr central (fst edge_net) (snd edge_net) (fst inner) (port_to central inner_ls)] \<and>
      list_all (\<lambda>c. take 4 (words c) \<noteq> [''tpctl'', ''lsr'', ''add'', central]) front)"
proof -
  have lits: "token ''LS''" "token ''LR''" "token ''lsp''" "token ''outside''" "token ''edge''" "token ''m''" "token ''-patchport''"
    by (simp_all add: token_def is_space_def)
  obtain out_ls edge_lr inner_ls patchport ip_int pr a
    where n: "new_entity_name d ''LS'' ''outside'' = Some out_ls" "new_entity_name d ''LR'' ''edge'' = Some edge_lr"
      "new_entity_name d ''LS'' ''m'' = Some inner_ls" "new_entity_name d ''lsp'' (out_ls @ ''-patchport'') = Some patchport"
      and g: "gen_lrp_property d ip_int pr = Inr a"
      and cmds: "cmds = [cmd_new_ls out_ls, cmd_new_lr edge_lr (Some (edge_system_id K)), cmd_new_ls inner_ls,
        cmd_new_patchport out_ls patchport (edge_system_id K) (HOST_BR_PHY K),
        cmd_new_link edge_lr out_ls (fst vip) (snd vip), cmd_new_link edge_lr inner_ls (fst inner) (snd inner),
        cmd_new_link central inner_ls a (snd inner), cmd_new_lsr edge_lr (fst out) (snd out) gw (port_to edge_lr out_ls),
        cmd_new_lsr edge_lr (fst virt) (snd virt) a (port_to edge_lr inner_ls),
        cmd_new_lsr central (fst edge_net) (snd edge_net) (fst inner) (port_to central inner_ls)]"
    using assms(1) by (auto simp: road_cmds_def and_try_def split: option.splits sum.splits if_splits)
  obtain i where i: "out_ls = entity_name ''LS'' ''outside'' i" "token out_ls" "out_ls \<notin> set (uuids d)"
    using new_names [OF lits(1,4) n(1)] by blast
  obtain j where j: "edge_lr = entity_name ''LR'' ''edge'' j" "token edge_lr" "edge_lr \<notin> set (uuids d)"
    using new_names [OF lits(2,5) n(2)] by blast
  obtain k where k: "inner_ls = entity_name ''LS'' ''m'' k" "token inner_ls" "inner_ls \<notin> set (uuids d)"
    using new_names [OF lits(1,6) n(3)] by blast
  have p: "token patchport" using new_names [OF lits(3) token_append [OF i(2) lits(7)] n(4)] by blast
  have ne: "central \<noteq> edge_lr" using assms(2) j(3) by auto
  have a: "token a" by (rule gen_token [OF g])
  have "in_order {central} (map words cmds)"
    unfolding cmds by (rule in_order_plan) (use assms(3) i(2) j(2) k(2) p a ne in simp_all)
  moreover have "created cmds = [out_ls, edge_lr, inner_ls]"
    using assms(3) i(2) j(2) k(2) p a
    by (simp add: cmds created_def words_add words_patchport words_link words_lsr token_port del: words.simps)
  moreover have "distinct [out_ls, edge_lr, inner_ls]" by (simp add: i(1) j(1) k(1) entity_name_def)
  moreover have "list_all (\<lambda>c. take 4 (words c) \<noteq> [''tpctl'', ''lsr'', ''add'', central]) (butlast cmds)"
    using assms(3) i(2) j(2) k(2) p a ne
    by (simp add: cmds words_add words_patchport words_link words_lsr token_port del: words.simps)
  moreover have "cmds = butlast cmds @ [cmd_new_lsr central (fst edge_net) (snd edge_net) (fst inner) (port_to central inner_ls)]"
    by (simp add: cmds)
  ultimately show ?thesis using i(3) j(3) k(3) by auto
qed

definition demo_edge_db :: edge_db where
  "demo_edge_db = empty_db\<lparr>routers := [(''LR-central'', None)], switches := [''tp_LS_m1'']\<rparr>"

definition demo_conf :: edge_conf where
  "demo_conf = \<lparr>TUPLENET_DIR = ''/tuplenet/'', ETCD_ENDPOINT = ''localhost:2379'', edge_system_id = ''hv1'', HOST_BR_PHY = ''br0''\<rparr>"

definition demo_plan :: "string list tool" where
  "demo_plan = road_cmds demo_conf demo_edge_db ''LR-central'' (''2.2.2.2'', ''24'') (''5.5.0.0'', ''16'') (''0.0.0.0'', ''0'')
     (''100.64.88.101'', ''30'') (''0.0.0.0'', ''0'') ''2.2.2.1''"

lemma demo_plan_made: "\<exists>cmds. demo_plan = Inr cmds"
proof -
  have quad: "inet_ntoa 0x64405865 = ''100.64.88.101''"
    by (simp add: inet_ntoa_def nat_str_def num_str.simps digit_char_def)
  then have ip: "inet_aton ''100.64.88.101'' = Some 0x64405865" using inet_aton_ntoa [of "0x64405865"] by simp
  have pr: "py_int ''30'' = Some 30" using py_int_nat_str [of 30] by (simp add: nat_str_def num_str.simps digit_char_def)
  have "free_below demo_edge_db 0x64405864 2 = Some (inet_ntoa 0x64405866)"
    by (simp add: numeral_2_eq_2 demo_edge_db_def empty_db_def Let_def)
  then have gen: "gen_lrp_property demo_edge_db 0x64405865 30 = Inr (inet_ntoa 0x64405866)"
    by (simp add: gen_lrp_property_def Let_def push_bit_eq_mult drop_bit_eq_div)
  have ne: "inet_ntoa 0x64405866 \<noteq> ''100.64.88.101''"
    using inet_aton_ntoa [of "0x64405866"] ip by auto
  obtain i j k where n: "new_entity_name demo_edge_db ''LS'' ''outside'' = Some (entity_name ''LS'' ''outside'' i)"
      "new_entity_name demo_edge_db ''LR'' ''edge'' = Some (entity_name ''LR'' ''edge'' j)"
      "new_entity_name demo_edge_db ''LS'' ''m'' = Some (entity_name ''LS'' ''m'' k)"
    by (metis name_found)
  obtain l where "new_entity_name demo_edge_db ''lsp'' (entity_name ''LS'' ''outside'' i @ ''-patchport'') =
      Some (entity_name ''lsp'' (entity_name ''LS'' ''outside'' i @ ''-patchport'') l)"
    by (metis name_found)
  then show ?thesis using ne by (simp add: demo_plan_def road_cmds_def and_try_def n ip pr gen)
qed

theorem plans_run_in_order_witness:
  "\<exists>cmds. demo_plan = Inr cmds \<and> in_order {''LR-central''} (map words cmds) \<and> distinct (created cmds)"
proof -
  obtain cmds where c: "demo_plan = Inr cmds" using demo_plan_made by (auto split: sum.splits)
  have t: "list_all token [''LR-central'', edge_system_id demo_conf, HOST_BR_PHY demo_conf, ''2.2.2.2'', ''24'', ''5.5.0.0'', ''16'',
      ''0.0.0.0'', ''0'', ''100.64.88.101'', ''30'', ''0.0.0.0'', ''0'', ''2.2.2.1'']"
    by (simp add: demo_conf_def token_def is_space_def)
  have u: "''LR-central'' \<in> set (uuids demo_edge_db)" by (simp add: demo_edge_db_def uuids_def)
  show ?thesis
    using plans_run_in_order [OF c [unfolded demo_plan_def] u] t c by auto
qed

section \<open>Running a plan\<close>

lemma each_ok_append:
  fixes f :: "'a \<Rightarrow> ('s, 'b) prog"
  shows "each_ok f (xs @ ys) = do { r \<leftarrow> each_ok f xs; (case r of None \<Rightarrow> ret None | Some _ \<Rightarrow> each_ok f ys) }"
proof (induction xs)
  case (Cons x xs)
  have "(case r of None \<Rightarrow> ret None | Some _ \<Rightarrow> each_ok f (xs @ ys)) =
      State_Monad.bind (case r of None \<Rightarrow> ret None | Some _ \<Rightarrow> each_ok f xs)
        (\<lambda>r. case r of None \<Rightarrow> ret None | Some _ \<Rightarrow> each_ok f ys)" for r :: "'b option"
    using Cons.IH by (cases r) simp_all
  then show ?case by (simp only: append_Cons each_ok.simps bind_assoc)
qed simp

lemma tpctl_append:
  "tpctl_execute H K (xs @ ys) =
     do { r \<leftarrow> tpctl_execute H K xs; (case r of None \<Rightarrow> ret None | Some _ \<Rightarrow> tpctl_execute H K ys) }"
  by (simp only: tpctl_execute_def each_ok_append)

lemma tpctl_last:
  assumes "cmds \<noteq> []"
  shows "tpctl_execute H K cmds = do {
     r \<leftarrow> tpctl_execute H K (butlast cmds);
     (case r of None \<Rightarrow> ret None | Some _ \<Rightarrow> tpctl_execute H K [last cmds]) }"
  using tpctl_append [of H K "butlast cmds" "[last cmds]"] assms by (simp only: append_butlast_last_id not_False_eq_True)

lemma then_done: "do { r \<leftarrow> m; (case r of None \<Rightarrow> ret None | Some _ \<Rightarrow> ret (Some ())) } = m" for m :: "('s, unit) prog"
proof -
  have "(\<lambda>r :: unit option. case r of None \<Rightarrow> ret None | Some _ \<Rightarrow> ret (Some ())) = (ret :: unit option \<Rightarrow> ('s, unit option) state)"
    by (rule ext) (simp split: option.split)
  then show ?thesis by (simp only: bind_right_identity)
qed

lemma execute_final:
  "cmds \<noteq> [] \<Longrightarrow> ecmp_execute_cmds H K (butlast cmds) None (Some (last cmds)) = tpctl_execute H K cmds"
  by (subst tpctl_last) (simp_all add: ecmp_execute_cmds_def cong: option.case_cong)

lemma execute_plain: "ecmp_execute_cmds H K cmds None None = tpctl_execute H K cmds"
  by (simp only: ecmp_execute_cmds_def option.case bind_left_identity then_done)

lemma execute_first:
  assumes "cmds \<noteq> []"
  shows "ecmp_execute_cmds H K (tl cmds) (Some (hd cmds)) None = tpctl_execute H K cmds"
proof -
  have "tpctl_execute H K cmds = do {
      r \<leftarrow> tpctl_execute H K [hd cmds]; (case r of None \<Rightarrow> ret None | Some _ \<Rightarrow> tpctl_execute H K (tl cmds)) }"
    using tpctl_append [of H K "[hd cmds]" "tl cmds"] assms by (simp only: append_Cons append_Nil list.collapse not_False_eq_True)
  then show ?thesis by (simp only: ecmp_execute_cmds_def option.case then_done)
qed

lemma road_cmds_nonempty: "road_cmds K d central vip virt out inner edge_net gw = Inr cmds \<Longrightarrow> cmds \<noteq> []"
  by (auto simp: road_cmds_def and_try_def split: option.splits sum.splits if_splits)

text \<open>
  Whether the tool waits before the route of the central router is added, or after its port is removed,
  changes neither the commands nor their order, and the first command that fails ends both; the route is
  added only when everything the road consists of was made.
\<close>

theorem waiting_keeps_the_order:
  "init_road H K ''yes'' should_wait (road_cmds K d central vip virt out inner edge_net gw) =
      (case road_cmds K d central vip virt out inner edge_net gw of
         Inl e \<Rightarrow> ret (Inl e)
       | Inr cmds \<Rightarrow> lift_tool (do {
           r \<leftarrow> tpctl_execute H K (butlast cmds);
           (case r of None \<Rightarrow> ret None | Some _ \<Rightarrow> tpctl_execute H K [last cmds]) })) \<and>
    remove_road H K ''yes'' (Inr (should_wait, remove_cmds road)) = lift_tool (tpctl_execute H K (remove_cmds road))"
proof -
  have "remove_cmds road \<noteq> []" by (simp add: remove_cmds_def)
  then have "remove_road H K ''yes'' (Inr (should_wait, remove_cmds road)) = lift_tool (tpctl_execute H K (remove_cmds road))"
    by (simp add: run_plan_def remove_road_def execute_first execute_plain)
  moreover have "init_road H K ''yes'' should_wait (Inr cmds) = lift_tool (tpctl_execute H K cmds)" if "cmds \<noteq> []" for cmds
    using that by (simp add: init_road_def run_plan_def execute_final execute_plain)
  moreover have "cmds \<noteq> []" if "road_cmds K d central vip virt out inner edge_net gw = Inr cmds" for cmds
    using road_cmds_nonempty that by blast
  moreover have "init_road H K ''yes'' should_wait (Inl e) = ret (Inl e)" for e
    by (simp add: init_road_def run_plan_def)
  ultimately show ?thesis
    by (cases "road_cmds K d central vip virt out inner edge_net gw") (simp_all only: sum.case tpctl_last simp_thms)
qed

end
