(* ===== verification/Ovsdb_Conn.thy ===== *)
theory Ovsdb_Conn imports Ovsdb begin

text \<open>
  The connection of \<open>OvsdbMan\<close> in \<open>lcp/ovsdbman.py\<close>: sending, reconnecting, the monitor and the turns of its
  thread. The socket, the clock, the random names and the coding of JSON are the fields of an \<open>ovs_io\<close>; the
  lock and the pauses between attempts are left out.
\<close>

section \<open>The client\<close>

text \<open>
  \<open>io_send\<close> gives how many characters were taken, \<open>None\<close> when the socket raises. What is received is
  decoded; a text that is not UTF-8 is an error like any other.
\<close>

datatype received = Recv_timeout | Recv_error | Recv_text string

record 's ovs_io =
  io_connect :: "('s, bool) state"
  io_send :: "string \<Rightarrow> ('s, nat) prog"
  io_recv :: "('s, received) state"
  io_clock :: "('s, int) state"
  io_randstr :: "('s, string) state"
  io_dump :: "json \<Rightarrow> string"
  io_decode :: "string \<Rightarrow> (json \<times> nat) option"

record 's ovs_client =
  oc_world :: 's
  oc_man :: ovsdb_man
  oc_zoo :: zoo
  stop_event :: bool

definition on_world :: "('s, 'a) state \<Rightarrow> ('s ovs_client, 'a) state" where
  "on_world m = State (\<lambda>c. case run_state m (oc_world c) of (x, w) \<Rightarrow> (x, c\<lparr>oc_world := w\<rparr>))"

definition upd_man :: "(ovsdb_man \<Rightarrow> ovsdb_man) \<Rightarrow> ('s ovs_client, unit) state" where
  "upd_man f = State_Monad.update (\<lambda>c. c\<lparr>oc_man := f (oc_man c)\<rparr>)"

datatype ovs_error = OVSDBErr | Socket_error

section \<open>Sending\<close>

text \<open>\<open>_send\<close>: what the socket did not take is sent again; a socket that takes nothing raises.\<close>

fun send_all :: "'s ovs_io \<Rightarrow> string \<Rightarrow> ('s, ovs_error + unit) state" where
  "send_all io msg =
     (if msg = [] then ret (Inr ())
      else do {
        sent \<leftarrow> io_send io msg;
        (case sent of
           None \<Rightarrow> ret (Inl Socket_error)
         | Some n \<Rightarrow> if n = 0 then ret (Inl OVSDBErr) else send_all io (drop n msg)) })"

declare send_all.simps [simp del]

definition echo_msg :: json where
  "echo_msg = JObj [(''method'', JStr ''echo''), (''id'', JStr ''echo_feedback''), (''params'', JList [])]"

definition monitor_msg :: "string \<Rightarrow> json" where
  "monitor_msg monitor_id =
     JObj [(''method'', JStr ''monitor''), (''id'', JStr monitor_id),
       (''params'', JList [JStr ''Open_vSwitch'', JNull,
          JObj [(''Interface'', JList [JObj [
             (''columns'', JList (map JStr [''ofport'', ''name'', ''external_ids'', ''type''])),
             (''select'', JObj (map (\<lambda>k. (k, JBool True)) [''initial'', ''insert'', ''delete'', ''modify'']))]])]])]"

definition echo_feedback :: "'s ovs_io \<Rightarrow> ('s ovs_client, ovs_error + unit) state" where
  "echo_feedback io = on_world (send_all io (io_dump io echo_msg))"

text \<open>The handler is registered before the message is sent.\<close>

definition send_monitor :: "'s ovs_io \<Rightarrow> string \<Rightarrow> ('s ovs_client, ovs_error + unit) state" where
  "send_monitor io monitor_id = do {
     upd_man (\<lambda>m. m\<lparr>handlers := AList.update (JStr monitor_id) Iface_update (handlers m)\<rparr>);
     on_world (send_all io (io_dump io (monitor_msg monitor_id))) }"

text \<open>\<open>_monitor\<close> of the interfaces: whether it worked. An error of the socket is not caught.\<close>

definition start_monitor :: "'s ovs_io \<Rightarrow> ('s ovs_client, ovs_error + bool) state" where
  "start_monitor io = do {
     randstr \<leftarrow> on_world (io_randstr io);
     upd_man (monitor_interfaces randstr);
     r \<leftarrow> send_monitor io (''monitor_Interface_'' @ randstr);
     ret (case r of Inl OVSDBErr \<Rightarrow> Inr False | Inl Socket_error \<Rightarrow> Inl Socket_error | Inr _ \<Rightarrow> Inr True) }"

section \<open>Reconnecting\<close>

primrec rebuild_conn :: "'s ovs_io \<Rightarrow> nat \<Rightarrow> ('s ovs_client, ovs_error + unit) state" where
  "rebuild_conn io 0 = ret (Inl OVSDBErr)"
| "rebuild_conn io (Suc max_retry) = do {
     ok \<leftarrow> on_world (io_connect io);
     if ok then do {
       now \<leftarrow> on_world (io_clock io);
       upd_man (\<lambda>m. m\<lparr>sync_time := now\<rparr>);
       ret (Inr ()) }
     else rebuild_conn io max_retry }"

primrec send_monitors :: "'s ovs_io \<Rightarrow> string list \<Rightarrow> ('s ovs_client, ovs_error + unit) state" where
  "send_monitors io [] = ret (Inr ())"
| "send_monitors io (i # is) = do {
     r \<leftarrow> send_monitor io i;
     (case r of Inl e \<Rightarrow> ret (Inl e) | Inr _ \<Rightarrow> send_monitors io is) }"

definition rebuild_monitor :: "'s ovs_io \<Rightarrow> ('s ovs_client, ovs_error + unit) state" where
  "rebuild_monitor io = do { c \<leftarrow> State_Monad.get; send_monitors io (monitors (oc_man c)) }"

text \<open>\<open>_rebuild_ovsdb\<close> logs what it raises; the result is whether it was rebuilt.\<close>

definition rebuild_ovsdb :: "'s ovs_io \<Rightarrow> nat \<Rightarrow> ('s ovs_client, bool) state" where
  "rebuild_ovsdb io max_retry = do {
     r \<leftarrow> rebuild_conn io max_retry;
     (case r of
        Inl _ \<Rightarrow> ret False
      | Inr _ \<Rightarrow> do { r' \<leftarrow> rebuild_monitor io; ret (case r' of Inl _ \<Rightarrow> False | Inr _ \<Rightarrow> True) }) }"

section \<open>The thread\<close>

text \<open>
  How a turn ends: it goes on, it is told to stop, an exception ends the thread, or the decoding of a response
  never ends.
\<close>

datatype turn = Go_on | Stop | Dies | Hangs

text \<open>\<open>_check_sync\<close>: the echo is sent outside any \<open>try\<close>, so that its exception ends the thread.\<close>

definition silent_turn :: "'s ovs_io \<Rightarrow> nat \<Rightarrow> ('s ovs_client, turn) state" where
  "silent_turn io max_retry = do {
     t1 \<leftarrow> on_world (io_clock io);
     c \<leftarrow> State_Monad.get;
     r \<leftarrow> (if fst (check_sync t1 (oc_man c)) then echo_feedback io else ret (Inr ()));
     (case r of
        Inl _ \<Rightarrow> ret Dies
      | Inr _ \<Rightarrow> do {
          t2 \<leftarrow> on_world (io_clock io);
          c \<leftarrow> State_Monad.get;
          (if snd (check_sync t2 (oc_man c)) then do { rebuild_ovsdb io max_retry; ret Go_on } else ret Go_on) }) }"

text \<open>One response after the other; an exception of the echo is caught.\<close>

primrec handle_responses :: "'s ovs_io \<Rightarrow> env \<Rightarrow> json list \<Rightarrow> ('s ovs_client, unit) state" where
  "handle_responses io env [] = ret ()"
| "handle_responses io env (resp # resps) = do {
     now \<leftarrow> on_world (io_clock io);
     c \<leftarrow> State_Monad.get;
     (case ovsdb_response env now resp (oc_man c, oc_zoo c) of
        (echo, m, z) \<Rightarrow> do {
          State_Monad.update (\<lambda>c. c\<lparr>oc_man := m, oc_zoo := z\<rparr>);
          (if echo then echo_feedback io else ret (Inr ()));
          handle_responses io env resps }) }"

definition ovsdb_turn :: "'s ovs_io \<Rightarrow> env \<Rightarrow> nat \<Rightarrow> ('s ovs_client, turn) state" where
  "ovsdb_turn io env max_retry = do {
     c \<leftarrow> State_Monad.get;
     if stop_event c then ret Stop
     else do {
       got \<leftarrow> on_world (io_recv io);
       (case got of
          Recv_timeout \<Rightarrow> silent_turn io max_retry
        | Recv_error \<Rightarrow> do { rebuild_ovsdb io max_retry; ret Go_on }
        | Recv_text s \<Rightarrow>
            if s = [] then do { rebuild_ovsdb io max_retry; ret Go_on }
            else (case parse_mul_json (io_decode io) s of
                    None \<Rightarrow> ret Hangs
                  | Some resps \<Rightarrow> do { handle_responses io env resps; ret Go_on })) } }"

primrec ovsdb_turns :: "'s ovs_io \<Rightarrow> env \<Rightarrow> nat \<Rightarrow> nat \<Rightarrow> ('s ovs_client, turn) state" where
  "ovsdb_turns io env max_retry 0 = ret Go_on"
| "ovsdb_turns io env max_retry (Suc n) = do {
     r \<leftarrow> ovsdb_turn io env max_retry;
     (if r = Go_on then ovsdb_turns io env max_retry n else ret r) }"

text \<open>
  \<open>run\<close> clears the request to stop and starts the thread; \<open>stop\<close> requests it of a living thread and closes the
  socket, whose exception is \<open>None\<close>.
\<close>

definition run_client :: "('s ovs_client, unit) state" where
  "run_client = State_Monad.update (\<lambda>c. c\<lparr>stop_event := False\<rparr>)"

definition stop_client :: "bool \<Rightarrow> ('s, unit) prog \<Rightarrow> ('s ovs_client, unit) prog" where
  "stop_client alive close = do {
     State_Monad.update (\<lambda>c. c\<lparr>stop_event := stop_event c \<or> alive\<rparr>);
     on_world close }"

text \<open>\<open>OvsdbMan(...)\<close>: three attempts to connect.\<close>

definition new_ovsdb_man :: "'s ovs_io \<Rightarrow> 's \<Rightarrow> zoo \<Rightarrow> (ovs_error + unit) \<times> 's ovs_client" where
  "new_ovsdb_man io s z =
     run_state (rebuild_conn io 3) \<lparr>oc_world = s, oc_man = init_ovsdb_man 0, oc_zoo = z, stop_event = False\<rparr>"

text \<open>\<open>monitor_ovsdb\<close> of \<open>lcp/commit_ovs.py\<close>: a monitor that cannot be started raises.\<close>

definition monitor_ovsdb :: "'s ovs_io \<Rightarrow> 's \<Rightarrow> zoo \<Rightarrow> (ovs_error + unit) \<times> 's ovs_client" where
  "monitor_ovsdb io s z =
     (case new_ovsdb_man io s z of
        (Inl e, c) \<Rightarrow> (Inl e, c)
      | (Inr _, c) \<Rightarrow>
          (case run_state (do { run_client; start_monitor io }) c of
             (Inl e, c') \<Rightarrow> (Inl e, c')
           | (Inr False, c') \<Rightarrow> (Inl OVSDBErr, c')
           | (Inr True, c') \<Rightarrow> (Inr (), c')))"

end
