(* ===== verification/Ovsdb_Props.thy ===== *)
theory Ovsdb_Props imports Ovsdb_Conn begin

text \<open>
  What the connection to the database guarantees: a message is sent whole or an error is reported, a
  connection that is rebuilt has carried the requests of all monitors, and the answers to a monitor always
  find their handler.
\<close>

section \<open>Messages\<close>

text \<open>
  The documented behaviour of a stream socket, on the characters it has carried since it was connected:
  \<open>send\<close> takes a part of the front of the message and says how much of it, and a new socket has carried nothing.
\<close>

definition stream_socket :: "'s ovs_io \<Rightarrow> ('s \<Rightarrow> string) \<Rightarrow> bool" where
  "stream_socket io carried \<longleftrightarrow>
     (\<forall>msg s r s'. run_state (io_send io msg) s = (r, s') \<longrightarrow>
        carried s' = carried s @ take (case r of None \<Rightarrow> 0 | Some n \<Rightarrow> n) msg \<and>
        (case r of None \<Rightarrow> 0 | Some n \<Rightarrow> n) \<le> length msg) \<and>
     (\<forall>s s'. run_state (io_connect io) s = (True, s') \<longrightarrow> carried s' = []) \<and>
     (\<forall>s. carried (snd (run_state (io_clock io) s)) = carried s)"

lemma stream_socketD:
  assumes "stream_socket io carried"
  shows "run_state (io_send io msg) s = (None, s') \<Longrightarrow> carried s' = carried s"
    and "run_state (io_send io msg) s = (Some n, s') \<Longrightarrow> carried s' = carried s @ take n msg \<and> n \<le> length msg"
    and "run_state (io_connect io) s = (True, s') \<Longrightarrow> carried s' = []"
    and "carried (snd (run_state (io_clock io) s)) = carried s"
  using assms unfolding stream_socket_def by (fastforce, fastforce, blast, blast)

lemma send_all_carries:
  assumes "stream_socket io carried"
  shows "run_state (send_all io msg) s = (r, s') \<Longrightarrow>
    \<exists>n. carried s' = carried s @ take n msg \<and> (if r = Inr () then n = length msg else n < length msg)"
proof (induction "length msg" arbitrary: msg s rule: less_induct)
  case less
  note stream = stream_socketD [OF assms]
  show ?case
  proof (cases "msg = []")
    case True
    then show ?thesis using less.prems by (simp add: send_all.simps)
  next
    case False
    obtain got s1 where one: "run_state (io_send io msg) s = (got, s1)" by fastforce
    show ?thesis
    proof (cases got)
      case None
      then have "carried s1 = carried s" using stream(1) one by blast
      then show ?thesis
        using less.prems False one None by (intro exI [of _ 0]) (auto simp: send_all.simps [of io msg])
    next
      case (Some n)
      then have c: "carried s1 = carried s @ take n msg" "n \<le> length msg" using stream(2) one by blast+
      show ?thesis
      proof (cases "n = 0")
        case True
        then show ?thesis
          using less.prems False one Some c by (intro exI [of _ 0]) (auto simp: send_all.simps [of io msg])
      next
        case n: False
        then have rest: "run_state (send_all io (drop n msg)) s1 = (r, s')"
          using less.prems False one Some by (simp add: send_all.simps [of io msg])
        have "length (drop n msg) < length msg" using n False by simp
        from less.hyps [OF this rest] obtain k where k: "carried s' = carried s1 @ take k (drop n msg)"
            "if r = Inr () then k = length (drop n msg) else k < length (drop n msg)" by blast
        have "take n msg @ take k (drop n msg) = take (n + k) msg" by (simp add: take_add)
        then show ?thesis using k c by (intro exI [of _ "n + k"]) (auto split: if_splits)
      qed
    qed
  qed
qed

text \<open>
  C33. Sending ends, and either the connection has carried the whole message or an error is reported; then it
  has carried a part of the front of the message, never anything out of order.
\<close>

theorem messages_are_sent_whole:
  assumes "stream_socket io carried" and "run_state (send_all io msg) s = (r, s')"
  shows "(r = Inr () \<and> carried s' = carried s @ msg) \<or>
    (\<exists>e n. r = Inl e \<and> n < length msg \<and> carried s' = carried s @ take n msg)"
proof -
  obtain n where "carried s' = carried s @ take n msg" "if r = Inr () then n = length msg else n < length msg"
    using send_all_carries [OF assms] by blast
  then show ?thesis by (cases r) (auto split: if_splits)
qed

section \<open>The monitors of a new connection\<close>

lemma run_on_world: "run_state (on_world m) c = (fst (run_state m (oc_world c)), c\<lparr>oc_world := snd (run_state m (oc_world c))\<rparr>)"
  by (simp add: on_world_def split: prod.split)

lemma run_upd_man: "run_state (upd_man f) c = ((), c\<lparr>oc_man := f (oc_man c)\<rparr>)"
  by (simp add: upd_man_def State_Monad.update_def)

abbreviation monitor_request :: "'s ovs_io \<Rightarrow> string \<Rightarrow> string" where
  "monitor_request io i \<equiv> io_dump io (monitor_msg i)"

definition registered :: "ovsdb_man \<Rightarrow> json set" where
  "registered m = {k. map_of (handlers m) k = Some Iface_update}"

lemma run_send_monitor:
  assumes "stream_socket io carried" and "run_state (send_monitor io i) c = (Inr (), c')"
  shows "carried (oc_world c') = carried (oc_world c) @ monitor_request io i \<and>
    oc_man c' = oc_man c\<lparr>handlers := AList.update (JStr i) Iface_update (handlers (oc_man c))\<rparr>"
proof -
  let ?r = "run_state (send_all io (monitor_request io i)) (oc_world c)"
  have c': "oc_man c' = oc_man c\<lparr>handlers := AList.update (JStr i) Iface_update (handlers (oc_man c))\<rparr>"
    and w: "?r = (Inr (), oc_world c')"
    using assms(2) by (auto simp: send_monitor_def run_on_world run_upd_man intro: prod_eqI)
  have "carried (oc_world c') = carried (oc_world c) @ monitor_request io i"
    using send_all_carries [OF assms(1) w] by auto
  then show ?thesis using c' by simp
qed

lemma send_monitors_carries:
  assumes "stream_socket io carried" and "run_state (send_monitors io is) c = (Inr (), c')"
  shows "carried (oc_world c') = carried (oc_world c) @ concat (map (monitor_request io) is) \<and>
    monitors (oc_man c') = monitors (oc_man c) \<and> sync_time (oc_man c') = sync_time (oc_man c) \<and>
    registered (oc_man c') = registered (oc_man c) \<union> JStr ` set is"
  using assms(2)
proof (induction "is" arbitrary: c)
  case (Cons i "is")
  obtain c1 where one: "run_state (send_monitor io i) c = (Inr (), c1)" and rest: "run_state (send_monitors io is) c1 = (Inr (), c')"
    using Cons.prems by (auto split: prod.splits sum.splits)
  have "registered (oc_man c1) = insert (JStr i) (registered (oc_man c))"
    using run_send_monitor [OF assms(1) one] by (auto simp: registered_def update_conv' split: if_splits)
  then show ?case using run_send_monitor [OF assms(1) one] Cons.IH [OF rest] by auto
qed simp

lemma rebuild_conn_connects:
  assumes "stream_socket io carried" and "run_state (rebuild_conn io n) c = (Inr (), c')"
  shows "carried (oc_world c') = [] \<and> monitors (oc_man c') = monitors (oc_man c) \<and> handlers (oc_man c') = handlers (oc_man c)"
  using assms(2)
proof (induction n arbitrary: c)
  case (Suc n)
  obtain ok w where conn: "run_state (io_connect io) (oc_world c) = (ok, w)" by fastforce
  show ?case
  proof (cases ok)
    case True
    then have "run_state (io_connect io) (oc_world c) = (True, w)" using conn by simp
    then have "carried w = []" by (rule stream_socketD(3) [OF assms(1)])
    moreover have "carried (snd (run_state (io_clock io) w)) = carried w" by (rule stream_socketD(4) [OF assms(1)])
    ultimately show ?thesis using Suc.prems conn True by (auto simp: run_on_world run_upd_man)
  next
    case False
    then show ?thesis using Suc.prems conn Suc.IH [of "c\<lparr>oc_world := w\<rparr>"] by (auto simp: run_on_world)
  qed
qed simp

text \<open>
  C34. When the connection was rebuilt, the new connection has carried the requests of all monitors, each once
  and in order, and nothing else, and every monitor has its handler.
\<close>

theorem rebuilt_connection_monitors:
  assumes "stream_socket io carried" and "run_state (rebuild_ovsdb io n) c = (True, c')"
  shows "carried (oc_world c') = concat (map (monitor_request io) (monitors (oc_man c))) \<and>
    monitors (oc_man c') = monitors (oc_man c) \<and> JStr ` set (monitors (oc_man c)) \<subseteq> registered (oc_man c')"
proof -
  obtain c1 where conn: "run_state (rebuild_conn io n) c = (Inr (), c1)" and mon: "run_state (rebuild_monitor io) c1 = (Inr (), c')"
    using assms(2) by (auto simp: rebuild_ovsdb_def split: prod.splits sum.splits)
  have "run_state (send_monitors io (monitors (oc_man c1))) c1 = (Inr (), c')" using mon by (simp add: rebuild_monitor_def)
  then show ?thesis
    using send_monitors_carries [OF assms(1)] rebuild_conn_connects [OF assms(1) conn] by fastforce
qed

section \<open>Answers find their handler\<close>

text \<open>The client has these monitors, and what arrives finds the handler it is meant for.\<close>

definition client_ok :: "string list \<Rightarrow> 's ovs_client \<Rightarrow> bool" where
  "client_ok ms c \<longleftrightarrow>
     monitors (oc_man c) = ms \<and>
     (\<forall>i \<in> set ms. take 8 i = ''monitor_'' \<and> map_of (handlers (oc_man c)) (JStr i) = Some Iface_update) \<and>
     (ms \<noteq> [] \<longrightarrow> map_of (handlers (oc_man c)) JNull = Some Iface_update) \<and>
     map_of (handlers (oc_man c)) (JStr ''echo'') = Some Echo_feedback \<and>
     map_of (handlers (oc_man c)) (JStr ''echo_feedback'') = Some Echo_skip"

lemma keeps_on_world: "keeps (client_ok ms) (on_world m)"
  by (simp add: keeps_def run_on_world client_ok_def)

lemma keeps_send_monitor: "take 8 i = ''monitor_'' \<Longrightarrow> keeps (client_ok ms) (send_monitor io i)"
  unfolding send_monitor_def
  by (intro keeps_bind keeps_on_world)
    (auto simp: keeps_def run_upd_man client_ok_def registered_def update_conv')

lemma keeps_send_monitors: "\<forall>i \<in> set is. take 8 i = ''monitor_'' \<Longrightarrow> keeps (client_ok ms) (send_monitors io is)"
  by (induction "is") (auto intro!: keeps_return keeps_bind keeps_send_monitor split: sum.split)

lemma keeps_rebuild_conn: "keeps (client_ok ms) (rebuild_conn io n)"
proof (induction n)
  case (Suc n)
  have "keeps (client_ok ms) (upd_man (\<lambda>m. m\<lparr>sync_time := now\<rparr>))" for now
    by (simp add: keeps_def run_upd_man client_ok_def registered_def)
  then show ?case using Suc by (auto intro!: keeps_bind keeps_on_world keeps_return)
qed (simp add: keeps_return)

lemma keeps_rebuild: "keeps (client_ok ms) (rebuild_ovsdb io n)"
proof -
  have "keeps (client_ok ms) (rebuild_monitor io)"
    unfolding keeps_def rebuild_monitor_def
    using keeps_send_monitors [unfolded keeps_def] by (auto simp: client_ok_def)
  then show ?thesis
    unfolding rebuild_ovsdb_def by (auto intro!: keeps_bind keeps_rebuild_conn keeps_return split: sum.split)
qed

lemma keeps_responses: "keeps (client_ok ms) (handle_responses io env resps)"
proof (induction resps)
  case (Cons resp resps)
  have step: "client_ok ms (c\<lparr>oc_man := m, oc_zoo := z\<rparr>)"
    if "client_ok ms c" "ovsdb_response env now resp (oc_man c, oc_zoo c) = (echo, m, z)" for c now echo m z
    using that by (auto simp: ovsdb_response_def client_ok_def registered_def split: json.splits option.splits ovsdb_handler.splits)
  have "client_ok ms (snd (run_state (case ovsdb_response env now resp (oc_man c, oc_zoo c) of (echo, m, z) \<Rightarrow> do {
      State_Monad.update (\<lambda>c. c\<lparr>oc_man := m, oc_zoo := z\<rparr>);
      (if echo then echo_feedback io else ret (Inr ()));
      handle_responses io env resps }) c))" if "client_ok ms c" for c now
  proof (cases "ovsdb_response env now resp (oc_man c, oc_zoo c)")
    case (fields echo m z)
    have "keeps (client_ok ms) (do { (if echo then echo_feedback io else ret (Inr ())); handle_responses io env resps })"
      unfolding echo_feedback_def by (intro keeps_bind keeps_if keeps_on_world keeps_return Cons)
    then show ?thesis using step [OF that fields] by (simp add: fields State_Monad.update_def keeps_def)
  qed
  then show ?case
    unfolding handle_responses.simps by (intro keeps_bind [OF keeps_on_world]) (simp add: keeps_def)
qed (simp add: keeps_return)

lemma keeps_silent: "keeps (client_ok ms) (silent_turn io n)"
  unfolding silent_turn_def echo_feedback_def
  by (auto intro!: keeps_bind keeps_get keeps_on_world keeps_return keeps_rebuild split: sum.split)

lemma keeps_turns: "keeps (client_ok ms) (ovsdb_turns io env max_retry n)"
proof (induction n)
  case (Suc n)
  have "keeps (client_ok ms) (ovsdb_turn io env max_retry)"
    unfolding ovsdb_turn_def
    by (auto intro!: keeps_bind keeps_get keeps_on_world keeps_return keeps_rebuild keeps_silent keeps_responses
        split: received.split option.split)
  then show ?case using Suc by (auto intro!: keeps_bind keeps_return)
qed (simp add: keeps_return)

lemma run_run_client: "run_state run_client c = ((), c\<lparr>stop_event := False\<rparr>)"
  by (simp add: run_client_def State_Monad.update_def)

lemma start_monitor_ok:
  assumes "client_ok ms c" and "run_state (start_monitor io) c = (r, c')"
  shows "monitors (oc_man c') \<noteq> [] \<and> client_ok (monitors (oc_man c')) c'"
proof -
  obtain x w where rand: "run_state (io_randstr io) (oc_world c) = (x, w)" by fastforce
  let ?i = "''monitor_Interface_'' @ x" and ?c = "c\<lparr>oc_world := w, oc_man := monitor_interfaces x (oc_man c)\<rparr>"
  let ?ms = "List.insert ?i ms"
  have ok: "client_ok ?ms ?c" using assms(1)
    by (auto simp: client_ok_def monitor_interfaces_def Let_def update_conv')
  have c': "c' = snd (run_state (send_monitor io ?i) ?c)"
    using assms(2) rand by (auto simp: start_monitor_def run_on_world run_upd_man split: prod.splits)
  have "client_ok ?ms c'" unfolding c' using keeps_send_monitor [of ?i ?ms io] ok by (simp add: keeps_def)
  moreover have "?i \<in> set ?ms" by simp
  then have "?ms \<noteq> []" by (metis empty_iff empty_set)
  ultimately show ?thesis by (simp add: client_ok_def)
qed

text \<open>
  C35. Once the interfaces are monitored, whatever the connection does - silence, errors, reconnections and
  responses of any kind, in any number of turns - the monitors are kept, the answer to each of them and the
  updates that follow go to the handler of the interfaces, and the echoes in both directions to theirs.
\<close>

theorem answers_find_their_handler:
  assumes "monitor_ovsdb io s z = (Inr (), c)"
  shows "monitors (oc_man c) \<noteq> [] \<and>
    client_ok (monitors (oc_man c)) (snd (run_state (ovsdb_turns io env max_retry n) c))"
proof -
  let ?c0 = "\<lparr>oc_world = s, oc_man = init_ovsdb_man 0, oc_zoo = z, stop_event = False\<rparr>"
  have "client_ok [] ?c0" by (simp add: client_ok_def init_ovsdb_man_def)
  then have "client_ok [] (snd (new_ovsdb_man io s z))"
    using keeps_rebuild_conn [of "[]" io 3] by (simp add: new_ovsdb_man_def keeps_def)
  moreover obtain r c1 where "new_ovsdb_man io s z = (Inr r, c1)"
      "run_state (start_monitor io) (c1\<lparr>stop_event := False\<rparr>) = (Inr True, c)"
    using assms by (auto simp: monitor_ovsdb_def run_run_client split: prod.splits sum.splits bool.splits)
  moreover have "client_ok [] (c1\<lparr>stop_event := False\<rparr>)" if "client_ok [] c1" for c1 :: "'a ovs_client"
    using that by (simp add: client_ok_def)
  ultimately have c: "client_ok (monitors (oc_man c)) c" "monitors (oc_man c) \<noteq> []" using start_monitor_ok by fastforce+
  then show ?thesis using keeps_turns [of _ io env max_retry n] by (simp add: keeps_def)
qed

section \<open>A socket that takes one character at a time\<close>

definition small_socket :: "string ovs_io" where
  "small_socket =
     \<lparr>io_connect = State (\<lambda>s. (True, [])),
      io_send = (\<lambda>msg. State (\<lambda>s. case msg of [] \<Rightarrow> (Some 0, s) | c # _ \<Rightarrow> (Some 1, s @ [c]))),
      io_recv = State (\<lambda>s. (Recv_timeout, s)), io_clock = State (\<lambda>s. (20, s)), io_randstr = State (\<lambda>s. (''Q'', s)),
      io_dump = (\<lambda>j. if j = echo_msg then ''E'' else ''M''), io_decode = (\<lambda>s. None)\<rparr>"

lemma small_socket_stream: "stream_socket small_socket (\<lambda>s. s)"
  by (auto simp: stream_socket_def small_socket_def split: list.splits)

lemma small_send: "run_state (send_all small_socket msg) s = (Inr (), s @ msg)"
proof (induction msg arbitrary: s)
  case (Cons x msg)
  have "run_state (io_send small_socket (x # msg)) s = (Some 1, s @ [x])" by (simp add: small_socket_def)
  then show ?case using Cons by (subst send_all.simps) simp
qed (simp add: send_all.simps)

theorem messages_are_sent_whole_witness:
  "snd (run_state (send_all small_socket ''monitor'') ''ab'') = ''abmonitor''"
  using messages_are_sent_whole [OF small_socket_stream, of "''monitor''" "''ab''" "Inr ()" "''abmonitor''"] small_send by simp

definition small_client :: "string ovs_client" where
  "small_client = snd (monitor_ovsdb small_socket [] (init_zoo []))"

lemma small_client_made: "monitor_ovsdb small_socket [] (init_zoo []) = (Inr (), small_client)"
proof -
  have "fst (monitor_ovsdb small_socket [] (init_zoo [])) = Inr ()"
    by (simp add: monitor_ovsdb_def new_ovsdb_man_def start_monitor_def send_monitor_def run_on_world run_upd_man run_run_client small_send
        numeral_3_eq_3) (simp add: small_socket_def run_on_world run_upd_man)
  then show ?thesis by (simp add: small_client_def prod_eq_iff)
qed

theorem answers_find_their_handler_witness:
  "\<forall>env. client_ok (monitors (oc_man small_client)) (snd (run_state (ovsdb_turns small_socket env 3 7) small_client))"
  using answers_find_their_handler [OF small_client_made] by blast

theorem rebuilt_connection_monitors_witness:
  "oc_world (snd (run_state (rebuild_ovsdb small_socket 1) (small_client\<lparr>oc_man := monitor_interfaces ''R'' (init_ovsdb_man 0)\<rparr>))) = ''M''"
proof -
  let ?c = "small_client\<lparr>oc_man := monitor_interfaces ''R'' (init_ovsdb_man 0)\<rparr>"
  have "fst (run_state (rebuild_ovsdb small_socket 1) ?c) = True"
    by (simp add: rebuild_ovsdb_def rebuild_monitor_def monitor_interfaces_def init_ovsdb_man_def Let_def
        send_monitor_def run_on_world run_upd_man small_send) (simp add: small_socket_def run_on_world)
  then have "run_state (rebuild_ovsdb small_socket 1) ?c = (True, snd (run_state (rebuild_ovsdb small_socket 1) ?c))"
    by (simp add: prod_eq_iff)
  from rebuilt_connection_monitors [OF small_socket_stream this] show ?thesis
    by (simp add: monitor_interfaces_def init_ovsdb_man_def Let_def) (simp add: small_socket_def echo_msg_def monitor_msg_def)
qed

end
