(* ===== verification/Graphviz.thy ===== *)
theory Graphviz imports Link_Master begin

text \<open>
  \<open>tools/generate-graphviz.py\<close>: the entities of etcd as the nodes of a graph and the text that Graphviz
  draws. The nodes refer to each other by their paths; the order of a dictionary is that of the insertions.
\<close>

section \<open>Nodes\<close>

text \<open>A property is a text, or the node of a static route.\<close>

datatype gval = GText string | GNode string

record tp_node =
  tn_name :: string
  tn_label :: string
  tn_type :: string
  tn_parent :: string
  tn_props :: "(string \<times> gval) list"
  tn_parent_path :: string
  tn_children :: "(string \<times> string) list"

record graph =
  log_nodes :: "(string \<times> tp_node) list"
  label_names :: "(string \<times> (string \<times> string) list) list"
  name_labels :: "(string \<times> string) list"
  g_name_id :: nat

definition empty_graph :: graph where
  "empty_graph = \<lparr>log_nodes = [], label_names = [], name_labels = [], g_name_id = 0\<rparr>"

text \<open>\<open>parse_value\<close> of this tool. A pair without \<open>=\<close> raises: the \<open>logger\<close> it is reported to does not exist.\<close>

fun parse_pairs :: "string list \<Rightarrow> (string \<times> gval) list \<Rightarrow> (string \<times> gval) list option" where
  "parse_pairs [] kv_set = Some kv_set"
| "parse_pairs (kv # kvs) kv_set =
     (case split_once CHR ''='' kv of
        [key, val] \<Rightarrow> parse_pairs kvs (AList.update key (GText val) kv_set)
      | _ \<Rightarrow> None)"

definition graph_value :: "string \<Rightarrow> (string \<times> gval) list option" where
  "graph_value s = parse_pairs (split_on CHR '','' s) []"

definition node_name :: "nat \<Rightarrow> string" where
  "node_name n = ''ATPNODE'' @ nat_str n"

section \<open>The map\<close>

text \<open>One key with its value. A path of fewer than three parts raises.\<close>

definition put_node :: "string \<times> string \<times> int \<Rightarrow> graph \<Rightarrow> graph option" where
  "put_node x G =
     (case x of (val, key, revision) \<Rightarrow>
        (case rev (split_on CHR ''/'' key) of
           label # ty # parent # front \<Rightarrow>
             (let name = node_name (g_name_id G) in
              map_option (\<lambda>props.
                G\<lparr>g_name_id := g_name_id G + 1,
                  label_names := AList.update ty (AList.update label name
                    (case map_of (label_names G) ty of Some d \<Rightarrow> d | None \<Rightarrow> [])) (label_names G),
                  name_labels := AList.update name label (name_labels G),
                  log_nodes := AList.update key
                    \<lparr>tn_name = name, tn_label = label, tn_type = ty, tn_parent = parent, tn_props = props,
                     tn_parent_path = join_with ''/'' (rev (parent # front)), tn_children = []\<rparr> (log_nodes G)\<rparr>)
                (graph_value val))
         | _ \<Rightarrow> None))"

fun put_nodes :: "(string \<times> string \<times> int) list \<Rightarrow> graph \<Rightarrow> graph option" where
  "put_nodes [] G = Some G"
| "put_nodes (x # xs) G = Option.bind (put_node x G) (put_nodes xs)"

definition on_node :: "string \<Rightarrow> (tp_node \<Rightarrow> tp_node) \<Rightarrow> graph \<Rightarrow> graph" where
  "on_node path f G = G\<lparr>log_nodes := map (\<lambda>(p, n). (p, if p = path then f n else n)) (log_nodes G)\<rparr>"

text \<open>
  \<open>update_relation\<close>: the label a property refers to becomes the name of that node. A port with a chassis
  keeps the label of its peer.
\<close>

definition to_name :: "graph \<Rightarrow> string \<Rightarrow> string \<Rightarrow> (string \<times> gval) list \<Rightarrow> (string \<times> gval) list option" where
  "to_name G key ty props =
     map_option (\<lambda>d. AList.update key (GText (case map_of props key of
         Some (GText l) \<Rightarrow> (case map_of d l of Some name \<Rightarrow> name | None \<Rightarrow> ''NONE'') | _ \<Rightarrow> ''NONE'')) props)
       (map_of (label_names G) ty)"

definition has_prop :: "tp_node \<Rightarrow> string \<Rightarrow> bool" where
  "has_prop n key \<longleftrightarrow> map_of (tn_props n) key \<noteq> None"

definition relation_of :: "tp_node \<Rightarrow> (string \<times> string) option" where
  "relation_of n =
     (if tn_type n = ''lsp'' \<and> has_prop n ''chassis'' then Some (''chassis'', ''chassis'')
      else if tn_type n = ''lsp'' \<and> has_prop n ''peer'' then Some (''peer'', ''lrp'')
      else if tn_type n = ''lrp'' \<and> has_prop n ''peer'' then Some (''peer'', ''lsp'')
      else if tn_type n = ''lsr'' \<and> has_prop n ''outport'' then Some (''outport'', ''lrp'')
      else None)"

definition update_relation :: "graph \<Rightarrow> tp_node \<Rightarrow> tp_node option" where
  "update_relation G n =
     (case relation_of n of
        None \<Rightarrow> Some n
      | Some (key, ty) \<Rightarrow> map_option (\<lambda>props. n\<lparr>tn_props := props\<rparr>) (to_name G key ty (tn_props n)))"

text \<open>\<open>add_child\<close>: a route and the port it leaves by find each other, whichever is added first.\<close>

definition set_lsr :: "string \<Rightarrow> tp_node \<Rightarrow> tp_node" where
  "set_lsr lsr_path n = n\<lparr>tn_props := AList.update ''lsr'' (GNode lsr_path) (tn_props n)\<rparr>"

definition routes_through :: "graph \<Rightarrow> string \<Rightarrow> string \<Rightarrow> bool" where
  "routes_through G port_name path =
     (case map_of (log_nodes G) path of
        Some c \<Rightarrow> tn_type c = ''lsr'' \<and> map_of (tn_props c) ''outport'' = Some (GText port_name)
      | None \<Rightarrow> False)"

definition add_child :: "string \<Rightarrow> string \<Rightarrow> tp_node \<Rightarrow> graph \<Rightarrow> graph" where
  "add_child parent_path child_path child G =
     (case map_of (log_nodes G) parent_path of
        None \<Rightarrow> G
      | Some p \<Rightarrow>
          (let children = AList.update (tn_name child) child_path (tn_children p);
               G1 = on_node parent_path (\<lambda>n. n\<lparr>tn_children := children\<rparr>) G in
           if tn_type child = ''lsr'' then
             (case map_of (tn_props child) ''outport'' of
                Some (GText outport) \<Rightarrow>
                  (case map_of children outport of None \<Rightarrow> G1 | Some port_path \<Rightarrow> on_node port_path (set_lsr child_path) G1)
              | _ \<Rightarrow> G1)
           else if tn_type child = ''lrp'' then
             fold (\<lambda>(_, path) G. on_node child_path (set_lsr path) G)
               (filter (\<lambda>(_, path). routes_through G1 (tn_name child) path) children) G1
           else G1))"

fun relate :: "string list \<Rightarrow> graph \<Rightarrow> graph option" where
  "relate [] G = Some G"
| "relate (path # paths) G =
     (case map_of (log_nodes G) path of
        None \<Rightarrow> relate paths G
      | Some n \<Rightarrow>
          (case update_relation G n of
             None \<Rightarrow> None
           | Some n' \<Rightarrow> relate paths (add_child (tn_parent_path n') path n' (on_node path (\<lambda>_. n') G))))"

definition build_whole_map :: "(string \<times> string \<times> int) list \<Rightarrow> graph option" where
  "build_whole_map data =
     Option.bind (put_nodes data empty_graph) (\<lambda>G. relate (map fst (log_nodes G)) G)"

section \<open>The text\<close>

text \<open>\<open>node_repr\<close> is what Python prints for a node, which has no \<open>__str__\<close>.\<close>

definition gval_text :: "(string \<Rightarrow> string) \<Rightarrow> graph \<Rightarrow> gval \<Rightarrow> string" where
  "gval_text node_repr G v =
     (case v of
        GNode path \<Rightarrow> node_repr path
      | GText t \<Rightarrow> (case map_of (name_labels G) t of Some l \<Rightarrow> l | None \<Rightarrow> t))"

definition properties_to_lable :: "(string \<Rightarrow> string) \<Rightarrow> graph \<Rightarrow> tp_node \<Rightarrow> string" where
  "properties_to_lable node_repr G n =
     concat (map (\<lambda>(k, v). ''|'' @ k @ '':'' @ gval_text node_repr G v) (tn_props n))"

abbreviation blanks :: "nat \<Rightarrow> string" where
  "blanks n \<equiv> replicate n CHR 0x20"

definition cluster_head :: "tp_node \<Rightarrow> string \<Rightarrow> string" where
  "cluster_head n colour =
     join_with [CHR 0x0A]
       [''subgraph cluster_'' @ tn_name n @ '' {'',
        blanks 24 @ ''label='' @ [CHR 0x22] @ tn_label n @ [CHR 0x22] @ '';'',
        blanks 24 @ ''bgcolor='' @ [CHR 0x22] @ colour @ [CHR 0x22] @ '';'',
        blanks 24 @ ''penwidth=3;'',
        blanks 16]"

text \<open>
  \<open>to_graph\<close>; the number bounds the depth of the calls. What is nested in a port or a chassis is not shown.
\<close>

fun to_graph :: "(string \<Rightarrow> string) \<Rightarrow> graph \<Rightarrow> nat \<Rightarrow> tp_node \<Rightarrow> string option" where
  "to_graph node_repr G 0 n = None"
| "to_graph node_repr G (Suc depth) n =
     map_option (\<lambda>inner.
         (if tn_type n = ''LS'' then cluster_head n ''yellow'' @ inner @ [CHR 0x0A] @ ''};''
          else if tn_type n = ''LR'' then cluster_head n ''green'' @ inner @ [CHR 0x0A] @ ''};''
          else if tn_type n \<in> {''lsp'', ''lrp'', ''chassis''} then
            tn_name n @ '' [label='' @ [CHR 0x22] @ ''{ '' @ tn_label n @ properties_to_lable node_repr G n @ ''}'' @ [CHR 0x22] @
            ''];'' @ [CHR 0x0A]
          else inner) @ [CHR 0x0A])
       (map_option concat (those (map (\<lambda>(_, path). case map_of (log_nodes G) path of
           None \<Rightarrow> None | Some c \<Rightarrow> to_graph node_repr G depth c) (tn_children n))))"

text \<open>The links of a node: where they lead and how they are drawn. A route without an address raises.\<close>

definition link_to :: "tp_node \<Rightarrow> string \<Rightarrow> string \<Rightarrow> (string \<times> string) list" where
  "link_to n key look = (case map_of (tn_props n) key of Some (GText t) \<Rightarrow> [(t, look)] | _ \<Rightarrow> [])"

definition prop_text :: "tp_node \<Rightarrow> string \<Rightarrow> string option" where
  "prop_text n key = (case map_of (tn_props n) key of Some (GText t) \<Rightarrow> Some t | _ \<Rightarrow> None)"

definition route_text :: "graph \<Rightarrow> tp_node \<Rightarrow> string option" where
  "route_text G n =
     (let route = (case (prop_text n ''ip'', prop_text n ''prefix'') of
                     (Some ip, Some prefix) \<Rightarrow> ''default:'' @ ip @ ''/'' @ prefix @ [CHR 0x5C] @ ''l''
                   | _ \<Rightarrow> [])
      in case map_of (tn_props n) ''lsr'' of
           None \<Rightarrow> Some route
         | Some (GText t) \<Rightarrow> None
         | Some (GNode path) \<Rightarrow>
             (case map_of (log_nodes G) path of
                None \<Rightarrow> None
              | Some lsr \<Rightarrow>
                  (case (prop_text lsr ''ip'', prop_text lsr ''prefix'') of
                     (Some ip, Some prefix) \<Rightarrow> Some (route @ tn_label lsr @ '':'' @ ip @ ''/'' @ prefix)
                   | _ \<Rightarrow> None)))"

definition node_links :: "graph \<Rightarrow> tp_node \<Rightarrow> (string \<times> string) list option" where
  "node_links G n =
     (if tn_type n = ''lsp'' then
        Some (link_to n ''peer'' ''color=yellow'' @ link_to n ''chassis'' ''color=blue,style=dotted'')
      else if tn_type n = ''lrp'' \<and> has_prop n ''peer'' then
        map_option (\<lambda>route. link_to n ''peer'' (''color=green,label='' @ [CHR 0x22] @ route @ [CHR 0x22])) (route_text G n)
      else Some [])"

definition show_link :: "string \<Rightarrow> string \<times> string \<Rightarrow> string" where
  "show_link name x = (case x of (target, look) \<Rightarrow> name @ ''->'' @ target @ ''['' @ look @ '']'' @ [CHR 0x0A])"

definition graph_head :: string where
  "graph_head =
     (let font = ''fontname = '' @ [CHR 0x22] @ ''Courier New'' @ [CHR 0x22] in
      join_with [CHR 0x0A]
        [''digraph G{'', blanks 10 @ font, blanks 10 @ ''fontsize = 10'',
         blanks 10 @ ''node [ '' @ font @ '', fontsize = 10, shape = '' @ [CHR 0x22] @ ''Mrecord'' @ [CHR 0x22] @ '' ];'',
         blanks 10 @ ''edge [ '' @ font @ '', fontsize = 10, penwidth=5 ];'', [], [], blanks 8])"

definition show_whole_graph :: "(string \<Rightarrow> string) \<Rightarrow> nat \<Rightarrow> graph \<Rightarrow> string option" where
  "show_whole_graph node_repr depth G =
     (let nodes = map snd (log_nodes G) in
      case (those (map (to_graph node_repr G depth) (filter (\<lambda>n. tn_type n \<in> {''LS'', ''LR'', ''chassis''}) nodes)),
            those (map (\<lambda>n. map_option (\<lambda>ls. concat (map (show_link (tn_name n)) ls)) (node_links G n)) nodes)) of
        (Some drawn, Some links) \<Rightarrow>
          Some (graph_head @ concat drawn @ ''{rank=same;'' @
                concat (map (\<lambda>n. tn_name n @ '';'') (filter (\<lambda>n. tn_type n = ''chassis'') nodes)) @ ''}'' @ [CHR 0x0A] @
                concat links @ [CHR 0x0A] @ ''}'' @ [CHR 0x0A])
      | _ \<Rightarrow> None)"

end
