(* ===== verification/Graphviz_Props.thy ===== *)
theory Graphviz_Props imports Graphviz begin

text \<open>What the graph guarantees: every node has its own name, and the links end at nodes of the right kind.\<close>

section \<open>Reading the entities\<close>

definition names_of :: "graph \<Rightarrow> string \<Rightarrow> string set" where
  "names_of G ty = {tn_name n | p n. (p, n) \<in> set (log_nodes G) \<and> tn_type n = ty}"

text \<open>The names that labels stand for are those of nodes.\<close>

definition labels_ok :: "graph \<Rightarrow> bool" where
  "labels_ok G \<longleftrightarrow> (\<forall>ty d l name. map_of (label_names G) ty = Some d \<longrightarrow> map_of d l = Some name \<longrightarrow> name \<in> names_of G ty)"

definition numbered :: "graph \<Rightarrow> bool" where
  "numbered G \<longleftrightarrow> map (\<lambda>(p, n). tn_name n) (log_nodes G) = map node_name [0..<g_name_id G]"

abbreviation paths :: "graph \<Rightarrow> string list" where
  "paths G \<equiv> map fst (log_nodes G)"

lemma update_append: "k \<notin> fst ` set d \<Longrightarrow> AList.update k v d = d @ [(k, v)]"
  by (induction d) auto

lemma put_node_ok:
  assumes "put_node (val, key, revision) G = Some G'" and "key \<notin> set (paths G)"
    and "labels_ok G" and "numbered G"
  shows "labels_ok G' \<and> numbered G' \<and> paths G' = paths G @ [key]"
proof -
  obtain label ty parent front props where path: "rev (split_on CHR ''/'' key) = label # ty # parent # front"
    and props: "graph_value val = Some props"
    using assms(1) by (auto simp: put_node_def Let_def split: list.splits)
  let ?name = "node_name (g_name_id G)"
  let ?d = "case map_of (label_names G) ty of Some d \<Rightarrow> d | None \<Rightarrow> []"
  define n where "n = \<lparr>tn_name = ?name, tn_label = label, tn_type = ty, tn_parent = parent, tn_props = props,
      tn_parent_path = join_with ''/'' (rev (parent # front)), tn_children = []\<rparr>"
  have n: "tn_name n = ?name" "tn_type n = ty" by (simp_all add: n_def)
  have G': "G' = G\<lparr>g_name_id := g_name_id G + 1,
      label_names := AList.update ty (AList.update label ?name ?d) (label_names G),
      name_labels := AList.update ?name label (name_labels G), log_nodes := AList.update key n (log_nodes G)\<rparr>"
    unfolding n_def using assms(1) path props by (simp add: put_node_def Let_def del: join_with.simps)
  have new: "AList.update key n (log_nodes G) = log_nodes G @ [(key, n)]"
    using assms(2) by (intro update_append) simp
  have nodes: "log_nodes G' = log_nodes G @ [(key, n)]" by (simp add: G' new)
  have names: "names_of G' t = names_of G t \<union> (if t = ty then {?name} else {})" for t
    unfolding names_of_def nodes using n(1) [symmetric] n(2) [symmetric] by auto
  have "labels_ok G'"
    unfolding labels_ok_def
  proof (intro allI impI)
    fix t d l name assume d: "map_of (label_names G') t = Some d" and l: "map_of d l = Some name"
    show "name \<in> names_of G' t"
    proof (cases "t = ty \<and> l = label")
      case True
      then have "name = ?name" using d l by (auto simp: G' update_conv')
      then show ?thesis using True by (simp add: names)
    next
      case False
      have "\<exists>d0. map_of (label_names G) t = Some d0 \<and> map_of d0 l = Some name"
        using False d l by (auto simp: G' update_conv' split: if_splits option.splits)
      then show ?thesis using assms(3) by (auto simp: labels_ok_def names)
    qed
  qed
  then show ?thesis using assms(4) n by (simp add: numbered_def G' new)
qed

lemma put_nodes_ok:
  assumes "put_nodes data G = Some G'" and "distinct (paths G @ map (\<lambda>(val, key, revision). key) data)"
    and "labels_ok G" and "numbered G"
  shows "labels_ok G' \<and> numbered G' \<and> distinct (paths G')"
  using assms
proof (induction data arbitrary: G)
  case (Cons x data)
  obtain val key revision where x: "x = (val, key, revision)" by (cases x)
  obtain G1 where G1: "put_node (val, key, revision) G = Some G1" "put_nodes data G1 = Some G'"
    using Cons.prems(1) by (auto simp: x bind_eq_Some_conv)
  have "key \<notin> set (paths G)" using Cons.prems(2) by (simp add: x)
  from put_node_ok [OF G1(1) this Cons.prems(3,4)]
  have G1': "labels_ok G1" "numbered G1" "paths G1 = paths G @ [key]" by simp_all
  show ?case by (rule Cons.IH [OF G1(2) _ G1'(1,2)]) (use Cons.prems(2) G1'(3) in \<open>simp add: x\<close>)
qed simp

section \<open>Relating the nodes\<close>

definition skeleton :: "graph \<Rightarrow> (string \<times> string \<times> string) list" where
  "skeleton G = map (\<lambda>(p, n). (p, tn_name n, tn_type n)) (log_nodes G)"

text \<open>A node whose properties were turned into names: \<open>N\<close> gives the names of each type.\<close>

definition names_in :: "(string \<Rightarrow> string set) \<Rightarrow> string \<Rightarrow> tp_node \<Rightarrow> string \<Rightarrow> bool" where
  "names_in N ty n key \<longleftrightarrow> (\<exists>t. map_of (tn_props n) key = Some (GText t) \<and> (t = ''NONE'' \<or> t \<in> N ty))"

definition linked :: "(string \<Rightarrow> string set) \<Rightarrow> tp_node \<Rightarrow> bool" where
  "linked N n \<longleftrightarrow> (case relation_of n of None \<Rightarrow> True | Some (key, ty) \<Rightarrow> names_in N ty n key)"

lemma relation_keys: "relation_of n = Some (key, ty) \<Longrightarrow> key \<in> {''chassis'', ''peer'', ''outport''}"
  by (auto simp: relation_of_def split: if_splits)

lemma relation_cong:
  "tn_type n' = tn_type n \<Longrightarrow> (\<And>k. k \<in> {''chassis'', ''peer'', ''outport''} \<Longrightarrow> has_prop n' k = has_prop n k) \<Longrightarrow>
     relation_of n' = relation_of n"
  by (simp add: relation_of_def)

lemma linked_set_lsr [simp]: "linked N (set_lsr path n) = linked N n"
proof -
  have "relation_of (set_lsr path n) = relation_of n"
    by (rule relation_cong) (auto simp: set_lsr_def has_prop_def update_conv')
  moreover have "names_in N ty (set_lsr path n) key = names_in N ty n key" if "relation_of n = Some (key, ty)" for key ty
    using relation_keys [OF that] by (auto simp: names_in_def set_lsr_def update_conv')
  ultimately show ?thesis by (simp add: linked_def split: option.split prod.split)
qed

lemma linked_children [simp]: "linked N (n\<lparr>tn_children := cs\<rparr>) = linked N n"
  by (simp add: linked_def relation_of_def has_prop_def names_in_def)

lemma update_relation_linked:
  assumes "update_relation G n = Some n'" and "labels_ok G"
  shows "linked (names_of G) n' \<and> tn_name n' = tn_name n \<and> tn_type n' = tn_type n \<and> tn_parent_path n' = tn_parent_path n"
proof (cases "relation_of n")
  case None
  then show ?thesis using assms(1) by (simp add: update_relation_def linked_def)
next
  case (Some r)
  obtain key ty where r: "relation_of n = Some (key, ty)" using Some by (cases r) auto
  obtain d where d: "map_of (label_names G) ty = Some d"
    using assms(1) r by (auto simp: update_relation_def to_name_def)
  define t where "t = (case map_of (tn_props n) key of
      Some (GText l) \<Rightarrow> (case map_of d l of Some name \<Rightarrow> name | None \<Rightarrow> ''NONE'') | _ \<Rightarrow> ''NONE'')"
  have t: "n' = n\<lparr>tn_props := AList.update key (GText t) (tn_props n)\<rparr>" "t = ''NONE'' \<or> t \<in> ran (map_of d)"
    using assms(1) r d by (auto simp: t_def update_relation_def to_name_def ran_def split: option.split gval.split)
  have "has_prop n key" using r by (auto simp: relation_of_def split: if_splits)
  then have "relation_of n' = relation_of n"
    by (intro relation_cong) (auto simp: t(1) has_prop_def update_conv')
  moreover have "names_in (names_of G) ty n' key"
    using t(2) d assms(2) by (auto simp: names_in_def t(1) update_conv' labels_ok_def ran_def)
  ultimately show ?thesis using r t(1) by (simp add: linked_def)
qed

lemma skeleton_on_node:
  "(\<And>n. (path, n) \<in> set (log_nodes G) \<Longrightarrow> tn_name (f n) = tn_name n \<and> tn_type (f n) = tn_type n) \<Longrightarrow>
     skeleton (on_node path f G) = skeleton G"
  by (auto simp: skeleton_def on_node_def)

lemma names_of_skeleton: "names_of G ty = {nm. \<exists>p. (p, nm, ty) \<in> set (skeleton G)}"
  by (force simp: names_of_def skeleton_def)

lemma names_same: "skeleton G' = skeleton G \<Longrightarrow> names_of G' = names_of G"
  by (simp add: names_of_skeleton fun_eq_iff)

lemma paths_skeleton: "paths G = map fst (skeleton G)"
  by (simp add: skeleton_def split_beta comp_def)

text \<open>What the second loop keeps: the nodes of \<open>D\<close> are done.\<close>

definition done_nodes :: "graph \<Rightarrow> string set \<Rightarrow> bool" where
  "done_nodes G D \<longleftrightarrow> (\<forall>(p, n) \<in> set (log_nodes G). p \<in> D \<longrightarrow> linked (names_of G) n)"

definition same_frame :: "graph \<Rightarrow> graph \<Rightarrow> bool" where
  "same_frame G G' \<longleftrightarrow> skeleton G' = skeleton G \<and> label_names G' = label_names G \<and> g_name_id G' = g_name_id G"

lemma on_node_frame: "label_names (on_node p f G) = label_names G" "g_name_id (on_node p f G) = g_name_id G"
  by (simp_all add: on_node_def)

lemma on_node_done:
  assumes "done_nodes G D" and "skeleton (on_node path f G) = skeleton G"
    and "\<And>n. linked (names_of G) (f n) = linked (names_of G) n"
  shows "done_nodes (on_node path f G) D"
  using assms(1,3) names_same [OF assms(2)] by (auto simp: done_nodes_def on_node_def)

lemma set_lsr_step:
  assumes "done_nodes G D"
  shows "same_frame G (on_node path (set_lsr lsr) G) \<and> done_nodes (on_node path (set_lsr lsr) G) D"
proof -
  have sk: "skeleton (on_node path (set_lsr lsr) G) = skeleton G"
    by (rule skeleton_on_node) (simp add: set_lsr_def)
  then show ?thesis using on_node_done [OF assms sk] by (simp add: same_frame_def on_node_frame)
qed

lemma frame_trans: "same_frame G G' \<Longrightarrow> same_frame G' G'' \<Longrightarrow> same_frame G G''"
  by (simp add: same_frame_def)

lemma fold_lsr_step:
  "done_nodes G D \<Longrightarrow>
     same_frame G (fold (\<lambda>(_, path) G. on_node child (set_lsr path) G) xs G) \<and>
     done_nodes (fold (\<lambda>(_, path) G. on_node child (set_lsr path) G) xs G) D"
proof (induction xs arbitrary: G)
  case Nil
  then show ?case by (simp add: same_frame_def)
next
  case (Cons x xs)
  obtain nm path where x: "x = (nm, path)" by (cases x)
  from set_lsr_step [OF Cons.prems, of child path] Cons.IH [of "on_node child (set_lsr path) G"]
  show ?case using frame_trans by (simp add: x) blast
qed

lemma add_child_step:
  assumes "done_nodes G D"
  shows "same_frame G (add_child pp cp child G) \<and> done_nodes (add_child pp cp child G) D"
proof (cases "map_of (log_nodes G) pp")
  case None
  then show ?thesis using assms by (simp add: add_child_def same_frame_def)
next
  case (Some p)
  define cs where "cs = AList.update (tn_name child) cp (tn_children p)"
  define G1 where "G1 = on_node pp (\<lambda>n. n\<lparr>tn_children := cs\<rparr>) G"
  have sk: "skeleton G1 = skeleton G" unfolding G1_def by (rule skeleton_on_node) simp
  have "done_nodes G1 D" unfolding G1_def using on_node_done [OF assms sk [unfolded G1_def]] by simp
  moreover have f1: "same_frame G G1" using sk by (simp add: same_frame_def G1_def on_node_frame)
  ultimately have one: "same_frame G (on_node q (set_lsr r) G1) \<and> done_nodes (on_node q (set_lsr r) G1) D" for q r
    using set_lsr_step frame_trans by blast
  have many: "same_frame G (fold (\<lambda>(_, path) G. on_node cp (set_lsr path) G) xs G1) \<and>
      done_nodes (fold (\<lambda>(_, path) G. on_node cp (set_lsr path) G) xs G1) D" for xs :: "(string \<times> string) list"
    using fold_lsr_step [OF \<open>done_nodes G1 D\<close>] frame_trans [OF f1] by blast
  show ?thesis
    using one many f1 \<open>done_nodes G1 D\<close>
    by (simp add: add_child_def Some Let_def flip: cs_def G1_def split: option.split gval.split)
qed

lemma relate_done:
  assumes "relate todo G = Some G'" and "done_nodes G D" and "labels_ok G" and "distinct (paths G)"
  shows "same_frame G G' \<and> done_nodes G' (D \<union> (set todo \<inter> set (paths G)))"
  using assms
proof (induction todo arbitrary: G D)
  case Nil
  then show ?case by (simp add: same_frame_def)
next
  case (Cons path todo)
  show ?case
  proof (cases "map_of (log_nodes G) path")
    case None
    then have "path \<notin> set (paths G)" by (simp add: map_of_eq_None_iff)
    then show ?thesis using Cons None by simp
  next
    case (Some n)
    obtain n' where n': "update_relation G n = Some n'" and rest: "relate todo (add_child (tn_parent_path n') path n'
        (on_node path (\<lambda>_. n') G)) = Some G'"
      using Cons.prems(1) Some by (auto split: option.splits)
    note upd = update_relation_linked [OF n' Cons.prems(3)]
    define G1 where "G1 = on_node path (\<lambda>_. n') G"
    have only: "m = n" if "(path, m) \<in> set (log_nodes G)" for m
      using Some that Cons.prems(4) by (metis map_of_eq_Some_iff option.inject)
    have sk: "skeleton G1 = skeleton G"
      unfolding G1_def by (rule skeleton_on_node) (use only upd in auto)
    have f1: "same_frame G G1" using sk by (simp add: same_frame_def G1_def on_node_frame)
    have "done_nodes G1 (insert path D)"
      using Cons.prems(2) upd names_same [OF sk] by (auto simp: done_nodes_def G1_def on_node_def)
    from add_child_step [OF this, of "tn_parent_path n'" path n']
    obtain G2 where G2: "G2 = add_child (tn_parent_path n') path n' G1" "same_frame G1 G2" "done_nodes G2 (insert path D)"
      by simp
    have f2: "same_frame G G2" using frame_trans [OF f1 G2(2)] .
    then have "labels_ok G2" "paths G2 = paths G"
      using Cons.prems(3) by (simp_all add: labels_ok_def same_frame_def names_of_skeleton paths_skeleton)
    with Cons.IH [OF rest [folded G1_def, folded G2(1)] G2(3)] Cons.prems(4)
    have "same_frame G2 G'" "done_nodes G' (insert path D \<union> (set todo \<inter> set (paths G)))" by simp_all
    moreover have "path \<in> set (paths G)" using Some by (auto dest!: map_of_SomeD intro: rev_image_eqI)
    ultimately show ?thesis using frame_trans [OF f2] by (simp add: insert_commute)
  qed
qed

section \<open>Links\<close>

definition link_ok :: "graph \<Rightarrow> tp_node \<Rightarrow> string \<times> string \<Rightarrow> bool" where
  "link_ok G n x \<longleftrightarrow>
     (case x of (target, look) \<Rightarrow>
        target = ''NONE'' \<or>
        (if tn_type n = ''lrp'' then target \<in> names_of G ''lsp''
         else if look = ''color=yellow'' then target \<in> names_of G ''lrp'' \<or> has_prop n ''chassis''
         else target \<in> names_of G ''chassis''))"

lemma link_to_text: "x \<in> set (link_to n key look) \<Longrightarrow> map_of (tn_props n) key = Some (GText (fst x)) \<and> snd x = look"
  by (auto simp: link_to_def split: option.splits gval.splits)

lemma linked_prop:
  "linked N n \<Longrightarrow> relation_of n = Some (key, ty) \<Longrightarrow> map_of (tn_props n) key = Some (GText t) \<Longrightarrow> t = ''NONE'' \<or> t \<in> N ty"
  by (auto simp: linked_def names_in_def)

lemma lsp_links_ok:
  assumes "linked (names_of G) n" and "tn_type n = ''lsp''"
    and "x \<in> set (link_to n ''peer'' ''color=yellow'') \<or> x \<in> set (link_to n ''chassis'' ''color=blue,style=dotted'')"
  shows "link_ok G n x"
  using assms(3)
proof
  assume "x \<in> set (link_to n ''peer'' ''color=yellow'')"
  then have p: "map_of (tn_props n) ''peer'' = Some (GText (fst x))" "snd x = ''color=yellow''" using link_to_text by blast+
  show ?thesis
  proof (cases "has_prop n ''chassis''")
    case True
    then show ?thesis using p(2) assms(2) by (cases x) (simp add: link_ok_def)
  next
    case False
    then have "relation_of n = Some (''peer'', ''lrp'')" using p(1) assms(2) by (simp add: relation_of_def has_prop_def)
    then show ?thesis using linked_prop [OF assms(1)] p assms(2) by (cases x) (auto simp: link_ok_def)
  qed
next
  assume "x \<in> set (link_to n ''chassis'' ''color=blue,style=dotted'')"
  then have p: "map_of (tn_props n) ''chassis'' = Some (GText (fst x))" "snd x = ''color=blue,style=dotted''" using link_to_text by blast+
  then have "relation_of n = Some (''chassis'', ''chassis'')" using assms(2) by (simp add: relation_of_def has_prop_def)
  then show ?thesis using linked_prop [OF assms(1)] p assms(2) by (cases x) (auto simp: link_ok_def)
qed

lemma links_ok:
  assumes "linked (names_of G) n" and "node_links G n = Some ls" and "x \<in> set ls"
  shows "link_ok G n x"
proof (cases "tn_type n = ''lsp''")
  case True
  then have "ls = link_to n ''peer'' ''color=yellow'' @ link_to n ''chassis'' ''color=blue,style=dotted''"
    using assms(2) by (simp add: node_links_def)
  then show ?thesis using assms(3) by (intro lsp_links_ok [OF assms(1) True]) simp
next
  case False
  then have lrp: "tn_type n = ''lrp''" "has_prop n ''peer''"
    using assms(2,3) by (auto simp: node_links_def split: if_splits)
  obtain look where "ls = link_to n ''peer'' look"
    using assms(2) lrp by (auto simp: node_links_def)
  then have "map_of (tn_props n) ''peer'' = Some (GText (fst x))" using link_to_text assms(3) by blast
  moreover have "relation_of n = Some (''peer'', ''lsp'')" using lrp by (simp add: relation_of_def)
  ultimately show ?thesis using linked_prop [OF assms(1)] lrp(1) by (cases x) (auto simp: link_ok_def)
qed

text \<open>
  C36. The nodes of the graph have different names, and every link is to \<open>NONE\<close> or to a node of the right
  kind: of a router's port to a port of a switch, of a switch's port to its peer or its chassis. Only the link of a
  port with a chassis to its peer may dangle: its target is still a label.
\<close>

theorem links_end_at_nodes:
  assumes "build_whole_map data = Some G" and "distinct (map (\<lambda>(val, key, revision). key) data)"
  shows "distinct (map (\<lambda>(p, n). tn_name n) (log_nodes G)) \<and>
    list_all (\<lambda>(p, n). case node_links G n of None \<Rightarrow> True | Some ls \<Rightarrow> list_all (link_ok G n) ls) (log_nodes G)"
proof -
  obtain G0 where G0: "put_nodes data empty_graph = Some G0" and rel: "relate (paths G0) G0 = Some G"
    using assms(1) by (auto simp: build_whole_map_def bind_eq_Some_conv)
  have "labels_ok empty_graph" "numbered empty_graph" by (simp_all add: labels_ok_def numbered_def empty_graph_def)
  then have ok: "labels_ok G0" "numbered G0" "distinct (paths G0)"
    using put_nodes_ok [OF G0] assms(2) by (simp_all add: empty_graph_def)
  have "done_nodes G0 {}" by (simp add: done_nodes_def)
  from relate_done [OF rel this ok(1,3)] have f: "same_frame G0 G" and d: "done_nodes G (set (paths G0))" by simp_all
  have "paths G = paths G0" using f by (simp add: same_frame_def paths_skeleton)
  have linked: "linked (names_of G) n" if "(p, n) \<in> set (log_nodes G)" for p n
  proof -
    have "p \<in> set (paths G)" using that by (auto intro: rev_image_eqI)
    then show ?thesis using d that \<open>paths G = paths G0\<close> by (auto simp only: done_nodes_def)
  qed
  have names: "map (\<lambda>(p, n). tn_name n) (log_nodes H) = map (\<lambda>(p, nm, ty). nm) (skeleton H)" for H
    by (simp add: skeleton_def split_beta comp_def)
  have "map (\<lambda>(p, n). tn_name n) (log_nodes G) = map node_name [0..<g_name_id G0]"
    using f ok(2) by (simp only: same_frame_def numbered_def names)
  then have "distinct (map (\<lambda>(p, n). tn_name n) (log_nodes G))"
    by (simp add: distinct_map inj_on_def node_name_def)
  moreover have "list_all (link_ok G n) ls" if "(p, n) \<in> set (log_nodes G)" "node_links G n = Some ls" for p n ls
    using links_ok [OF linked [OF that(1)] that(2)] by (simp add: list_all_iff)
  ultimately show ?thesis by (auto simp: list_all_iff split: option.split)
qed

definition demo_entities :: "(string \<times> string \<times> int) list" where
  "demo_entities = [(''peer=q'', ''s/lsp/p'', 1), (''peer=p'', ''r/lrp/q'', 2)]"

definition demo_node :: "string \<Rightarrow> string \<Rightarrow> string \<Rightarrow> string \<Rightarrow> string \<Rightarrow> tp_node" where
  "demo_node name label ty parent peer =
     \<lparr>tn_name = name, tn_label = label, tn_type = ty, tn_parent = parent, tn_props = [(''peer'', GText peer)],
      tn_parent_path = parent, tn_children = []\<rparr>"

definition demo_graph :: graph where
  "demo_graph =
     \<lparr>log_nodes = [(''s/lsp/p'', demo_node ''ATPNODE0'' ''p'' ''lsp'' ''s'' ''q''),
                   (''r/lrp/q'', demo_node ''ATPNODE1'' ''q'' ''lrp'' ''r'' ''p'')],
      label_names = [(''lsp'', [(''p'', ''ATPNODE0'')]), (''lrp'', [(''q'', ''ATPNODE1'')])],
      name_labels = [(''ATPNODE0'', ''p''), (''ATPNODE1'', ''q'')], g_name_id = 2\<rparr>"

lemma demo_names: "node_name 0 = ''ATPNODE0''" "node_name 1 = ''ATPNODE1''"
  by (simp_all add: node_name_def nat_str_def num_str.simps digit_char_def)

lemma demo_put: "put_nodes demo_entities empty_graph = Some demo_graph"
  using demo_names
  by (simp add: demo_entities_def put_node_def graph_value_def split_once_def empty_graph_def demo_graph_def demo_node_def Let_def)

lemma demo_graph_made: "build_whole_map demo_entities \<noteq> None"
  unfolding build_whole_map_def demo_put
  by (simp add: demo_graph_def demo_node_def update_relation_def relation_of_def has_prop_def to_name_def add_child_def on_node_def)

theorem links_end_at_nodes_witness:
  "\<exists>G. build_whole_map demo_entities = Some G \<and> distinct (map (\<lambda>(p, n). tn_name n) (log_nodes G))"
proof -
  obtain G where G: "build_whole_map demo_entities = Some G" using demo_graph_made by auto
  have "distinct (map (\<lambda>(val, key, revision). key) demo_entities)" by (simp add: demo_entities_def)
  from links_end_at_nodes [OF G this] G show ?thesis by blast
qed

end
