(* ===== verification/Startup.thy ===== *)
theory Startup imports Tuplesync Run_Env begin

text \<open>
  Starting and running the controller: \<open>lcp/tuplerun.py\<close> with \<open>lcp/syscmd.py\<close> and the reconnection of
  \<open>lcp/link_master.py\<close>. Logging, the command line and the pauses are left out; \<open>killme\<close> ends the process
  through its signal handler.
\<close>

section \<open>Connecting to etcd\<close>

text \<open>
  \<open>etcd_answers\<close>: is the host with this index in service? The hosts are taken in turn when testing, at random
  otherwise.
\<close>

record 's etcd_hosts =
  etcd_answers :: "nat \<Rightarrow> ('s, bool) state"
  draw_host :: "nat \<Rightarrow> ('s, nat) state"

type_synonym 's conn = "'s watch_master \<times> int"

definition on_net_conn :: "('s, 'a) state \<Rightarrow> ('s conn, 'a) state" where
  "on_net_conn m = State (\<lambda>(w, prev). case run_state m (net w) of (x, s) \<Rightarrow> (x, (w\<lparr>net := s\<rparr>, prev)))"

definition choose_host :: "'s etcd_hosts \<Rightarrow> bool \<Rightarrow> nat \<Rightarrow> ('s conn, nat) state" where
  "choose_host E testing n_hosts =
     (if testing then State (\<lambda>(w, prev). (nat ((prev + 1) mod int n_hosts), (w, (prev + 1) mod int n_hosts)))
      else on_net_conn (draw_host E n_hosts))"

text \<open>\<open>reconn_master\<close>: the index of the host it is connected to. Without a host there is nothing to choose from.\<close>

primrec reconn_master :: "'s etcd_hosts \<Rightarrow> bool \<Rightarrow> nat \<Rightarrow> nat \<Rightarrow> ('s conn, nat) prog" where
  "reconn_master E testing n_hosts 0 = ret None"
| "reconn_master E testing n_hosts (Suc retry_n) =
     (if n_hosts = 0 then ret None
      else do {
        choose_id \<leftarrow> choose_host E testing n_hosts;
        State_Monad.update (\<lambda>(w, prev). (disable_all_watches w, prev));
        ok \<leftarrow> on_net_conn (etcd_answers E choose_id);
        (if ok then ret (Some choose_id) else reconn_master E testing n_hosts retry_n) })"

text \<open>\<open>create_watch_master\<close>: a malformed list of hosts raises, and so do ten failed attempts.\<close>

definition create_watch_master :: "'s etcd_hosts \<Rightarrow> bool \<Rightarrow> string \<Rightarrow> 's \<Rightarrow> 's watch_master option \<times> 's" where
  "create_watch_master E testing hosts s =
     (case sanity_etcdhost hosts of
        None \<Rightarrow> (None, s)
      | Some specs \<Rightarrow>
          (case run_state (reconn_master E testing (length specs) 10) (init_watch_master s, -1) of
             (r, (w, prev)) \<Rightarrow> (if r = None then None else Some w, net w)))"

section \<open>The machine\<close>

text \<open>\<open>shell\<close> is \<open>commands.getstatusoutput\<close>; \<open>kill_pid\<close> tells whether the process could be killed.\<close>

record 's machine =
  m_host :: "'s host"
  shell :: "string \<Rightarrow> ('s, int \<times> string) state"
  path_exists :: "string \<Rightarrow> ('s, bool) state"
  make_dirs :: "string \<Rightarrow> ('s, bool) state"
  make_fifo :: "string \<Rightarrow> ('s, bool) state"
  read_text :: "string \<Rightarrow> ('s, string) prog"
  kill_pid :: "int \<Rightarrow> ('s, bool) state"
  own_pid :: nat
  iface_addr :: "string \<Rightarrow> ('s, string) prog"

definition path_join :: "string \<Rightarrow> string \<Rightarrow> string" where
  "path_join dir name = (if dir = [] \<or> last dir = CHR ''/'' then dir @ name else dir @ ''/'' @ name)"

definition PKT_CONTROLLER_PIPE_PATH :: "string \<Rightarrow> string" where
  "PKT_CONTROLLER_PIPE_PATH rundir = path_join rundir ''pkt_controller_pipe''"

definition DEBUG_PIPE_PATH :: "string \<Rightarrow> string" where
  "DEBUG_PIPE_PATH rundir = path_join rundir ''debug_pipe.sock''"

definition create_runtime_folder :: "'s machine \<Rightarrow> string \<Rightarrow> ('s, unit) state" where
  "create_runtime_folder M rundir = do {
     there \<leftarrow> path_exists M rundir;
     made \<leftarrow> (if there then ret True else make_dirs M rundir);
     (if \<not> made then ret ()
      else do {
        pipe \<leftarrow> path_exists M (PKT_CONTROLLER_PIPE_PATH rundir);
        (if pipe then ret () else do { make_fifo M (PKT_CONTROLLER_PIPE_PATH rundir); ret () }) }) }"

definition remove_if_there :: "'s machine \<Rightarrow> string \<Rightarrow> ('s, bool) state" where
  "remove_if_there M path = do {
     there \<leftarrow> path_exists M path;
     (if there then remove_file (m_host M) path else ret True) }"

text \<open>\<open>destory_runtime_files\<close>: what cannot be removed ends it.\<close>

definition destory_runtime_files :: "'s machine \<Rightarrow> string \<Rightarrow> ('s, unit) state" where
  "destory_runtime_files M rundir = do {
     ok \<leftarrow> remove_if_there M (PKT_CONTROLLER_PIPE_PATH rundir);
     (if ok then do { remove_if_there M (DEBUG_PIPE_PATH rundir); ret () } else ret ()) }"

text \<open>
  \<open>check_single_instance\<close>: the instance that left its number is killed and the own number written. A file
  without a number raises, and a process that is gone is no error.
\<close>

definition pid_lock_file :: "string \<Rightarrow> string" where
  "pid_lock_file rundir = path_join rundir ''tuplerun.py.pid''"

definition write_pid_into_file :: "'s machine \<Rightarrow> string \<Rightarrow> ('s, unit) prog" where
  "write_pid_into_file M path = do {
     ok \<leftarrow> write_file (m_host M) path (nat_str (own_pid M));
     ret (if ok then Some () else None) }"

definition check_single_instance :: "'s machine \<Rightarrow> string \<Rightarrow> ('s, unit) prog" where
  "check_single_instance M rundir = do {
     there \<leftarrow> path_exists M (pid_lock_file rundir);
     (if \<not> there then write_pid_into_file M (pid_lock_file rundir)
      else do {
        content \<leftarrow> read_text M (pid_lock_file rundir);
        (case Option.bind content py_int of
           None \<Rightarrow> ret None
         | Some pid \<Rightarrow> do { kill_pid M pid; write_pid_into_file M (pid_lock_file rundir) }) }) }"

section \<open>System settings\<close>

definition sysctl_read :: "'s machine \<Rightarrow> string \<Rightarrow> ('s, string) prog" where
  "sysctl_read M path = do {
     (status, output) \<leftarrow> shell M (''sysctl '' @ path);
     ret (if status \<noteq> 0 then None else Some (py_strip (last (split_on CHR ''='' output)))) }"

definition sysctl_write :: "'s machine \<Rightarrow> string \<Rightarrow> string \<Rightarrow> ('s, unit) prog" where
  "sysctl_write M path val = do {
     (status, output) \<leftarrow> shell M (''sysctl -w '' @ path @ ''='' @ val);
     (if status \<noteq> 0 then ret None
      else do { r \<leftarrow> sysctl_read M path; ret (if r = Some val then Some () else None) }) }"

definition network_ifup :: "'s machine \<Rightarrow> string \<Rightarrow> ('s, unit) prog" where
  "network_ifup M port = do {
     (status, output) \<leftarrow> shell M (''ip link set '' @ port @ '' up'');
     (if status \<noteq> 0 then ret None
      else do {
        (status, output) \<leftarrow> shell M (''ip link show '' @ port @ '' up'');
        ret (if status \<noteq> 0 \<or> output = [] then None else Some ()) }) }"

text \<open>\<open>_correct_sysctl_config\<close> on the entries of the dictionary.\<close>

definition correct_one :: "'s machine \<Rightarrow> string \<times> string \<Rightarrow> ('s, unit) prog" where
  "correct_one M kv =
     (case kv of (k, v) \<Rightarrow> do {
        current_v \<leftarrow> sysctl_read M k;
        (case current_v of
           None \<Rightarrow> ret None
         | Some c \<Rightarrow> if c \<noteq> v then sysctl_write M k v else ret (Some ())) })"

definition correct_sysctl_config :: "'s machine \<Rightarrow> (string \<times> string) list \<Rightarrow> ('s, bool) state" where
  "correct_sysctl_config M kvs = do { r \<leftarrow> each_ok (correct_one M) kvs; ret (r \<noteq> None) }"

definition dsr_config :: "string \<Rightarrow> (string \<times> string) list" where
  "dsr_config dsr_portname =
     [(''net.ipv4.conf.all.rp_filter'', ''0''), (''net.ipv4.ip_forward'', ''1''),
      (''net.ipv4.conf.'' @ dsr_portname @ ''.rp_filter'', ''0''),
      (''net.ipv4.conf.'' @ dsr_portname @ ''.forwarding'', ''1'')]"

section \<open>The address of the tunnel\<close>

text \<open>
  The regular expression of \<open>config_consume_ip\<close>: four numbers, each with one of the three alternatives, and
  before the end of the text perhaps one newline.
\<close>

definition is_digit :: "char \<Rightarrow> bool" where
  "is_digit c \<longleftrightarrow> CHR ''0'' \<le> c \<and> c \<le> CHR ''9''"

definition octet :: "string \<Rightarrow> bool" where
  "octet s =
     (case s of
        [a] \<Rightarrow> is_digit a
      | [a, b] \<Rightarrow> is_digit a \<and> is_digit b
      | [a, b, c] \<Rightarrow>
          a = CHR ''2'' \<and> b = CHR ''5'' \<and> CHR ''0'' \<le> c \<and> c \<le> CHR ''5'' \<or>
          a = CHR ''2'' \<and> CHR ''0'' \<le> b \<and> b \<le> CHR ''4'' \<and> is_digit c \<or>
          (a = CHR ''0'' \<or> a = CHR ''1'') \<and> is_digit b \<and> is_digit c
      | _ \<Rightarrow> False)"

definition before_newline :: "string \<Rightarrow> string" where
  "before_newline s = (if s \<noteq> [] \<and> last s = newline then butlast s else s)"

definition is_ip_text :: "string \<Rightarrow> bool" where
  "is_ip_text s \<longleftrightarrow>
     (let parts = split_on CHR ''.'' (before_newline s) in length parts = 4 \<and> list_all octet parts)"

fun interface_ip :: "'s machine \<Rightarrow> string list \<Rightarrow> ('s, string) prog" where
  "interface_ip M [] = ret None"
| "interface_ip M (ifname # ifnames) = do {
     r \<leftarrow> iface_addr M (take 15 ifname);
     (case r of Some ip \<Rightarrow> ret (Some ip) | None \<Rightarrow> interface_ip M ifnames) }"

text \<open>The address, or none, which kills the process.\<close>

definition config_consume_ip :: "'s machine \<Rightarrow> string list \<Rightarrow> ('s, string) prog" where
  "config_consume_ip M interface_list =
     (if is_ip_text (hd interface_list) then ret (Some (hd interface_list)) else interface_ip M interface_list)"

section \<open>Initialisation\<close>

datatype 'a boot = Raised | Killed | Booted 'a

definition boot_bind :: "('s, 'a boot) state \<Rightarrow> ('a \<Rightarrow> ('s, 'b boot) state) \<Rightarrow> ('s, 'b boot) state" where
  "boot_bind m f = do {
     r \<leftarrow> m;
     (case r of Raised \<Rightarrow> ret Raised | Killed \<Rightarrow> ret Killed | Booted x \<Rightarrow> f x) }"

definition or_raise :: "('s, 'a) prog \<Rightarrow> ('s, 'a boot) state" where
  "or_raise m = do { r \<leftarrow> m; ret (case r of None \<Rightarrow> Raised | Some x \<Rightarrow> Booted x) }"

definition or_kill :: "('s, 'a) prog \<Rightarrow> ('s, 'a boot) state" where
  "or_kill m = do { r \<leftarrow> m; ret (case r of None \<Rightarrow> Killed | Some x \<Rightarrow> Booted x) }"

text \<open>The port for direct server return, when the option is set: its settings must be right and it must be up.\<close>

definition init_dsr :: "'s machine \<Rightarrow> string \<Rightarrow> ('s, (string \<times> string) option boot) state" where
  "init_dsr M br = do {
     info \<leftarrow> create_br_int_dsrport (m_host M) br;
     (case info of
        None \<Rightarrow> ret (Booted None)
      | Some (dsr_portname, mac, ofport) \<Rightarrow> do {
          ok \<leftarrow> correct_sysctl_config M (dsr_config dsr_portname);
          (if \<not> ok then ret Killed
           else do {
             up \<leftarrow> network_ifup M dsr_portname;
             ret (if up = None then Killed else Booted (Some (mac, ofport))) }) }) }"

text \<open>Up to the rules: the options with the port, and the id of the host.\<close>

definition init_switch :: "'s machine \<Rightarrow> string \<Rightarrow> options \<Rightarrow> ('s, (options \<times> string) boot) state" where
  "init_switch M rundir options = do {
     create_runtime_folder M rundir;
     boot_bind (or_raise (check_single_instance M rundir)) (\<lambda>_.
       boot_bind (or_raise (ovs_system_id (m_host M))) (\<lambda>sys_id.
         if sys_id = [] then ret Killed
         else boot_bind (or_raise (build_br_integration (m_host M) ''br-int'')) (\<lambda>br.
           boot_bind (if ENABLE_UNTUNNEL options then init_dsr M br else ret (Booted None)) (\<lambda>port.
             ret (Booted (options\<lparr>dsrport := port\<rparr>, sys_id)))))) }"

text \<open>
  \<open>init_env\<close>; the outer \<open>None\<close> is a switch that never shows the tunnel option. The result has the client of etcd
  and the zoo with the fact \<open>local_system_id\<close>.
\<close>

definition init_env :: "'s machine \<Rightarrow> 's etcd_hosts \<Rightarrow> bool \<Rightarrow> string \<Rightarrow> options \<Rightarrow> ipfix_cfg option \<Rightarrow> string \<Rightarrow> 's \<Rightarrow>
    ((options \<times> string \<times> 's watch_master \<times> zoo) boot \<times> 's) option" where
  "init_env M E testing rundir options ipfix hosts s =
     (case run_state (init_switch M rundir options) s of
        (Raised, s1) \<Rightarrow> Some (Raised, s1)
      | (Killed, s1) \<Rightarrow> Some (Killed, s1)
      | (Booted (options', sys_id), s1) \<Rightarrow>
          (case run_state (insert_ovs_ipfix (m_host M) ipfix ''br-int'') s1 of
             (None, s2) \<Rightarrow> Some (Killed, s2)
           | (Some _, s2) \<Rightarrow>
               (case set_tunnel_tlv (m_host M) 0xffee ''br-int'' s2 of
                  None \<Rightarrow> None
                | Some (None, s3) \<Rightarrow> Some (Killed, s3)
                | Some (Some _, s3) \<Rightarrow>
                    (case create_watch_master E testing hosts s3 of
                       (None, s4) \<Rightarrow> Some (Killed, s4)
                     | (Some w, s4) \<Rightarrow> Some (Booted (options', sys_id, w, init_zoo [sys_id]), s4)))))"

text \<open>
  \<open>clean_env\<close>, what the signal handler does before the process exits; the result is whether it ended without an
  exception. \<open>flock\<close> is the file with the own number, \<open>stop\<close> the end of the watches, once there are such.
\<close>

definition clean_env :: "'s machine \<Rightarrow> string \<Rightarrow> string option \<Rightarrow> ('s, unit) prog option \<Rightarrow> ('s, bool) state" where
  "clean_env M rundir flock stop =
     (case flock of
        None \<Rightarrow> ret False
      | Some path \<Rightarrow> do {
          ok \<leftarrow> remove_if_there M path;
          (if \<not> ok then ret False
           else do {
             stopped \<leftarrow> (case stop of None \<Rightarrow> ret (Some ()) | Some m \<Rightarrow> m);
             (if stopped = None then ret False else do { destory_runtime_files M rundir; ret True }) }) })"

section \<open>The main loop\<close>

datatype monitor_thread = Arp_update | Debug | Ovsdb_monitor

text \<open>\<open>thread_alive\<close> and \<open>thread_start\<close>, which tells whether it raised, belong to the threads; \<open>wall_clock\<close> is in ticks.\<close>

record 's threads =
  thread_alive :: "monitor_thread \<Rightarrow> ('s, bool) state"
  thread_start :: "monitor_thread \<Rightarrow> ('s, unit) prog"
  wall_clock :: "('s, int) state"

text \<open>\<open>check_monitor_thread\<close>: nothing catches what a start raises.\<close>

definition check_monitor_thread :: "'s threads \<Rightarrow> ('s, unit) prog" where
  "check_monitor_thread T =
     each_ok (\<lambda>t. do {
       alive \<leftarrow> thread_alive T t;
       (if alive then ret (Some ()) else thread_start T t) }) [Arp_update, Debug, Ovsdb_monitor]"

text \<open>
  A turn of \<open>run_main\<close>: \<open>last_refresh\<close> and the times of the passes so far. \<open>work\<close> is \<open>update_logical_view\<close>, whose
  exceptions are caught.
\<close>

record main_loop =
  last_refresh :: int
  pass_times :: "int list"

definition main_turn :: "'s threads \<Rightarrow> ('s, unit) state \<Rightarrow> int \<Rightarrow> main_loop \<Rightarrow> ('s, main_loop) prog" where
  "main_turn T work interval L = do {
     now \<leftarrow> wall_clock T;
     (if now - last_refresh L < interval then ret (Some L)
      else do {
        t \<leftarrow> wall_clock T;
        r \<leftarrow> check_monitor_thread T;
        (case r of
           None \<Rightarrow> ret None
         | Some _ \<Rightarrow> do { work; ret (Some \<lparr>last_refresh = t, pass_times = pass_times L @ [t]\<rparr>) }) }) }"

primrec run_main :: "'s threads \<Rightarrow> ('s, unit) state \<Rightarrow> int \<Rightarrow> nat \<Rightarrow> main_loop \<Rightarrow> ('s, main_loop) prog" where
  "run_main T work interval 0 L = ret (Some L)"
| "run_main T work interval (Suc turns) L = do {
     r \<leftarrow> main_turn T work interval L;
     (case r of None \<Rightarrow> ret None | Some L' \<Rightarrow> run_main T work interval turns L') }"

definition start_loop :: main_loop where
  "start_loop = \<lparr>last_refresh = 0, pass_times = []\<rparr>"

end
