(* ===== verification/Startup_Props.thy ===== *)
theory Startup_Props imports Startup begin

text \<open>
  Start-up and main loop: the text that counts as an address, the settings of the kernel, the search for a
  host of etcd in service, and the rate of the passes.
\<close>

section \<open>Addresses\<close>

abbreviation code :: "char \<Rightarrow> nat" where
  "code c \<equiv> of_char c"

lemma is_digit_code: "is_digit c \<longleftrightarrow> 48 \<le> code c \<and> code c \<le> 57"
  by (simp add: is_digit_def less_eq_char_def)

lemma char_code: "c = d \<longleftrightarrow> code c = code d"
  by simp

lemma digit_step:
  "digits_val 10 acc (c # cs) = (if is_digit c then digits_val 10 (acc * 10 + (code c - 48)) cs else None)"
  by (auto simp: digit_val_def Let_def is_digit_code)

lemma octet3:
  "octet [a, b, c] \<longleftrightarrow> is_digit a \<and> is_digit b \<and> is_digit c \<and> ((code a - 48) * 10 + (code b - 48)) * 10 + (code c - 48) \<le> 255"
proof -
  have codes: "a = CHR ''0'' \<longleftrightarrow> code a = 48" "a = CHR ''1'' \<longleftrightarrow> code a = 49" "a = CHR ''2'' \<longleftrightarrow> code a = 50"
      "b = CHR ''5'' \<longleftrightarrow> code b = 53"
    unfolding char_code by simp_all
  show ?thesis
    unfolding octet_def by (simp add: codes is_digit_code less_eq_char_def) arith
qed

text \<open>What the alternatives of the expression mean: one to three digits of a number that fits a byte.\<close>

definition byte_text :: "string \<Rightarrow> bool" where
  "byte_text s \<longleftrightarrow> length s \<le> 3 \<and> (case num_val 10 s of None \<Rightarrow> False | Some n \<Rightarrow> n \<le> 255)"

lemma octet_byte: "octet s \<longleftrightarrow> byte_text s"
proof -
  consider "s = []" | a where "s = [a]" | a b where "s = [a, b]" | a b c where "s = [a, b, c]" | "3 < length s"
    by (metis One_nat_def Suc_lessI length_0_conv length_Suc_conv less_Suc_eq_0_disj not_less_eq numeral_3_eq_3)
  then show ?thesis
  proof cases
    case 5
    then obtain a b c d t where "s = a # b # c # d # t"
      by (metis One_nat_def Suc_le_length_iff Suc_leI numeral_3_eq_3)
    then show ?thesis by (simp add: octet_def byte_text_def)
  next
    case 4
    then show ?thesis by (simp add: octet3 byte_text_def num_val_def digit_step del: digits_val.simps(2))
  qed (auto simp: octet_def byte_text_def num_val_def digit_step is_digit_code simp del: digits_val.simps(2))
qed

lemma join_split: "join_with [c] (split_on c s) = s"
proof (induction s)
  case (Cons x s)
  obtain p ps where "split_on c s = p # ps" by (cases "split_on c s") auto
  then show ?case using Cons by (cases ps) auto
qed simp

lemma octet_no_dot: "octet s \<Longrightarrow> CHR ''.'' \<notin> set s"
proof -
  have "\<not> is_digit (CHR ''.'')" by (simp add: is_digit_code)
  moreover assume "octet s"
  then have "list_all is_digit s"
    by (auto simp: octet_def is_digit_code less_eq_char_def split: list.splits)
  ultimately show ?thesis by (auto simp: list_all_iff)
qed

text \<open>
  A text counts as the address of the tunnel exactly when it is four numbers between dots, each of at most three
  digits and at most 255; leading zeros are accepted, and so is a newline at the end.
\<close>

theorem ip_text_is_four_bytes:
  "is_ip_text s \<longleftrightarrow> (\<exists>a b c d. before_newline s = join_with ''.'' [a, b, c, d] \<and> list_all byte_text [a, b, c, d])"
proof
  assume a: "is_ip_text s"
  then have "length (split_on CHR ''.'' (before_newline s)) = 4" by (simp add: is_ip_text_def Let_def)
  then obtain a b c d where parts: "split_on CHR ''.'' (before_newline s) = [a, b, c, d]"
    by (auto simp: numeral_eq_Suc length_Suc_conv)
  moreover have "list_all byte_text [a, b, c, d]" using a parts by (simp add: is_ip_text_def octet_byte)
  moreover have "before_newline s = join_with ''.'' [a, b, c, d]" using join_split [of "CHR ''.''" "before_newline s"] parts by simp
  ultimately show "\<exists>a b c d. before_newline s = join_with ''.'' [a, b, c, d] \<and> list_all byte_text [a, b, c, d]" by blast
next
  assume "\<exists>a b c d. before_newline s = join_with ''.'' [a, b, c, d] \<and> list_all byte_text [a, b, c, d]"
  then obtain a b c d where s: "before_newline s = join_with ''.'' [a, b, c, d]" and b: "list_all octet [a, b, c, d]"
    by (auto simp: octet_byte)
  then have "split_on CHR ''.'' (before_newline s) = [a, b, c, d]"
    unfolding s by (intro split_on_join) (auto dest: octet_no_dot)
  then show "is_ip_text s" using b by (simp add: is_ip_text_def)
qed

section \<open>Reconnecting\<close>

definition hops_to :: "nat \<Rightarrow> nat \<Rightarrow> int \<Rightarrow> int" where
  "hops_to n j prev = (int j - (prev + 1)) mod int n"

lemma hops_step:
  assumes "0 < n" and "j < n" and "nat ((prev + 1) mod int n) \<noteq> j"
  shows "hops_to n j ((prev + 1) mod int n) = hops_to n j prev - 1" and "0 < hops_to n j prev"
proof -
  have "hops_to n j prev \<noteq> 0"
  proof
    assume "hops_to n j prev = 0"
    then have "int j mod int n = (prev + 1) mod int n" by (simp add: hops_to_def mod_eq_dvd_iff mod_0_imp_dvd)
    then show False using assms by simp
  qed
  moreover have "0 \<le> hops_to n j prev" "hops_to n j prev < int n" using assms(1) by (simp_all add: hops_to_def)
  ultimately show pos: "0 < hops_to n j prev" by simp
  have "hops_to n j ((prev + 1) mod int n) = (int j - (prev + 1) - 1) mod int n"
    unfolding hops_to_def by (metis (no_types, opaque_lifting) diff_diff_eq mod_diff_right_eq mod_diff_left_eq)
  also have "\<dots> = (hops_to n j prev - 1) mod int n" unfolding hops_to_def by (simp add: mod_diff_left_eq)
  also have "\<dots> = hops_to n j prev - 1" using pos \<open>hops_to n j prev < int n\<close> by (intro mod_pos_pos_trivial) auto
  finally show "hops_to n j ((prev + 1) mod int n) = hops_to n j prev - 1" .
qed

text \<open>A host that is in service, whatever state the network is in.\<close>

definition in_service :: "'s etcd_hosts \<Rightarrow> nat \<Rightarrow> bool" where
  "in_service E j \<longleftrightarrow> (\<forall>s. fst (run_state (etcd_answers E j) s))"

definition watches_off :: "'s watch_master \<Rightarrow> bool" where
  "watches_off w \<longleftrightarrow> list_all (\<lambda>(key, wid, on). \<not> on) (watch_id_hash w) \<and> watch_canceled w"

lemma watches_off_disable: "watches_off (disable_all_watches w)"
  by (auto simp: watches_off_def disable_all_watches_def list_all_iff)

lemma reconn_finds:
  assumes "in_service E j" and "j < n" and "hops_to n j prev < int retry_n"
  shows "\<exists>h w' prev'. run_state (reconn_master E True n retry_n) (w, prev) = (Some h, (w', prev')) \<and> h < n \<and> watches_off w'"
  using assms(3)
proof (induction retry_n arbitrary: w prev)
  case 0
  have "0 \<le> hops_to n j prev" using assms(2) by (simp add: hops_to_def)
  then show ?case using 0 by simp
next
  case (Suc k)
  let ?c = "nat ((prev + 1) mod int n)" let ?w = "disable_all_watches w"
  obtain ok s where ask: "run_state (etcd_answers E ?c) (net ?w) = (ok, s)" by fastforce
  have c: "?c < n" using assms(2) by (simp add: nat_less_iff)
  have run: "run_state (reconn_master E True n (Suc k)) (w, prev) =
      (if ok then (Some ?c, (?w\<lparr>net := s\<rparr>, (prev + 1) mod int n))
       else run_state (reconn_master E True n k) (?w\<lparr>net := s\<rparr>, (prev + 1) mod int n))"
    using ask assms(2) by (simp add: choose_host_def on_net_conn_def State_Monad.update_def)
  show ?case
  proof (cases ok)
    case True
    have "watches_off (?w\<lparr>net := s\<rparr>)" using watches_off_disable [of w] by (simp add: watches_off_def)
    then show ?thesis using run True c by auto
  next
    case False
    then have "?c \<noteq> j" using assms(1) ask by (auto simp: in_service_def dest: spec [of _ "net ?w"])
    then have "hops_to n j ((prev + 1) mod int n) < int k" using hops_step [of n j prev] Suc.prems assms(2) by simp
    from Suc.IH [OF this, of "?w\<lparr>net := s\<rparr>"] show ?thesis using run False by simp
  qed
qed

text \<open>
  C37. When the hosts are taken in turn and one of them is in service, the client is connected after as many
  attempts as there are hosts, whichever it tried last, and no watch of the old connection counts any more.
\<close>

theorem hosts_in_turn_connect:
  assumes "in_service E j" and "j < n" and "n \<le> retry_n"
  shows "\<exists>h w' prev'. run_state (reconn_master E True n retry_n) (w, prev) = (Some h, (w', prev')) \<and> h < n \<and> watches_off w'"
proof (rule reconn_finds [OF assms(1,2)])
  have "hops_to n j prev < int n" using assms(2) by (simp add: hops_to_def)
  then show "hops_to n j prev < int retry_n" using assms(3) by simp
qed

definition demo_hosts :: "unit etcd_hosts" where
  "demo_hosts = \<lparr>etcd_answers = (\<lambda>i. State (\<lambda>s. (i = 2, s))), draw_host = (\<lambda>n. State (\<lambda>s. (0, s)))\<rparr>"

theorem hosts_in_turn_connect_witness:
  "fst (run_state (reconn_master demo_hosts True 3 10) (init_watch_master (), -1)) \<noteq> None"
proof -
  have "in_service demo_hosts 2" by (simp add: in_service_def demo_hosts_def)
  from hosts_in_turn_connect [OF this, of 3 10 "init_watch_master ()" "-1"] show ?thesis by force
qed

section \<open>The rate of the passes\<close>

definition spaced :: "int \<Rightarrow> main_loop \<Rightarrow> bool" where
  "spaced interval L \<longleftrightarrow>
     successively (\<lambda>a b. a + interval \<le> b) (pass_times L) \<and> (pass_times L \<noteq> [] \<longrightarrow> last (pass_times L) = last_refresh L)"

definition clock_forward :: "'s threads \<Rightarrow> bool" where
  "clock_forward T \<longleftrightarrow>
     (\<forall>s. case run_state (wall_clock T) s of (t, s1) \<Rightarrow> t \<le> fst (run_state (wall_clock T) s1))"

lemma main_turn_spaced:
  assumes "clock_forward T" and "spaced interval L" and "run_state (main_turn T work interval L) s = (Some L', s')"
  shows "spaced interval L'"
proof -
  obtain now s1 where c1: "run_state (wall_clock T) s = (now, s1)" by fastforce
  obtain t s2 where c2: "run_state (wall_clock T) s1 = (t, s2)" by fastforce
  have le: "now \<le> t" using assms(1) c1 c2 by (auto simp: clock_forward_def dest: spec [of _ s])
  show ?thesis
  proof (cases "now - last_refresh L < interval")
    case True
    then show ?thesis using assms(2,3) c1 by (auto simp: main_turn_def)
  next
    case False
    then have L': "L' = \<lparr>last_refresh = t, pass_times = pass_times L @ [t]\<rparr>"
      using assms(3) c1 c2 by (auto simp: main_turn_def split: prod.splits option.splits)
    have "last_refresh L + interval \<le> t" using False le by simp
    then show ?thesis using assms(2) by (auto simp: spaced_def L' successively_append_iff)
  qed
qed

lemma run_main_spaced:
  assumes "clock_forward T"
  shows "spaced interval L \<Longrightarrow> run_state (run_main T work interval turns L) s = (Some L', s') \<Longrightarrow> spaced interval L'"
proof (induction turns arbitrary: L s)
  case (Suc turns)
  obtain L1 s1 where "run_state (main_turn T work interval L) s = (Some L1, s1)" "run_state (run_main T work interval turns L1) s1 = (Some L', s')"
    using Suc.prems(2) by (auto split: prod.splits option.splits)
  then show ?case using Suc.IH main_turn_spaced [OF assms Suc.prems(1)] by blast
qed simp


definition demo_threads :: "int threads" where
  "demo_threads = \<lparr>thread_alive = (\<lambda>t. ret True), thread_start = (\<lambda>t. ret (Some ())), wall_clock = State (\<lambda>s. (s, s + 1))\<rparr>"

lemma demo_clock: "clock_forward demo_threads"
  by (simp add: clock_forward_def demo_threads_def)


section \<open>Settings\<close>

text \<open>
  The documented behaviour of \<open>sysctl\<close> on the settings \<open>val\<close>: it prints the name and the value of a setting,
  which is no list of its own; \<open>-w\<close> sets this setting, if the kernel accepts it, and no other.
\<close>

definition sysctl_works :: "'s machine \<Rightarrow> ('s \<Rightarrow> string \<Rightarrow> string) \<Rightarrow> bool" where
  "sysctl_works M val \<longleftrightarrow>
     (\<forall>s k st out s'. CHR '' '' \<notin> set k \<longrightarrow> run_state (shell M (''sysctl '' @ k)) s = ((st, out), s') \<longrightarrow>
        val s' = val s \<and> (st = 0 \<longrightarrow> out = k @ '' = '' @ val s k)) \<and>
     (\<forall>s k v st out s'. CHR '' '' \<notin> set k \<longrightarrow> run_state (shell M (''sysctl -w '' @ k @ ''='' @ v)) s = ((st, out), s') \<longrightarrow>
        val s' = val s \<or> val s' = (val s)(k := v)) \<and>
     (\<forall>s k. CHR ''='' \<notin> set (val s k) \<and> py_strip (val s k) = val s k)"

lemma strip_blank: "py_strip (CHR '' '' # s) = py_strip s"
  by (simp add: py_strip_def is_space_def)

lemma sysctl_read_value:
  assumes "sysctl_works M val" and "CHR '' '' \<notin> set k" and "run_state (sysctl_read M k) s = (r, s')"
  shows "val s' = val s \<and> (r = None \<or> r = Some (val s k))"
proof -
  obtain st out s1 where run: "run_state (shell M (''sysctl '' @ k)) s = ((st, out), s1)" by (metis surj_pair)
  then have r: "val s1 = val s" "st = 0 \<longrightarrow> out = k @ '' = '' @ val s k"
    using assms(1,2) unfolding sysctl_works_def by blast+
  have plain: "CHR ''='' \<notin> set (val s k)" "py_strip (val s k) = val s k" using assms(1) by (simp_all add: sysctl_works_def)
  have "split_on CHR ''='' (k @ '' = '' @ val s k) = split_on CHR ''='' (k @ '' '') @ [CHR '' '' # val s k]"
    using split_on_sep [of "CHR ''=''" "k @ '' ''" "CHR '' '' # val s k"] plain(1) by simp
  then have "py_strip (last (split_on CHR ''='' (k @ '' = '' @ val s k))) = val s k" by (simp add: strip_blank plain(2))
  then show ?thesis using assms(3) run r by (auto simp: sysctl_read_def)
qed

lemma correct_one_sets:
  assumes "sysctl_works M val" and "CHR '' '' \<notin> set k" and "run_state (correct_one M (k, v)) s = (Some u, s')"
  shows "val s' = (val s)(k := v)"
proof -
  obtain cur s1 where read: "run_state (sysctl_read M k) s = (cur, s1)" by fastforce
  from sysctl_read_value [OF assms(1,2) this] have one: "val s1 = val s" "cur = None \<or> cur = Some (val s k)" by simp_all
  show ?thesis
  proof (cases "val s k = v")
    case True
    then show ?thesis using assms(3) read one by (auto simp: correct_one_def split: if_splits)
  next
    case False
    then have w: "run_state (sysctl_write M k v) s1 = (Some u, s')"
      using assms(3) read one by (auto simp: correct_one_def split: if_splits)
    obtain st out s2 where run: "run_state (shell M (''sysctl -w '' @ k @ ''='' @ v)) s1 = ((st, out), s2)" by (metis surj_pair)
    then have two: "val s2 = val s1 \<or> val s2 = (val s1)(k := v)"
      using assms(1,2) unfolding sysctl_works_def by blast
    have check: "run_state (sysctl_read M k) s2 = (Some v, s')"
      using w run by (auto simp: sysctl_write_def split: if_splits prod.splits)
    from sysctl_read_value [OF assms(1,2) check] have "val s' = val s2" "val s2 k = v" by simp_all
    then show ?thesis using two one by auto
  qed
qed

lemma each_correct:
  assumes "sysctl_works M val"
  shows "list_all (\<lambda>(k, v). CHR '' '' \<notin> set k) kvs \<Longrightarrow> run_state (each_ok (correct_one M) kvs) s = (Some u, s') \<Longrightarrow>
    val s' = fold (\<lambda>(k, v) f. f(k := v)) kvs (val s)"
proof (induction kvs arbitrary: s)
  case (Cons x kvs)
  obtain k v where x: "x = (k, v)" by (cases x)
  obtain w s1 where r: "run_state (correct_one M (k, v)) s = (Some w, s1)" "run_state (each_ok (correct_one M) kvs) s1 = (Some u, s')"
    using Cons.prems(2) by (auto simp: x split: prod.splits option.splits)
  have one: "val s1 = (val s)(k := v)" by (rule correct_one_sets [OF assms _ r(1)]) (use Cons.prems(1) in \<open>simp add: x\<close>)
  have rest: "val s' = fold (\<lambda>(k, v) f. f(k := v)) kvs (val s1)" by (rule Cons.IH [OF _ r(2)]) (use Cons.prems(1) in simp)
  show ?case unfolding rest one by (simp only: x fold_simps(2) case_prod_conv)
qed simp

lemma fold_upd_other: "k \<notin> fst ` set kvs \<Longrightarrow> fold (\<lambda>(k, v) f. f(k := v)) kvs f k = f k"
  by (induction kvs arbitrary: f) auto

lemma fold_upd: "distinct (map fst kvs) \<Longrightarrow> (k, v) \<in> set kvs \<Longrightarrow> fold (\<lambda>(k, v) f. f(k := v)) kvs f k = v"
  by (induction kvs arbitrary: f) (auto simp: fold_upd_other)


definition kernel_val :: "(string \<Rightarrow> string) \<Rightarrow> string \<Rightarrow> string" where
  "kernel_val s k = (if CHR ''='' \<notin> set (s k) \<and> py_strip (s k) = s k then s k else [])"

definition kernel_shell :: "string \<Rightarrow> (string \<Rightarrow> string, int \<times> string) state" where
  "kernel_shell c = State (\<lambda>s.
     if take 10 c = ''sysctl -w '' then
       (case split_on CHR ''='' (drop 10 c) of
          [k, v] \<Rightarrow> if py_strip v = v then ((0, k @ '' = '' @ v), s(k := v)) else ((1, []), s)
        | _ \<Rightarrow> ((1, []), s))
     else ((0, drop 7 c @ '' = '' @ kernel_val s (drop 7 c)), s))"

definition demo_machine :: "(string \<Rightarrow> string) machine" where
  "demo_machine =
     \<lparr>m_host = \<lparr>popen = (\<lambda>args i. ret None), write_file = (\<lambda>p t. ret False), append_file = (\<lambda>p t. ret False),
        remove_file = (\<lambda>p. ret False), read_file = (\<lambda>p. ret None), truncate_file = (\<lambda>p. ret False), temp_path = ret []\<rparr>,
      shell = kernel_shell, path_exists = (\<lambda>p. ret False), make_dirs = (\<lambda>p. ret False), make_fifo = (\<lambda>p. ret False),
      read_text = (\<lambda>p. ret None), kill_pid = (\<lambda>p. ret False), own_pid = 1, iface_addr = (\<lambda>i. ret None)\<rparr>"

lemma split_parts: "p \<in> set (split_on c s) \<Longrightarrow> c \<notin> set p"
proof (induction s arbitrary: p)
  case (Cons x s)
  then show ?case by (cases "split_on c s") (auto split: if_splits)
qed simp

lemma split_pair:
  assumes "split_on c (k @ c # v) = [k', v']"
  shows "k' = k \<and> v' = v \<and> c \<notin> set v"
proof -
  have "split_on c k @ split_on c v = [k', v']" using assms by (simp add: split_on_sep)
  then have parts: "split_on c k = [k']" "split_on c v = [v']"
    by (cases "split_on c k"; cases "split_on c v"; auto simp: append_eq_Cons_conv)+
  then show ?thesis using join_split [of c k] join_split [of c v] split_parts [of v' c v] by simp
qed

lemma demo_sysctl: "sysctl_works demo_machine kernel_val"
  unfolding sysctl_works_def
proof (intro conjI allI impI)
  fix s k st out s' assume k: "CHR '' '' \<notin> set k" and run: "run_state (shell demo_machine (''sysctl '' @ k)) s = ((st, out), s')"
  have "take 3 k \<noteq> ''-w ''" using k by (metis in_set_takeD list.set_intros(1,2))
  then show "kernel_val s' = kernel_val s" "st = 0 \<Longrightarrow> out = k @ '' = '' @ kernel_val s k"
    using run by (auto simp: demo_machine_def kernel_shell_def)
next
  fix s k v st out s' assume run: "run_state (shell demo_machine (''sysctl -w '' @ k @ ''='' @ v)) s = ((st, out), s')"
  show "kernel_val s' = kernel_val s \<or> kernel_val s' = (kernel_val s)(k := v)"
  proof (cases "s' = s")
    case False
    then obtain k' v' where sp: "split_on CHR ''='' (k @ CHR ''='' # v) = [k', v']" and s': "s' = s(k' := v')" "py_strip v' = v'"
      using run by (auto simp: demo_machine_def kernel_shell_def split: list.splits if_splits)
    then show ?thesis using split_pair [OF sp] by (auto simp: kernel_val_def fun_eq_iff)
  qed simp
qed (auto simp: kernel_val_def py_strip_def)


end
