(* ===== verification/Rebuild_Etcd.thy ===== *)
theory Rebuild_Etcd imports Link_Master begin

text \<open>
  \<open>tools/rebuild-etcd.py\<close>: a file of keys and values, each on a line of its own, is written into etcd.
\<close>

fun readlines :: "string \<Rightarrow> string list" where
  "readlines [] = []"
| "readlines (c # s) =
     (if c = CHR 0x0A then [CHR 0x0A] # readlines s
      else case readlines s of [] \<Rightarrow> [[c]] | l # ls \<Rightarrow> (c # l) # ls)"

definition rstrip_newline :: "string \<Rightarrow> string" where
  "rstrip_newline s = rev (dropWhile (\<lambda>c. c = CHR 0x0A) (rev s))"

text \<open>A key without a value raises before anything is written.\<close>

fun kv_lines :: "string list \<Rightarrow> (string \<times> string) list option" where
  "kv_lines [] = Some []"
| "kv_lines [key] = None"
| "kv_lines (key # val # ls) = map_option (Cons (rstrip_newline key, rstrip_newline val)) (kv_lines ls)"

definition rebuild_etcd :: "(string \<Rightarrow> string \<Rightarrow> ('s, unit) prog) \<Rightarrow> string \<Rightarrow> ('s, unit) prog" where
  "rebuild_etcd put data =
     (case kv_lines (readlines data) of
        None \<Rightarrow> ret None
      | Some kv_array \<Rightarrow> each_ok (\<lambda>(key, val). put key val) kv_array)"

section \<open>The file and the store\<close>

definition kv_file :: "(string \<times> string) list \<Rightarrow> string" where
  "kv_file kvs = concat (map (\<lambda>(key, val). key @ [CHR 0x0A] @ val @ [CHR 0x0A]) kvs)"

lemma readlines_line: "CHR 0x0A \<notin> set l \<Longrightarrow> readlines (l @ CHR 0x0A # s) = (l @ [CHR 0x0A]) # readlines s"
  by (induction l) auto

lemma rstrip_line: "CHR 0x0A \<notin> set l \<Longrightarrow> rstrip_newline (l @ [CHR 0x0A]) = l"
proof -
  assume "CHR 0x0A \<notin> set l"
  then have "dropWhile (\<lambda>c. c = CHR 0x0A) (rev l) = rev l" by (cases "rev l") (auto simp: rev_swap)
  then show ?thesis by (simp add: rstrip_newline_def)
qed

lemma kv_lines_file:
  "list_all (\<lambda>(k, v). CHR 0x0A \<notin> set k \<and> CHR 0x0A \<notin> set v) kvs \<Longrightarrow> kv_lines (readlines (kv_file kvs)) = Some kvs"
  by (induction kvs) (auto simp: kv_file_def readlines_line rstrip_line)

interpretation kv_text: codec kv_file "\<lambda>s. kv_lines (readlines s)"
    "list_all (\<lambda>(k, v). CHR 0x0A \<notin> set k \<and> CHR 0x0A \<notin> set v)"
  by unfold_locales (rule kv_lines_file)

text \<open>Rebuilding from the keys and values of a store, in whatever order they were written, gives this store.\<close>

lemma rebuild_restores:
  assumes "list_all (\<lambda>(k, v). CHR 0x0A \<notin> set k \<and> CHR 0x0A \<notin> set v) kvs" and "distinct (map fst kvs)"
    and "\<And>k v s. run_state (put k v) s = (Some (), s(k \<mapsto> v))"
  shows "run_state (rebuild_etcd put (kv_file kvs)) Map.empty = (Some (), map_of kvs)"
proof -
  have "run_state (each_ok (\<lambda>(key, val). put key val) kvs) s = (Some (), s ++ map_of kvs)" for s
    using assms(2)
  proof (induction kvs arbitrary: s)
    case (Cons x kvs)
    have all: "s ++ map_of (x # kvs) = s(fst x \<mapsto> snd x) ++ map_of kvs"
    proof -
      have none: "map_of kvs (fst x) = None" using Cons.prems by (simp add: map_of_eq_None_iff)
      show ?thesis using none by (auto simp: map_add_def fun_eq_iff split: option.split)
    qed
    show ?case unfolding all using Cons by (simp add: assms(3) split_beta)
  qed simp
  then show ?thesis by (simp add: rebuild_etcd_def kv_text.decode_encode [OF assms(1)])
qed

end
