(* ===== verification/Bundles.thy ===== *)
theory Bundles imports Sync_Sound begin

text \<open>
  The bundles of the equal-cost routes (\<open>lcp/ecmp.py\<close>) over a round. They are not tracked flow by
  flow: when a port joins or leaves, the bundle is written anew with all its ports. On routes that are
  regular this still gives what evaluating the rules from scratch gives.
\<close>

section \<open>Grouping\<close>

definition slave_list :: "('y \<times> ('z :: linorder)) set \<Rightarrow> 'y list \<Rightarrow> bool" where
  "slave_list A ys \<longleftrightarrow> (\<exists>l. set l = A \<and> sorted (map snd l) \<and> distinct (map snd l) \<and> ys = map fst l)"

text \<open>A set of ports no two of which share their sort key has one list of slaves.\<close>

lemma slave_list_unique: "slave_list A xs \<Longrightarrow> slave_list A ys \<Longrightarrow> xs = ys"
proof -
  assume "slave_list A xs" "slave_list A ys"
  then obtain k l where kl: "set k = A" "sorted (map snd k)" "distinct (map snd k)" "xs = map fst k"
      "set l = A" "sorted (map snd l)" "distinct (map snd l)" "ys = map fst l"
    unfolding slave_list_def by blast
  have "inj_on snd (set k \<union> set l)" using kl(1,3,5) by (simp add: distinct_map)
  then have "k = l" using kl by (intro map_sorted_distinct_set_unique [where f = snd]) simp_all
  then show ?thesis using kl by simp
qed

lemma tuple_by_group:
  assumes mem: "\<And>k p. (k, p) \<in> set xs \<longleftrightarrow> G k p"
  shows "(k, ys) \<in> set (tuple_by xs) \<Longrightarrow> inj_on snd {p. G k p} \<Longrightarrow> slave_list {p. G k p} ys"
    and "(k, ys) \<in> set (tuple_by xs) \<Longrightarrow> \<exists>p. G k p"
    and "G k p \<Longrightarrow> \<exists>ys. (k, ys) \<in> set (tuple_by xs)"
proof -
  let ?g = "map snd (filter (\<lambda>x. fst x = k) xs)"
  have set_g: "set ?g = {p. G k p}" using mem [of k] by force
  show "slave_list {p. G k p} ys" if "(k, ys) \<in> set (tuple_by xs)" "inj_on snd {p. G k p}"
    unfolding slave_list_def
  proof (intro exI [of _ "sort_key snd (remdups ?g)"] conjI)
    show "set (sort_key snd (remdups ?g)) = {p. G k p}" unfolding set_sort set_remdups by (rule set_g)
    show "distinct (map snd (sort_key snd (remdups ?g)))"
      using that(2) unfolding set_g [symmetric] by (simp add: distinct_map)
    show "ys = map fst (sort_key snd (remdups ?g))" using that(1) by (auto simp: tuple_by_def)
  qed simp
  show "\<exists>p. G k p" if "(k, ys) \<in> set (tuple_by xs)" using that mem by (fastforce simp: tuple_by_def)
  show "\<exists>ys. (k, ys) \<in> set (tuple_by xs)" if "G k p"
    using mem [of k p] that by (force simp: tuple_by_def)
qed

section \<open>Pairs of routes\<close>

text \<open>Two routes of a bundle with the tunnel ports to their next routers.\<close>

definition ecmp_hops :: "facts \<Rightarrow> (lsr_row \<times> int \<times> lsr_row \<times> int) rel" where
  "ecmp_hops f =
     [((r1, p1, r2, p2), a1 + a2). ((r1, p1), a1) \<leftarrow> route_port f, ((r2, p2), a2) \<leftarrow> route_port f,
        ecmp_pair r1 r2]"

lemma mem_ecmp_hops:
  "((r1, p1, r2, p2), s) \<in> set (ecmp_hops f) \<longleftrightarrow>
     (\<exists>a1 a2. ((r1, p1), a1) \<in> set (route_port f) \<and> ((r2, p2), a2) \<in> set (route_port f) \<and>
        ecmp_pair r1 r2 \<and> s = a1 + a2)"
  by (fastforce simp: ecmp_hops_def bex_pair)

lemma mem_route_port:
  "((r, p), a) \<in> set (route_port f) \<longleftrightarrow>
     (\<exists>q s. r \<in> set (lroute_array f) \<and> ((q, p), s) \<in> set (next_hop_ovsport f) \<and>
        LSR_OUTPORT r = Some q \<and> a = LSR_State r + s)"
  by (fastforce simp: route_port_def bex_pair)

abbreviation er_ends :: "lsr_row \<times> int \<times> lsr_row \<times> int \<Rightarrow> lsr_row \<times> int \<times> lsr_row \<times> int" where
  "er_ends \<equiv> \<lambda>(r1, p1, r2, p2). (er_lsr r1, p1, er_lsr r2, p2)"

lemma ecmp_pair_er [simp]: "ecmp_pair (er_lsr r1) (er_lsr r2) \<longleftrightarrow> ecmp_pair r1 r2"
  by (simp add: ecmp_pair_def)

lemma ecmp_pair_sym: "ecmp_pair r1 r2 \<Longrightarrow> ecmp_pair r2 r1"
  by (auto simp: ecmp_pair_def)

lemma exact_ecmp_hops:
  assumes ok: "states_ok f"
  shows "exact_all 20 er_ends ecmp_hops f"
proof -
  have "exact_all (1 + 9 + (1 + 9)) er_ends ecmp_hops f"
  proof (rule exact_all_bind [OF exact_route_port [OF ok] exact_route_port [OF ok],
        where P = "\<lambda>l (r1, p1) (r2, p2). ecmp_pair r1 r2"
        and h = "\<lambda>(r1, p1) (r2, p2). (r1, p1, r2, p2)"], goal_cases)
    case (2 g z u)
    show ?case by (cases z) (simp add: mem_ecmp_hops bex_pair; blast)
  qed (simp_all split: prod.splits)
  then show ?thesis by simp
qed

definition route_key :: "lsr_row \<Rightarrow> string \<times> string \<times> nat" where
  "route_key r = (LSR_LR_UUID r, LSR_IP r, LSR_PREFIX r)"

lemma route_key_er [simp]: "route_key (er_lsr r) = route_key r"
  by (simp add: route_key_def)

lemma ecmp_pair_key: "ecmp_pair r1 r2 \<Longrightarrow> route_key r2 = route_key r1"
  by (simp add: ecmp_pair_def route_key_def)

text \<open>The ports of the bundle of a key, with their sort keys.\<close>

definition bundle_ports :: "(int \<Rightarrow> bool) \<Rightarrow> facts \<Rightarrow> string \<times> string \<times> nat \<Rightarrow> (int \<times> string) set" where
  "bundle_ports P f k =
     {(fst (snd x), LSR_UUID (fst x)) | x s. (x, s) \<in> set (ecmp_hops f) \<and> P s \<and> route_key (fst x) = k}"

lemma mem_bundle_ports:
  "p \<in> bundle_ports P f k \<longleftrightarrow>
     (\<exists>x s. p = (fst (snd x), LSR_UUID (fst x)) \<and> (x, s) \<in> set (ecmp_hops f) \<and> P s \<and> route_key (fst x) = k)"
  by (simp add: bundle_ports_def)

lemma bundle_portsI:
  "((r1, p1, r2, p2), s) \<in> set (ecmp_hops f) \<Longrightarrow> P s \<Longrightarrow> route_key r1 = k \<Longrightarrow>
     (p1, LSR_UUID r1) \<in> bundle_ports P f k"
  unfolding bundle_ports_def by force

lemma bundle_portsE:
  assumes "x \<in> bundle_ports P f k"
  obtains r1 p1 r2 p2 s where "x = (p1, LSR_UUID r1)" "((r1, p1, r2, p2), s) \<in> set (ecmp_hops f)" "P s"
    "route_key r1 = k"
  using assms unfolding bundle_ports_def by force

lemma bundle_ports_view:
  assumes "\<forall>y. (\<exists>s. (y, s) \<in> set (ecmp_hops (view keep f))) \<longleftrightarrow>
      (\<exists>x s. (x, s) \<in> set (ecmp_hops f) \<and> keep s \<and> y = er_ends x)"
  shows "bundle_ports (\<lambda>s. True) (view keep f) k = bundle_ports keep f k"
proof -
  have "fst (er_ends x) = er_lsr (fst x)" "fst (snd (er_ends x)) = fst (snd x)" for x
    by (simp_all split: prod.splits)
  then have same: "fst (snd (er_ends x)) = fst (snd x)" "LSR_UUID (fst (er_ends x)) = LSR_UUID (fst x)"
      "route_key (fst (er_ends x)) = route_key (fst x)" for x by simp_all
  show ?thesis
  proof (intro subset_antisym subsetI)
    fix p assume "p \<in> bundle_ports (\<lambda>s. True) (view keep f) k"
    then obtain y s where y: "p = (fst (snd y), LSR_UUID (fst y))" "(y, s) \<in> set (ecmp_hops (view keep f))"
      "route_key (fst y) = k" unfolding mem_bundle_ports by blast
    then obtain x s where "(x, s) \<in> set (ecmp_hops f)" "keep s" "y = er_ends x" using assms by blast
    moreover from this(3) have "p = (fst (snd x), LSR_UUID (fst x))" "route_key (fst x) = k"
      using y same [of x] by simp_all
    ultimately show "p \<in> bundle_ports keep f k" unfolding mem_bundle_ports by blast
  next
    fix p assume "p \<in> bundle_ports keep f k"
    then obtain x s where x: "p = (fst (snd x), LSR_UUID (fst x))" "(x, s) \<in> set (ecmp_hops f)" "keep s"
      "route_key (fst x) = k" unfolding mem_bundle_ports by blast
    then obtain y t where "(y, t) \<in> set (ecmp_hops (view keep f))" "y = er_ends x" using assms by blast
    moreover from this(2) have "p = (fst (snd y), LSR_UUID (fst y))" "route_key (fst y) = k"
      using x same [of x] by simp_all
    ultimately show "p \<in> bundle_ports (\<lambda>s. True) (view keep f) k" unfolding mem_bundle_ports by blast
  qed
qed

lemma bundle_ports_views:
  assumes "states_ok f"
  shows "bundle_ports (\<lambda>s. True) (view kept_new f) k = bundle_ports kept_new f k"
    and "bundle_ports (\<lambda>s. True) (view kept_old f) k = bundle_ports kept_old f k"
    and "bundle_ports (\<lambda>s. True) (view kept_same f) k = bundle_ports kept_same f k"
proof -
  note e = exact_ecmp_hops [OF assms, unfolded new.exact_def old.exact_def same.exact_def]
  show "bundle_ports (\<lambda>s. True) (view kept_new f) k = bundle_ports kept_new f k"
    by (rule bundle_ports_view [OF e [THEN conjunct1, THEN conjunct2, THEN conjunct2]])
  show "bundle_ports (\<lambda>s. True) (view kept_old f) k = bundle_ports kept_old f k"
    by (rule bundle_ports_view [OF e [THEN conjunct2, THEN conjunct1, THEN conjunct2, THEN conjunct2]])
  show "bundle_ports (\<lambda>s. True) (view kept_same f) k = bundle_ports kept_same f k"
    by (rule bundle_ports_view [OF e [THEN conjunct2, THEN conjunct2, THEN conjunct2, THEN conjunct2]])
qed

lemma bundle_ports_mono: "sub_facts f g \<Longrightarrow> bundle_ports (\<lambda>s. True) f k \<subseteq> bundle_ports (\<lambda>s. True) g k"
proof -
  assume s: "sub_facts f g"
  have port: "\<exists>b. (x, b) \<in> set (route_port g)" if "(x, a) \<in> set (route_port f)" for x a
  proof -
    obtain r p where x: "x = (r, p)" by (cases x)
    show ?thesis using that mono_base(5) [OF s] mono_views3(4) [OF s] unfolding x mem_route_port by blast
  qed
  have "\<exists>t. (y, t) \<in> set (ecmp_hops g)" if "(y, s) \<in> set (ecmp_hops f)" for y s
  proof -
    obtain r1 p1 r2 p2 where y: "y = (r1, p1, r2, p2)" by (metis surj_pair)
    show ?thesis using that port unfolding y mem_ecmp_hops by blast
  qed
  then show ?thesis unfolding bundle_ports_def by blast
qed

section \<open>Regular routes\<close>

text \<open>
  Routes of one router to one network have one next hop, and different routes different ports; a router
  port leads to one tunnel port; the port of a route belongs to the router of the route.
\<close>

definition regular_routes :: "facts \<Rightarrow> bool" where
  "regular_routes g \<longleftrightarrow>
     (\<forall>r \<in> set (lroute_array g). \<forall>r' \<in> set (lroute_array g). route_key r = route_key r' \<longrightarrow>
        LSR_NEXT_HOP r = LSR_NEXT_HOP r' \<and> (LSR_UUID r = LSR_UUID r' \<longleftrightarrow> LSR_OUTPORT r = LSR_OUTPORT r')) \<and>
     (\<forall>x \<in> set (next_hop_ovsport g). \<forall>y \<in> set (next_hop_ovsport g).
        fst (fst x) = fst (fst y) \<longrightarrow> fst x = fst y) \<and>
     (\<forall>r \<in> set (lroute_array g). \<forall>lrp \<in> set (lrp_array g). LSR_OUTPORT r = Some (LRP_UUID lrp) \<longrightarrow>
        LRP_LR_UUID lrp = LSR_LR_UUID r)"

lemma regular_rows:
  assumes "regular_routes g" and "r \<in> set (lroute_array g)" and "r' \<in> set (lroute_array g)"
    and "route_key r = route_key r'"
  shows "LSR_NEXT_HOP r = LSR_NEXT_HOP r'" and "LSR_UUID r = LSR_UUID r' \<longleftrightarrow> LSR_OUTPORT r = LSR_OUTPORT r'"
  using assms(1) [unfolded regular_routes_def, THEN conjunct1, THEN bspec [OF _ assms(2)],
      THEN bspec [OF _ assms(3)], rule_format, OF assms(4)] by simp_all

lemma regular_hop:
  assumes "regular_routes g" and "((q, p), s) \<in> set (next_hop_ovsport g)" and "((q, p'), s') \<in> set (next_hop_ovsport g)"
  shows "p = p'"
  using assms(1) [unfolded regular_routes_def, THEN conjunct2, THEN conjunct1, THEN bspec [OF _ assms(2)],
      THEN bspec [OF _ assms(3)]] by simp

lemma regular_router:
  assumes "regular_routes g" and "r \<in> set (lroute_array g)" and "lrp \<in> set (lrp_array g)"
    and "LSR_OUTPORT r = Some (LRP_UUID lrp)"
  shows "LRP_LR_UUID lrp = LSR_LR_UUID r"
  using assms(1) [unfolded regular_routes_def, THEN conjunct2, THEN conjunct2, THEN bspec [OF _ assms(2)],
      THEN bspec [OF _ assms(3)]] assms(4) by simp

lemma regular_pair:
  assumes "regular_routes g" and "r \<in> set (lroute_array g)" and "r' \<in> set (lroute_array g)"
    and "route_key r = route_key r'" and "LSR_UUID r \<noteq> LSR_UUID r'"
  shows "ecmp_pair r r'"
  using regular_rows [OF assms(1-4)] assms(4,5) by (simp add: ecmp_pair_def route_key_def)

lemma regular_port:
  assumes "regular_routes g" and "((r, p), a) \<in> set (route_port g)" and "((r', p'), a') \<in> set (route_port g)"
    and "route_key r = route_key r'" and "LSR_UUID r = LSR_UUID r'"
  shows "p = p'"
proof -
  obtain q q' s s' where "((q, p), s) \<in> set (next_hop_ovsport g)" "((q', p'), s') \<in> set (next_hop_ovsport g)"
    "LSR_OUTPORT r = Some q" "LSR_OUTPORT r' = Some q'" "r \<in> set (lroute_array g)" "r' \<in> set (lroute_array g)"
    using assms(2,3) unfolding mem_route_port by blast
  moreover from this have "q = q'" using regular_rows(2) [OF assms(1) _ _ assms(4)] assms(5) by simp
  ultimately show ?thesis using regular_hop [OF assms(1)] by blast
qed

lemma regular_inj: "regular_routes g \<Longrightarrow> inj_on snd (bundle_ports (\<lambda>s. True) g k)"
proof (rule inj_onI)
  fix x y assume g: "regular_routes g" and x: "x \<in> bundle_ports (\<lambda>s. True) g k"
    and y: "y \<in> bundle_ports (\<lambda>s. True) g k" and eq: "snd x = snd y"
  from x obtain r p a where 1: "x = (p, LSR_UUID r)" "((r, p), a) \<in> set (route_port g)" "route_key r = k"
    by (elim bundle_portsE) (auto simp: mem_ecmp_hops)
  from y obtain r' p' a' where 2: "y = (p', LSR_UUID r')" "((r', p'), a') \<in> set (route_port g)" "route_key r' = k"
    by (elim bundle_portsE) (auto simp: mem_ecmp_hops)
  show "x = y" using regular_port [OF g 1(2) 2(2)] 1 2 eq by simp
qed

text \<open>A kept pair, and what it becomes in the view.\<close>

lemma route_port_view:
  assumes "states_ok f" and "((r, p), a) \<in> set (route_port f)" and "kept_new a"
  shows "\<exists>a'. ((er_lsr r, p), a') \<in> set (route_port (view kept_new f))"
  using exact_route_port [OF assms(1)] assms(2,3) unfolding new.exact_def by fastforce

lemma route_port_row:
  assumes "((r, p), a) \<in> set (route_port g)"
  shows "r \<in> set (lroute_array g)"
  using assms by (auto simp: mem_route_port)

lemma route_port_st: "states_ok f \<Longrightarrow> ((r, p), a) \<in> set (route_port f) \<Longrightarrow> st 10 a"
  using exact_route_port [of f] unfolding new.exact_def by simp

lemma hop_kept:
  assumes "states_ok f" and "((r, p), a) \<in> set (route_port f)" and "((r', p'), a') \<in> set (route_port f)"
  shows "kept_new (a + a') \<longleftrightarrow> kept_new a \<and> kept_new a'"
  by (rule kept_new_add [OF route_port_st route_port_st]) (use assms in auto)

text \<open>If one pair of a bundle has changed then each of its ports is in a pair that has.\<close>

lemma changed_all:
  assumes ok: "states_ok f" and reg: "regular_routes (view kept_new f)" and "bundle_ports (\<lambda>s. 0 < s) f k \<noteq> {}"
  shows "bundle_ports (\<lambda>s. 0 < s) f k = bundle_ports kept_new f k"
proof (intro subset_antisym subsetI)
  show "x \<in> bundle_ports kept_new f k" if "x \<in> bundle_ports (\<lambda>s. 0 < s) f k" for x
    using that unfolding mem_bundle_ports kept_new_def by fastforce
next
  from assms(3) obtain r1 p1 r2 p2 a1 a2 where hop: "((r1, p1), a1) \<in> set (route_port f)"
      "((r2, p2), a2) \<in> set (route_port f)" "ecmp_pair r1 r2" "0 < a1 + a2" "route_key r1 = k"
    by (force simp: mem_ecmp_hops elim: bundle_portsE)
  have key: "route_key r2 = k" using ecmp_pair_key [OF hop(3)] hop(5) by simp
  have pos: "kept_new a1" "kept_new a2" using hop_kept [OF ok hop(1,2)] hop(4) by (simp_all add: kept_new_def)
  obtain r p a r' p' a' where new: "((r, p), a) \<in> set (route_port f)" "((r', p'), a') \<in> set (route_port f)"
      "ecmp_pair r r'" "0 < a" "kept_new a'" "route_key r = k"
  proof (cases "0 < a1")
    case True
    then show ?thesis using that hop pos by blast
  next
    case False
    then have "0 < a2" using hop(4) by simp
    then show ?thesis using that [OF hop(2,1) ecmp_pair_sym [OF hop(3)]] pos key by blast
  qed
  fix x assume "x \<in> bundle_ports kept_new f k"
  then obtain s q b s' q' b' where x: "x = (q, LSR_UUID s)" "((s, q), b) \<in> set (route_port f)"
      "((s', q'), b') \<in> set (route_port f)" "kept_new (b + b')" "route_key s = k"
    by (force simp: mem_ecmp_hops elim: bundle_portsE)
  have b: "kept_new b" using hop_kept [OF ok x(2,3)] x(4) by simp
  obtain c d where views: "((er_lsr r, p), c) \<in> set (route_port (view kept_new f))"
      "((er_lsr s, q), d) \<in> set (route_port (view kept_new f))"
    using route_port_view [OF ok new(1)] route_port_view [OF ok x(2) b] new(4) by (auto simp: kept_new_def)
  show "x \<in> bundle_ports (\<lambda>s. 0 < s) f k"
  proof (cases "LSR_UUID s = LSR_UUID r")
    case True
    then have "q = p" using regular_port [OF reg views(2,1)] x(5) new(6) by simp
    moreover have "((r, p, r', p'), a + a') \<in> set (ecmp_hops f)" using new unfolding mem_ecmp_hops by blast
    moreover have "0 < a + a'" using new(4,5) by (simp add: kept_new_def)
    ultimately show ?thesis using bundle_portsI [of r p r' p' "a + a'" f] new(6) x(1) True by simp
  next
    case False
    then have "ecmp_pair (er_lsr s) (er_lsr r)"
      by (intro regular_pair [OF reg route_port_row [OF views(2)] route_port_row [OF views(1)]])
        (use x(5) new(6) in simp_all)
    then have "((s, q, r, p), b + a) \<in> set (ecmp_hops f)" using x(2) new(1) unfolding mem_ecmp_hops by auto
    moreover have "0 < b + a" using b new(4) by (simp add: kept_new_def)
    ultimately show ?thesis using bundle_portsI [of s q r p "b + a" f] x(1,5) by simp
  qed
qed

section \<open>The aggregates\<close>


lemma kept_route_state:
  assumes "states_ok f" and "((r, p), a) \<in> set (route_port f)" and "kept_new a"
  shows "0 \<le> LSR_State r"
proof -
  obtain q s where q: "r \<in> set (lroute_array f)" "((q, p), s) \<in> set (next_hop_ovsport f)" "a = LSR_State r + s"
    using assms(2) unfolding mem_route_port by blast
  have "st 1 (LSR_State r)" using assms(1) q(1) by (simp add: states_ok_def row_state_st)
  moreover have "st 9 s" using exact_next_hop_ovsport [OF assms(1)] q(2) unfolding new.exact_def by blast
  ultimately have "kept_new (LSR_State r)" using kept_new_add [of 1 "LSR_State r" 9 s] assms(3) q(3) by simp
  then show ?thesis by (simp add: kept_new_def)
qed

text \<open>The guards of \<open>adding\<close> and \<open>readding\<close>, read as a pair of routes with a sum.\<close>

lemma mem_guarded:
  assumes ok: "states_ok f" and P: "\<And>s. P s \<Longrightarrow> kept_new s"
  shows "(\<exists>r1 r2 q1 s3 q2 p2 s4. r1 \<in> set (lroute_array f) \<and> r2 \<in> set (lroute_array f) \<and>
      0 \<le> LSR_State r1 + LSR_State r2 \<and> ecmp_pair r1 r2 \<and> ((q1, p), s3) \<in> set (next_hop_ovsport f) \<and>
      LSR_OUTPORT r1 = Some q1 \<and> ((q2, p2), s4) \<in> set (next_hop_ovsport f) \<and> LSR_OUTPORT r2 = Some q2 \<and>
      P (LSR_State r1 + LSR_State r2 + s3 + s4) \<and> route_key r1 = k \<and> u = LSR_UUID r1) \<longleftrightarrow>
    (p, u) \<in> bundle_ports P f k" (is "?L \<longleftrightarrow> _")
proof
  assume ?L
  then obtain r1 r2 q1 s3 q2 p2 s4 where h: "r1 \<in> set (lroute_array f)" "r2 \<in> set (lroute_array f)"
      "ecmp_pair r1 r2" "((q1, p), s3) \<in> set (next_hop_ovsport f)" "LSR_OUTPORT r1 = Some q1"
      "((q2, p2), s4) \<in> set (next_hop_ovsport f)" "LSR_OUTPORT r2 = Some q2"
      "P (LSR_State r1 + LSR_State r2 + s3 + s4)" "route_key r1 = k" "u = LSR_UUID r1" by blast
  have "((r1, p), LSR_State r1 + s3) \<in> set (route_port f)" "((r2, p2), LSR_State r2 + s4) \<in> set (route_port f)"
    using h unfolding mem_route_port by blast+
  then have "((r1, p, r2, p2), (LSR_State r1 + s3) + (LSR_State r2 + s4)) \<in> set (ecmp_hops f)"
    using h(3) unfolding mem_ecmp_hops by blast
  moreover have "(LSR_State r1 + s3) + (LSR_State r2 + s4) = LSR_State r1 + LSR_State r2 + s3 + s4" by simp
  ultimately show "(p, u) \<in> bundle_ports P f k" unfolding h(10) by (intro bundle_portsI [OF _ _ h(9)]) (use h(8) in simp_all)
next
  assume "(p, u) \<in> bundle_ports P f k"
  then obtain r1 r2 p2 a1 a2 where h: "((r1, p), a1) \<in> set (route_port f)" "((r2, p2), a2) \<in> set (route_port f)"
      "ecmp_pair r1 r2" "P (a1 + a2)" "route_key r1 = k" "u = LSR_UUID r1"
    by (force simp: mem_ecmp_hops elim: bundle_portsE)
  have "kept_new a1" "kept_new a2" using hop_kept [OF ok h(1,2)] P [OF h(4)] by simp_all
  then have "0 \<le> LSR_State r1 + LSR_State r2"
    using kept_route_state [OF ok h(1)] kept_route_state [OF ok h(2)] by simp
  moreover obtain q1 s3 where "r1 \<in> set (lroute_array f)" "((q1, p), s3) \<in> set (next_hop_ovsport f)"
      "LSR_OUTPORT r1 = Some q1" and a1: "a1 = LSR_State r1 + s3" using h(1) unfolding mem_route_port by blast
  moreover obtain q2 s4 where "r2 \<in> set (lroute_array f)" "((q2, p2), s4) \<in> set (next_hop_ovsport f)"
      "LSR_OUTPORT r2 = Some q2" and a2: "a2 = LSR_State r2 + s4" using h(2) unfolding mem_route_port by blast
  moreover have "P (LSR_State r1 + LSR_State r2 + s3 + s4)"
    using h(4) unfolding a1 a2 by (simp add: add.assoc add.left_commute)
  ultimately show ?L using h(3,5,6) by blast
qed

section \<open>The aggregates\<close>

lemma ecmp_adding_group:
  assumes ok: "states_ok f"
  defines "G \<equiv> \<lambda>(u, ip, n, s, label) p. s = State_ADD \<and> label = ''adding'' \<and> p \<in> bundle_ports (\<lambda>s. 0 < s) f (u, ip, n)"
  shows "(k, ys) \<in> set (ecmp_adding f) \<Longrightarrow> inj_on snd {p. G k p} \<Longrightarrow> slave_list {p. G k p} ys"
    and "(k, ys) \<in> set (ecmp_adding f) \<Longrightarrow> \<exists>p. G k p"
    and "G k p \<Longrightarrow> \<exists>ys. (k, ys) \<in> set (ecmp_adding f)"
proof -
  have "(k, p) \<in> set [((LSR_LR_UUID route1, LSR_IP route1, LSR_PREFIX route1, State_ADD, ''adding''),
         ofport1, LSR_UUID route1).
          route1 \<leftarrow> lroute_array f,
          route2 \<leftarrow> lroute_array f,
          LSR_State route1 + LSR_State route2 \<ge> 0 \<and> ecmp_pair route1 route2,
          ((lrp1, ofport1), s3) \<leftarrow> next_hop_ovsport f, LSR_OUTPORT route1 = Some lrp1,
          ((lrp2, ofport2), s4) \<leftarrow> next_hop_ovsport f, LSR_OUTPORT route2 = Some lrp2,
          LSR_State route1 + LSR_State route2 + s3 + s4 > 0] \<longleftrightarrow> G k p" for k p
  proof -
    obtain u ip n s label o1 w where k: "k = (u, ip, n, s, label)" and p: "p = (o1, w)" by (metis surj_pair)
    show ?thesis
      unfolding G_def k p prod.case
      by (subst mem_guarded [OF ok, where P = "\<lambda>s. 0 < s", symmetric])
        (simp add: kept_new_def, fastforce simp: bex_pair route_key_def)
  qed
  note g = tuple_by_group [OF this]
  show "(k, ys) \<in> set (ecmp_adding f) \<Longrightarrow> inj_on snd {p. G k p} \<Longrightarrow> slave_list {p. G k p} ys"
    and "(k, ys) \<in> set (ecmp_adding f) \<Longrightarrow> \<exists>p. G k p"
    and "G k p \<Longrightarrow> \<exists>ys. (k, ys) \<in> set (ecmp_adding f)"
    unfolding ecmp_adding_def by (rule g; assumption)+
qed


definition deleting :: "facts \<Rightarrow> string \<times> string \<times> nat \<Rightarrow> bool" where
  "deleting f k \<longleftrightarrow> (\<exists>u ip n s ys. k = (u, ip, n) \<and> ((u, ip, n, s, ''deleting''), ys) \<in> set (ecmp_aggregate_outport f))"

lemma ecmp_readding_group:
  assumes ok: "states_ok f"
  defines "G \<equiv> \<lambda>(u, ip, n, s, label) p. s = State_ADD \<and> label = ''readding'' \<and>
      p \<in> bundle_ports kept_new f (u, ip, n) \<and> deleting f (u, ip, n)"
  shows "(k, ys) \<in> set (ecmp_aggregate_outport_readd f) \<Longrightarrow> inj_on snd {p. G k p} \<Longrightarrow> slave_list {p. G k p} ys"
    and "(k, ys) \<in> set (ecmp_aggregate_outport_readd f) \<Longrightarrow> \<exists>p. G k p"
    and "G k p \<Longrightarrow> \<exists>ys. (k, ys) \<in> set (ecmp_aggregate_outport_readd f)"
proof -
  have "(k, p) \<in> set [((LSR_LR_UUID route1, LSR_IP route1, LSR_PREFIX route1, State_ADD, ''readding''),
         ofport1, LSR_UUID route1).
          route1 \<leftarrow> lroute_array f,
          route2 \<leftarrow> lroute_array f,
          LSR_State route1 + LSR_State route2 \<ge> 0 \<and> ecmp_pair route1 route2,
          ((lrp1, ofport1), s3) \<leftarrow> next_hop_ovsport f, LSR_OUTPORT route1 = Some lrp1,
          ((lrp2, ofport2), s4) \<leftarrow> next_hop_ovsport f, LSR_OUTPORT route2 = Some lrp2,
          LSR_State route1 + LSR_State route2 + s3 + s4 \<ge> 0,
          ((u0, ip0, n0, s0, l0), b) \<leftarrow> ecmp_aggregate_outport f,
          u0 = LSR_LR_UUID route1 \<and> ip0 = LSR_IP route1 \<and> n0 = LSR_PREFIX route1 \<and>
          l0 = ''deleting''] \<longleftrightarrow> G k p" (is "_ \<in> set ?xs \<longleftrightarrow> _") for k p
  proof -
    obtain u ip n s label o1 w where k: "k = (u, ip, n, s, label)" and p: "p = (o1, w)" by (metis surj_pair)
    have "(k, p) \<in> set ?xs \<longleftrightarrow> s = State_ADD \<and> label = ''readding'' \<and> deleting f (u, ip, n) \<and>
        (\<exists>r1 r2 q1 s3 q2 p2 s4. r1 \<in> set (lroute_array f) \<and> r2 \<in> set (lroute_array f) \<and>
      0 \<le> LSR_State r1 + LSR_State r2 \<and> ecmp_pair r1 r2 \<and> ((q1, o1), s3) \<in> set (next_hop_ovsport f) \<and>
      LSR_OUTPORT r1 = Some q1 \<and> ((q2, p2), s4) \<in> set (next_hop_ovsport f) \<and> LSR_OUTPORT r2 = Some q2 \<and>
      0 \<le> LSR_State r1 + LSR_State r2 + s3 + s4 \<and> route_key r1 = (u, ip, n) \<and> w = LSR_UUID r1)"
      unfolding k p deleting_def by (fastforce simp: bex_pair route_key_def)
    also have "\<dots> \<longleftrightarrow> G k p"
      unfolding G_def k p prod.case
      by (subst mem_guarded [OF ok, where P = "\<lambda>s. 0 \<le> s"]) (auto simp: kept_new_def [abs_def])
    finally show ?thesis .
  qed
  note g = tuple_by_group [OF this]
  show "(k, ys) \<in> set (ecmp_aggregate_outport_readd f) \<Longrightarrow> inj_on snd {p. G k p} \<Longrightarrow> slave_list {p. G k p} ys"
    and "(k, ys) \<in> set (ecmp_aggregate_outport_readd f) \<Longrightarrow> \<exists>p. G k p"
    and "G k p \<Longrightarrow> \<exists>ys. (k, ys) \<in> set (ecmp_aggregate_outport_readd f)"
    unfolding ecmp_aggregate_outport_readd_def by (rule g; assumption)+
qed

text \<open>A pair with a deleted part has its bundle deleted: one of the two ways round is reported.\<close>

lemma ecmp_deleting_mem:
  assumes "r1 \<in> set (lroute_array f)" and "r2 \<in> set (lroute_array f)" and "ecmp_pair r1 r2"
    and "((q, p), s) \<in> set (next_hop_ovsport f)" and "LSR_OUTPORT r1 = Some q"
    and "LSR_State r1 + LSR_State r2 + s < 0" and "route_key r1 = (u, ip, n)"
  shows "\<exists>ys. ((u, ip, n, State_DEL, ''deleting''), ys) \<in> set (ecmp_deleting f)"
  unfolding ecmp_deleting_def
proof (rule tuple_by_group(3) [OF refl])
  show "((u, ip, n, State_DEL, ''deleting''), p, p) \<in>
      set [((LSR_LR_UUID route1, LSR_IP route1, LSR_PREFIX route1, State_DEL, ''deleting''),
         ofport, ofport).
          route1 \<leftarrow> lroute_array f,
          route2 \<leftarrow> lroute_array f, ecmp_pair route1 route2,
          ((lrp1, ofport), s3) \<leftarrow> next_hop_ovsport f, LSR_OUTPORT route1 = Some lrp1,
          LSR_State route1 + LSR_State route2 + s3 < 0]"
    using assms by (fastforce simp: bex_pair route_key_def)
qed

lemma ecmp_deleting_key: "((u, ip, n, s, label), ys) \<in> set (ecmp_deleting f) \<Longrightarrow> s = State_DEL \<and> label = ''deleting''"
  by (auto simp: ecmp_deleting_def tuple_by_def)

lemma broken_pair:
  assumes ok: "states_ok f" and hop: "((r1, p1, r2, p2), t) \<in> set (ecmp_hops f)" and "\<not> kept_new t"
    and k: "route_key r1 = (u, ip, n)"
  shows "\<exists>ys. ((u, ip, n, State_DEL, ''deleting''), ys) \<in> set (ecmp_deleting f)"
proof -
  obtain a1 a2 where a: "((r1, p1), a1) \<in> set (route_port f)" "((r2, p2), a2) \<in> set (route_port f)"
      "ecmp_pair r1 r2" "t = a1 + a2" using hop unfolding mem_ecmp_hops by blast
  obtain q1 s1 where 1: "r1 \<in> set (lroute_array f)" "((q1, p1), s1) \<in> set (next_hop_ovsport f)"
      "LSR_OUTPORT r1 = Some q1" "a1 = LSR_State r1 + s1" using a(1) unfolding mem_route_port by blast
  obtain q2 s2 where 2: "r2 \<in> set (lroute_array f)" "((q2, p2), s2) \<in> set (next_hop_ovsport f)"
      "LSR_OUTPORT r2 = Some q2" "a2 = LSR_State r2 + s2" using a(2) unfolding mem_route_port by blast
  have rows: "st 1 (LSR_State r1)" "st 1 (LSR_State r2)" using ok 1(1) 2(1) by (simp_all add: states_ok_def row_state_st)
  have hops: "st 9 s1" "st 9 s2" using exact_next_hop_ovsport [OF ok] 1(2) 2(2) unfolding new.exact_def by blast+
  have two: "st 2 (LSR_State r1 + LSR_State r2)" using st_add [OF rows] by (simp add: numeral_2_eq_2)
  have "\<not> kept_new (LSR_State r1 + LSR_State r2 + s1) \<or> \<not> kept_new (LSR_State r1 + LSR_State r2 + s2)"
  proof (rule ccontr)
    assume n: "\<not> ?thesis"
    then have "kept_new (LSR_State r1 + LSR_State r2)" "kept_new s1" "kept_new s2"
      using kept_new_add [OF two hops(1)] kept_new_add [OF two hops(2)] by simp_all
    then have "kept_new a1" "kept_new a2" unfolding 1(4) 2(4)
      using kept_new_add [OF rows(1) hops(1)] kept_new_add [OF rows(2) hops(2)] kept_new_add [OF rows] by simp_all
    then show False using hop_kept [OF ok a(1,2)] assms(3) a(4) by simp
  qed
  then show ?thesis
  proof
    assume "\<not> kept_new (LSR_State r1 + LSR_State r2 + s1)"
    then show ?thesis by (intro ecmp_deleting_mem [OF 1(1) 2(1) a(3) 1(2,3) _ k]) (simp add: kept_new_def)
  next
    assume "\<not> kept_new (LSR_State r1 + LSR_State r2 + s2)"
    then show ?thesis
      by (intro ecmp_deleting_mem [OF 2(1) 1(1) ecmp_pair_sym [OF a(3)] 2(2,3)])
        (use k ecmp_pair_key [OF a(3)] in \<open>simp_all add: kept_new_def\<close>)
  qed
qed

section \<open>The flows of the bundles\<close>

definition bundle_flow :: "lr_row \<Rightarrow> string \<Rightarrow> nat \<Rightarrow> int list \<Rightarrow> lr_row \<times> flow" where
  "bundle_flow lr ip n ofports =
     (lr, cal_priority n 2 0, ip_proto @ ip_dst_prefix (PStr ip) (pnat n),
      bundle_load (NXM_Reg REG_OUTPORT_IDX) ofports @ resubmit_next)"

lemma mem_static_route:
  "(x, s) \<in> set (ecmp_static_route f) \<longleftrightarrow>
     (\<exists>lr s1 ip n t label ys. (lr, s1) \<in> set (lr_array f) \<and>
        ((LR_UUID lr, ip, n, t, label), ys) \<in> set (ecmp_aggregate_outport f @ ecmp_aggregate_outport_readd f) \<and>
        s = s1 + t \<and> s \<noteq> 0 \<and> x = bundle_flow lr ip n ys)"
  unfolding ecmp_static_route_def bundle_flow_def by (fastforce simp: bex_pair)


lemma bundle_flow_er [simp]: "er_lr_fl (bundle_flow lr ip n ys) = bundle_flow (er_lr lr) ip n ys"
  by (simp add: bundle_flow_def)

lemma deleting_iff: "deleting f (u, ip, n) \<longleftrightarrow> (\<exists>ys. ((u, ip, n, State_DEL, ''deleting''), ys) \<in> set (ecmp_deleting f))"
  if "states_ok f"
proof -
  have "((u, ip, n, s, ''deleting''), ys) \<notin> set (ecmp_adding f)" for s ys
    using ecmp_adding_group(2) [OF that, of "(u, ip, n, s, ''deleting'')" ys] by auto
  then have "deleting f (u, ip, n) \<longleftrightarrow> (\<exists>s ys. ((u, ip, n, s, ''deleting''), ys) \<in> set (ecmp_deleting f))"
    by (simp add: deleting_def ecmp_aggregate_outport_def)
  then show ?thesis using ecmp_deleting_key by blast
qed

text \<open>A bundle that is written: its flow has all ports that are not deleted.\<close>

definition changed :: "facts \<Rightarrow> string \<times> string \<times> nat \<Rightarrow> bool" where
  "changed f k \<longleftrightarrow> bundle_ports (\<lambda>s. 0 < s) f k \<noteq> {} \<or> deleting f k"

lemma regular_inj_kept:
  "states_ok f \<Longrightarrow> regular_routes (view kept_new f) \<Longrightarrow> inj_on snd (bundle_ports kept_new f k)"
  using regular_inj [of "view kept_new f" k] by (simp add: bundle_ports_views)

lemma aggregate_written:
  assumes ok: "states_ok f" and reg: "regular_routes (view kept_new f)"
    and mem: "((u, ip, n, t, label), ys) \<in> set (ecmp_aggregate_outport f @ ecmp_aggregate_outport_readd f)"
  shows "changed f (u, ip, n) \<and> (t = State_DEL \<or> t = State_ADD \<and> bundle_ports kept_new f (u, ip, n) \<noteq> {} \<and>
      slave_list (bundle_ports kept_new f (u, ip, n)) ys)"
proof -
  note inj = regular_inj_kept [OF ok reg]
  consider (add) "((u, ip, n, t, label), ys) \<in> set (ecmp_adding f)"
    | (del) "((u, ip, n, t, label), ys) \<in> set (ecmp_deleting f)"
    | (readd) "((u, ip, n, t, label), ys) \<in> set (ecmp_aggregate_outport_readd f)"
    using mem by (auto simp: ecmp_aggregate_outport_def)
  then show ?thesis
  proof cases
    case add
    then have k: "t = State_ADD" "label = ''adding''" "bundle_ports (\<lambda>s. 0 < s) f (u, ip, n) \<noteq> {}"
      using ecmp_adding_group(2) [OF ok add] by auto
    then show ?thesis
      using ecmp_adding_group(1) [OF ok add] inj changed_all [OF ok reg k(3)] by (simp add: changed_def)
  next
    case del
    then show ?thesis using ecmp_deleting_key [OF del] deleting_iff [OF ok, of u ip n] by (auto simp: changed_def)
  next
    case readd
    then have "t = State_ADD" "label = ''readding''" "deleting f (u, ip, n)" "bundle_ports kept_new f (u, ip, n) \<noteq> {}"
      using ecmp_readding_group(2) [OF ok readd] by auto
    then show ?thesis using ecmp_readding_group(1) [OF ok readd] inj by (simp add: changed_def)
  qed
qed

lemma written_aggregate:
  assumes ok: "states_ok f" and "changed f (u, ip, n)" and "bundle_ports kept_new f (u, ip, n) \<noteq> {}"
  shows "\<exists>label ys. ((u, ip, n, State_ADD, label), ys) \<in> set (ecmp_aggregate_outport f @ ecmp_aggregate_outport_readd f)"
proof (cases "deleting f (u, ip, n)")
  case True
  then show ?thesis
    using ecmp_readding_group(3) [OF ok, of "(u, ip, n, State_ADD, ''readding'')"] assms(3) by fastforce
next
  case False
  then have "bundle_ports (\<lambda>s. 0 < s) f (u, ip, n) \<noteq> {}" using assms(2) by (simp add: changed_def)
  then show ?thesis
    using ecmp_adding_group(3) [OF ok, of "(u, ip, n, State_ADD, ''adding'')"]
    by (fastforce simp: ecmp_aggregate_outport_def)
qed

lemma lr_st: "states_ok f \<Longrightarrow> (lr, s) \<in> set (lr_array f) \<Longrightarrow> st 2 s"
  using exact_lr [of f] unfolding new.exact_def by blast

lemma added_bundle:
  assumes ok: "states_ok f" and reg: "regular_routes (view kept_new f)" and x: "x \<in> added (ecmp_static_route f)"
  shows "\<exists>lr s ip n ys. (lr, s) \<in> set (lr_array f) \<and> kept_new s \<and> x = bundle_flow lr ip n ys \<and>
      bundle_ports kept_new f (LR_UUID lr, ip, n) \<noteq> {} \<and> slave_list (bundle_ports kept_new f (LR_UUID lr, ip, n)) ys"
proof -
  obtain lr s ip n t label ys where h: "(lr, s) \<in> set (lr_array f)"
      "((LR_UUID lr, ip, n, t, label), ys) \<in> set (ecmp_aggregate_outport f @ ecmp_aggregate_outport_readd f)"
      "0 < s + t" "x = bundle_flow lr ip n ys"
    using x unfolding added_def mem_static_route by blast
  have "s \<le> 2" using lr_st [OF ok h(1)] by (auto simp: st_def)
  then have "t \<noteq> State_DEL" using h(3) by auto
  then have "t = State_ADD" "bundle_ports kept_new f (LR_UUID lr, ip, n) \<noteq> {}"
      "slave_list (bundle_ports kept_new f (LR_UUID lr, ip, n)) ys"
    using aggregate_written [OF ok reg h(2)] by simp_all
  moreover from this have "kept_new s" using h(3) by (simp add: kept_new_def)
  ultimately show ?thesis using h(1,4) by blast
qed

lemma bundle_added:
  assumes ok: "states_ok f" and reg: "regular_routes (view kept_new f)" and lr: "(lr, s) \<in> set (lr_array f)" "kept_new s"
    and "changed f (LR_UUID lr, ip, n)" and "bundle_ports kept_new f (LR_UUID lr, ip, n) \<noteq> {}"
  shows "\<exists>ys. slave_list (bundle_ports kept_new f (LR_UUID lr, ip, n)) ys \<and>
      bundle_flow lr ip n ys \<in> added (ecmp_static_route f)"
proof -
  obtain label ys where a: "((LR_UUID lr, ip, n, State_ADD, label), ys) \<in>
      set (ecmp_aggregate_outport f @ ecmp_aggregate_outport_readd f)"
    using written_aggregate [OF ok assms(5,6)] by blast
  have "(bundle_flow lr ip n ys, s + State_ADD) \<in> set (ecmp_static_route f)"
    using lr(1) a lr(2) by (fastforce simp: mem_static_route kept_new_def)
  then have "bundle_flow lr ip n ys \<in> added (ecmp_static_route f)"
    using lr(2) by (fastforce simp: added_def kept_new_def)
  then show ?thesis using aggregate_written [OF ok reg a] by auto
qed


section \<open>From scratch\<close>

text \<open>The view after the change has only new rows, and is its own view.\<close>

lemma view_new:
  assumes "states_ok f"
  shows "states_ok (view kept_new f)" and "view kept_new (view kept_new f) = view kept_new f"
proof -
  have er: "er_lsp (er_lsp r1) = er_lsp r1" "er_lrp (er_lrp r2) = er_lrp r2" "er_lr (er_lr r3) = er_lr r3"
    "er_lsr (er_lsr r4) = er_lsr r4" "er_lnat (er_lnat r5) = er_lnat r5" "er_ls (er_ls r6) = er_ls r6"
    "er_pch (er_pch r7) = er_pch r7" "er_port (er_port r8) = er_port r8" for r1 r2 r3 r4 r5 r6 r7 r8
    by simp_all
  show "states_ok (view kept_new f)" by (simp add: states_ok_def view_def row_state_def)
  show "view kept_new (view kept_new f) = view kept_new f"
    by (simp add: view_def filter_map comp_def kept_new_def)
qed

lemma view_not_deleting:
  assumes ok: "states_ok f"
  shows "\<not> deleting (view kept_new f) k"
proof -
  let ?g = "view kept_new f"
  have "0 < s" if "(x, s) \<in> set (next_hop_ovsport ?g)" for x s
    using exact_next_hop_ovsport [OF ok] that unfolding new.exact_def by blast
  moreover have "LSR_State r = State_ADD" if "r \<in> set (lroute_array ?g)" for r using that by (auto simp: view_def)
  ultimately have "ecmp_deleting ?g = []"
    by (auto simp: ecmp_deleting_def tuple_by_def concat_eq_Nil_conv; fastforce)
  then show ?thesis using deleting_iff [OF view_new(1) [OF ok]] by (cases k) auto
qed

lemma bundle_ports_kept:
  assumes ok: "states_ok f"
  defines "g \<equiv> view kept_new f"
  shows "bundle_ports (\<lambda>s. 0 < s) g k = bundle_ports kept_new f k" and "bundle_ports kept_new g k = bundle_ports kept_new f k"
proof -
  have "0 < s" if "(x, s) \<in> set (ecmp_hops g)" for x s
    using exact_ecmp_hops [OF ok] that unfolding new.exact_def g_def by blast
  then have "bundle_ports (\<lambda>s. 0 < s) g k = bundle_ports (\<lambda>s. True) g k" "bundle_ports kept_new g k = bundle_ports (\<lambda>s. True) g k"
    unfolding bundle_ports_def kept_new_def by fastforce+
  then show "bundle_ports (\<lambda>s. 0 < s) g k = bundle_ports kept_new f k" "bundle_ports kept_new g k = bundle_ports kept_new f k"
    unfolding g_def by (simp_all only: bundle_ports_views [OF ok])
qed

lemma view_lr:
  assumes "states_ok f"
  shows "(\<exists>s. (lr, s) \<in> set (lr_array (view kept_new f))) \<longleftrightarrow> (\<exists>lr0 s. (lr0, s) \<in> set (lr_array f) \<and> kept_new s \<and> lr = er_lr lr0)"
    and "(\<exists>s. (lr, s) \<in> set (lr_array (view kept_old f))) \<longleftrightarrow> (\<exists>lr0 s. (lr0, s) \<in> set (lr_array f) \<and> kept_old s \<and> lr = er_lr lr0)"
    and "(\<exists>s. (lr, s) \<in> set (lr_array (view kept_same f))) \<longleftrightarrow> (\<exists>lr0 s. (lr0, s) \<in> set (lr_array f) \<and> kept_same s \<and> lr = er_lr lr0)"
proof -
  note e = exact_lr [OF assms, unfolded new.exact_def old.exact_def same.exact_def]
  show "(\<exists>s. (lr, s) \<in> set (lr_array (view kept_new f))) \<longleftrightarrow> (\<exists>lr0 s. (lr0, s) \<in> set (lr_array f) \<and> kept_new s \<and> lr = er_lr lr0)"
    by (rule e [THEN conjunct1, THEN conjunct2, THEN conjunct2, THEN spec])
  show "(\<exists>s. (lr, s) \<in> set (lr_array (view kept_old f))) \<longleftrightarrow> (\<exists>lr0 s. (lr0, s) \<in> set (lr_array f) \<and> kept_old s \<and> lr = er_lr lr0)"
    by (rule e [THEN conjunct2, THEN conjunct1, THEN conjunct2, THEN conjunct2, THEN spec])
  show "(\<exists>s. (lr, s) \<in> set (lr_array (view kept_same f))) \<longleftrightarrow> (\<exists>lr0 s. (lr0, s) \<in> set (lr_array f) \<and> kept_same s \<and> lr = er_lr lr0)"
    by (rule e [THEN conjunct2, THEN conjunct2, THEN conjunct2, THEN conjunct2, THEN spec])
qed

text \<open>The bundles of a database: the rules evaluated on the rows that are not deleted.\<close>

definition bundles :: "zoo \<Rightarrow> (lr_row \<times> flow) set" where
  "bundles z = dom_rel (ecmp_static_route (view kept_new (db z)))"

lemma bundles_shape:
  assumes "states_ok (db z)" and "x \<in> bundles z"
  shows "\<exists>lr s ip n ys. (lr, s) \<in> set (lr_array (view kept_new (db z))) \<and> x = bundle_flow lr ip n ys \<and>
    bundle_ports kept_new (db z) (LR_UUID lr, ip, n) \<noteq> {} \<and>
    (inj_on snd (bundle_ports kept_new (db z) (LR_UUID lr, ip, n)) \<longrightarrow>
       slave_list (bundle_ports kept_new (db z) (LR_UUID lr, ip, n)) ys)"
proof -
  let ?g = "view kept_new (db z)"
  note ok = view_new(1) [OF assms(1)]
  obtain lr s ip n t label ys where h: "(lr, s) \<in> set (lr_array ?g)"
      "((LR_UUID lr, ip, n, t, label), ys) \<in> set (ecmp_aggregate_outport ?g @ ecmp_aggregate_outport_readd ?g)"
      "x = bundle_flow lr ip n ys"
    using assms(2) unfolding bundles_def dom_rel_def mem_static_route by blast
  have no_del: "((LR_UUID lr, ip, n, t, label), ys) \<notin> set (ecmp_deleting ?g)"
    using view_not_deleting [OF assms(1), of "(LR_UUID lr, ip, n)"] deleting_iff [OF ok] ecmp_deleting_key by blast
  have no_readd: "((LR_UUID lr, ip, n, t, label), ys) \<notin> set (ecmp_aggregate_outport_readd ?g)"
    using view_not_deleting [OF assms(1), of "(LR_UUID lr, ip, n)"] ecmp_readding_group(2) [OF ok] by fastforce
  have add: "((LR_UUID lr, ip, n, t, label), ys) \<in> set (ecmp_adding ?g)"
    using h(2) no_del no_readd by (simp add: ecmp_aggregate_outport_def)
  note keys = ecmp_adding_group(2) [OF ok add, unfolded prod.case bundle_ports_kept(1) [OF assms(1)]]
  note ports = ecmp_adding_group(1) [OF ok add, unfolded prod.case bundle_ports_kept(1) [OF assms(1)]]
  show ?thesis
  proof (intro exI conjI impI)
    show "bundle_ports kept_new (db z) (LR_UUID lr, ip, n) \<noteq> {}" using keys by blast
    show "slave_list (bundle_ports kept_new (db z) (LR_UUID lr, ip, n)) ys"
      if "inj_on snd (bundle_ports kept_new (db z) (LR_UUID lr, ip, n))"
      using ports keys that by (auto simp: conj_commute)
  qed (fact h(1), fact h(3))
qed

lemma bundles_full:
  assumes ok: "states_ok (db z)" and lr: "(lr, s) \<in> set (lr_array (db z))" "kept_new s"
    and ne: "bundle_ports kept_new (db z) (LR_UUID lr, ip, n) \<noteq> {}"
    and inj: "inj_on snd (bundle_ports kept_new (db z) (LR_UUID lr, ip, n))"
  shows "\<exists>ys. slave_list (bundle_ports kept_new (db z) (LR_UUID lr, ip, n)) ys \<and> bundle_flow (er_lr lr) ip n ys \<in> bundles z"
proof -
  let ?g = "view kept_new (db z)" and ?k = "(LR_UUID lr, ip, n, State_ADD, ''adding'')"
  obtain t where t: "(er_lr lr, t) \<in> set (lr_array ?g)" using view_lr(1) [OF ok] lr by blast
  then have pos: "0 < t" using exact_lr [OF ok] unfolding new.exact_def by blast
  note G = ecmp_adding_group [OF view_new(1) [OF ok], where k = ?k, unfolded prod.case bundle_ports_kept(1) [OF ok]]
  obtain ys where ys: "(?k, ys) \<in> set (ecmp_adding ?g)" using ne G(3) by blast
  then have "slave_list (bundle_ports kept_new (db z) (LR_UUID lr, ip, n)) ys" using G(1) inj by simp
  moreover have "(bundle_flow (er_lr lr) ip n ys, t + State_ADD) \<in> set (ecmp_static_route ?g)"
    using t ys pos by (fastforce simp: mem_static_route ecmp_aggregate_outport_def)
  ultimately show ?thesis unfolding bundles_def dom_rel_def by blast
qed

section \<open>Bundles that do not change\<close>

lemma unchanged_hops:
  assumes ok: "states_ok f" and "\<not> changed f (route_key r1)" and hop: "((r1, p1, r2, p2), s) \<in> set (ecmp_hops f)"
  shows "s = 0"
proof -
  obtain u ip n where k: "route_key r1 = (u, ip, n)" by (metis surj_pair)
  have "kept_new s"
    using broken_pair [OF ok hop _ k] deleting_iff [OF ok] assms(2) k by (auto simp: changed_def)
  moreover have "\<not> 0 < s"
    using bundle_portsI [OF hop, of "\<lambda>s. 0 < s"] assms(2) unfolding changed_def by blast
  ultimately show ?thesis by (simp add: kept_new_def)
qed

lemma unchanged_ports:
  assumes ok: "states_ok f" and un: "\<not> changed f k" and "P 0" and "Q 0"
  shows "bundle_ports P f k = bundle_ports Q f k"
proof -
  have "s = 0" if "(x, s) \<in> set (ecmp_hops f)" "route_key (fst x) = k" for x s
    using unchanged_hops [OF ok] that un by (cases x) auto
  then show ?thesis unfolding bundle_ports_def using assms(3,4) by blast
qed

text \<open>An unchanged tunnel port has an unchanged router; any other router row of that name gives its state to it.\<close>

lemma quiet_router:
  assumes ok: "states_ok f" and mem: "((q, p), 0) \<in> set (next_hop_ovsport f)"
  shows "\<exists>lrp lr. lrp \<in> set (lrp_array (view kept_new f)) \<and> LRP_UUID lrp = q \<and>
      (lr, 0) \<in> set (lr_array f) \<and> LR_UUID lr = LRP_LR_UUID lrp \<and>
      (\<forall>lr' t'. (lr', t') \<in> set (lr_array f) \<and> LR_UUID lr' = LRP_LR_UUID lrp \<longrightarrow> ((q, p), t') \<in> set (next_hop_ovsport f))"
proof -
  obtain lrp lr lr_next t row where h: "((lrp, lr, lr_next), t) \<in> set (next_hop_lr f)" "row \<in> set (ovsport_chassis f)"
      "LR_CHASSIS_UUID lr_next = Some (OVSPORT_IFACE_ID row)" "OVSPORT_OFPORT row > 0"
      "q = LRP_UUID lrp" "p = OVSPORT_OFPORT row" "t + OVSPORT_State row = 0"
    using mem by (fastforce simp: next_hop_ovsport_def bex_pair)
  obtain a b where ab: "((lrp, lr_next), a) \<in> set (hop_next f)" "(lr, b) \<in> set (lr_array f)"
      "LR_UUID lr = LRP_LR_UUID lrp" "t = a + b" using h(1) unfolding next_hop_lr_eq by blast
  have "st 1 (OVSPORT_State row)" using ok h(2) by (simp add: states_ok_def row_state_st)
  moreover have a: "st 6 a" using exact_hop_next [OF ok] ab(1) unfolding new.exact_def by blast
  moreover have b: "st 2 b" using lr_st [OF ok ab(2)] .
  moreover have "st 8 t" using st_add [OF a b] ab(4) by simp
  ultimately have zero: "a = 0" "b = 0" "OVSPORT_State row = 0"
    using same.keep_add [of 8 t 1 "OVSPORT_State row"] same.keep_add [of 6 a 2 b] h(7) ab(4)
    by (simp_all add: kept_same_def)
  have "\<exists>s. ((er_lrp lrp, er_lr lr_next), s) \<in> set (hop_next (view kept_new f))"
    using exact_hop_next [OF ok] ab(1) zero(1) unfolding new.exact_def by (fastforce simp: kept_new_def)
  then have "er_lrp lrp \<in> set (lrp_array (view kept_new f))"
    by (auto simp: hop_next_def hop_ports_def bex_pair)
  moreover have "((q, p), t') \<in> set (next_hop_ovsport f)" if "(lr', t') \<in> set (lr_array f)" "LR_UUID lr' = LRP_LR_UUID lrp" for lr' t'
  proof -
    have "((lrp, lr', lr_next), a + t') \<in> set (next_hop_lr f)" using ab(1) that unfolding next_hop_lr_eq by blast
    then have "((q, p), a + t' + OVSPORT_State row) \<in> set (next_hop_ovsport f)"
      using h(2-6) by (fastforce simp: next_hop_ovsport_def bex_pair)
    then show ?thesis using zero by simp
  qed
  ultimately show ?thesis using ab(2,3) zero(2) h(5) by (intro exI [of _ "er_lrp lrp"] exI [of _ lr]) auto
qed


lemma quiet_hop:
  assumes ok: "states_ok f" and reg: "regular_routes (view kept_new f)" and hop: "((r1, p1, r2, p2), 0) \<in> set (ecmp_hops f)"
  shows "\<exists>lr. (lr, 0) \<in> set (lr_array f) \<and> LR_UUID lr = LSR_LR_UUID r1"
    and "(lr', t') \<in> set (lr_array f) \<Longrightarrow> LR_UUID lr' = LSR_LR_UUID r1 \<Longrightarrow> ((r1, p1, r2, p2), t') \<in> set (ecmp_hops f)"
proof -
  obtain a1 a2 where a: "((r1, p1), a1) \<in> set (route_port f)" "((r2, p2), a2) \<in> set (route_port f)"
      "ecmp_pair r1 r2" "a1 + a2 = 0" using hop unfolding mem_ecmp_hops by fastforce
  then have "kept_new a1" "kept_new a2" using hop_kept [OF ok a(1,2)] by (simp_all add: kept_new_def)
  then have zero: "a1 = 0" "a2 = 0" using a(4) by (simp_all add: kept_new_def)
  obtain q t where q: "r1 \<in> set (lroute_array f)" "((q, p1), t) \<in> set (next_hop_ovsport f)" "LSR_OUTPORT r1 = Some q"
      "LSR_State r1 + t = 0" using a(1) unfolding mem_route_port zero by fastforce
  have "st 1 (LSR_State r1)" using ok q(1) by (simp add: states_ok_def row_state_st)
  moreover have "st 9 t" using exact_next_hop_ovsport [OF ok] q(2) unfolding new.exact_def by blast
  ultimately have r1: "LSR_State r1 = 0" "t = 0"
    using same.keep_add [of 1 "LSR_State r1" 9 t] q(4) by (simp_all add: kept_same_def)
  obtain lrp lr where h: "lrp \<in> set (lrp_array (view kept_new f))" "LRP_UUID lrp = q"
      "(lr, 0) \<in> set (lr_array f)" "LR_UUID lr = LRP_LR_UUID lrp"
      "\<And>lr' t'. (lr', t') \<in> set (lr_array f) \<Longrightarrow> LR_UUID lr' = LRP_LR_UUID lrp \<Longrightarrow> ((q, p1), t') \<in> set (next_hop_ovsport f)"
    using quiet_router [OF ok] q(2) unfolding r1 by blast
  have "er_lsr r1 \<in> set (lroute_array (view kept_new f))"
    using q(1) r1(1) by (auto simp: view_def kept_new_def intro!: image_eqI)
  then have u: "LRP_LR_UUID lrp = LSR_LR_UUID r1"
    using regular_router [OF reg _ h(1)] h(2) q(3) by auto
  then show "\<exists>lr. (lr, 0) \<in> set (lr_array f) \<and> LR_UUID lr = LSR_LR_UUID r1" using h(3,4) by auto
  assume "(lr', t') \<in> set (lr_array f)" "LR_UUID lr' = LSR_LR_UUID r1"
  then have "((r1, p1), t') \<in> set (route_port f)"
    using h(5) u q(1,3) r1(1) unfolding mem_route_port by fastforce
  then show "((r1, p1, r2, p2), t') \<in> set (ecmp_hops f)" using a(2,3) zero unfolding mem_ecmp_hops by force
qed

lemma unchanged_router:
  assumes ok: "states_ok f" and reg: "regular_routes (view kept_new f)" and un: "\<not> changed f (u, ip, n)"
    and ports: "bundle_ports P f (u, ip, n) \<noteq> {}" and lr: "(lr, s) \<in> set (lr_array f)" "LR_UUID lr = u"
  shows "s \<le> 0"
proof -
  obtain r1 p1 r2 p2 t where hop: "((r1, p1, r2, p2), t) \<in> set (ecmp_hops f)" "route_key r1 = (u, ip, n)"
    using ports by (metis all_not_in_conv bundle_portsE)
  have quiet: "t' = 0" if "((r1, p1, r2, p2), t') \<in> set (ecmp_hops f)" for t'
    using unchanged_hops [OF ok _ that] un hop(2) by simp
  have "((r1, p1, r2, p2), s) \<in> set (ecmp_hops f)"
    by (rule quiet_hop(2) [OF ok reg _ lr(1)]) (use hop quiet [OF hop(1)] lr(2) in \<open>simp_all add: route_key_def\<close>)
  from quiet [OF this] show ?thesis by simp
qed

text \<open>A bundle of the start that is not deleted still has a port, and its router.\<close>

lemma surviving_bundle:
  assumes ok: "states_ok f" and reg: "regular_routes (view kept_new f)" and "\<not> deleting f (u, ip, n)"
    and ports: "bundle_ports kept_old f (u, ip, n) \<noteq> {}"
  shows "bundle_ports kept_new f (u, ip, n) \<noteq> {}" and "\<exists>lr. (lr, 0) \<in> set (lr_array f) \<and> LR_UUID lr = u"
proof -
  obtain r1 p1 r2 p2 t where hop: "((r1, p1, r2, p2), t) \<in> set (ecmp_hops f)" "kept_old t" "route_key r1 = (u, ip, n)"
    using ports by (metis all_not_in_conv bundle_portsE)
  have "kept_new t" using broken_pair [OF ok hop(1) _ hop(3)] assms(3) deleting_iff [OF ok] by blast
  then show "bundle_ports kept_new f (u, ip, n) \<noteq> {}" using bundle_portsI [OF hop(1) _ hop(3)] by blast
  have "t = 0" using hop(2) \<open>kept_new t\<close> by (simp add: kept_old_def kept_new_def)
  then show "\<exists>lr. (lr, 0) \<in> set (lr_array f) \<and> LR_UUID lr = u"
    using quiet_hop(1) [OF ok reg] hop(1,3) by (fastforce simp: route_key_def)
qed

section \<open>The round\<close>

definition same_match :: "lr_row \<times> flow \<Rightarrow> lr_row \<times> flow \<Rightarrow> bool" where
  "same_match x y =
     (case (x, y) of ((lr, p, m, _), (lr', p', m', _)) \<Rightarrow> LR_UUID lr = LR_UUID lr' \<and> p = p' \<and> m = m')"

lemma same_match_bundle:
  "same_match (bundle_flow lr ip n ys) (bundle_flow lr' ip' n' ys') \<longleftrightarrow> LR_UUID lr = LR_UUID lr' \<and> ip = ip' \<and> n = n'"
  by (auto simp: same_match_def bundle_flow_def ip_dst_prefix_def)

lemma round_bundles:
  assumes r: "round_inv z0 z" and start: "zoo_inv z0" "shops_ok (db z0)" "idle z0"
    and reg: "regular_routes (view kept_new (db z))"
  defines "R \<equiv> ecmp_static_route (db z)"
  shows "er_lr_fl ` added R \<subseteq> bundles z"
    and "x \<in> bundles z \<Longrightarrow> x \<in> er_lr_fl ` added R \<or> x \<in> bundles z0 \<and> (\<forall>(y, s) \<in> set R. \<not> same_match x y)"
    and "x \<in> bundles z0 \<Longrightarrow> (\<exists>y \<in> bundles z. same_match x y) \<or> (\<exists>y \<in> gone R. same_match x y \<and> fst x = er_lr (fst y))"
proof -
  have shops: "zoo_inv z" "shops_ok (db z)" using r by (simp_all add: round_inv_def facts_since_def)
  have ok: "states_ok (db z)" by (rule zoo_states_ok [OF shops])
  have ok0: "states_ok (db z0)" by (rule zoo_states_ok [OF start(1,2)])
  note same = same_from_start [OF r start(1,2)] and old = start_to_old [OF r start]
  note views = bundle_ports_views [OF ok] and views0 = bundle_ports_views [OF ok0]
  show "er_lr_fl ` added R \<subseteq> bundles z"
  proof
    fix y assume "y \<in> er_lr_fl ` added R"
    then obtain lr s ip n ys where h: "(lr, s) \<in> set (lr_array (db z))" "kept_new s" "y = bundle_flow (er_lr lr) ip n ys"
        "bundle_ports kept_new (db z) (LR_UUID lr, ip, n) \<noteq> {}" "slave_list (bundle_ports kept_new (db z) (LR_UUID lr, ip, n)) ys"
      using added_bundle [OF ok reg] unfolding R_def by (elim imageE) (metis bundle_flow_er)
    then show "y \<in> bundles z" using bundles_full [OF ok h(1,2,4) regular_inj_kept [OF ok reg]] slave_list_unique by blast
  qed
  show "x \<in> er_lr_fl ` added R \<or> x \<in> bundles z0 \<and> (\<forall>(y, s) \<in> set R. \<not> same_match x y)" if x: "x \<in> bundles z"
  proof -
    obtain lr s ip n ys where h: "(lr, s) \<in> set (lr_array (db z))" "kept_new s" "x = bundle_flow (er_lr lr) ip n ys"
        and ne: "bundle_ports kept_new (db z) (LR_UUID lr, ip, n) \<noteq> {}"
        and ys: "slave_list (bundle_ports kept_new (db z) (LR_UUID lr, ip, n)) ys"
    proof -
      obtain lr1 s1 ip n ys where 1: "(lr1, s1) \<in> set (lr_array (view kept_new (db z)))" "x = bundle_flow lr1 ip n ys"
          "bundle_ports kept_new (db z) (LR_UUID lr1, ip, n) \<noteq> {}"
          "slave_list (bundle_ports kept_new (db z) (LR_UUID lr1, ip, n)) ys"
        using bundles_shape [OF ok x] regular_inj_kept [OF ok reg] by metis
      obtain lr s where 2: "(lr, s) \<in> set (lr_array (db z))" "kept_new s" "lr1 = er_lr lr"
        using view_lr(1) [OF ok] 1(1) by blast
      show thesis by (rule that [OF 2(1,2)]) (use 1 2(3) in simp_all)
    qed
    let ?k = "(LR_UUID lr, ip, n)"
    show ?thesis
    proof (cases "changed (db z) ?k")
      case True
      then obtain ys' where ys': "slave_list (bundle_ports kept_new (db z) ?k) ys'" "bundle_flow lr ip n ys' \<in> added R"
        using bundle_added [OF ok reg h(1,2) _ ne] unfolding R_def by blast
      then have "ys' = ys" using ys slave_list_unique by blast
      then have "x = er_lr_fl (bundle_flow lr ip n ys')" using h(3) by simp
      then show ?thesis using ys'(2) by blast
    next
      case False
      have "bundle_ports kept_same (db z) ?k \<subseteq> bundle_ports kept_new (db z0) ?k"
        using bundle_ports_mono [OF same] views views0 by simp
      moreover have "bundle_ports kept_new (db z0) ?k \<subseteq> bundle_ports kept_old (db z) ?k"
        using bundle_ports_mono [OF old] views views0 by simp
      moreover have "bundle_ports kept_same (db z) ?k = bundle_ports kept_new (db z) ?k"
        "bundle_ports kept_old (db z) ?k = bundle_ports kept_new (db z) ?k"
        by (rule unchanged_ports [OF ok False]; simp add: kept_same_def kept_new_def kept_old_def)+
      ultimately have eq: "bundle_ports kept_new (db z0) ?k = bundle_ports kept_new (db z) ?k" by simp
      have "s \<le> 0" by (rule unchanged_router [OF ok reg False ne h(1) refl])
      then have "kept_same s" using h(2) by (simp add: kept_same_def kept_new_def)
      then have "\<exists>t. (er_lr lr, t) \<in> set (lr_array (view kept_new (db z0)))"
        using view_lr(3) [OF ok] h(1) mono_lr [OF same] by blast
      then obtain lr0 t where lr0: "(lr0, t) \<in> set (lr_array (db z0))" "kept_new t" "er_lr lr = er_lr lr0"
        using view_lr(1) [OF ok0] by blast
      have lr0_id: "LR_UUID lr0 = LR_UUID lr" using arg_cong [OF lr0(3), of LR_UUID] by simp
      have "inj_on snd (bundle_ports kept_new (db z0) ?k)" unfolding eq by (rule regular_inj_kept [OF ok reg])
      then obtain ys' where "slave_list (bundle_ports kept_new (db z0) ?k) ys'" "bundle_flow (er_lr lr) ip n ys' \<in> bundles z0"
        using bundles_full [OF ok0 lr0(1,2), of ip n] ne unfolding lr0_id eq lr0(3) by blast
      then have "x \<in> bundles z0" using slave_list_unique [OF ys] h(3) unfolding eq by blast
      moreover have "\<not> same_match x y" if "(y, s) \<in> set R" for y s
      proof -
        obtain lr' ip' n' t' label ys' where y: "y = bundle_flow lr' ip' n' ys'"
            "((LR_UUID lr', ip', n', t', label), ys') \<in> set (ecmp_aggregate_outport (db z) @ ecmp_aggregate_outport_readd (db z))"
          using \<open>(y, s) \<in> set R\<close> unfolding R_def mem_static_route by blast
        then show ?thesis using aggregate_written [OF ok reg y(2)] False h(3) by (auto simp: same_match_bundle)
      qed
      ultimately show ?thesis by blast
    qed
  qed
  show "(\<exists>y \<in> bundles z. same_match x y) \<or> (\<exists>y \<in> gone R. same_match x y \<and> fst x = er_lr (fst y))" if x: "x \<in> bundles z0"
  proof -
    obtain lr s ip n ys where h: "(lr, s) \<in> set (lr_array (view kept_new (db z0)))" "x = bundle_flow lr ip n ys"
        "bundle_ports kept_new (db z0) (LR_UUID lr, ip, n) \<noteq> {}"
      using bundles_shape [OF ok0 x] by blast
    let ?k = "(LR_UUID lr, ip, n)"
    have ne: "bundle_ports kept_old (db z) ?k \<noteq> {}"
      using bundle_ports_mono [OF old, of ?k] h(3) views views0 by auto
    show ?thesis
    proof (cases "deleting (db z) ?k")
      case True
      then obtain ys' where d: "((LR_UUID lr, ip, n, State_DEL, ''deleting''), ys') \<in> set (ecmp_aggregate_outport (db z))"
        using deleting_iff [OF ok] by (auto simp: ecmp_aggregate_outport_def)
      obtain lr0 s0 where lr0: "(lr0, s0) \<in> set (lr_array (db z))" "kept_old s0" "lr = er_lr lr0"
        using view_lr(2) [OF ok] mono_lr [OF old] h(1) by blast
      have "(bundle_flow lr0 ip n ys', s0 + State_DEL) \<in> set R"
        using lr0 d unfolding R_def by (fastforce simp: mem_static_route kept_old_def)
      then have "bundle_flow lr0 ip n ys' \<in> gone R"
        using lr0(2) by (fastforce simp: gone_def kept_old_def)
      moreover have "same_match x (bundle_flow lr0 ip n ys')" "fst x = er_lr (fst (bundle_flow lr0 ip n ys'))"
        using h(2) lr0(3) by (simp_all add: same_match_bundle) (simp_all add: bundle_flow_def)
      ultimately show ?thesis by blast
    next
      case False
      note live = surviving_bundle [OF ok reg False ne]
      then obtain lr' where lr': "(lr', 0) \<in> set (lr_array (db z))" "LR_UUID lr' = LR_UUID lr" by blast
      have "kept_new 0" by (simp add: kept_new_def)
      then obtain ys' where "bundle_flow (er_lr lr') ip n ys' \<in> bundles z"
        using bundles_full [OF ok lr'(1), of ip n] live(1) regular_inj_kept [OF ok reg] unfolding lr'(2) by blast
      moreover have "same_match x (bundle_flow (er_lr lr') ip n ys')"
        using h(2) lr'(2) by (simp add: same_match_bundle)
      ultimately show ?thesis by blast
    qed
  qed
qed


section \<open>Texts, and the sweep\<close>

abbreviation bundle_lflow :: "lr_row \<times> flow \<Rightarrow> lflow" where
  "bundle_lflow \<equiv> lr_flow TABLE_LRP_INGRESS_IP_ROUTE ''lrp_ip_route''"

lemma bundle_lflow_er [simp]: "bundle_lflow (er_lr_fl x) = bundle_lflow x"
  by (simp add: lr_flow_def split: prod.splits)

lemma in_build_flows:
  "\<not> GATEWAY options \<Longrightarrow> (x, s) \<in> set (ecmp_static_route f) \<Longrightarrow> (bundle_lflow x, s) \<in> set (build_flows options f)"
  unfolding build_flows_def build_flows_lrp_def lrp_ip_route_def by (force simp: emit_def)

lemma same_match_key: "same_match x y \<Longrightarrow> fst x = er_lr (fst y) \<Longrightarrow> flow_key (bundle_lflow x) = flow_key (bundle_lflow y)"
  by (auto simp: same_match_def lr_flow_def flow_key_def split: prod.splits)

lemma bundles_iff:
  assumes ok: "states_ok (db z)" and inj: "\<And>k. inj_on snd (bundle_ports kept_new (db z) k)"
  shows "x \<in> bundles z \<longleftrightarrow>
    (\<exists>lr s ip n ys. (lr, s) \<in> set (lr_array (view kept_new (db z))) \<and> x = bundle_flow lr ip n ys \<and>
       bundle_ports kept_new (db z) (LR_UUID lr, ip, n) \<noteq> {} \<and> slave_list (bundle_ports kept_new (db z) (LR_UUID lr, ip, n)) ys)"
proof
  show "x \<in> bundles z" if ex: "\<exists>lr s ip n ys. (lr, s) \<in> set (lr_array (view kept_new (db z))) \<and> x = bundle_flow lr ip n ys \<and>
       bundle_ports kept_new (db z) (LR_UUID lr, ip, n) \<noteq> {} \<and> slave_list (bundle_ports kept_new (db z) (LR_UUID lr, ip, n)) ys"
  proof -
    obtain lr s ip n ys where h: "(lr, s) \<in> set (lr_array (view kept_new (db z)))" "x = bundle_flow lr ip n ys"
        "bundle_ports kept_new (db z) (LR_UUID lr, ip, n) \<noteq> {}"
        "slave_list (bundle_ports kept_new (db z) (LR_UUID lr, ip, n)) ys" using ex by blast
    obtain lr0 t where lr0: "(lr0, t) \<in> set (lr_array (db z))" "kept_new t" "lr = er_lr lr0" using view_lr(1) [OF ok] h(1) by blast
    have id: "LR_UUID lr = LR_UUID lr0" using lr0(3) by simp
    obtain ys' where "slave_list (bundle_ports kept_new (db z) (LR_UUID lr0, ip, n)) ys'" "bundle_flow lr ip n ys' \<in> bundles z"
      using bundles_full [OF ok lr0(1,2) h(3) [unfolded id] inj] unfolding lr0(3) by blast
    then show ?thesis using slave_list_unique h(2,4) unfolding id by blast
  qed
qed (use bundles_shape [OF ok] inj in blast)

lemma sweep_bundles:
  assumes r: "round_inv z0 z" and sw: "sweep_zoo z = Some z'" and reg: "regular_routes (view kept_new (db z))"
  shows "bundles z' = bundles z"
proof -
  have z: "zoo_inv z" "shops_ok (db z)" using r by (simp_all add: round_inv_def facts_since_def)
  have z': "zoo_inv z'" "shops_ok (db z')" using sweep_round(1,3) [OF r sw] by (simp_all add: facts_since_def)
  note ok = zoo_states_ok [OF z] and ok' = zoo_states_ok [OF z']
  note v = sweep_views [OF r sw]
  have ports: "bundle_ports kept_new (db z') k = bundle_ports kept_new (db z) k" for k
    using bundle_ports_mono [OF v(1)] bundle_ports_mono [OF v(2)] bundle_ports_views(1) [OF ok] bundle_ports_views(1) [OF ok']
    by (metis subset_antisym)
  have lrs: "set (lr_array (view kept_new (db z'))) = set (lr_array (view kept_new (db z)))"
    using mono_lr [OF v(1)] mono_lr [OF v(2)] by simp
  note inj = regular_inj_kept [OF ok reg]
  have "x \<in> bundles z' \<longleftrightarrow> x \<in> bundles z" for x
    unfolding bundles_iff [OF ok inj] by (subst bundles_iff [OF ok']) (simp_all only: ports inj lrs)
  then show ?thesis by blast
qed

text \<open>
  C2. The bundles of a round are as good as evaluating the rules afresh, on regular routes. Let the
  zoo be \<open>z0\<close> after the last sweep and \<open>z\<close> after any updates since. Every bundle that holds in \<open>z\<close> is
  added, or it held in \<open>z0\<close> and the rule derives nothing that would replace or delete it; the key of
  every bundle that held in \<open>z0\<close> is deleted, or a bundle of \<open>z\<close> has its router, priority and match and
  so takes its place; every added bundle holds in \<open>z\<close>, with all its ports; and the sweep changes
  nothing of this.
\<close>

theorem bundles_are_recomputed:
  assumes "set_pop_ok env" and "rested env ids z0" and "(zoo_update env)\<^sup>*\<^sup>* z0 z"
    and "regular_routes (view kept_new (db z))" and "\<not> GATEWAY options"
    and "convert_tuple2flow hash_fn (build_flows options (db z)) = Some (adds, dels)"
  shows "(\<forall>x \<in> bundles z. (\<exists>t. flow_text hash_fn (bundle_lflow x) = Some t \<and> t \<in> set adds) \<or>
        x \<in> bundles z0 \<and> (\<forall>(y, s) \<in> set (ecmp_static_route (db z)). \<not> same_match x y)) \<and>
    (\<forall>x \<in> bundles z0. (\<exists>k. flow_key (bundle_lflow x) = Some k \<and> k \<in> set dels) \<or> (\<exists>y \<in> bundles z. same_match x y)) \<and>
    (\<forall>x \<in> added (ecmp_static_route (db z)). er_lr_fl x \<in> bundles z) \<and>
    (\<forall>z'. sweep_zoo z = Some z' \<longrightarrow> bundles z' = bundles z)"
proof (intro conjI ballI allI impI)
  note start = rested_start [OF assms(1,2)]
  note r = rested_updates [OF assms(1-3)]
  note b = round_bundles [OF r start(1-3) assms(4)]
  note c = convert_tuple2flow_texts [OF assms(6)]
  note build = in_build_flows [OF assms(5), of _ _ "db z"]
  show "(\<exists>t. flow_text hash_fn (bundle_lflow x) = Some t \<and> t \<in> set adds) \<or>
        x \<in> bundles z0 \<and> (\<forall>(y, s) \<in> set (ecmp_static_route (db z)). \<not> same_match x y)" if "x \<in> bundles z" for x
    using b(2) [OF that]
  proof
    assume "x \<in> er_lr_fl ` added (ecmp_static_route (db z))"
    then obtain w where w: "w \<in> added (ecmp_static_route (db z))" "x = er_lr_fl w" by blast
    then have "bundle_lflow w \<in> added (build_flows options (db z))" using build unfolding added_def by blast
    then show ?thesis using c(1) bundle_lflow_er [of w] w(2) by metis
  qed simp
  show "(\<exists>k. flow_key (bundle_lflow x) = Some k \<and> k \<in> set dels) \<or> (\<exists>y \<in> bundles z. same_match x y)" if "x \<in> bundles z0" for x
    using b(3) [OF that]
  proof
    assume "\<exists>y \<in> gone (ecmp_static_route (db z)). same_match x y \<and> fst x = er_lr (fst y)"
    then obtain y where y: "y \<in> gone (ecmp_static_route (db z))" "same_match x y" "fst x = er_lr (fst y)" by blast
    then have "bundle_lflow y \<in> gone (build_flows options (db z))" using build unfolding gone_def by blast
    then show ?thesis using c(2) same_match_key [OF y(2,3)] by metis
  qed simp
  show "er_lr_fl x \<in> bundles z" if "x \<in> added (ecmp_static_route (db z))" for x using b(1) that by blast
  show "bundles z' = bundles z" if "sweep_zoo z = Some z'" for z' by (rule sweep_bundles [OF r that assms(4)])
qed

text \<open>Two routes of one network with one next hop.\<close>

definition demo_routes :: zoo where
  "demo_routes =
     convert_pool2entity demo_env LSR
       [(''LR/r/lsr/x1'', [(''ip'', ''0.0.0.0''), (''prefix'', ''0''), (''next_hop'', ''10.9.0.1''), (''outport'', ''a1'')]),
        (''LR/r/lsr/x2'', [(''ip'', ''0.0.0.0''), (''prefix'', ''0''), (''next_hop'', ''10.9.0.1''), (''outport'', ''a2'')])]
       (init_zoo [''hv1''])"

lemma demo_routes_regular: "regular_routes (view kept_new (db demo_routes))" "length (lroute_array (db demo_routes)) = 2"
  by code_simp+

theorem bundles_are_recomputed_witness:
  "length (lroute_array (db demo_routes)) = 2 \<and>
   (\<exists>adds dels. convert_tuple2flow ''nw_dst'' (build_flows (opts demo_env) (db demo_routes)) = Some (adds, dels) \<and>
     (\<forall>x \<in> bundles demo_routes. (\<exists>t. flow_text ''nw_dst'' (bundle_lflow x) = Some t \<and> t \<in> set adds) \<or>
        x \<in> bundles (init_zoo [''hv1'']) \<and> (\<forall>(y, s) \<in> set (ecmp_static_route (db demo_routes)). \<not> same_match x y)))"
proof -
  have "(zoo_update demo_env)\<^sup>*\<^sup>* (init_zoo [''hv1'']) demo_routes"
    unfolding demo_routes_def by (rule r_into_rtranclp) (rule step_convert)
  moreover have "\<not> GATEWAY (opts demo_env)" by (simp add: demo_env_def)
  moreover obtain adds dels where
    conv: "convert_tuple2flow ''nw_dst'' (build_flows (opts demo_env) (db demo_routes)) = Some (adds, dels)"
    using demo_text_total by blast
  ultimately show ?thesis
    using bundles_are_recomputed [OF demo_env_pop rested_init _ demo_routes_regular(1) _ conv] conv demo_routes_regular(2) by blast
qed

section \<open>Computed examples\<close>

text \<open>
  A router with a port to each of three edge routers on other hosts, and its static routes. All rows but
  the routes are unchanged.
\<close>

definition demo_lrp :: "string \<Rightarrow> string \<Rightarrow> string \<Rightarrow> lrp_row" where
  "demo_lrp u router peer =
     \<lparr>LRP_UUID = u, LRP_PREFIX = 16, LRP_IP = [], LRP_IP_INT = 0, LRP_MAC = [], LRP_MAC_INT = 0,
      LRP_LR_UUID = router, LRP_PEER = Some peer, LRP_PORTID = 0, LRP_ILK_IDX = 0, LRP_State = State_NO\<rparr>"

definition demo_lsp :: "string \<Rightarrow> string \<Rightarrow> string \<Rightarrow> lsp_row" where
  "demo_lsp u ls peer =
     \<lparr>LSP_UUID = u, LSP_IP = [], LSP_IP_INT = 0, LSP_MAC = [], LSP_MAC_INT = 0, LSP_CHASSIS_UUID = None,
      LSP_LS_UUID = ls, LSP_PEER = Some peer, LSP_PORTID = 0, LSP_State = State_NO\<rparr>"

definition demo_lsr :: "string \<Rightarrow> string \<Rightarrow> string \<Rightarrow> int \<Rightarrow> lsr_row" where
  "demo_lsr u hop port s =
     \<lparr>LSR_UUID = u, LSR_LR_UUID = ''r'', LSR_IP = ''0.0.0.0'', LSR_IP_INT = 0, LSR_PREFIX = 0, LSR_NEXT_HOP = hop,
      LSR_NEXT_HOP_INT = 0, LSR_OUTPORT = Some port, LSR_ILK_IDX = 0, LSR_State = s\<rparr>"

definition demo_edge_facts :: "lsr_row list \<Rightarrow> facts" where
  "demo_edge_facts routes =
     (init_facts [''hv1''])
       \<lparr>u_lr_array := \<lparr>LR_UUID = ''r'', LR_CHASSIS_UUID = None, LR_ID = 8, LR_State = State_NO\<rparr> #
          map (\<lambda>i. \<lparr>LR_UUID = CHR ''e'' # i, LR_CHASSIS_UUID = Some (CHR ''c'' # i), LR_ID = 9, LR_State = State_NO\<rparr>) [''1'', ''2'', ''3''],
        chassis_array := map (\<lambda>i. \<lparr>PCH_UUID = CHR ''c'' # i, PCH_IP = [], PCH_TICK = 0, PCH_State = State_NO\<rparr>) [''1'', ''2'', ''3''],
        lrp_array := concat (map (\<lambda>i. [demo_lrp (CHR ''a'' # i) ''r'' (CHR ''p'' # i),
          demo_lrp (CHR ''b'' # i) (CHR ''e'' # i) (CHR ''q'' # i)]) [''1'', ''2'', ''3'']),
        exchange_lsp_array := concat (map (\<lambda>i. [demo_lsp (CHR ''p'' # i) (CHR ''s'' # i) (CHR ''a'' # i),
          demo_lsp (CHR ''q'' # i) (CHR ''s'' # i) (CHR ''b'' # i)]) [''1'', ''2'', ''3'']),
        ovsport_chassis := map (\<lambda>(i, n). \<lparr>OVSPORT_NAME = CHR ''t'' # i, OVSPORT_IFACE_ID = CHR ''c'' # i, OVSPORT_OFPORT = n,
          OVSPORT_State = State_NO\<rparr>) [(''1'', 11), (''2'', 12), (''3'', 13)],
        lroute_array := routes\<rparr>"

lemma demo_edge_hops:
  "next_hop_ovsport (demo_edge_facts rs) = [((''a1'', 11), 0), ((''a2'', 12), 0), ((''a3'', 13), 0)]"
  by code_simp


lemma demo_edge_sel:
  "lroute_array (demo_edge_facts rs) = rs"
  "lr_array (demo_edge_facts rs) =
     (\<lparr>LR_UUID = ''r'', LR_CHASSIS_UUID = None, LR_ID = 8, LR_State = 0\<rparr>, 0) #
     map (\<lambda>i. (\<lparr>LR_UUID = CHR ''e'' # i, LR_CHASSIS_UUID = Some (CHR ''c'' # i), LR_ID = 9, LR_State = 0\<rparr>, 0)) [''1'', ''2'', ''3'']"
  by (simp add: demo_edge_facts_def) code_simp

text \<open>What the rule writes: routers, actions and sums.\<close>

definition demo_written :: "lsr_row list \<Rightarrow> (string \<times> act list \<times> int) list" where
  "demo_written rs = map (\<lambda>((lr, p, m, a), s). (LR_UUID lr, a, s)) (ecmp_static_route (demo_edge_facts rs))"

abbreviation demo_bundle :: "int list \<Rightarrow> act list" where
  "demo_bundle ofports \<equiv> bundle_load (NXM_Reg REG_OUTPORT_IDX) ofports @ resubmit_next"

lemmas demo_written_defs = demo_written_def ecmp_static_route_def ecmp_aggregate_outport_def
  ecmp_aggregate_outport_readd_def ecmp_adding_def ecmp_deleting_def demo_edge_hops demo_edge_sel

text \<open>A third port joins a bundle: the bundle is written with all three. It leaves: the bundle is deleted and written again.\<close>

lemma demo_join:
  "demo_written [demo_lsr ''x1'' ''h'' ''a1'' 0, demo_lsr ''x2'' ''h'' ''a2'' 0, demo_lsr ''x3'' ''h'' ''a3'' 1] =
     [(''r'', demo_bundle [11, 12, 13], 1)]"
  unfolding demo_written_defs by code_simp

lemma demo_leave:
  "demo_written [demo_lsr ''x1'' ''h'' ''a1'' 0, demo_lsr ''x2'' ''h'' ''a2'' 0, demo_lsr ''x3'' ''h'' ''a3'' (-100)] =
     [(''r'', demo_bundle [11, 12, 13], -100), (''r'', demo_bundle [11, 12], 1)]"
  unfolding demo_written_defs by code_simp

text \<open>
  Routes with two next hops are not regular, and there the round is wrong: the key of a bundle does
  not name the next hop. A second pair of routes to the network overwrites the bundle of the first and
  the port 11 gets no traffic, whereas a start with the same four routes bundles all the ports.
\<close>

lemma two_next_hops_differ:
  "demo_written [demo_lsr ''x1'' ''h'' ''a1'' 0, demo_lsr ''x2'' ''h'' ''a2'' 0,
                 demo_lsr ''x3'' ''k'' ''a2'' 1, demo_lsr ''x4'' ''k'' ''a3'' 1] = [(''r'', demo_bundle [12, 13], 1)]"
  "demo_written [demo_lsr ''x1'' ''h'' ''a1'' 1, demo_lsr ''x2'' ''h'' ''a2'' 1,
                 demo_lsr ''x3'' ''k'' ''a2'' 1, demo_lsr ''x4'' ''k'' ''a3'' 1] = [(''r'', demo_bundle [11, 12, 12, 13], 1)]"
  unfolding demo_written_defs by code_simp+

end
