(* ===== verification/Threads.thy ===== *)
theory Threads imports Startup State_Update begin

text \<open>
  The threads beside the passes: \<open>monitor_pkt_controller_tunnel\<close> of \<open>lcp/state_update.py\<close>, which reads the pipe of the
  packet controller; the debug socket of \<open>lcp/tentacle.py\<close> and \<open>tp_utils/pipe.py\<close> with its client
  \<open>tools/dump-tuplenet.py\<close>; and how \<open>lcp/tuplerun.py\<close> starts them all and starts those again that have died. An endless
  loop takes a number of turns.
\<close>

section \<open>The pipe of the packet controller\<close>

text \<open>
  The child process is told where to log. \<open>spawn_child\<close> tells whether it could be started, which is only logged;
  \<open>open_fifo\<close> and \<open>read_fifo\<close> are \<open>os.open\<close> and \<open>os.read\<close>.
\<close>

record 's tunnel =
  spawn_child :: "string list \<Rightarrow> (string \<times> string) list \<Rightarrow> ('s, bool) state"
  open_fifo :: "string \<Rightarrow> ('s, unit) prog"
  read_fifo :: "nat \<Rightarrow> ('s, string) prog"

definition run_pkt_controller_instance :: "'s tunnel \<Rightarrow> (string \<times> string) list \<Rightarrow> string option \<Rightarrow> string \<Rightarrow> ('s, unit) state" where
  "run_pkt_controller_instance P environ log_dir parent_dir = do {
     let env = (case log_dir of None \<Rightarrow> environ | Some d \<Rightarrow> AList.update ''TUPLENET_LOGDIR'' d environ);
     spawn_child P [parent_dir @ ''/pkt_controller/pkt_controller''] env;
     ret () }"

definition create_pkt_controller_tunnel :: "'s tunnel \<Rightarrow> string \<Rightarrow> ('s, unit) prog" where
  "create_pkt_controller_tunnel P rundir = open_fifo P (PKT_CONTROLLER_PIPE_PATH rundir)"

abbreviation (input) MAX_BUF_LEN :: nat where
  "MAX_BUF_LEN \<equiv> 10240"

text \<open>The loop; the result tells whether the thread is still running. An empty read ends it, and so does an exception.\<close>

primrec read_tunnel :: "'s tunnel \<Rightarrow> 's host \<Rightarrow> 's etcd \<Rightarrow> ctl_conf \<Rightarrow> nat \<Rightarrow> ('s agent, bool) state" where
  "read_tunnel P H E C 0 = ret True"
| "read_tunnel P H E C (Suc turns) = do {
     msg \<leftarrow> on_main (on_host (read_fifo P MAX_BUF_LEN));
     (case msg of
        None \<Rightarrow> ret False
      | Some m \<Rightarrow>
          if m = '''' then ret False
          else do { parse_pkt_controller_msg H E C m; read_tunnel P H E C turns }) }"

definition monitor_pkt_controller_tunnel ::
    "'s tunnel \<Rightarrow> 's host \<Rightarrow> 's etcd \<Rightarrow> ctl_conf \<Rightarrow> (string \<times> string) list \<Rightarrow> string option \<Rightarrow> string \<Rightarrow> string \<Rightarrow> nat \<Rightarrow>
      ('s agent, bool) state" where
  "monitor_pkt_controller_tunnel P H E C environ log_dir parent_dir rundir turns = do {
     on_main (on_host (run_pkt_controller_instance P environ log_dir parent_dir));
     fd \<leftarrow> on_main (on_host (create_pkt_controller_tunnel P rundir));
     (case fd of None \<Rightarrow> ret False | Some _ \<Rightarrow> read_tunnel P H E C turns) }"

lemma for_each_append: "for_each f (xs @ ys) = do { for_each f xs; for_each f ys }"
  by (induction xs) simp_all

lemma parse_msg_append:
  "parse_pkt_controller_msg H E C (m @ '';'' @ rest) = do { parse_pkt_controller_msg H E C m; parse_pkt_controller_msg H E C rest }"
  by (simp add: parse_pkt_controller_msg_def split_on_sep for_each_append)

lemma parse_msg_Nil: "parse_pkt_controller_msg H E C [] = ret ()"
  by (simp add: parse_pkt_controller_msg_def)

lemma parse_msg_ended:
  assumes "m = [] \<or> last m = CHR '';''"
  shows "parse_pkt_controller_msg H E C (m @ rest) = do { parse_pkt_controller_msg H E C m; parse_pkt_controller_msg H E C rest }"
proof (cases "m = []")
  case False
  then have m: "m = butlast m @ '';''" using assms append_butlast_last_id [of m] by simp
  have "parse_pkt_controller_msg H E C (butlast m @ '';'' @ rest) =
      do { parse_pkt_controller_msg H E C (butlast m @ '';'' @ []); parse_pkt_controller_msg H E C rest }"
    unfolding parse_msg_append by (simp add: parse_msg_Nil)
  then show ?thesis using m by (metis append.assoc append_Nil2)
qed (simp add: parse_msg_Nil)


text \<open>
  When every piece that is read ends with a whole message, processing the pieces is processing the
  whole text: the same commands are run and the same state is left.
\<close>

theorem pieces_are_the_text:
  assumes "\<forall>m \<in> set (butlast ms). last m = CHR '';''"
  shows "for_each (parse_pkt_controller_msg H E C) ms = parse_pkt_controller_msg H E C (concat ms)"
  using assms
proof (induction ms)
  case (Cons m ms)
  show ?case
  proof (cases ms)
    case Nil
    then show ?thesis by simp
  next
    case (Cons m' ms')
    then have "for_each (parse_pkt_controller_msg H E C) ms = parse_pkt_controller_msg H E C (concat ms)"
      by (intro Cons.IH) (use Cons.prems in simp)
    moreover have "m = [] \<or> last m = CHR '';''" using Cons.prems Cons by simp
    ultimately show ?thesis using parse_msg_ended [of m H E C "concat ms"] by simp
  qed
qed (simp add: parse_msg_Nil)

theorem pieces_are_the_text_witness:
  "\<forall>(H :: nat host) E C. for_each (parse_pkt_controller_msg H E C) [''arp,1,f2:01:0a:01:00:02,5;'', ''trace,1;''] =
     parse_pkt_controller_msg H E C ''arp,1,f2:01:0a:01:00:02,5;trace,1;''"
proof (intro allI)
  fix H :: "nat host" and E C
  show "for_each (parse_pkt_controller_msg H E C) [''arp,1,f2:01:0a:01:00:02,5;'', ''trace,1;''] =
     parse_pkt_controller_msg H E C ''arp,1,f2:01:0a:01:00:02,5;trace,1;''"
    using pieces_are_the_text [of "[''arp,1,f2:01:0a:01:00:02,5;'', ''trace,1;'']" H E C] by simp
qed

text \<open>A report that is cut by the end of the buffer is lost, and neither part is noticed.\<close>

lemma cut_report_is_lost:
  "for_each (parse_pkt_controller_msg H E C) [''arp,1,f2:01:0a:01:00:02,'', ''5;''] = ret ()"
proof -
  have "py_int [] = None" by code_simp
  then show ?thesis
    by (simp add: parse_pkt_controller_msg_def process_cmd_def process_arp_def int_at_def nth_opt_def ip_at_def
        split: option.splits)
qed

section \<open>Starting the threads\<close>

text \<open>
  What \<open>extra\<close> remembers of them: numbers of threads, and the client of the OVSDB once there is one. \<open>spawn\<close>
  starts one, \<open>stop_ovsdb\<close> is \<open>stop\<close> of a client; both may raise.
\<close>

record extra =
  arp_update_thread :: nat
  debug_thread :: nat
  ovsdb_client :: "nat option"

record 's spawner =
  spawn :: "monitor_thread \<Rightarrow> ('s, nat) prog"
  is_alive :: "nat \<Rightarrow> ('s, bool) state"
  stop_ovsdb :: "nat \<Rightarrow> ('s, unit) prog"
  clock :: "('s, int) state"

definition on_machine :: "('s, 'a) state \<Rightarrow> ('s \<times> extra, 'a) state" where
  "on_machine m = State (\<lambda>(s, x). case run_state m s of (r, s') \<Rightarrow> (r, (s', x)))"

definition remember :: "(nat \<Rightarrow> extra \<Rightarrow> extra) \<Rightarrow> ('s, nat) prog \<Rightarrow> ('s \<times> extra, unit) prog" where
  "remember f m = do {
     t \<leftarrow> on_machine m;
     (case t of
        None \<Rightarrow> ret None
      | Some t \<Rightarrow> do { State_Monad.update (\<lambda>(s, x). (s, f t x)); ret (Some ()) }) }"

definition run_arp_update_thread :: "'s spawner \<Rightarrow> ('s \<times> extra, unit) prog" where
  "run_arp_update_thread P = remember (\<lambda>t x. x\<lparr>arp_update_thread := t\<rparr>) (spawn P Arp_update)"

definition run_debug_thread :: "'s spawner \<Rightarrow> ('s \<times> extra, unit) prog" where
  "run_debug_thread P = remember (\<lambda>t x. x\<lparr>debug_thread := t\<rparr>) (spawn P Debug)"

definition run_ovsdb_monitor_thread :: "'s spawner \<Rightarrow> ('s \<times> extra, unit) prog" where
  "run_ovsdb_monitor_thread P = do {
     (s, x) \<leftarrow> State_Monad.get;
     r \<leftarrow> (case ovsdb_client x of None \<Rightarrow> ret (Some ()) | Some c \<Rightarrow> on_machine (stop_ovsdb P c));
     (case r of
        None \<Rightarrow> ret None
      | Some _ \<Rightarrow> remember (\<lambda>t x. x\<lparr>ovsdb_client := Some t\<rparr>) (spawn P Ovsdb_monitor)) }"

definition thread_of :: "extra \<Rightarrow> monitor_thread \<Rightarrow> nat option" where
  "thread_of x t =
     (case t of Arp_update \<Rightarrow> Some (arp_update_thread x) | Debug \<Rightarrow> Some (debug_thread x) | Ovsdb_monitor \<Rightarrow> ovsdb_client x)"

text \<open>The threads as the main loop watches over them.\<close>

definition threads_of :: "'s spawner \<Rightarrow> ('s \<times> extra) threads" where
  "threads_of P =
     \<lparr>thread_alive = (\<lambda>t. do {
        (s, x) \<leftarrow> State_Monad.get;
        (case thread_of x t of None \<Rightarrow> ret False | Some n \<Rightarrow> on_machine (is_alive P n)) }),
      thread_start = (\<lambda>t. case t of
         Arp_update \<Rightarrow> run_arp_update_thread P
       | Debug \<Rightarrow> run_debug_thread P
       | Ovsdb_monitor \<Rightarrow> run_ovsdb_monitor_thread P),
      wall_clock = on_machine (clock P)\<rparr>"

text \<open>
  What is known of threads: asking changes nothing, one that was started is aalive, and starting one or
  stopping the client of the OVSDB ends no other.
\<close>

definition spawner_ok :: "'s spawner \<Rightarrow> ('s \<Rightarrow> nat set) \<Rightarrow> bool" where
  "spawner_ok P alive \<longleftrightarrow>
     (\<forall>n s. run_state (is_alive P n) s = (n \<in> alive s, s)) \<and>
     (\<forall>t s n s'. run_state (spawn P t) s = (Some n, s') \<longrightarrow> alive s' = insert n (alive s)) \<and>
     (\<forall>n s r s'. run_state (stop_ovsdb P n) s = (r, s') \<longrightarrow> alive s - {n} \<subseteq> alive s')"

definition watched :: "('s \<Rightarrow> nat set) \<Rightarrow> 's \<times> extra \<Rightarrow> monitor_thread \<Rightarrow> bool" where
  "watched alive c t \<longleftrightarrow> (\<exists>n. thread_of (snd c) t = Some n \<and> n \<in> alive (fst c))"

lemma run_remember:
  assumes "run_state (remember f m) (s, x) = (Some (), c')"
  obtains n s' where "run_state m s = (Some n, s')" "c' = (s', f n x)"
  using assms by (auto simp: remember_def on_machine_def State_Monad.update_def split: prod.splits option.splits)

lemma check_thread:
  fixes P :: "'s spawner"
  assumes ok: "spawner_ok P alive"
    and run: "run_state (do { up \<leftarrow> thread_alive (threads_of P) t;
      (if up then ret (Some ()) else thread_start (threads_of P) t) }) c = (Some r, c')"
  shows "watched alive c' t" and "u \<noteq> t \<Longrightarrow> watched alive c u \<Longrightarrow> watched alive c' u"
proof -
  obtain s x where c: "c = (s, x)" by (cases c)
  have up: "run_state (thread_alive (threads_of P) t) (s, x) = (watched alive (s, x) t, (s, x))"
    using ok by (simp add: threads_of_def watched_def spawner_ok_def on_machine_def split: option.splits)
  have "watched alive c' t \<and> (\<forall>u. u \<noteq> t \<and> watched alive c u \<longrightarrow> watched alive c' u)"
  proof (cases "watched alive (s, x) t")
    case True
    then show ?thesis using run up by (simp add: c)
  next
    case False
    then have start: "run_state (thread_start (threads_of P) t) (s, x) = (Some r, c')" using run up by (simp add: c)
    have started: "watched alive c' t \<and> (\<forall>u. u \<noteq> t \<and> watched alive c u \<longrightarrow> watched alive c' u)"
      if "run_state (remember f (spawn P t)) (s1, x) = (Some r, c')" and "alive s \<subseteq> alive s1"
        and "\<And>n. thread_of (f n x) t = Some n" and "\<And>n u. u \<noteq> t \<Longrightarrow> thread_of (f n x) u = thread_of x u" for f s1
    proof -
      have "run_state (remember f (spawn P t)) (s1, x) = (Some (), c')" using that(1) by simp
      then obtain n s' where "run_state (spawn P t) s1 = (Some n, s')" "c' = (s', f n x)" by (rule run_remember)
      moreover have "alive s' = insert n (alive s1)" using ok calculation(1) unfolding spawner_ok_def by blast
      ultimately show ?thesis using that(2-4) by (auto simp: watched_def c)
    qed
    show ?thesis
    proof (cases t)
      case Arp_update
      show ?thesis
        by (rule started [of "\<lambda>t x. x\<lparr>arp_update_thread := t\<rparr>" s])
          (use start in \<open>simp_all add: Arp_update threads_of_def run_arp_update_thread_def thread_of_def
             split: monitor_thread.splits\<close>)
    next
      case Debug
      show ?thesis
        by (rule started [of "\<lambda>t x. x\<lparr>debug_thread := t\<rparr>" s])
          (use start in \<open>simp_all add: Debug threads_of_def run_debug_thread_def thread_of_def
             split: monitor_thread.splits\<close>)
    next
      case Ovsdb_monitor
      let ?f = "\<lambda>t x. x\<lparr>ovsdb_client := Some t\<rparr>"
      have "\<exists>s1. run_state (remember ?f (spawn P t)) (s1, x) = (Some r, c') \<and> alive s \<subseteq> alive s1"
      proof (cases "ovsdb_client x")
        case None
        then show ?thesis
          using start by (intro exI [of _ s]) (simp add: Ovsdb_monitor threads_of_def run_ovsdb_monitor_thread_def)
      next
        case (Some n)
        obtain q s1 where stop: "run_state (stop_ovsdb P n) s = (q, s1)" by fastforce
        then have "alive s - {n} \<subseteq> alive s1" using ok unfolding spawner_ok_def by blast
        moreover have "n \<notin> alive s" using False Some by (simp add: watched_def thread_of_def Ovsdb_monitor)
        ultimately show ?thesis
          using start stop Some
          by (intro exI [of _ s1]) (auto simp: Ovsdb_monitor threads_of_def run_ovsdb_monitor_thread_def on_machine_def
              split: option.splits)
      qed
      then obtain s1 where "run_state (remember ?f (spawn P t)) (s1, x) = (Some r, c')" "alive s \<subseteq> alive s1" by blast
      then show ?thesis
        by (rule started) (simp_all add: Ovsdb_monitor thread_of_def split: monitor_thread.splits)
    qed
  qed
  then show "watched alive c' t" and "u \<noteq> t \<Longrightarrow> watched alive c u \<Longrightarrow> watched alive c' u" by blast+
qed



definition demo_spawner :: "nat list spawner" where
  "demo_spawner =
     \<lparr>spawn = (\<lambda>t. State (\<lambda>s. (Some (fold max s 0 + 1), s @ [fold max s 0 + 1]))),
      is_alive = (\<lambda>n. State (\<lambda>s. (n \<in> set s, s))),
      stop_ovsdb = (\<lambda>n. State (\<lambda>s. (Some (), removeAll n s))),
      clock = ret 0\<rparr>"

lemma demo_spawner_ok: "spawner_ok demo_spawner set"
  by (auto simp: spawner_ok_def demo_spawner_def)



section \<open>The start of the process\<close>

text \<open>
  \<open>main\<close>, up to the loop. The options it uses; the version, the log and the prefix are left out. An interval below
  one ends the process, and so does a machine without an address for the tunnels.
\<close>

record cli =
  cli_interface :: string
  cli_interval :: int
  cli_host :: string

definition start_threads :: "'s spawner \<Rightarrow> ('s \<times> extra, unit) prog" where
  "start_threads P = do {
     r \<leftarrow> run_arp_update_thread P;
     (case r of
        None \<Rightarrow> ret None
      | Some _ \<Rightarrow> do {
          r \<leftarrow> run_debug_thread P;
          (case r of None \<Rightarrow> ret None | Some _ \<Rightarrow> run_ovsdb_monitor_thread P) }) }"

definition no_threads :: extra where
  "no_threads = \<lparr>arp_update_thread = 0, debug_thread = 0, ovsdb_client = None\<rparr>"

definition tuplerun_main :: "'s machine \<Rightarrow> 's etcd_hosts \<Rightarrow> 's spawner \<Rightarrow> bool \<Rightarrow> string \<Rightarrow> options \<Rightarrow> ipfix_cfg option \<Rightarrow> cli \<Rightarrow> 's \<Rightarrow>
    ((options \<times> string \<times> 's watch_master \<times> zoo \<times> extra \<times> string) boot \<times> 's) option" where
  "tuplerun_main M E P testing rundir options ipfix cli s =
     (if cli_interval cli < 1 then Some (Killed, s)
      else (case init_env M E testing rundir options ipfix (cli_host cli) s of
              None \<Rightarrow> None
            | Some (Raised, s1) \<Rightarrow> Some (Raised, s1)
            | Some (Killed, s1) \<Rightarrow> Some (Killed, s1)
            | Some (Booted (options', sys_id, w, z), s1) \<Rightarrow>
                (case run_state (start_threads P) (s1, no_threads) of
                   (None, (s2, x)) \<Rightarrow> Some (Raised, s2)
                 | (Some _, (s2, x)) \<Rightarrow>
                     (case run_state (config_consume_ip M (split_on CHR '','' (cli_interface cli))) s2 of
                        (None, s3) \<Rightarrow> Some (Killed, s3)
                      | (Some ip, s3) \<Rightarrow> Some (Booted (options', sys_id, w\<lparr>net := s3\<rparr>, z, x, ip), s3)))))"

text \<open>A process that gets to its loop has its three threads, and a tunnel address.\<close>

lemma start_threads_watched:
  assumes "spawner_ok P alive" and "run_state (start_threads P) (s, no_threads) = (Some (), c)"
  shows "watched alive c t"
proof -
  obtain s1 x1 s2 x2 where runs: "run_state (run_arp_update_thread P) (s, no_threads) = (Some (), (s1, x1))"
      "run_state (run_debug_thread P) (s1, x1) = (Some (), (s2, x2))"
      "run_state (run_ovsdb_monitor_thread P) (s2, x2) = (Some (), c)"
    using assms(2) by (auto simp: start_threads_def split: prod.splits option.splits)
  have grows: "alive s' = insert n (alive s)" if "run_state (spawn P t) s = (Some n, s')" for t s n s'
    using assms(1) that unfolding spawner_ok_def by blast
  obtain n1 where 1: "run_state (spawn P Arp_update) s = (Some n1, s1)" "x1 = no_threads\<lparr>arp_update_thread := n1\<rparr>"
    using runs(1) unfolding run_arp_update_thread_def by (rule run_remember) simp
  obtain n2 where 2: "run_state (spawn P Debug) s1 = (Some n2, s2)" "x2 = x1\<lparr>debug_thread := n2\<rparr>"
    using runs(2) unfolding run_debug_thread_def by (rule run_remember) simp
  have "run_state (remember (\<lambda>t x. x\<lparr>ovsdb_client := Some t\<rparr>) (spawn P Ovsdb_monitor)) (s2, x2) = (Some (), c)"
    using runs(3) by (simp add: run_ovsdb_monitor_thread_def 1(2) 2(2) no_threads_def)
  then obtain n3 s3 where 3: "run_state (spawn P Ovsdb_monitor) s2 = (Some n3, s3)" "c = (s3, x2\<lparr>ovsdb_client := Some n3\<rparr>)"
    by (rule run_remember)
  show ?thesis
    using grows [OF 1(1)] grows [OF 2(1)] grows [OF 3(1)]
    by (cases t) (simp_all add: watched_def thread_of_def 3(2) 2(2) 1(2))
qed

section \<open>The debug socket\<close>

text \<open>
  What lies outside: \<open>ask\<close> is the query of pyDatalog with the lines of its answer (\<open>None\<close> when it raises, \<open>Some None\<close> when
  there is no answer), \<open>show_group\<close> Python's text of a dictionary of objects, \<open>loads\<close> and \<open>dumps\<close> the pickling of a pair.
\<close>

record debug_env =
  ask :: "zoo \<Rightarrow> string \<Rightarrow> string list option option"
  show_group :: "(string \<times> entity) list \<Rightarrow> string"
  loads :: "string \<Rightarrow> (string \<times> string) option"
  dumps :: "string \<times> string \<Rightarrow> string"

text \<open>\<open>data_handler\<close>: \<open>None\<close> is an exception, \<open>Some None\<close> Python's \<open>None\<close>.\<close>

definition data_handler :: "debug_env \<Rightarrow> zoo \<Rightarrow> string \<Rightarrow> string option option" where
  "data_handler D entity_zoo data =
     (if length data = 0 then Some None
      else (case loads D data of
              None \<Rightarrow> None
            | Some (opcode, msg) \<Rightarrow>
                if opcode = ''query_clause'' then
                  (case ask D entity_zoo msg of
                     None \<Rightarrow> Some None
                   | Some None \<Rightarrow> Some None
                   | Some (Some answers) \<Rightarrow> Some (Some (concat (map (\<lambda>line. line @ [newline]) answers))))
                else if opcode = ''query_entity'' then
                  (case find (\<lambda>t. etype_name t = msg) logical_entity_types of
                     None \<Rightarrow> Some None
                   | Some t \<Rightarrow> Some (Some (show_group D (entity_set entity_zoo t))))
                else Some None))"

record 's sock =
  bind_sock :: "string \<Rightarrow> ('s, unit) prog"
  accept_conn :: "('s, unit) prog"
  conn_recv :: "nat \<Rightarrow> ('s, string) prog"
  conn_sendall :: "string \<Rightarrow> ('s, unit) prog"

text \<open>\<open>create_debug_pipe\<close>; without a socket the first use of it raises.\<close>

definition create_debug_pipe :: "'s machine \<Rightarrow> 's sock \<Rightarrow> string \<Rightarrow> ('s, bool) state" where
  "create_debug_pipe M io rundir = do {
     ok \<leftarrow> remove_if_there M (DEBUG_PIPE_PATH rundir);
     (if \<not> ok then ret False
      else do { r \<leftarrow> bind_sock io (DEBUG_PIPE_PATH rundir); ret (r \<noteq> None) }) }"

definition feedback_text :: "string option \<Rightarrow> string" where
  "feedback_text feedback = (case feedback of Some t \<Rightarrow> t | None \<Rightarrow> ''ERROR'')"

primrec serve_conn :: "debug_env \<Rightarrow> 's sock \<Rightarrow> nat \<Rightarrow> ('s ctl, unit) state" where
  "serve_conn D io 0 = ret ()"
| "serve_conn D io (Suc turns) = do {
     data \<leftarrow> on_host (conn_recv io 10240);
     (case data of
        None \<Rightarrow> ret ()
      | Some data \<Rightarrow>
          if length data = 0 then ret ()
          else do {
            c \<leftarrow> State_Monad.get;
            (case data_handler D (ezoo c) data of
               None \<Rightarrow> ret ()
             | Some feedback \<Rightarrow> do {
                 r \<leftarrow> on_host (conn_sendall io (feedback_text feedback));
                 (case r of None \<Rightarrow> ret () | Some _ \<Rightarrow> serve_conn D io turns) }) }) }"

text \<open>\<open>read_debug_pipe\<close>: one connection after the other, an exception of \<open>accept\<close> ends the thread.\<close>

primrec read_debug_pipe :: "debug_env \<Rightarrow> 's sock \<Rightarrow> nat list \<Rightarrow> ('s ctl, bool) state" where
  "read_debug_pipe D io [] = ret True"
| "read_debug_pipe D io (turns # conns) = do {
     r \<leftarrow> on_host (accept_conn io);
     (case r of None \<Rightarrow> ret False | Some _ \<Rightarrow> do { serve_conn D io turns; read_debug_pipe D io conns }) }"

definition monitor_debug_info :: "debug_env \<Rightarrow> 's machine \<Rightarrow> 's sock \<Rightarrow> string \<Rightarrow> nat list \<Rightarrow> ('s ctl, bool) state" where
  "monitor_debug_info D M io rundir conns = do {
     ok \<leftarrow> on_host (create_debug_pipe M io rundir);
     (if ok then read_debug_pipe D io conns else ret False) }"

text \<open>\<open>dump-tuplenet.py\<close>: what it prints after the command itself; \<open>connect_debug\<close> is its side of the socket.\<close>

record 's dump_sock =
  connect_debug :: "string \<Rightarrow> ('s, unit) prog"
  dump_sendall :: "string \<Rightarrow> ('s, unit) prog"
  dump_recv :: "nat \<Rightarrow> ('s, string) prog"

definition write_debug_pipe :: "debug_env \<Rightarrow> 's dump_sock \<Rightarrow> string \<Rightarrow> string \<times> string \<Rightarrow> ('s, string) prog" where
  "write_debug_pipe D io rundir obj = do {
     r \<leftarrow> connect_debug io (DEBUG_PIPE_PATH rundir);
     (case r of
        None \<Rightarrow> ret None
      | Some _ \<Rightarrow> do {
          r \<leftarrow> dump_sendall io (dumps D obj);
          (case r of None \<Rightarrow> ret None | Some _ \<Rightarrow> dump_recv io 102400) }) }"

definition dump_tuplenet :: "debug_env \<Rightarrow> 's dump_sock \<Rightarrow> string \<Rightarrow> string \<Rightarrow> string \<Rightarrow> ('s, string) prog" where
  "dump_tuplenet D io rundir cmd_type msg =
     (if cmd_type = [] \<or> msg = [] then ret None else write_debug_pipe D io rundir (cmd_type, msg))"

text \<open>A query of the tool that arrives in one piece is answered; an unknown type or command gives \<open>ERROR\<close>.\<close>

lemma query_is_answered:
  assumes "\<And>x. loads D (dumps D x) = Some x" and "\<And>x. dumps D x \<noteq> []"
  shows "data_handler D z (dumps D (''query_entity'', etype_name t)) = Some (Some (show_group D (entity_set z t)))"
    and "msg \<notin> etype_name ` set logical_entity_types \<Longrightarrow>
      map_option feedback_text (data_handler D z (dumps D (''query_entity'', msg))) = Some ''ERROR''"
    and "cmd_type \<notin> {''query_clause'', ''query_entity''} \<Longrightarrow>
      map_option feedback_text (data_handler D z (dumps D (cmd_type, msg))) = Some ''ERROR''"
proof -
  have "find (\<lambda>u. etype_name u = etype_name t) logical_entity_types = Some t"
    by (cases t) (simp_all add: etype_name_def logical_entity_types_def)
  then show "data_handler D z (dumps D (''query_entity'', etype_name t)) = Some (Some (show_group D (entity_set z t)))"
    using assms by (simp add: data_handler_def)
  show "map_option feedback_text (data_handler D z (dumps D (''query_entity'', msg))) = Some ''ERROR''"
    if "msg \<notin> etype_name ` set logical_entity_types"
  proof -
    have "find (\<lambda>u. etype_name u = msg) logical_entity_types = None" using that by (auto simp: find_None_iff)
    then show ?thesis using assms by (simp add: data_handler_def feedback_text_def)
  qed
qed (use assms in \<open>simp add: data_handler_def feedback_text_def\<close>)

end
