(* ===== verification/Rows.thy ===== *)
theory Rows imports Zoo begin

text \<open>
  The lists of \<open>lcp/logicalview.py\<close>. The source keeps with every entity a list that \<open>_update_dup_data\<close> copies from
  its attributes; the list is what the facts hold, and the rules read it through the constants \<open>LSP_UUID\<close>,
  \<open>LSP_IP\<close>, and so on. The model has a record in its place. Here are the lists as the source builds them,
  with the constants, and what makes the records stand for them: every constant names the position of the
  attribute it is called after (\<open>list_has_columns\<close>), and two lists are equal, which is how a fact to be retracted
  is found, when the rows are (\<open>lists_tell_rows_apart\<close>). Last, the texts of entities in messages.
\<close>

section \<open>The lists\<close>

abbreviation pnat :: "nat \<Rightarrow> pyval" where
  "pnat n \<equiv> PInt (int n)"

definition lsp_list :: "int \<Rightarrow> lsp_row \<Rightarrow> pyval list" where
  "lsp_list s r =
     [PStr (LSP_UUID r), PStr (LSP_IP r), pnat (LSP_IP_INT r), PStr (LSP_MAC r), pnat (LSP_MAC_INT r),
      opt_val (LSP_CHASSIS_UUID r), PStr (LSP_LS_UUID r), opt_val (LSP_PEER r), pnat (LSP_PORTID r), PInt s]"

definition lrp_list :: "int \<Rightarrow> lrp_row \<Rightarrow> pyval list" where
  "lrp_list s r =
     [PStr (LRP_UUID r), pnat (LRP_PREFIX r), PStr (LRP_IP r), pnat (LRP_IP_INT r), PStr (LRP_MAC r),
      pnat (LRP_MAC_INT r), PStr (LRP_LR_UUID r), opt_val (LRP_PEER r), pnat (LRP_PORTID r), pnat (LRP_ILK_IDX r),
      PInt s]"

definition lr_list :: "int \<Rightarrow> lr_row \<Rightarrow> pyval list" where
  "lr_list s r = [PStr (LR_UUID r), opt_val (LR_CHASSIS_UUID r), PInt (LR_ID r), PInt s]"

definition lsr_list :: "int \<Rightarrow> lsr_row \<Rightarrow> pyval list" where
  "lsr_list s r =
     [PStr (LSR_UUID r), PStr (LSR_LR_UUID r), PStr (LSR_IP r), pnat (LSR_IP_INT r), pnat (LSR_PREFIX r),
      PStr (LSR_NEXT_HOP r), pnat (LSR_NEXT_HOP_INT r), opt_val (LSR_OUTPORT r), pnat (LSR_ILK_IDX r), PInt s]"

definition lnat_list :: "int \<Rightarrow> lnat_row \<Rightarrow> pyval list" where
  "lnat_list s r =
     [PStr (LNAT_UUID r), PStr (LNAT_LR_UUID r), PStr (LNAT_IP r), pnat (LNAT_IP_INT r), PInt (LNAT_PREFIX r),
      PStr (LNAT_XLATE_IP r), pnat (LNAT_XLATE_IP_INT r), PStr (LNAT_XLATE_MAC r), pnat (LNAT_XLATE_MAC_INT r),
      opt_val (LNAT_TYPE r), PInt s]"

definition ls_list :: "int \<Rightarrow> ls_row \<Rightarrow> pyval list" where
  "ls_list s r = [PStr (LS_UUID r), LS_ID r, PInt s]"

definition chassis_list_of :: "int \<Rightarrow> pch_row \<Rightarrow> pyval list" where
  "chassis_list_of s r = [PStr (PCH_UUID r), PStr (PCH_IP r), PInt (PCH_TICK r), PInt s]"

definition ovsport_list :: "int \<Rightarrow> ovsport_row \<Rightarrow> pyval list" where
  "ovsport_list s r = [PStr (OVSPORT_NAME r), PStr (OVSPORT_IFACE_ID r), PInt (OVSPORT_OFPORT r), PInt s]"

fun dup_data :: "int \<Rightarrow> body \<Rightarrow> pyval list" where
  "dup_data s (BLsp r) = lsp_list s r"
| "dup_data s (BLrp r) = lrp_list s r"
| "dup_data s (BLr r) = lr_list s r"
| "dup_data s (BLsr r) = lsr_list s r"
| "dup_data s (BLnat r) = lnat_list s r"
| "dup_data s (BLs r) = ls_list s r"
| "dup_data s (BChassis r) = chassis_list_of s r"
| "dup_data s (BOvsport remote r) = ovsport_list s r"

lemmas list_defs = lsp_list_def lrp_list_def lr_list_def lsr_list_def lnat_list_def ls_list_def chassis_list_of_def
  ovsport_list_def

section \<open>The constants\<close>

text \<open>The positions in the order the source declares them, each with the field of the model.\<close>

fun columns :: "body \<Rightarrow> (nat \<times> pyval) list" where
  "columns (BLsp r) =
     [(0, PStr (LSP_UUID r)), (1, PStr (LSP_IP r)), (2, pnat (LSP_IP_INT r)), (3, PStr (LSP_MAC r)),
      (4, pnat (LSP_MAC_INT r)), (5, opt_val (LSP_CHASSIS_UUID r)), (6, PStr (LSP_LS_UUID r)),
      (7, opt_val (LSP_PEER r)), (8, pnat (LSP_PORTID r)), (9, PInt (LSP_State r))]"
| "columns (BLrp r) =
     [(0, PStr (LRP_UUID r)), (1, pnat (LRP_PREFIX r)), (2, PStr (LRP_IP r)), (3, pnat (LRP_IP_INT r)),
      (4, PStr (LRP_MAC r)), (5, pnat (LRP_MAC_INT r)), (6, PStr (LRP_LR_UUID r)), (7, opt_val (LRP_PEER r)),
      (8, pnat (LRP_PORTID r)), (9, pnat (LRP_ILK_IDX r)), (10, PInt (LRP_State r))]"
| "columns (BLr r) =
     [(0, PStr (LR_UUID r)), (1, opt_val (LR_CHASSIS_UUID r)), (2, PInt (LR_ID r)), (3, PInt (LR_State r))]"
| "columns (BLsr r) =
     [(0, PStr (LSR_UUID r)), (1, PStr (LSR_LR_UUID r)), (2, PStr (LSR_IP r)), (3, pnat (LSR_IP_INT r)),
      (4, pnat (LSR_PREFIX r)), (5, PStr (LSR_NEXT_HOP r)), (6, pnat (LSR_NEXT_HOP_INT r)),
      (7, opt_val (LSR_OUTPORT r)), (8, pnat (LSR_ILK_IDX r)), (9, PInt (LSR_State r))]"
| "columns (BLnat r) =
     [(0, PStr (LNAT_UUID r)), (1, PStr (LNAT_LR_UUID r)), (2, PStr (LNAT_IP r)), (3, pnat (LNAT_IP_INT r)),
      (4, PInt (LNAT_PREFIX r)), (5, PStr (LNAT_XLATE_IP r)), (6, pnat (LNAT_XLATE_IP_INT r)),
      (7, PStr (LNAT_XLATE_MAC r)), (8, pnat (LNAT_XLATE_MAC_INT r)), (9, opt_val (LNAT_TYPE r)),
      (10, PInt (LNAT_State r))]"
| "columns (BLs r) = [(0, PStr (LS_UUID r)), (1, LS_ID r), (2, PInt (LS_State r))]"
| "columns (BChassis r) =
     [(0, PStr (PCH_UUID r)), (1, PStr (PCH_IP r)), (2, PInt (PCH_TICK r)), (3, PInt (PCH_State r))]"
| "columns (BOvsport remote r) =
     [(0, PStr (OVSPORT_NAME r)), (1, PStr (OVSPORT_IFACE_ID r)), (2, PInt (OVSPORT_OFPORT r)),
      (3, PInt (OVSPORT_State r))]"

lemma list_has_columns: "enumerate 0 (dup_data s b) = columns (set_state s b)"
  by (cases b) (simp_all add: list_defs)

lemma opt_val_eq [simp]: "opt_val x = opt_val y \<longleftrightarrow> x = y"
  by (cases x; cases y) (simp_all add: opt_val_def)

lemma list_inject:
  "lsp_list s p = lsp_list s' p' \<longleftrightarrow> p\<lparr>LSP_State := s\<rparr> = p'\<lparr>LSP_State := s'\<rparr>"
  "lrp_list s q = lrp_list s' q' \<longleftrightarrow> q\<lparr>LRP_State := s\<rparr> = q'\<lparr>LRP_State := s'\<rparr>"
  "lr_list s r = lr_list s' r' \<longleftrightarrow> r\<lparr>LR_State := s\<rparr> = r'\<lparr>LR_State := s'\<rparr>"
  "lsr_list s t = lsr_list s' t' \<longleftrightarrow> t\<lparr>LSR_State := s\<rparr> = t'\<lparr>LSR_State := s'\<rparr>"
  "lnat_list s u = lnat_list s' u' \<longleftrightarrow> u\<lparr>LNAT_State := s\<rparr> = u'\<lparr>LNAT_State := s'\<rparr>"
  "ls_list s v = ls_list s' v' \<longleftrightarrow> v\<lparr>LS_State := s\<rparr> = v'\<lparr>LS_State := s'\<rparr>"
  "chassis_list_of s w = chassis_list_of s' w' \<longleftrightarrow> w\<lparr>PCH_State := s\<rparr> = w'\<lparr>PCH_State := s'\<rparr>"
  "ovsport_list s x = ovsport_list s' x' \<longleftrightarrow> x\<lparr>OVSPORT_State := s\<rparr> = x'\<lparr>OVSPORT_State := s'\<rparr>"
  subgoal by (cases p; cases p') (auto simp: list_defs)
  subgoal by (cases q; cases q') (auto simp: list_defs)
  subgoal by (cases r; cases r') (auto simp: list_defs)
  subgoal by (cases t; cases t') (auto simp: list_defs)
  subgoal by (cases u; cases u') (auto simp: list_defs)
  subgoal by (cases v; cases v') (auto simp: list_defs)
  subgoal by (cases w; cases w') (auto simp: list_defs)
  subgoal by (cases x; cases x') (auto simp: list_defs)
  done

lemma lists_tell_rows_apart:
  assumes "body_etype b = body_etype b'"
  shows "dup_data s b = dup_data s' b' \<longleftrightarrow> set_state s b = set_state s' b'"
  using assms by (cases b; cases b') (simp_all add: list_inject split: if_splits)

text \<open>An entity of the zoo carries the list of its attributes with the state last copied.\<close>

lemma updated_list: "dup_data (state e) (body (update_dup_data e)) = dup_data (state e) (body e)"
  by (cases "body e") (simp_all add: update_dup_data_def list_defs)

section \<open>Texts\<close>

text \<open>\<open>__repr__\<close> of the classes.\<close>

fun entity_repr :: "body \<Rightarrow> string" where
  "entity_repr (BLsp r) =
     ''lsp('' @ LSP_UUID r @ '',ip:'' @ LSP_IP r @ '',mac:'' @ LSP_MAC r @ '',chassis:'' @ pystr (opt_val (LSP_CHASSIS_UUID r)) @
     '')''"
| "entity_repr (BLrp r) =
     ''lrp('' @ LRP_UUID r @ '',ip:'' @ LRP_IP r @ '',mac:'' @ LRP_MAC r @ '',peer:'' @ pystr (opt_val (LRP_PEER r)) @
     '', ilk_idx:'' @ nat_str (LRP_ILK_IDX r) @ '')''"
| "entity_repr (BLr r) = ''lr('' @ LR_UUID r @ '',id:'' @ int_str (LR_ID r) @ '')''"
| "entity_repr (BLsr r) =
     ''lsr:('' @ LSR_UUID r @ '', rule:'' @ LSR_IP r @ ''/'' @ nat_str (LSR_PREFIX r) @ '', output:'' @
     pystr (opt_val (LSR_OUTPORT r)) @ '', ilk_idx:'' @ nat_str (LSR_ILK_IDX r) @ '')''"
| "entity_repr (BLnat r) =
     ''lnat:('' @ LNAT_UUID r @ '', '' @ LNAT_IP r @ ''/'' @ int_str (LNAT_PREFIX r) @ '' => '' @ LNAT_XLATE_IP r @ '', type:'' @
     pystr (opt_val (LNAT_TYPE r)) @ '')''"
| "entity_repr (BLs r) = ''ls('' @ LS_UUID r @ '',id:'' @ pystr (LS_ID r) @ '')''"
| "entity_repr (BChassis r) =
     ''chassis('' @ PCH_UUID r @ '', ip:'' @ PCH_IP r @ '', tick:'' @ int_str (PCH_TICK r) @ '')''"
| "entity_repr (BOvsport remote r) =
     ''ovsport('' @ OVSPORT_NAME r @ '',iface_id:'' @ OVSPORT_IFACE_ID r @ '',ofport:'' @ int_str (OVSPORT_OFPORT r) @
     '')''"

lemma entity_repr_set_state: "entity_repr (set_state s b) = entity_repr b"
  by (cases b) simp_all

end
