(* ===== verification/Programs.thy ===== *)
theory Programs imports Startup Pkt_Trace Edge_Operate begin

text \<open>
  The main programs of \<open>tools/pkt-trace.py\<close> and \<open>tools/edge-operate.py\<close>, from the options of the command line
  to the end of the process. A parser of options that refuses them, and the parser of a file of sections, are
  not under \<open>src\<close>; a program starts here with the options as a record, and the second is a function.
\<close>

section \<open>The packet tracer\<close>

record trace_options =
  to_inject_port :: string
  to_path_prefix :: string
  to_src_mac :: string
  to_dst_mac :: string
  to_src_ip :: string
  to_dst_ip :: string
  to_packet :: string
  to_endpoints :: string
  to_wait_time :: int
  to_config_file :: string
  to_auto_detect :: string

definition trace_defaults :: trace_options where
  "trace_defaults =
     \<lparr>to_inject_port = [], to_path_prefix = ''/tuplenet/'', to_src_mac = [], to_dst_mac = [], to_src_ip = [], to_dst_ip = [],
      to_packet = [], to_endpoints = ''localhost:2379'', to_wait_time = 3, to_config_file = [], to_auto_detect = []\<rparr>"

text \<open>The sections made of the options when no file is named.\<close>

definition options_config :: "trace_options \<Rightarrow> config" where
  "options_config to =
     [(''basic'', [(''endpoints'', to_endpoints to), (''prefix'', to_path_prefix to),
        (''wait_time'', int_str (to_wait_time to)), (''auto_detect'', to_auto_detect to)]),
      (''inject'', [(''port'', to_inject_port to), (''src_mac'', to_src_mac to), (''src_ip'', to_src_ip to),
         (''dst_mac'', to_dst_mac to), (''dst_ip'', to_dst_ip to)] @
         (if to_packet to \<noteq> [] then [(''header'', to_packet to)] else []))]"

definition trace_config :: "(string \<Rightarrow> config) \<Rightarrow> trace_options \<Rightarrow> config" where
  "trace_config read_config to =
     (if to_config_file to \<noteq> [] then read_config (to_config_file to) else options_config to)"

text \<open>
  \<open>init_env\<close>: the watch master is connected when the entities are first read. The host it is connected to is
  part of the state; \<open>prefix\<close> is \<open>TUPLENET_DIR\<close>.
\<close>

definition tool_conf :: "string \<Rightarrow> lm_conf" where
  "tool_conf prefix = \<lparr>lm_system_id = None, prefix_path = prefix\<rparr>"

definition init_env :: "'s etcd_hosts \<Rightarrow> 's etcd \<Rightarrow> bool \<Rightarrow> string \<Rightarrow> string \<Rightarrow> 's \<Rightarrow> 's tracer option \<times> 's" where
  "init_env Hs E testing endpoints prefix s =
     (case create_watch_master Hs testing endpoints s of
        (None, s1) \<Rightarrow> (None, s1)
      | (Some w, s1) \<Rightarrow>
          (case run_state (sync_etcd_data E (tool_conf prefix)) (init_tracer s1\<lparr>tp_master := w\<rparr>) of
             (r, t) \<Rightarrow> (if r = None then None else Some t, net (tp_master t))))"

text \<open>The number of rounds of \<open>--auto_detect\<close>, from the variable \<open>DETECT_LOOP\<close>.\<close>

definition detect_loop :: "string option \<Rightarrow> nat" where
  "detect_loop loop_env = (case Option.bind loop_env py_int of Some n \<Rightarrow> nat n | None \<Rightarrow> 0xffffff)"

datatype trace_result = Incorrect "(string list \<times> target) list" | Traces "string list list"

text \<open>
  The program: \<open>rounds\<close> are the times and draws of the rounds there may be, \<open>now\<close> the time of the injection.
  \<open>None\<close> is an exception that nothing catches.
\<close>

definition trace_program :: "'s etcd_hosts \<Rightarrow> 's etcd \<Rightarrow> bool \<Rightarrow> (string \<Rightarrow> config) \<Rightarrow> string option \<Rightarrow> string option \<Rightarrow>
    (int \<times> (nat \<times> nat) list) list \<Rightarrow> int \<Rightarrow> trace_options \<Rightarrow> 's \<Rightarrow> trace_result option" where
  "trace_program Hs E testing read_config batch_env loop_env rounds now to s =
     (let config = trace_config read_config to in
      case config_sanity_check config of
        None \<Rightarrow> None
      | Some ((specs, prefix, wait_time), auto_detect, infos) \<Rightarrow>
          (case cfg_get config ''basic'' ''endpoints'' of
             None \<Rightarrow> None
           | Some endpoints \<Rightarrow>
          (case init_env Hs E testing endpoints prefix s of
             (None, _) \<Rightarrow> None
           | (Some t, _) \<Rightarrow>
               if auto_detect \<noteq> [] then
                 map_option Incorrect (fst (run_state
                   (auto_detect_network E (tool_conf prefix) batch_env auto_detect
                      (take (detect_loop loop_env) rounds)) t))
               else
                 map_option Traces (fst (run_state
                   (run_pkt_trace_async E (tool_conf prefix) now (case infos of Some xs \<Rightarrow> xs | None \<Rightarrow> [])) t)))))"

text \<open>
  Without a file the options ask for one packet: the one given, or a request made of the four addresses; and
  whatever they ask for, they ask for it to be checked first.
\<close>

lemma options_inject_one:
  assumes "sanity_etcdhost (to_endpoints to) = Some specs"
    and "to_path_prefix to \<noteq> []" "last (to_path_prefix to) = CHR ''/''"
    and "to_config_file to = []" "to_auto_detect to = []"
  shows "config_sanity_check (trace_config read_config to) =
    map_option (\<lambda>packet. ((specs, to_path_prefix to, to_wait_time to), [], Some [(to_inject_port to, packet)]))
      (if to_packet to \<noteq> [] then Some (to_packet to)
       else construct_icmp_request (to_src_mac to) (to_dst_mac to) (to_src_ip to) (to_dst_ip to))"
  using assms
  by (simp add: trace_config_def options_config_def config_sanity_check_def cfg_get_def inject_info_def option.map_comp comp_def
      split: option.split)

lemma options_detect:
  assumes "sanity_etcdhost (to_endpoints to) = Some specs"
    and "to_path_prefix to \<noteq> []" "last (to_path_prefix to) = CHR ''/''"
    and "to_config_file to = []" "to_auto_detect to \<noteq> []"
  shows "config_sanity_check (trace_config read_config to) =
    Some ((specs, to_path_prefix to, to_wait_time to), to_auto_detect to, None)"
  using assms
  by (simp add: trace_config_def options_config_def config_sanity_check_def cfg_get_def)

text \<open>The defaults are accepted with a port and a packet alone.\<close>

lemma defaults_accepted:
  "config_sanity_check (trace_config read_config (trace_defaults\<lparr>to_inject_port := port, to_packet := CHR ''0'' # packet\<rparr>)) =
    Some (([(''localhost'', ''2379'')], ''/tuplenet/'', 3), [], Some [(port, CHR ''0'' # packet)])"
proof -
  have "sanity_etcdhost ''localhost:2379'' = Some [(''localhost'', ''2379'')]" by code_simp
  then show ?thesis by (simp add: trace_defaults_def options_inject_one)
qed

section \<open>The operation of edges\<close>

text \<open>
  The program; the result is the status of the process. \<open>host\<close> and \<open>prefix\<close> are \<open>--endpoint\<close> and \<open>--prefix\<close>; options
  that are not sane end it before anything is read.
\<close>

definition edge_program :: "'s etcd_hosts \<Rightarrow> 's etcd \<Rightarrow> bool \<Rightarrow> 's host \<Rightarrow> string \<Rightarrow> string \<Rightarrow> edge_options \<Rightarrow> e_lrp option \<Rightarrow> string \<Rightarrow>
    's \<Rightarrow> int \<times> 's" where
  "edge_program Hs E testing H host prefix eo inner_port answer s =
     (if \<not> sanity_check_options eo then (-1, s)
      else (case create_watch_master Hs testing host s of
              (None, s1) \<Rightarrow> (1, s1)
            | (Some w, s1) \<Rightarrow>
                (case run_state (sync_edge_data E (tool_conf prefix)) w of
                   (None, w1) \<Rightarrow> (1, net w1)
                 | (Some d, w1) \<Rightarrow>
                     run_state (edge_main H
                       \<lparr>TUPLENET_DIR = prefix, ETCD_ENDPOINT = host, edge_system_id = [], HOST_BR_PHY = eo_phy_br eo\<rparr>
                       eo d inner_port answer) (net w1))))"

text \<open>
  An operator who does not answer yes changes nothing: with the same state after the checks, whatever was
  planned, the program ends there.
\<close>

lemma refused_plan_runs_nothing:
  assumes "answer \<noteq> ''yes''"
  shows "\<exists>r. run_state (edge_operation H K eo d inner_port answer) s = (r, s)"
proof -
  have plan: "\<exists>r. run_state (run_plan H K answer p f) s = (r, s)" for p and f :: "string list \<Rightarrow> ('a, unit) prog"
    using assms by (cases p) (simp_all add: run_plan_def)
  have "\<exists>r. run_state (init_road H K answer b p) s = (r, s)" for b p
    by (simp add: init_road_def plan)
  moreover have "\<exists>r. run_state (remove_road H K answer p) s = (r, s)" for p
    by (cases p) (auto simp: remove_road_def plan split: prod.splits)
  ultimately show ?thesis
    by (auto simp: edge_operation_def split: option.splits)
qed

text \<open>
  When an accepted operation ends well, its plan was made and every command of it was run without an error.
\<close>

lemma accepted_init_runs_plan:
  assumes "eo_op eo = ''init''" "cidr (eo_virt eo) = Some virt" "cidr (eo_inner eo) = Some inner"
    and ok: "run_state (edge_operation H K eo d inner_port ''yes'') s = (Inr (), s')"
  shows "\<exists>cmds. init_plan K d (vip_parts eo) virt inner (eo_ext_gw eo) = Inr cmds \<and>
    run_state (tpctl_execute H K cmds) s = (Some (), s')"
proof (cases "init_plan K d (vip_parts eo) virt inner (eo_ext_gw eo)")
  case (Inl e)
  with assms show ?thesis by (simp add: edge_operation_def init_road_def run_plan_def)
next
  case (Inr cmds)
  obtain r t where e: "run_state (tpctl_execute H K cmds) s = (r, t)" by fastforce
  from assms Inr e show ?thesis
    by (cases r) (simp_all add: edge_operation_def init_road_def run_plan_def lift_tool_def ecmp_execute_cmds_def)
qed

end
