(* ===== verification/Spec2Isabelle.thy ===== *)
theory Spec2Isabelle imports Port_Rules Run_Env Commit_Props Etcd_Props Pipeline Priorities Addresses
  Packet_Props Trace_Props Edge_Props Ovsdb_Props Graphviz_Props Startup_Props Rebuild_Etcd Bundles Threads Rows Programs begin

text \<open>
  A model of TupleNet (\<open>src/src/tuplenet\<close>): a control plane that keeps a logical network in etcd and turns
  it, on every host, into the OpenFlow flows, tunnels and patch ports of the local bridge; and of the tools
  around it.

  \<^bold>\<open>The program.\<close> A pass of the controller (\<open>lcp/tuplesync.py\<close>) reads what changed in etcd
  (\<open>lcp/link_master.py\<close>), updates the zoo of logical entities (\<open>lcp/logicalview.py\<close>), whose rows are facts of a
  Datalog program, evaluates the rules of the program on the facts (\<open>lcp/lflow.py\<close> and the rule files), writes the
  derived flows out and hands them to Open vSwitch (\<open>lcp/commit_ovs.py\<close>), and sweeps the zoo. Rows carry a
  state - unchanged, new, deleted - and a flow the sum of the states of the rows it comes from, so that one
  evaluation tells which flows to add and which to delete. Three threads beside the passes bring the reports of
  the packet controller (\<open>lcp/state_update.py\<close>), the changes of the local ports (\<open>lcp/ovsdbman.py\<close>) and debugging
  queries.

  \<^bold>\<open>Theories and files.\<close>

  \<^item> \<open>Prelude\<close>: Python values, numbers, \<open>split\<close> and \<open>join\<close>, dictionaries as association lists (locale \<open>dict\<close>),
    texts that are read back (locales \<open>reader\<close> and \<open>codec\<close>, interpreted for numbers, addresses, MACs, the reports of
    packets and the file of a store), the collections of rewrite rules.
  \<^item> \<open>Entities\<close>, \<open>Zoo\<close>: the classes and the zoo of \<open>lcp/logicalview.py\<close> with the facts it asserts (locale \<open>fact_store\<close>);
    \<open>Zoo_Inv\<close>: its invariant, kept by every operation, and the reachable zoos; \<open>Rows\<close>: the lists and index constants
    of the source, for which the records of \<open>Entities\<close> stand, and the texts of entities.
  \<^item> \<open>View_Rules\<close>: \<open>init_entity_clause\<close>; \<open>Reg\<close>, \<open>Match\<close>, \<open>Action\<close>, \<open>Flow_Common\<close>: the files of these names, the terms
    flows are made of; \<open>Base_Rules\<close>: \<open>pkt_trace.py\<close>, \<open>physical_flow.py\<close>, \<open>middle_table.py\<close>; \<open>Lsp_Rules\<close>, \<open>Lrp_Rules\<close>,
    \<open>Nat_Rules\<close>, \<open>Ecmp_Rules\<close>, \<open>Port_Rules\<close>: the pipelines and ports; \<open>Lflow\<close>: \<open>build_flows\<close>. A Datalog
    predicate is the list of its tuples, one comprehension per clause.
  \<^item> \<open>Delta\<close>, \<open>Exact\<close>, \<open>Tracks\<close>, \<open>Flow_Delta\<close>, \<open>Mono\<close>, \<open>Round\<close>: why the sums of states tell the changes (locale
    \<open>state_view\<close>): one evaluation on the marked facts against two from scratch, for every rule.
  \<^item> \<open>Host\<close>, \<open>Commit_Ovs\<close>: the machine as a record of state computations, and \<open>lcp/commit_ovs.py\<close>; \<open>Sync_Flows\<close>,
    \<open>Tuplesync\<close>: \<open>lcp/tuplesync.py\<close>; \<open>Link_Master\<close>: \<open>lcp/link_master.py\<close>; \<open>State_Update\<close>: \<open>lcp/state_update.py\<close>; \<open>Ovsdb\<close>,
    \<open>Ovsdb_Conn\<close>: \<open>lcp/ovsdbman.py\<close>; \<open>Run_Env\<close>: \<open>tp_utils/run_env.py\<close>; \<open>Startup\<close>: \<open>lcp/tuplerun.py\<close>, \<open>lcp/syscmd.py\<close>
    and \<open>reconn_master\<close>; \<open>Threads\<close>: the threads of \<open>lcp/state_update.py\<close> and \<open>lcp/tentacle.py\<close>, the socket of
    \<open>tp_utils/pipe.py\<close> with \<open>tools/dump-tuplenet.py\<close>, and how \<open>lcp/tuplerun.py\<close> starts them.
  \<^item> \<open>Zoo_Clients\<close>: what these modules ask of the zoo (locales \<open>zoo_change\<close> and \<open>zoo_touching\<close>): whatever relation the
    operations of the zoo establish, a pass that reads etcd, a message of the OVSDB and one of the packet controller
    establish; \<open>Controller\<close> and \<open>Etcd_Props\<close> rest on it.
  \<^item> \<open>Packet\<close>, \<open>Pkt_Trace\<close>: \<open>tools/pkt-trace.py\<close> and \<open>tools/ovs-decode-note.py\<close>; \<open>Edge_Operate\<close>:
    \<open>tools/edge-operate.py\<close>; \<open>Graphviz\<close>: \<open>tools/generate-graphviz.py\<close>; \<open>Rebuild_Etcd\<close>: \<open>tools/rebuild-etcd.py\<close>;
    \<open>Programs\<close>: the main programs of the first and the third.

  \<^bold>\<open>What is shown.\<close>

  \<^item> Flows: a round computes what recomputing everything would (\<open>Sync_Sound\<close>), for the bundles of equal-cost
    routes when the routes are regular (\<open>Bundles\<close>); over any run of the controller, with
    threads interleaved and batches failing, the bridge has no flow that is not derivable (\<open>Sync_Sound\<close> over
    \<open>Commit_Flows\<close>, \<open>Sync_Rounds\<close>, \<open>Controller\<close>); every flow can be written (\<open>Flow_Ok\<close>, \<open>Flow_Lines\<close>, below); the tables form no
    circles, have defaults and forward what was looked up (\<open>Pipeline\<close>); priorities fit and order routes by prefix
    (\<open>Priorities\<close>).
  \<^item> The zoo: facts are the rows of the touched entities, addresses, ids and indices are unique, sweeping never
    raises (\<open>Zoo_Inv\<close>); addresses and their numbers (\<open>Addresses\<close>).
  \<^item> etcd and Open vSwitch: the window of watch events (\<open>Link_Window\<close>), what is written and read back, reports
    installed once (\<open>Etcd_Props\<close>); attempts, batches, the tunnel option (\<open>Commit_Props\<close>); the connection to the
    database (\<open>Ovsdb_Props\<close>); reconnecting, settings and the rate of the passes (\<open>Startup_Props\<close>); that
    the threads are started again, and messages that a read cuts (\<open>Threads\<close>).
  \<^item> The tools: packets (\<open>Packet_Props\<close>), commands and reports through etcd (\<open>Trace_Props\<close>), the plans for edges
    (\<open>Edge_Props\<close>), the links of the graph (\<open>Graphviz_Props\<close>), a store and its file (\<open>Rebuild_Etcd\<close>).

  \<open>Demo_Host\<close> is a machine that can be run, on which the hypotheses hold.

  \<^bold>\<open>Bounds and loops.\<close> State sums are read modulo \<open>State_DEL\<close>, so the algebra of \<open>Delta\<close> allows fewer than 100 rows
  in a derivation; the rules use far fewer. The two rules that aggregate into bundles (\<open>aggregated\<close>)
  delete and add again whole bundles and are set aside in the statements on single flows; \<open>Bundles\<close> has the one of the
  equal-cost routes, with a computed example of routes where the round is wrong. That of the redirection is modelled only. A loop that may not end is a
  \<open>partial_function (option)\<close> whose value \<open>None\<close> is not returning (\<open>set_tunnel_tlv\<close>, \<open>parse_mul_json\<close>, \<open>name_from\<close>,
  \<open>update_logical_view\<close>); the endless loops of threads take a number of turns, over which the statements quantify.
  A random choice is a list of draws or a field of the outside world; the order of a dictionary is that of an
  association list where it matters, and arbitrary where a statement says so.

  \<^bold>\<open>Not modelled.\<close> The pyDatalog engine (its rules are evaluated by their meaning), etcd3, Open vSwitch, \<open>tpctl\<close> and
  the kernel are parameters; their documented behaviour is a hypothesis where it is needed. Locks, sockets,
  pipes, threads as such, sleeping, logging and the parsing of command lines are left out: threads are interleaved by
  whole operations, which the lock of the zoo makes atomic. For the debug
  socket, pyDatalog's answers, Python's texts of objects and pickling are parameters.
  \<open>lcp/onexit.py\<close> is one system call, and \<open>lcp/test.py\<close> measures
  time.
\<close>

section \<open>Every flow can be written\<close>

text \<open>
  C5. Whatever is configured in etcd and whatever the environment of the process says, the flows of a pass
  can all be written in the syntax of ovs-ofctl: no term lacks a template, no template an argument, and the
  hash function of bundles is one that exists.
\<close>

theorem flows_can_be_written: "convert_tuple2flow (hash_fn_option environ) (pass_flows options first f) \<noteq> None"
proof -
  have "hash_fn_option environ \<in> set hash_fns" using hash_fn_option_ok by (simp add: hash_fns_def)
  then show ?thesis using convert_tuple2flow_total [OF _ pass_flows_ok] by fastforce
qed

end
